(* ===== verification/Prelude.thy ===== *)
theory Prelude
  imports Main "HOL-Library.Word" "HOL-Library.Sublist"
begin

text \<open>
  Shared material of the minidump-writer development: the machine integer types of a 64-bit
  target, Rust's \<open>Result\<close> with an explicit panic, computations that thread a mutable
  state through \<open>?\<close>, arithmetic with overflow checks, and the generic facts on lists and
  words that the component theories use.

  The arithmetic is that of a build with overflow checks: an addition, subtraction or
  multiplication that leaves its type is \<open>Panic\<close>. A release build wraps instead, and the
  two agree on every run in which the model does not panic.
\<close>

section \<open>Types\<close>

type_synonym u8 = "8 word"
type_synonym u16 = "16 word"
type_synonym u32 = "32 word"
type_synonym u64 = "64 word"
type_synonym usize = "64 word"
type_synonym i32 = int
type_synonym bytes = "u8 list"
type_synonym Pid = i32

text \<open>
  Errors of foreign code carry no structure that the source looks at, except the OS code of an
  I/O error. They are kept as the text or number that identifies them.
\<close>

datatype io_error = OsError int | CustomError string

fun raw_os_error :: "io_error \<Rightarrow> int option" where
  "raw_os_error (OsError n) = Some n"
| "raw_os_error (CustomError _) = None"

type_synonym nix_error = int
type_synonym scroll_error = string
type_synonym goblin_error = string
type_synonym proc_error = string

section \<open>Results and computations\<close>

datatype ('a, 'e) result = Ok 'a | Err 'e | Panic

text \<open>
  A function with a mutable receiver keeps what it wrote when it returns \<open>Err\<close>, so the
  state is returned beside the result and not inside it.
\<close>

type_synonym ('s, 'a, 'e) comp = "'s \<Rightarrow> ('a, 'e) result \<times> 's"

named_theorems comp_simps \<open>evaluation of computations\<close>
named_theorems pod_simps \<open>evaluation of writes with a lawful codec\<close>
named_theorems grows_intros \<open>computations that only extend the buffer\<close>

definition ret :: "'a \<Rightarrow> ('s, 'a, 'e) comp" where
  [comp_simps]: "ret x s = (Ok x, s)"

definition throw :: "'e \<Rightarrow> ('s, 'a, 'e) comp" where
  [comp_simps]: "throw e s = (Err e, s)"

definition panic :: "('s, 'a, 'e) comp" where
  [comp_simps]: "panic s = (Panic, s)"

text \<open>The operator \<open>?\<close>: continue with the value, or return the error as it is.\<close>

definition bindM :: "('s, 'a, 'e) comp \<Rightarrow> ('a \<Rightarrow> ('s, 'b, 'e) comp) \<Rightarrow> ('s, 'b, 'e) comp" where
  "bindM m f s = (case m s of
     (Ok x, s') \<Rightarrow> f x s'
   | (Err e, s') \<Rightarrow> (Err e, s')
   | (Panic, s') \<Rightarrow> (Panic, s'))"

text \<open>The conversion \<open>From\<close> that \<open>?\<close> applies to an error, and \<open>map_err\<close>.\<close>

fun map_err :: "('e \<Rightarrow> 'f) \<Rightarrow> ('a, 'e) result \<Rightarrow> ('a, 'f) result" where
  "map_err g (Ok x) = Ok x"
| "map_err g (Err e) = Err (g e)"
| "map_err g Panic = Panic"

definition map_errM :: "('e \<Rightarrow> 'f) \<Rightarrow> ('s, 'a, 'e) comp \<Rightarrow> ('s, 'a, 'f) comp" where
  "map_errM g m s = (case m s of (r, s') \<Rightarrow> (map_err g r, s'))"

definition lift_result :: "('a, 'e) result \<Rightarrow> ('s, 'a, 'e) comp" where
  [comp_simps]: "lift_result r s = (r, s)"

text \<open>A result handled as a value, the match on \<open>Ok\<close> and \<open>Err\<close>; a panic is not caught.\<close>

definition handleM ::
  "('s, 'a, 'e) comp \<Rightarrow> ('a \<Rightarrow> ('s, 'b, 'f) comp) \<Rightarrow> ('e \<Rightarrow> ('s, 'b, 'f) comp) \<Rightarrow> ('s, 'b, 'f) comp" where
  "handleM m f h s = (case m s of
     (Ok x, s') \<Rightarrow> f x s'
   | (Err e, s') \<Rightarrow> h e s'
   | (Panic, s') \<Rightarrow> (Panic, s'))"

fun bindR :: "('a, 'e) result \<Rightarrow> ('a \<Rightarrow> ('b, 'e) result) \<Rightarrow> ('b, 'e) result" where
  "bindR (Ok x) f = f x"
| "bindR (Err e) f = Err e"
| "bindR Panic f = Panic"

fun ok_or :: "'e \<Rightarrow> 'a option \<Rightarrow> ('a, 'e) result" where
  "ok_or e (Some x) = Ok x"
| "ok_or e None = Err e"

fun res_ok :: "('a, 'e) result \<Rightarrow> 'a option" where
  "res_ok (Ok x) = Some x"
| "res_ok (Err _) = None"
| "res_ok Panic = None"

definition getM :: "('s \<Rightarrow> 'a) \<Rightarrow> ('s, 'a, 'e) comp" where
  [comp_simps]: "getM f s = (Ok (f s), s)"

definition modifyM :: "('s \<Rightarrow> 's) \<Rightarrow> ('s, unit, 'e) comp" where
  [comp_simps]: "modifyM g s = (Ok (), g s)"

text \<open>A computation on one component of a pair, the other held fixed.\<close>

definition on_fst :: "('s, 'a, 'e) comp \<Rightarrow> ('s \<times> 't, 'a, 'e) comp" where
  "on_fst m p = (case m (fst p) of (r, s') \<Rightarrow> (r, (s', snd p)))"

definition on_snd :: "('t, 'a, 'e) comp \<Rightarrow> ('s \<times> 't, 'a, 'e) comp" where
  "on_snd m p = (case m (snd p) of (r, t') \<Rightarrow> (r, (fst p, t')))"

lemma on_fst_eq [comp_simps]: "m s = (r, s') \<Longrightarrow> on_fst m (s, t) = (r, (s', t))"
  by (simp add: on_fst_def)

lemma on_snd_eq [comp_simps]: "m t = (r, t') \<Longrightarrow> on_snd m (s, t) = (r, (s, t'))"
  by (simp add: on_snd_def)

lemma bindM_Ok [comp_simps]: "m s = (Ok x, s') \<Longrightarrow> bindM m f s = f x s'"
  by (simp add: bindM_def)

lemma bindM_Err [comp_simps]: "m s = (Err e, s') \<Longrightarrow> bindM m f s = (Err e, s')"
  by (simp add: bindM_def)

lemma bindM_Panic [comp_simps]: "m s = (Panic, s') \<Longrightarrow> bindM m f s = (Panic, s')"
  by (simp add: bindM_def)

lemma map_errM_eq [comp_simps]: "m s = (r, s') \<Longrightarrow> map_errM g m s = (map_err g r, s')"
  by (simp add: map_errM_def)

lemma bindM_ret [simp]: "bindM (ret x) f = f x"
  by (simp add: bindM_def ret_def fun_eq_iff)

lemma bindM_assoc: "bindM (bindM m f) g = bindM m (\<lambda>x. bindM (f x) g)"
  by (auto simp: bindM_def fun_eq_iff split: prod.splits result.splits)

lemma bindM_OkE:
  assumes "bindM m f s = (Ok y, t)"
  obtains x s' where "m s = (Ok x, s')" and "f x s' = (Ok y, t)"
  using assms by (auto simp: bindM_def split: prod.splits result.splits)

lemma map_err_Ok_iff [simp]: "map_err g r = Ok x \<longleftrightarrow> r = Ok x"
  by (cases r) auto

lemma map_err_Panic_iff [simp]: "map_err g r = Panic \<longleftrightarrow> r = Panic"
  by (cases r) auto

lemma map_errM_OkE:
  assumes "map_errM g m s = (Ok y, t)"
  obtains "m s = (Ok y, t)"
  using assms by (auto simp: map_errM_def split: prod.splits)

lemma bindR_Ok_iff: "bindR r f = Ok y \<longleftrightarrow> (\<exists>x. r = Ok x \<and> f x = Ok y)"
  by (cases r) auto

lemma bindR_Err_iff: "bindR r f = Err e \<longleftrightarrow> r = Err e \<or> (\<exists>x. r = Ok x \<and> f x = Err e)"
  by (cases r) auto

lemma bindR_Panic_iff: "bindR r f = Panic \<longleftrightarrow> r = Panic \<or> (\<exists>x. r = Ok x \<and> f x = Panic)"
  by (cases r) auto

section \<open>Arithmetic with overflow checks\<close>

definition add_w :: "'w::len word \<Rightarrow> 'w word \<Rightarrow> ('w word, 'e) result" where
  "add_w a b = (if unat a + unat b < 2 ^ LENGTH('w) then Ok (a + b) else Panic)"

definition sub_w :: "'w::len word \<Rightarrow> 'w word \<Rightarrow> ('w word, 'e) result" where
  "sub_w a b = (if b \<le> a then Ok (a - b) else Panic)"

definition checked_add :: "'w::len word \<Rightarrow> 'w word \<Rightarrow> 'w word option" where
  "checked_add a b = (if unat a + unat b < 2 ^ LENGTH('w) then Some (a + b) else None)"

definition checked_sub :: "'w::len word \<Rightarrow> 'w word \<Rightarrow> 'w word option" where
  "checked_sub a b = (if b \<le> a then Some (a - b) else None)"

definition saturating_add :: "'w::len word \<Rightarrow> 'w word \<Rightarrow> 'w word" where
  "saturating_add a b = (if unat a + unat b < 2 ^ LENGTH('w) then a + b else - 1)"

definition saturating_sub :: "'w::len word \<Rightarrow> 'w word \<Rightarrow> 'w word" where
  "saturating_sub a b = (if b \<le> a then a - b else 0)"

lemma add_w_Ok_iff:
  fixes a b c :: "'w::len word"
  shows "add_w a b = Ok c \<longleftrightarrow> unat c = unat a + unat b"
proof
  assume "add_w a b = Ok c"
  then show "unat c = unat a + unat b"
    by (auto simp: add_w_def unat_word_ariths split: if_splits)
next
  assume *: "unat c = unat a + unat b"
  then have lt: "unat a + unat b < 2 ^ LENGTH('w)"
    by (metis unsigned_less)
  have "c = a + b"
    using * lt by (intro word_unat_eq_iff [THEN iffD2]) (simp add: unat_word_ariths)
  with lt show "add_w a b = Ok c" by (simp add: add_w_def)
qed

lemma sub_w_Ok_iff: "sub_w a b = Ok c \<longleftrightarrow> b \<le> a \<and> unat c = unat a - unat b"
proof -
  have "b \<le> a \<Longrightarrow> unat (a - b) = unat a - unat b"
    by (simp add: unat_sub)
  then show ?thesis
    by (auto simp: sub_w_def word_unat_eq_iff)
qed

text \<open>The overflow test on the words themselves, for evaluation.\<close>

lemma add_w_code [code]: "add_w a b = (if a \<le> a + b then Ok (a + b) else Panic)"
  by (simp add: add_w_def no_olen_add_nat)

lemma checked_add_code [code]: "checked_add a b = (if a \<le> a + b then Some (a + b) else None)"
  by (simp add: checked_add_def no_olen_add_nat)

lemma saturating_add_code [code]: "saturating_add a b = (if a \<le> a + b then a + b else - 1)"
  by (simp add: saturating_add_def no_olen_add_nat)

lemma unat_drop_bit_eq: "unat (drop_bit n a) = unat a div 2 ^ n" for a :: u64
  using unsigned_less [of a, where 'a = nat] by (simp add: unsigned_drop_bit_eq take_bit_nat_eq_self flip: drop_bit_eq_div)

lemma page_mask: "unat (and a (word_of_int (- (2 ^ bits)))) = 2 ^ bits * (unat a div 2 ^ bits)" for a :: u64
proof -
  have m: "(word_of_int (- (2 ^ bits)) :: u64) = not (mask bits)" by (simp add: mask_eq_exp_minus_1 not_eq_complement)
  have "and a (not (mask bits)) = push_bit bits (drop_bit bits a)" by (rule bit_eqI) (auto simp: bit_simps)
  then have "unat (and a (not (mask bits))) = take_bit 64 (push_bit bits (unat a div 2 ^ bits))"
    using unat_drop_bit_eq [of bits a] by (simp add: unsigned_push_bit_eq drop_bit_eq_div [symmetric])
  also have "push_bit bits (unat a div 2 ^ bits) = 2 ^ bits * (unat a div 2 ^ bits)" by (simp add: push_bit_eq_mult mult.commute)
  also have "take_bit 64 (2 ^ bits * (unat a div 2 ^ bits)) = 2 ^ bits * (unat a div 2 ^ bits)"
  proof (rule take_bit_nat_eq_self)
    have "2 ^ bits * (unat a div 2 ^ bits) \<le> unat a" by simp
    also have "unat a < 2 ^ 64" using unsigned_less [of a, where 'a = nat] by simp
    finally show "2 ^ bits * (unat a div 2 ^ bits) < 2 ^ 64" .
  qed
  finally show ?thesis unfolding m .
qed

lemma add_w_not_Err [simp]: "add_w a b \<noteq> Err e"
  by (simp add: add_w_def)

lemma sub_w_not_Err [simp]: "sub_w a b \<noteq> Err e"
  by (simp add: sub_w_def)

lemma unat_saturating_sub: "unat (saturating_sub a b) = unat a - unat b"
  by (simp add: saturating_sub_def unat_sub word_le_nat_alt)

lemma unat_saturating_add:
  "unat (saturating_add a (b :: 'w::len word)) = min (unat a + unat b) (2 ^ LENGTH('w) - 1)"
  by (auto simp: saturating_add_def unat_word_ariths unsigned_minus_1_eq_mask mask_eq_exp_minus_1)

lemma unat_of_nat_less: "n < 2 ^ LENGTH('w) \<Longrightarrow> unat (word_of_nat n :: 'w::len word) = n"
  by (simp add: unat_of_nat take_bit_nat_eq_self)

lemma unat_u32_of_nat [simp]: "n < 4294967296 \<Longrightarrow> unat (word_of_nat n :: u32) = n"
  by (rule unat_of_nat_less) simp

lemma ucast_u32_of_nat_u64 [simp]: "(ucast (word_of_nat n :: u64) :: u32) = word_of_nat n"
  by (simp add: unsigned_of_nat word_of_nat_eq_iff)

section \<open>Lists\<close>

text \<open>\<open>Vec::resize\<close>, and a slice replaced in place.\<close>

definition resize :: "'a list \<Rightarrow> nat \<Rightarrow> 'a \<Rightarrow> 'a list" where
  "resize xs n x = take n xs @ replicate (n - length xs) x"

definition put_slice :: "'a list \<Rightarrow> nat \<Rightarrow> 'a list \<Rightarrow> 'a list" where
  "put_slice xs i ys = take i xs @ ys @ drop (i + length ys) xs"

lemma length_resize [simp]: "length (resize xs n x) = n"
  by (simp add: resize_def)

lemma resize_grow: "length xs \<le> n \<Longrightarrow> resize xs n x = xs @ replicate (n - length xs) x"
  by (simp add: resize_def)

lemma length_put_slice: "i + length ys \<le> length xs \<Longrightarrow> length (put_slice xs i ys) = length xs"
  by (simp add: put_slice_def)

lemma take_put_slice: "n \<le> i \<Longrightarrow> i \<le> length xs \<Longrightarrow> take n (put_slice xs i ys) = take n xs"
  by (simp add: put_slice_def min_def)

lemma put_slice_slice:
  "i + length ys \<le> length xs \<Longrightarrow> take (length ys) (drop i (put_slice xs i ys)) = ys"
  by (simp add: put_slice_def)

lemma put_slice_other:
  assumes "i + length ys \<le> j" and "i \<le> length xs"
  shows "drop j (put_slice xs i ys) = drop j xs"
  using assms by (simp add: put_slice_def)

lemma nth_put_slice:
  "o' \<le> length v \<Longrightarrow> i < length v \<Longrightarrow>
   put_slice v o' bs ! i = (if o' \<le> i \<and> i < o' + length bs then bs ! (i - o') else v ! i)"
  by (auto simp: put_slice_def nth_append min_def)

lemma put_slice_append_left: "i + length ys \<le> length xs \<Longrightarrow> put_slice (xs @ zs) i ys = put_slice xs i ys @ zs"
  by (simp add: put_slice_def)

lemma put_slice_append_right: "put_slice (xs @ zs) (length xs + i) ys = xs @ put_slice zs i ys"
  by (simp add: put_slice_def)

lemma put_slice_all: "length ys = length zs \<Longrightarrow> put_slice zs 0 ys = ys"
  by (simp add: put_slice_def)

lemma all_less_add_iff: "(\<forall>i < a + b. P i) \<longleftrightarrow> (\<forall>i < a. P i) \<and> (\<forall>j < b. P (a + j :: nat))"
proof (intro iffI conjI allI impI)
  fix i assume *: "(\<forall>i < a. P i) \<and> (\<forall>j < b. P (a + j))" and "i < a + b"
  then show "P i" using le_add_diff_inverse [of a i] by (cases "i < a") (auto dest: spec [of _ "i - a"])
qed auto

text \<open>\<open>slice::chunks\<close>; a chunk size of zero panics in the source and is not used.\<close>

function chunks :: "nat \<Rightarrow> 'a list \<Rightarrow> 'a list list" where
  "chunks n xs = (if n = 0 \<or> xs = [] then [] else take n xs # chunks n (drop n xs))"
  by pat_completeness auto
termination by (relation "measure (\<lambda>(_, xs). length xs)") auto

declare chunks.simps [simp del]

lemma length_concat_const: "\<forall>x \<in> set xs. length (f x) = w \<Longrightarrow> length (concat (map f xs)) = length xs * w"
  by (induction xs) auto

end
