(* ===== verification/Rust_Str.thy ===== *)
theory Rust_Str
  imports Prelude
begin

text \<open>
  The part of Rust's string library that the source uses. A \<open>str\<close> and an
  \<open>OsString\<close> are both byte sequences; a \<open>str\<close> is valid UTF-8. Bytes of names are
  Isabelle characters, so \<open>string\<close> models both, and an index into a \<open>string\<close> is
  Rust's byte index.
\<close>

section \<open>UTF-8\<close>

type_synonym str = string
type_synonym OsString = string

abbreviation is_scalar :: "nat \<Rightarrow> bool" where
  "is_scalar c \<equiv> c < 0x110000 \<and> \<not> (0xD800 \<le> c \<and> c < 0xE000)"

text \<open>\<open>char::encode_utf8\<close>.\<close>

definition encode_utf8 :: "nat \<Rightarrow> nat list" where
  "encode_utf8 c =
     (if c < 0x80 then [c]
      else if c < 0x800 then [0xC0 + c div 64, 0x80 + c mod 64]
      else if c < 0x10000 then [0xE0 + c div 4096, 0x80 + c div 64 mod 64, 0x80 + c mod 64]
      else [0xF0 + c div 262144, 0x80 + c div 4096 mod 64, 0x80 + c div 64 mod 64, 0x80 + c mod 64])"

abbreviation is_cont :: "nat \<Rightarrow> bool" where
  "is_cont b \<equiv> 0x80 \<le> b \<and> b < 0xC0"

text \<open>
  One step of the validating decoder of \<open>core::str\<close>: the length of the next well-formed
  sequence with \<open>True\<close>, or the length of the maximal ill-formed prefix with \<open>False\<close>.
\<close>

definition second_ok :: "nat \<Rightarrow> nat \<Rightarrow> bool" where
  "second_ok b c \<longleftrightarrow>
     (if b = 0xE0 then 0xA0 \<le> c \<and> c < 0xC0
      else if b = 0xED then 0x80 \<le> c \<and> c < 0xA0
      else if b = 0xF0 then 0x90 \<le> c \<and> c < 0xC0
      else if b = 0xF4 then 0x80 \<le> c \<and> c < 0x90
      else is_cont c)"

fun utf8_next :: "nat list \<Rightarrow> bool \<times> nat" where
  "utf8_next [] = (False, 0)"
| "utf8_next (b # bs) =
     (if b < 0x80 then (True, 1)
      else if 0xC2 \<le> b \<and> b < 0xE0 then
        (case bs of c # _ \<Rightarrow> (if is_cont c then (True, 2) else (False, 1)) | [] \<Rightarrow> (False, 1))
      else if 0xE0 \<le> b \<and> b < 0xF0 then
        (case bs of
           c # d # _ \<Rightarrow> (if \<not> second_ok b c then (False, 1) else if is_cont d then (True, 3) else (False, 2))
         | [c] \<Rightarrow> (if second_ok b c then (False, 2) else (False, 1))
         | [] \<Rightarrow> (False, 1))
      else if 0xF0 \<le> b \<and> b < 0xF5 then
        (case bs of
           c # d # e # _ \<Rightarrow>
             (if \<not> second_ok b c then (False, 1) else if \<not> is_cont d then (False, 2)
              else if is_cont e then (True, 4) else (False, 3))
         | [c, d] \<Rightarrow> (if \<not> second_ok b c then (False, 1) else if is_cont d then (False, 3) else (False, 2))
         | [c] \<Rightarrow> (if second_ok b c then (False, 2) else (False, 1))
         | [] \<Rightarrow> (False, 1))
      else (False, 1))"

lemma utf8_next_pos: "bs \<noteq> [] \<Longrightarrow> 0 < snd (utf8_next bs)"
  by (cases bs) (auto split: list.splits)

lemma utf8_next_drop: "bs \<noteq> [] \<Longrightarrow> length (drop (snd (utf8_next bs)) bs) < length bs"
  using utf8_next_pos [of bs] by simp

text \<open>\<open>String::from_utf8_lossy\<close>: each ill-formed chunk becomes U+FFFD.\<close>

function from_utf8_lossy :: "nat list \<Rightarrow> nat list" where
  "from_utf8_lossy bs =
     (if bs = [] then []
      else case utf8_next bs of
        (True, n) \<Rightarrow> take n bs @ from_utf8_lossy (drop n bs)
      | (False, n) \<Rightarrow> [0xEF, 0xBF, 0xBD] @ from_utf8_lossy (drop n bs))"
  by pat_completeness auto
termination
proof (relation "measure length", goal_cases)
  case 1
  show ?case by simp
next
  case (2 bs p n)
  then show ?case using utf8_next_drop [of bs] by (metis in_measure snd_conv)
next
  case (3 bs p n)
  then show ?case using utf8_next_drop [of bs] by (metis in_measure snd_conv)
qed

declare from_utf8_lossy.simps [simp del]

text \<open>\<open>str::from_utf8\<close> succeeds on exactly the well-formed sequences.\<close>

function utf8_valid :: "nat list \<Rightarrow> bool" where
  "utf8_valid bs =
     (if bs = [] then True
      else case utf8_next bs of (ok, n) \<Rightarrow> (if ok then utf8_valid (drop n bs) else False))"
  by pat_completeness auto
termination
proof (relation "measure length", goal_cases)
  case 1
  show ?case by simp
next
  case (2 bs p n)
  then show ?case using utf8_next_drop [of bs] by (metis in_measure snd_conv)
qed

declare utf8_valid.simps [simp del]

definition str_bytes :: "string \<Rightarrow> nat list" where
  "str_bytes s = map of_char s"

definition of_str_bytes :: "nat list \<Rightarrow> string" where
  "of_str_bytes bs = map char_of bs"

definition to_string_lossy :: "OsString \<Rightarrow> str" where
  "to_string_lossy s = of_str_bytes (from_utf8_lossy (str_bytes s))"

definition valid_str :: "string \<Rightarrow> bool" where
  "valid_str s \<longleftrightarrow> utf8_valid (str_bytes s)"

definition from_utf8 :: "string \<Rightarrow> str option" where
  "from_utf8 s = (if valid_str s then Some s else None)"

lemma of_char_less_256 [simp]: "(of_char c :: nat) < 256"
  by (cases c) (auto simp: of_char_def)

lemma of_str_bytes_str_bytes [simp]: "of_str_bytes (str_bytes s) = s"
  by (simp add: of_str_bytes_def str_bytes_def comp_def)

lemma str_bytes_of_str_bytes: "\<forall>b \<in> set bs. b < 256 \<Longrightarrow> str_bytes (of_str_bytes bs) = bs"
  by (induction bs) (auto simp: of_str_bytes_def str_bytes_def)

lemma lossy_valid: "utf8_valid bs \<Longrightarrow> from_utf8_lossy bs = bs"
proof (induction bs rule: utf8_valid.induct)
  case (1 bs)
  show ?case
  proof (cases "bs = []")
    case True
    then show ?thesis by (simp add: from_utf8_lossy.simps)
  next
    case False
    obtain ok n where n: "utf8_next bs = (ok, n)" by fastforce
    with False "1.prems" have "ok" and "utf8_valid (drop n bs)"
      by (auto simp: utf8_valid.simps [of bs] split: if_splits)
    with False n "1.IH" [OF False n [symmetric]] show ?thesis
      by (simp add: from_utf8_lossy.simps [of bs])
  qed
qed

lemma to_string_lossy_valid [simp]: "valid_str s \<Longrightarrow> to_string_lossy s = s"
  by (simp add: valid_str_def to_string_lossy_def lossy_valid)

lemma utf8_next_append: "utf8_next bs = (True, n) \<Longrightarrow> utf8_next (take n bs @ cs) = (True, n)"
  by (cases bs) (auto split: list.splits if_splits)

lemma utf8_next_True_le: "utf8_next bs = (True, n) \<Longrightarrow> n \<le> length bs"
  by (cases bs) (auto split: list.splits if_splits)

lemma utf8_valid_lossy: "utf8_valid (from_utf8_lossy bs)"
proof (induction bs rule: from_utf8_lossy.induct)
  case (1 bs)
  show ?case
  proof (cases "bs = []")
    case True
    then show ?thesis by (simp add: from_utf8_lossy.simps utf8_valid.simps)
  next
    case False
    obtain ok n where n: "utf8_next bs = (ok, n)" by fastforce
    show ?thesis
    proof (cases ok)
      case True
      with n have nx: "utf8_next (take n bs @ from_utf8_lossy (drop n bs)) = (True, n)"
        by (simp add: utf8_next_append)
      have IH: "utf8_valid (from_utf8_lossy (drop n bs))"
        using "1.IH"(1) [OF False n [symmetric]] True by simp
      have "length (take n bs) = n"
        using utf8_next_True_le [of bs n] n True by simp
      with nx IH have "utf8_valid (take n bs @ from_utf8_lossy (drop n bs))"
        by (subst utf8_valid.simps) simp
      then show ?thesis
        using False True n by (simp add: from_utf8_lossy.simps [of bs])
    next
      case False': False
      then have IH: "utf8_valid (from_utf8_lossy (drop n bs))"
        using "1.IH"(2) [OF False n [symmetric]] by simp
      then have "utf8_valid ([0xEF, 0xBF, 0xBD] @ from_utf8_lossy (drop n bs))"
        by (subst utf8_valid.simps) (simp add: second_ok_def)
      then show ?thesis
        using False False' n by (simp add: from_utf8_lossy.simps [of bs])
    qed
  qed
qed

section \<open>Decoding to scalar values, and UTF-16\<close>

text \<open>\<open>str::chars\<close> on a valid string.\<close>

fun utf8_chars :: "nat list \<Rightarrow> nat list" where
  "utf8_chars [] = []"
| "utf8_chars (b # bs) =
     (if b < 0x80 then b # utf8_chars bs
      else if b < 0xE0 then
        (case bs of c # r \<Rightarrow> (b mod 32 * 64 + c mod 64) # utf8_chars r | _ \<Rightarrow> [])
      else if b < 0xF0 then
        (case bs of c # d # r \<Rightarrow> (b mod 16 * 4096 + c mod 64 * 64 + d mod 64) # utf8_chars r | _ \<Rightarrow> [])
      else
        (case bs of c # d # e # r \<Rightarrow>
           (b mod 8 * 262144 + c mod 64 * 4096 + d mod 64 * 64 + e mod 64) # utf8_chars r | _ \<Rightarrow> []))"

definition str_chars :: "str \<Rightarrow> nat list" where
  "str_chars s = utf8_chars (str_bytes s)"

lemma lossy_bytes: "\<forall>b \<in> set bs. b < 256 \<Longrightarrow> \<forall>b \<in> set (from_utf8_lossy bs). b < 256"
proof (induction bs rule: from_utf8_lossy.induct)
  case (1 bs)
  then have sub: "\<forall>b \<in> set (take n bs). b < 256" "\<forall>b \<in> set (drop n bs). b < 256" for n
    by (auto dest: in_set_takeD in_set_dropD)
  show ?case
    using 1 sub by (subst from_utf8_lossy.simps) (auto split: prod.splits bool.splits)
qed

lemma valid_str_lossy: "valid_str (to_string_lossy s)"
proof -
  have "\<forall>b \<in> set (from_utf8_lossy (str_bytes s)). b < 256"
    by (rule lossy_bytes) (simp add: str_bytes_def)
  then show ?thesis
    by (simp add: valid_str_def to_string_lossy_def str_bytes_of_str_bytes utf8_valid_lossy)
qed

text \<open>\<open>str::encode_utf16\<close>.\<close>

definition utf16_units :: "nat \<Rightarrow> u16 list" where
  "utf16_units c =
     (if c < 0x10000 then [word_of_nat c]
      else [word_of_nat (0xD800 + (c - 0x10000) div 1024), word_of_nat (0xDC00 + (c - 0x10000) mod 1024)])"

definition encode_utf16 :: "str \<Rightarrow> u16 list" where
  "encode_utf16 s = concat (map utf16_units (str_chars s))"

text \<open>The reading side: what a minidump reader makes of the code units.\<close>

fun utf16_decode :: "nat list \<Rightarrow> nat list option" where
  "utf16_decode [] = Some []"
| "utf16_decode (u # us) =
     (if 0xD800 \<le> u \<and> u < 0xDC00 then
        (case us of
           v # vs \<Rightarrow> (if 0xDC00 \<le> v \<and> v < 0xE000
                      then map_option ((#) (0x10000 + (u - 0xD800) * 1024 + (v - 0xDC00))) (utf16_decode vs)
                      else None)
         | [] \<Rightarrow> None)
      else if 0xDC00 \<le> u \<and> u < 0xE000 then None
      else map_option ((#) u) (utf16_decode us))"

lemma unat_u16_of_nat: "n < 65536 \<Longrightarrow> unat (word_of_nat n :: u16) = n"
  by (rule unat_of_nat_less) simp

lemma utf16_decode_units:
  assumes "is_scalar c"
  shows "utf16_decode (map unat (utf16_units c) @ us) = map_option ((#) c) (utf16_decode us)"
proof (cases "c < 0x10000")
  case True
  with assms show ?thesis by (auto simp: utf16_units_def unat_u16_of_nat)
next
  case False
  define d where "d = c - 0x10000"
  with False assms have d: "d < 1048576" and c: "c = 0x10000 + d" by auto
  have "d div 1024 < 1024" and "d mod 1024 < 1024" using d by auto
  moreover have "65536 + d div 1024 * 1024 + d mod 1024 = c" using c by simp
  ultimately show ?thesis
    using False unat_u16_of_nat [of "0xD800 + d div 1024"] unat_u16_of_nat [of "0xDC00 + d mod 1024"]
    by (simp add: utf16_units_def d_def [symmetric] del: of_nat_add)
qed

lemma utf16_decode_concat:
  "\<forall>c \<in> set cs. is_scalar c \<Longrightarrow> utf16_decode (map unat (concat (map utf16_units cs))) = Some cs"
  by (induction cs) (auto simp: utf16_decode_units)


lemma mod_64_le: "n mod 64 \<le> (63 :: nat)"
  using mod_less_divisor [of 64 n] by simp

lemma cont_mod_64: "is_cont c \<Longrightarrow> c mod 64 = c - 128"
  by (rule mod_nat_eqI) auto

lemma lead3_mod_16: "0xE0 \<le> b \<Longrightarrow> b < 0xF0 \<Longrightarrow> b mod 16 = (b :: nat) - 224"
  by (rule mod_nat_eqI) auto

lemma second_ok_cont: "second_ok b c \<Longrightarrow> is_cont c"
  by (auto simp: second_ok_def split: if_splits)

lemma utf8_next_chars:
  assumes "utf8_next bs = (True, n)"
  shows "\<exists>c. utf8_chars bs = c # utf8_chars (drop n bs) \<and> is_scalar c"
proof (cases bs)
  case Nil
  with assms show ?thesis by simp
next
  case (Cons b r)
  consider "b < 0x80" | "0xC2 \<le> b \<and> b < 0xE0" | "0xE0 \<le> b \<and> b < 0xF0" | "0xF0 \<le> b \<and> b < 0xF5"
    using assms Cons by (auto split: if_splits)
  then show ?thesis
  proof cases
    case 1
    with assms Cons show ?thesis by auto
  next
    case 2
    with assms Cons obtain c t where "r = c # t" and "n = 2"
      by (auto split: list.splits if_splits)
    moreover have "b mod 32 * 64 + c mod 64 < 2048" by (auto intro: less_le_trans)
    ultimately show ?thesis using Cons 2 by simp
  next
    case 3
    with assms Cons obtain c d t where r: "r = c # d # t" and n: "n = 3" and c: "second_ok b c" and "is_cont d"
      by (auto split: list.splits if_splits)
    have "\<not> (0xD800 \<le> b mod 16 * 4096 + c mod 64 * 64 + d mod 64 \<and>
             b mod 16 * 4096 + c mod 64 * 64 + d mod 64 < 0xE000)"
    proof
      assume *: "0xD800 \<le> b mod 16 * 4096 + c mod 64 * 64 + d mod 64 \<and>
             b mod 16 * 4096 + c mod 64 * 64 + d mod 64 < 0xE000"
      with mod_64_le [of c] mod_64_le [of d] have m: "b mod 16 = 13" by linarith
      with lead3_mod_16 [of b] 3 have "b = 0xED" by simp
      with c second_ok_cont [OF c] have "c mod 64 < 32" by (simp add: cont_mod_64 second_ok_def)
      with * m mod_64_le [of d] show False by linarith
    qed
    moreover have "b mod 16 < 16" by simp
    then have "b mod 16 * 4096 + c mod 64 * 64 + d mod 64 < 0x110000"
      using mod_64_le [of c] mod_64_le [of d] by linarith
    ultimately show ?thesis using Cons r n 3 by simp
  next
    case 4
    with assms Cons obtain c d e t where r: "r = c # d # e # t" and n: "n = 4" and c: "second_ok b c"
      by (auto split: list.splits if_splits)
    define v where "v = b mod 8 * 262144 + c mod 64 * 4096 + d mod 64 * 64 + e mod 64"
    have b: "b = 240 \<or> b = 241 \<or> b = 242 \<or> b = 243 \<or> b = 244" using 4 by arith
    have "v < 0x110000"
    proof (cases "b = 244")
      case True
      with c second_ok_cont [OF c] have "c mod 64 < 16" by (simp add: cont_mod_64 second_ok_def)
      with True mod_64_le [of d] mod_64_le [of e] show ?thesis by (simp add: v_def)
    next
      case False
      with b have "b mod 8 \<le> 3" by auto
      with mod_64_le [of c] mod_64_le [of d] mod_64_le [of e] show ?thesis
        unfolding v_def by linarith
    qed
    moreover have "0x10000 \<le> v"
    proof (cases "b = 240")
      case True
      with c second_ok_cont [OF c] have "16 \<le> c mod 64" by (simp add: cont_mod_64 second_ok_def)
      then show ?thesis by (simp add: v_def)
    next
      case False
      with b have "1 \<le> b mod 8" by auto
      then show ?thesis by (simp add: v_def)
    qed
    ultimately have "is_scalar v" by simp
    then show ?thesis using Cons r n 4 by (simp add: v_def)
  qed
qed

lemma utf8_chars_scalar: "utf8_valid bs \<Longrightarrow> \<forall>c \<in> set (utf8_chars bs). is_scalar c"
proof (induction bs rule: utf8_valid.induct)
  case (1 bs)
  show ?case
  proof (cases "bs = []")
    case True
    then show ?thesis by simp
  next
    case False
    obtain ok n where n: "utf8_next bs = (ok, n)" by fastforce
    with False "1.prems" have ok: "ok" and v: "utf8_valid (drop n bs)"
      by (auto simp: utf8_valid.simps [of bs] split: if_splits)
    from ok n obtain c where "utf8_chars bs = c # utf8_chars (drop n bs)" and "is_scalar c"
      using utf8_next_chars [of bs n] by auto
    with "1.IH" [OF False n [symmetric] ok v] show ?thesis by simp
  qed
qed

lemma utf16_decode_encode:
  "valid_str s \<Longrightarrow> utf16_decode (map unat (encode_utf16 s)) = Some (str_chars s)"
  unfolding encode_utf16_def str_chars_def valid_str_def
  by (intro utf16_decode_concat utf8_chars_scalar)

end
