(* ===== verification/Mem_Writer.thy ===== *)
theory Mem_Writer
  imports Rust_Str
begin

text \<open>
  \<open>src/src/mem_writer.rs\<close>: the in-memory dump buffer, the typed slots
  (\<open>MemoryWriter\<close>) and arrays (\<open>MemoryArrayWriter\<close>) carved out of it, and
  \<open>write_string_to_location\<close>.

  The trait bound \<open>T: TryIntoCtx + SizeWith\<close> is an explicit argument, the record
  \<open>pod\<close>; the locale \<open>pod_codec\<close> states what the writers rely on (a value fills its
  \<open>size_with\<close> bytes and nothing else). Lengths and offsets into the vector are natural
  numbers, positions stored in the dump are truncated to \<open>u32\<close> where the source writes
  \<open>as u32\<close>. Exhaustion of memory is not modelled.
\<close>

section \<open>Codecs\<close>

record 'a pod =
  size_with :: nat
  try_into_ctx :: "'a \<Rightarrow> bytes \<Rightarrow> (nat, scroll_error) result \<times> bytes"

definition pod_bytes :: "'a pod \<Rightarrow> 'a \<Rightarrow> bytes" where
  "pod_bytes C v = snd (try_into_ctx C v (replicate (size_with C) 0))"

text \<open>Little-endian integers, the context every write of the source passes.\<close>

definition le_bytes :: "nat \<Rightarrow> 'w::len word \<Rightarrow> bytes" where
  "le_bytes n w = map (\<lambda>i. ucast (drop_bit (8 * i) w)) [0..<n]"

definition fixed_pod :: "nat \<Rightarrow> ('a \<Rightarrow> bytes) \<Rightarrow> 'a pod" where
  "fixed_pod n f =
     \<lparr>size_with = n,
      try_into_ctx = (\<lambda>v dst. if length dst < n then (Err ''TooBig'', dst)
                              else (Ok n, put_slice dst 0 (f v)))\<rparr>"

definition u8_pod :: "u8 pod" where "u8_pod = fixed_pod 1 (\<lambda>v. [v])"
definition u16_pod :: "u16 pod" where "u16_pod = fixed_pod 2 (le_bytes 2)"
definition u32_pod :: "u32 pod" where "u32_pod = fixed_pod 4 (le_bytes 4)"
definition u64_pod :: "u64 pod" where "u64_pod = fixed_pod 8 (le_bytes 8)"

lemma length_le_bytes [simp]: "length (le_bytes n w) = n"
  by (simp add: le_bytes_def)

lemma size_with_fixed [simp]: "size_with (fixed_pod n f) = n"
  by (simp add: fixed_pod_def)

lemma pod_bytes_fixed [simp]: "length (f v) = n \<Longrightarrow> pod_bytes (fixed_pod n f) v = f v"
  by (simp add: fixed_pod_def pod_bytes_def put_slice_def)

lemma size_with_ints [simp]:
  "size_with u8_pod = 1" "size_with u16_pod = 2" "size_with u32_pod = 4" "size_with u64_pod = 8"
  by (simp_all add: u8_pod_def u16_pod_def u32_pod_def u64_pod_def)

lemma pod_bytes_ints [simp]:
  "pod_bytes u8_pod = (\<lambda>v. [v])" "pod_bytes u16_pod = le_bytes 2"
  "pod_bytes u32_pod = le_bytes 4" "pod_bytes u64_pod = le_bytes 8"
  by (simp_all add: u8_pod_def u16_pod_def u32_pod_def u64_pod_def fun_eq_iff)

section \<open>Buffer\<close>

datatype MemoryWriterError =
    MemoryWriterError_IOError io_error
  | MemoryWriterError_TryFromIntError
  | MemoryWriterError_Scroll scroll_error

record Buffer =
  inner :: bytes

definition Buffer_with_capacity :: "nat \<Rightarrow> Buffer" where
  "Buffer_with_capacity cap = \<lparr>inner = []\<rparr>"

definition Buffer_position :: "Buffer \<Rightarrow> u64" where
  "Buffer_position b = word_of_nat (length (inner b))"

definition Buffer_reserve :: "nat \<Rightarrow> Buffer \<Rightarrow> nat \<times> Buffer" where
  "Buffer_reserve len b =
     (let mark = length (inner b)
      in (mark, b\<lparr>inner := resize (inner b) (length (inner b) + len) 0\<rparr>))"

definition Buffer_write_at :: "'a pod \<Rightarrow> nat \<Rightarrow> 'a \<Rightarrow> (Buffer, nat, scroll_error) comp" where
  "Buffer_write_at C offset val b =
     (let to_write = size_with C in
      if length (inner b) < offset then (Panic, b)
      else
        let remainder = length (inner b) - offset;
            b' = (if remainder < to_write
                  then b\<lparr>inner := resize (inner b) (length (inner b) + to_write - remainder) 0\<rparr>
                  else b);
            dst = take to_write (drop offset (inner b'))
        in case try_into_ctx C val dst of
             (r, dst') \<Rightarrow>
               (r, b'\<lparr>inner := take offset (inner b') @ dst' @ drop (offset + to_write) (inner b')\<rparr>))"

definition Buffer_write :: "'a pod \<Rightarrow> 'a \<Rightarrow> (Buffer, nat, scroll_error) comp" where
  "Buffer_write C val b = Buffer_write_at C (length (inner b)) val b"

definition Buffer_write_all :: "bytes \<Rightarrow> Buffer \<Rightarrow> Buffer" where
  "Buffer_write_all buffer b = b\<lparr>inner := inner b @ buffer\<rparr>"

section \<open>Typed slots and arrays\<close>

text \<open>An offset into the minidump file, and a section of it.\<close>

type_synonym MDRVA = u32

record MDLocationDescriptor =
  data_size :: u32
  rva :: u32

record MemoryWriter =
  mw_position :: MDRVA
  mw_size :: nat

definition MemoryWriter_alloc_with_val ::
    "'a pod \<Rightarrow> 'a \<Rightarrow> (Buffer, MemoryWriter, MemoryWriterError) comp" where
  "MemoryWriter_alloc_with_val C val b =
     (let position = Buffer_position b in
      bindM (map_errM MemoryWriterError_Scroll (Buffer_write C val))
        (\<lambda>size. ret \<lparr>mw_position = ucast position, mw_size = size\<rparr>) b)"

definition MemoryWriter_alloc :: "'a pod \<Rightarrow> (Buffer, MemoryWriter, MemoryWriterError) comp" where
  "MemoryWriter_alloc C b =
     (let size = size_with C in
      case Buffer_reserve size b of
        (position, b') \<Rightarrow> ret \<lparr>mw_position = word_of_nat position, mw_size = size\<rparr> b')"

definition MemoryWriter_set_value ::
    "'a pod \<Rightarrow> MemoryWriter \<Rightarrow> 'a \<Rightarrow> (Buffer, unit, MemoryWriterError) comp" where
  "MemoryWriter_set_value C w val =
     bindM (map_errM MemoryWriterError_Scroll (Buffer_write_at C (unat (mw_position w)) val)) (\<lambda>_. ret ())"

definition MemoryWriter_location :: "'a pod \<Rightarrow> MemoryWriter \<Rightarrow> MDLocationDescriptor" where
  "MemoryWriter_location C w = \<lparr>data_size = word_of_nat (size_with C), rva = mw_position w\<rparr>"

record MemoryArrayWriter =
  maw_position :: MDRVA
  array_size :: nat

definition MemoryArrayWriter_write_bytes :: "bytes \<Rightarrow> Buffer \<Rightarrow> MemoryArrayWriter \<times> Buffer" where
  "MemoryArrayWriter_write_bytes bs b =
     (let position = Buffer_position b
      in (\<lparr>maw_position = ucast position, array_size = length bs\<rparr>, Buffer_write_all bs b))"

text \<open>The loop over \<open>enumerate()\<close> shared by \<open>alloc_from_array\<close> and \<open>alloc_from_iter\<close>.\<close>

fun write_enumerated :: "'a pod \<Rightarrow> nat \<Rightarrow> nat \<Rightarrow> 'a list \<Rightarrow> (Buffer, unit, MemoryWriterError) comp" where
  "write_enumerated C position idx [] = ret ()"
| "write_enumerated C position idx (val # vals) =
     bindM (map_errM MemoryWriterError_Scroll (Buffer_write_at C (position + idx * size_with C) val))
       (\<lambda>_. write_enumerated C position (Suc idx) vals)"

definition MemoryArrayWriter_alloc_from_array ::
    "'a pod \<Rightarrow> 'a list \<Rightarrow> (Buffer, MemoryArrayWriter, MemoryWriterError) comp" where
  "MemoryArrayWriter_alloc_from_array C array b =
     (let n = length array in
      case Buffer_reserve (n * size_with C) b of
        (position, b') \<Rightarrow>
          bindM (write_enumerated C position 0 array)
            (\<lambda>_. ret \<lparr>maw_position = word_of_nat position, array_size = n\<rparr>) b')"

definition MemoryArrayWriter_alloc_from_iter ::
    "'a pod \<Rightarrow> 'a list \<Rightarrow> (Buffer, MemoryArrayWriter, MemoryWriterError) comp" where
  "MemoryArrayWriter_alloc_from_iter C iter b =
     (let n = length iter; size = size_with C in
      case Buffer_reserve (n * size) b of
        (position, b') \<Rightarrow>
          bindM (write_enumerated C position 0 iter)
            (\<lambda>_. ret \<lparr>maw_position = word_of_nat position, array_size = n\<rparr>) b')"

definition MemoryArrayWriter_alloc_array ::
    "'a pod \<Rightarrow> nat \<Rightarrow> (Buffer, MemoryArrayWriter, MemoryWriterError) comp" where
  "MemoryArrayWriter_alloc_array C n b =
     (case Buffer_reserve (n * size_with C) b of
        (position, b') \<Rightarrow> ret \<lparr>maw_position = word_of_nat position, array_size = n\<rparr> b')"

definition MemoryArrayWriter_set_value_at ::
    "'a pod \<Rightarrow> MemoryArrayWriter \<Rightarrow> 'a \<Rightarrow> nat \<Rightarrow> (Buffer, unit, MemoryWriterError) comp" where
  "MemoryArrayWriter_set_value_at C w val index =
     bindM (map_errM MemoryWriterError_Scroll
              (Buffer_write_at C (unat (maw_position w) + size_with C * index) val)) (\<lambda>_. ret ())"

definition MemoryArrayWriter_location :: "'a pod \<Rightarrow> MemoryArrayWriter \<Rightarrow> MDLocationDescriptor" where
  "MemoryArrayWriter_location C w =
     \<lparr>data_size = word_of_nat (array_size w * size_with C), rva = maw_position w\<rparr>"

definition MemoryArrayWriter_location_of_index ::
    "'a pod \<Rightarrow> MemoryArrayWriter \<Rightarrow> nat \<Rightarrow> (MDLocationDescriptor, 'e) result" where
  "MemoryArrayWriter_location_of_index C w idx =
     bindR (add_w (maw_position w) (word_of_nat (size_with C * idx)))
       (\<lambda>r. Ok \<lparr>data_size = word_of_nat (size_with C), rva = r\<rparr>)"

text \<open>
  \<open>write_string_to_location\<close>. The conversion of the byte count to \<open>u32\<close> fails before
  anything is written; the two sizes are added in \<open>u32\<close>.
\<close>

fun write_letters :: "MemoryArrayWriter \<Rightarrow> nat \<Rightarrow> u16 list \<Rightarrow> (Buffer, unit, MemoryWriterError) comp" where
  "write_letters text_section index [] = ret ()"
| "write_letters text_section index (letter # letters) =
     bindM (MemoryArrayWriter_set_value_at u16_pod text_section letter index)
       (\<lambda>_. write_letters text_section (Suc index) letters)"

definition write_string_to_location ::
    "str \<Rightarrow> (Buffer, MDLocationDescriptor, MemoryWriterError) comp" where
  "write_string_to_location text =
     (let letters = encode_utf16 text;
          n = length letters * 2 in
      bindM (if n < 2 ^ 32 then ret (word_of_nat n) else throw MemoryWriterError_TryFromIntError)
        (\<lambda>count. bindM (MemoryWriter_alloc_with_val u32_pod count)
        (\<lambda>text_header. bindM (MemoryArrayWriter_alloc_array u16_pod (length letters))
        (\<lambda>text_section. bindM (write_letters text_section 0 letters)
        (\<lambda>_. let location = MemoryWriter_location u32_pod text_header in
             bindM (lift_result (add_w (data_size location)
                      (data_size (MemoryArrayWriter_location u16_pod text_section))))
               (\<lambda>ds. ret (location\<lparr>data_size := ds\<rparr>)))))))"

section \<open>The codec contract and what the writers make of it\<close>

locale pod_codec =
  fixes C :: "'a pod"
  assumes into_ctx:
      "length dst = size_with C \<Longrightarrow> try_into_ctx C v dst = (Ok (size_with C), pod_bytes C v)"
    and length_pod_bytes: "length (pod_bytes C v) = size_with C"
begin

lemma write_at_eq:
  assumes "offset \<le> length (inner b)"
  shows "Buffer_write_at C offset v b =
           (Ok (size_with C), b\<lparr>inner := put_slice (inner b) offset (pod_bytes C v)\<rparr>)"
proof (cases "length (inner b) - offset < size_with C")
  case True
  let ?n = "length (inner b) + size_with C - (length (inner b) - offset)"
  have n: "?n = offset + size_with C" using assms True by simp
  have "length (take (size_with C) (drop offset (resize (inner b) ?n 0))) = size_with C"
    by (simp add: n)
  note ctx = into_ctx [OF this, of v]
  have "take offset (resize (inner b) ?n 0) = take offset (inner b)"
    using assms n by (simp add: resize_def min_def)
  moreover have "drop (offset + size_with C) (resize (inner b) ?n 0) = []"
    by (simp add: n)
  moreover have "drop (offset + size_with C) (inner b) = []"
    using True assms by simp
  ultimately show ?thesis
    using True assms ctx by (simp add: Buffer_write_at_def put_slice_def length_pod_bytes Let_def)
next
  case False
  with assms have "length (take (size_with C) (drop offset (inner b))) = size_with C"
    by simp
  from False assms into_ctx [OF this, of v] show ?thesis
    by (simp add: Buffer_write_at_def put_slice_def length_pod_bytes Let_def)
qed

lemma write_at_beyond:
  "length (inner b) < offset \<Longrightarrow> Buffer_write_at C offset v b = (Panic, b)"
  by (simp add: Buffer_write_at_def)

lemma write_eq: "Buffer_write C v b = (Ok (size_with C), b\<lparr>inner := inner b @ pod_bytes C v\<rparr>)"
  by (simp add: Buffer_write_def write_at_eq put_slice_def)

lemma alloc_with_val_eq:
  "MemoryWriter_alloc_with_val C v b =
     (Ok \<lparr>mw_position = word_of_nat (length (inner b)), mw_size = size_with C\<rparr>,
      b\<lparr>inner := inner b @ pod_bytes C v\<rparr>)"
  by (simp add: MemoryWriter_alloc_with_val_def comp_simps write_eq Buffer_position_def)

lemma alloc_eq:
  "MemoryWriter_alloc C b =
     (Ok \<lparr>mw_position = word_of_nat (length (inner b)), mw_size = size_with C\<rparr>,
      b\<lparr>inner := inner b @ replicate (size_with C) 0\<rparr>)"
  by (simp add: MemoryWriter_alloc_def comp_simps Buffer_reserve_def resize_grow Let_def)

lemma set_value_eq:
  "unat (mw_position w) \<le> length (inner b) \<Longrightarrow>
   MemoryWriter_set_value C w v b =
     (Ok (), b\<lparr>inner := put_slice (inner b) (unat (mw_position w)) (pod_bytes C v)\<rparr>)"
  by (simp add: MemoryWriter_set_value_def comp_simps write_at_eq)

lemma set_value_at_eq:
  "unat (maw_position w) + size_with C * i \<le> length (inner b) \<Longrightarrow>
   MemoryArrayWriter_set_value_at C w v i b =
     (Ok (), b\<lparr>inner := put_slice (inner b) (unat (maw_position w) + size_with C * i) (pod_bytes C v)\<rparr>)"
  by (simp add: MemoryArrayWriter_set_value_at_def comp_simps write_at_eq)

lemma set_value_at_beyond:
  "length (inner b) < unat (maw_position w) + size_with C * i \<Longrightarrow>
   MemoryArrayWriter_set_value_at C w v i b = (Panic, b)"
  by (simp add: MemoryArrayWriter_set_value_at_def comp_simps write_at_beyond)

lemma alloc_array_eq:
  "MemoryArrayWriter_alloc_array C n b =
     (Ok \<lparr>maw_position = word_of_nat (length (inner b)), array_size = n\<rparr>,
      b\<lparr>inner := inner b @ replicate (n * size_with C) 0\<rparr>)"
  by (simp add: MemoryArrayWriter_alloc_array_def comp_simps Buffer_reserve_def resize_grow Let_def)

lemma length_concat_bytes: "length (concat (map (pod_bytes C) vs)) = length vs * size_with C"
  by (rule length_concat_const) (simp add: length_pod_bytes)

text \<open>
  Writing the elements one after the other into a reserved area of zeroes: after \<open>idx\<close>
  elements the area holds their encodings followed by the zeroes that are left.
\<close>

lemma write_enumerated_eq:
  "write_enumerated C (length pre) idx vs
     (b\<lparr>inner := pre @ concat (map (pod_bytes C) acc) @ replicate (length vs * size_with C) 0 @ post\<rparr>) =
   (Ok (), b\<lparr>inner := pre @ concat (map (pod_bytes C) (acc @ vs)) @ post\<rparr>)"
  if "idx = length acc"
  using that
proof (induction vs arbitrary: idx acc)
  case Nil
  then show ?case by (simp add: comp_simps)
next
  case (Cons v vs)
  let ?d = "concat (map (pod_bytes C) acc)"
  let ?z = "replicate (length vs * size_with C) 0 @ post"
  have off: "length pre + idx * size_with C = length (pre @ ?d)"
    using Cons.prems by (simp add: length_concat_bytes)
  have split: "pre @ ?d @ replicate (length (v # vs) * size_with C) 0 @ post =
      (pre @ ?d) @ replicate (size_with C) 0 @ ?z"
    by (simp add: replicate_add)
  have put: "put_slice ((pre @ ?d) @ replicate (size_with C) 0 @ ?z) (length (pre @ ?d)) (pod_bytes C v)
      = pre @ concat (map (pod_bytes C) (acc @ [v])) @ ?z"
    by (simp add: put_slice_def length_pod_bytes)
  have w: "Buffer_write_at C (length (pre @ ?d)) v
        (b\<lparr>inner := (pre @ ?d) @ replicate (size_with C) 0 @ ?z\<rparr>) =
      (Ok (size_with C), b\<lparr>inner := pre @ concat (map (pod_bytes C) (acc @ [v])) @ ?z\<rparr>)"
    by (subst write_at_eq) (simp_all add: put [simplified])
  have "write_enumerated C (length pre) idx (v # vs)
          (b\<lparr>inner := pre @ ?d @ replicate (length (v # vs) * size_with C) 0 @ post\<rparr>) =
        write_enumerated C (length pre) (Suc idx) vs
          (b\<lparr>inner := pre @ concat (map (pod_bytes C) (acc @ [v])) @ ?z\<rparr>)"
    unfolding split write_enumerated.simps off
    by (simp only: bindM_def map_errM_def w map_err.simps prod.case result.case)
  also have "\<dots> = (Ok (), b\<lparr>inner := pre @ concat (map (pod_bytes C) ((acc @ [v]) @ vs)) @ post\<rparr>)"
    by (rule Cons.IH) (simp add: Cons.prems)
  finally show ?case by simp
qed

lemma write_enumerated_fresh:
  "write_enumerated C (length (inner b)) 0 vs (b\<lparr>inner := inner b @ replicate (length vs * size_with C) 0\<rparr>)
   = (Ok (), b\<lparr>inner := inner b @ concat (map (pod_bytes C) vs)\<rparr>)"
  using write_enumerated_eq [where idx = 0 and acc = "[]" and pre = "inner b" and post = "[]"]
  by simp

lemma alloc_from_array_eq:
  "MemoryArrayWriter_alloc_from_array C vs b =
     (Ok \<lparr>maw_position = word_of_nat (length (inner b)), array_size = length vs\<rparr>,
      b\<lparr>inner := inner b @ concat (map (pod_bytes C) vs)\<rparr>)"
  by (simp add: MemoryArrayWriter_alloc_from_array_def comp_simps Buffer_reserve_def resize_grow
      write_enumerated_fresh Let_def)

lemma alloc_from_iter_eq:
  "MemoryArrayWriter_alloc_from_iter C vs b =
     (Ok \<lparr>maw_position = word_of_nat (length (inner b)), array_size = length vs\<rparr>,
      b\<lparr>inner := inner b @ concat (map (pod_bytes C) vs)\<rparr>)"
  by (simp add: MemoryArrayWriter_alloc_from_iter_def comp_simps Buffer_reserve_def resize_grow
      write_enumerated_fresh Let_def)

end

lemma pod_codec_fixed: "(\<And>v. length (f v) = n) \<Longrightarrow> pod_codec (fixed_pod n f)"
  by unfold_locales (simp_all add: fixed_pod_def pod_bytes_def put_slice_def)

interpretation u8c: pod_codec u8_pod
  unfolding u8_pod_def by (rule pod_codec_fixed) simp

interpretation u16c: pod_codec u16_pod
  unfolding u16_pod_def by (rule pod_codec_fixed) simp

interpretation u32c: pod_codec u32_pod
  unfolding u32_pod_def by (rule pod_codec_fixed) simp

interpretation u64c: pod_codec u64_pod
  unfolding u64_pod_def by (rule pod_codec_fixed) simp

section \<open>Strings\<close>

lemma write_letters_enumerated:
  "write_letters w i ls = write_enumerated u16_pod (unat (maw_position w)) i ls"
  by (induction ls arbitrary: i)
    (simp_all add: MemoryArrayWriter_set_value_at_def bindM_assoc mult.commute)

definition string_bytes :: "str \<Rightarrow> bytes" where
  "string_bytes text =
     le_bytes 4 (word_of_nat (length (encode_utf16 text) * 2) :: u32) @
     concat (map (le_bytes 2) (encode_utf16 text))"

lemma length_string_bytes: "length (string_bytes text) = 4 + 2 * length (encode_utf16 text)"
  using u16c.length_concat_bytes [of "encode_utf16 text"] by (simp add: string_bytes_def)

lemma write_string_to_location_eq:
  assumes "length (inner b) + 4 + 2 * length (encode_utf16 text) < 2 ^ 32"
  shows "write_string_to_location text b =
    (Ok \<lparr>data_size = word_of_nat (4 + 2 * length (encode_utf16 text)), rva = word_of_nat (length (inner b))\<rparr>,
     b\<lparr>inner := inner b @ string_bytes text\<rparr>)"
proof -
  let ?ls = "encode_utf16 text"
  let ?n = "word_of_nat (length ?ls * 2) :: u32"
  let ?b1 = "b\<lparr>inner := inner b @ le_bytes 4 ?n\<rparr>"
  have fill: "write_letters \<lparr>maw_position = word_of_nat (4 + length (inner b)), array_size = length ?ls\<rparr> 0 ?ls
      (?b1\<lparr>inner := inner ?b1 @ replicate (length ?ls * 2) 0\<rparr>) =
      (Ok (), ?b1\<lparr>inner := inner ?b1 @ concat (map (le_bytes 2) ?ls)\<rparr>)"
    using u16c.write_enumerated_fresh [of ?b1 ?ls] assms
    by (simp add: write_letters_enumerated add.commute del: of_nat_add of_nat_numeral)
  have sum: "(add_w (word_of_nat 4 :: u32) (word_of_nat (length ?ls * 2)) :: (u32, MemoryWriterError) result) =
      Ok (word_of_nat (4 + 2 * length ?ls))"
    using assms unat_u32_of_nat [of "length ?ls * 2"] by (simp add: add_w_def mult.commute)
  show ?thesis
    using assms fill sum
    by (simp add: write_string_to_location_def Let_def comp_simps u32c.alloc_with_val_eq
        u16c.alloc_array_eq MemoryWriter_location_def MemoryArrayWriter_location_def string_bytes_def
        add.commute del: of_nat_add of_nat_mult of_nat_numeral)
qed

text \<open>
  What a reader of the dump finds at a string location: the byte count as a little-endian
  \<open>u32\<close>, then that many bytes of UTF-16LE.
\<close>

fun le_nat :: "bytes \<Rightarrow> nat" where
  "le_nat [] = 0"
| "le_nat (b # bs) = unat b + 256 * le_nat bs"

fun u16_units :: "bytes \<Rightarrow> nat list" where
  "u16_units (a # b # r) = le_nat [a, b] # u16_units r"
| "u16_units _ = []"

definition read_string :: "bytes \<Rightarrow> nat \<Rightarrow> nat list option" where
  "read_string dump off =
     (let n = le_nat (take 4 (drop off dump)) in
      if off + 4 + n \<le> length dump then utf16_decode (u16_units (take n (drop (off + 4) dump))) else None)"

lemma le_bytes_Suc: "le_bytes (Suc n) w = ucast w # le_bytes n (drop_bit 8 w)"
  by (simp add: le_bytes_def upt_conv_Cons map_Suc_upt [symmetric] comp_def add.commute del: upt_Suc)

lemma le_nat_le_bytes: "le_nat (le_bytes n w) = unat w mod 256 ^ n"
proof (induction n arbitrary: w)
  case 0
  then show ?case by (simp add: le_bytes_def)
next
  case (Suc n)
  have "unat (ucast w :: u8) = unat w mod 256"
    by (simp add: unsigned_ucast_eq take_bit_eq_mod)
  moreover have "unat (drop_bit 8 w) = unat w div 256"
    using unsigned_drop_bit_eq [of 8 w, where 'a = nat] by (simp add: drop_bit_eq_div take_bit_nat_eq_self)
  ultimately show ?case
    by (simp add: le_bytes_Suc Suc.IH mod_mult2_eq)
qed

lemma le_nat_less: "le_nat bs < 256 ^ length bs"
proof (induction bs)
  case (Cons b bs)
  then have "256 * le_nat bs + 256 \<le> 256 * 256 ^ length bs" by simp
  moreover have "unat b < 256" using unsigned_less [of b, where 'a = nat] by simp
  ultimately show ?case by simp
qed simp

lemma base256_inject:
  fixes x y a b :: nat
  assumes "x < 256" and "y < 256"
  shows "x + 256 * a = y + 256 * b \<longleftrightarrow> x = y \<and> a = b"
proof
  assume eq: "x + 256 * a = y + 256 * b"
  with assms have "x = y" by (metis mod_less mod_mult_self2)
  with eq show "x = y \<and> a = b" by simp
qed simp

lemma le_nat_inject: "length xs = length ys \<Longrightarrow> le_nat xs = le_nat ys \<longleftrightarrow> xs = ys"
proof (induction xs ys rule: list_induct2)
  case (Cons x xs y ys)
  have "unat x < 256" "unat y < 256"
    using unsigned_less [of x, where 'a = nat] unsigned_less [of y, where 'a = nat] by simp_all
  then have "le_nat (x # xs) = le_nat (y # ys) \<longleftrightarrow> unat x = unat y \<and> le_nat xs = le_nat ys"
    by (simp add: base256_inject)
  with Cons show ?case by (simp add: word_unat_eq_iff)
qed simp

lemma le_bytes_le_nat:
  assumes "length bs = 8"
  shows "le_bytes 8 (word_of_nat (le_nat bs) :: u64) = bs"
proof -
  have "le_nat bs < 2 ^ 64" using le_nat_less [of bs] assms by simp
  then have "unat (word_of_nat (le_nat bs) :: u64) = le_nat bs" by (intro unat_of_nat_less) simp
  with \<open>le_nat bs < 2 ^ 64\<close> assms show ?thesis
    using le_nat_inject [of "le_bytes 8 (word_of_nat (le_nat bs) :: u64)" bs] by (simp add: le_nat_le_bytes)
qed

lemma le_nat_u32: "le_nat (le_bytes 4 (w :: u32)) = unat w"
  using unsigned_less [of w, where 'a = nat] by (simp add: le_nat_le_bytes)

lemma le_nat_u16: "le_nat (le_bytes 2 (w :: u16)) = unat w"
  using unsigned_less [of w, where 'a = nat] by (simp add: le_nat_le_bytes)

lemma u16_units_concat: "u16_units (concat (map (le_bytes 2) ls)) = map unat (ls :: u16 list)"
proof (induction ls)
  case Nil
  then show ?case by simp
next
  case (Cons l ls)
  have "le_bytes 2 l = [ucast l, ucast (drop_bit 8 l)]"
    by (simp add: numeral_2_eq_2 le_bytes_Suc le_bytes_def)
  with Cons le_nat_u16 [of l] show ?case by simp
qed

section \<open>Properties\<close>

lemma read_string_written:
  assumes "valid_str text" and "2 * length (encode_utf16 text) < 2 ^ 32"
  shows "read_string (pre @ string_bytes text @ post) (length pre) = Some (str_chars text)"
proof -
  let ?ls = "encode_utf16 text"
  have n: "le_nat (take 4 (drop (length pre) (pre @ string_bytes text @ post))) = 2 * length ?ls"
    using assms(2) unat_of_nat_less [of "length ?ls * 2", where 'w = 32]
    by (simp add: string_bytes_def le_nat_u32 mult.commute del: of_nat_mult)
  have "take (2 * length ?ls) (concat (map (le_bytes 2) ?ls) @ post) = concat (map (le_bytes 2) ?ls)"
    using u16c.length_concat_bytes [of ?ls] by simp
  then show ?thesis
    using n assms(1) length_string_bytes [of "text"]
    by (simp add: read_string_def string_bytes_def u16_units_concat utf16_decode_encode)
qed

text \<open>
  The loop of a client that reserved an array and fills it: \<open>set_value_at\<close> for every index.
\<close>

fun fill_array :: "'a pod \<Rightarrow> MemoryArrayWriter \<Rightarrow> nat \<Rightarrow> 'a list \<Rightarrow> (Buffer, unit, MemoryWriterError) comp" where
  "fill_array C w i [] = ret ()"
| "fill_array C w i (v # vs) = bindM (MemoryArrayWriter_set_value_at C w v i) (\<lambda>_. fill_array C w (Suc i) vs)"

lemma fill_array_enumerated: "fill_array C w i vs = write_enumerated C (unat (maw_position w)) i vs"
  by (induction vs arbitrary: i)
    (simp_all add: MemoryArrayWriter_set_value_at_def bindM_assoc mult.commute)

text \<open>
  C14. Reserving an array and filling its slots in order gives the same buffer and the same
  array writer as \<open>alloc_from_array\<close> on all values at once, provided the array starts below
  the 4 GiB that its 32-bit position can express.
\<close>

theorem reserve_then_fill:
  assumes "pod_codec C" and "length (inner b) < 2 ^ 32"
  shows "bindM (MemoryArrayWriter_alloc_array C (length vs))
      (\<lambda>w. bindM (fill_array C w 0 vs) (\<lambda>_. ret w)) b = MemoryArrayWriter_alloc_from_array C vs b"
  using assms(2) pod_codec.write_enumerated_fresh [OF assms(1), of b vs]
  by (simp add: bindM_def ret_def fill_array_enumerated pod_codec.alloc_array_eq [OF assms(1)]
      pod_codec.alloc_from_array_eq [OF assms(1)])

theorem reserve_then_fill_witness:
  "bindM (MemoryArrayWriter_alloc_array u16_pod (length [258, 772 :: u16]))
      (\<lambda>w. bindM (fill_array u16_pod w 0 [258, 772]) (\<lambda>_. ret w)) \<lparr>inner = [9]\<rparr> =
   (Ok \<lparr>maw_position = 1, array_size = 2\<rparr>, \<lparr>inner = [9, 2, 1, 4, 3]\<rparr>)"
proof -
  have "MemoryArrayWriter_alloc_from_array u16_pod [258, 772] \<lparr>inner = [9]\<rparr> =
      (Ok \<lparr>maw_position = 1, array_size = 2\<rparr>, \<lparr>inner = [9, 2, 1, 4, 3]\<rparr>)"
    by code_simp
  then show ?thesis
    using reserve_then_fill [OF u16c.pod_codec_axioms, of "\<lparr>inner = [9]\<rparr>" "[258, 772]"] by simp
qed

text \<open>
  A slot of an array is written in isolation: \<open>set_value_at\<close> at index \<open>i\<close> of a
  reserved array replaces the bytes of slot \<open>i\<close> by the encoding of the value, keeps the
  length of the buffer and leaves every byte outside that slot as it was.
\<close>

theorem set_value_at_isolated:
  assumes "pod_codec C" and "i < array_size w"
    and "unat (maw_position w) + array_size w * size_with C \<le> length (inner b)"
  defines "p \<equiv> unat (maw_position w) + size_with C * i"
  shows "\<exists>b'. MemoryArrayWriter_set_value_at C w v i b = (Ok (), b') \<and>
    length (inner b') = length (inner b) \<and>
    take (size_with C) (drop p (inner b')) = pod_bytes C v \<and>
    (\<forall>k < length (inner b). k < p \<or> p + size_with C \<le> k \<longrightarrow> inner b' ! k = inner b ! k)"
proof -
  have "Suc i * size_with C \<le> array_size w * size_with C" using assms(2) by (intro mult_le_mono1) simp
  then have p: "p + size_with C \<le> length (inner b)"
    using assms(3) by (simp add: p_def mult.commute)
  then show ?thesis
    using pod_codec.set_value_at_eq [OF assms(1), of w i b v] pod_codec.length_pod_bytes [OF assms(1)]
      put_slice_slice [of p "pod_bytes C v" "inner b"]
    by (auto simp: p_def [symmetric] length_put_slice nth_put_slice)
qed

theorem set_value_at_isolated_witness:
  "\<exists>b'. MemoryArrayWriter_set_value_at u16_pod \<lparr>maw_position = 1, array_size = 2\<rparr> 772 1 \<lparr>inner = [9, 0, 0, 0, 0, 5]\<rparr> = (Ok (), b') \<and>
    length (inner b') = 6 \<and> take 2 (drop 3 (inner b')) = [4, 3]"
proof -
  have "le_bytes 2 (772 :: u16) = [4, 3]" by code_simp
  then show ?thesis
    using set_value_at_isolated [OF u16c.pod_codec_axioms, of 1 "\<lparr>maw_position = 1, array_size = 2\<rparr>"
        "\<lparr>inner = [9, 0, 0, 0, 0, 5]\<rparr>" 772] by (auto simp: numeral_3_eq_3)
qed

text \<open>
  Positions are exact up to 4 GiB and never beyond: the position kept by a slot that
  \<open>alloc_with_val\<close> returned is the offset at which the value was written if and only if
  the buffer was shorter than \<open>2^32\<close> bytes. (Past that the stored position wraps, and
  a later \<open>set_value\<close> overwrites the head of the dump.)
\<close>

theorem alloc_position_exact:
  assumes "pod_codec C" and "MemoryWriter_alloc_with_val C v b = (Ok w, b')"
  shows "take (size_with C) (drop (length (inner b)) (inner b')) = pod_bytes C v \<and>
    (unat (mw_position w) = length (inner b) \<longleftrightarrow> length (inner b) < 2 ^ 32)"
proof -
  have "length (inner b) < 2 ^ 32" if "unat (word_of_nat (length (inner b)) :: u32) = length (inner b)"
    using that unsigned_less [of "word_of_nat (length (inner b)) :: u32", where 'a = nat] by simp
  with assms(2) show ?thesis
    by (auto simp: pod_codec.alloc_with_val_eq [OF assms(1)] pod_codec.length_pod_bytes [OF assms(1)])
qed

theorem alloc_position_exact_witness:
  "unat (mw_position \<lparr>mw_position = 0, mw_size = 4\<rparr>) \<noteq> length (replicate (2 ^ 32) (0 :: u8))"
proof -
  have "MemoryWriter_alloc_with_val u32_pod 7 \<lparr>inner = replicate (2 ^ 32) 0\<rparr> =
      (Ok \<lparr>mw_position = 0, mw_size = 4\<rparr>, \<lparr>inner = replicate (2 ^ 32) 0 @ le_bytes 4 (7 :: u32)\<rparr>)"
    by (simp add: u32c.alloc_with_val_eq word_of_nat_eq_0_iff)
  from alloc_position_exact [OF u32c.pod_codec_axioms this] show ?thesis by simp
qed

text \<open>
  C13. A string written to the dump is read back as it was: after \<open>write_string_to_location\<close>
  the location it returned holds the byte count and the UTF-16LE units of exactly the scalar
  values of the text, whatever is appended to the buffer later, the earlier contents of the
  buffer are untouched, and the location covers exactly the bytes that were added.
\<close>

theorem write_string_roundtrip:
  assumes "valid_str text"
    and "length (inner b) + 4 + 2 * length (encode_utf16 text) < 2 ^ 32"
  shows "\<exists>loc b'. write_string_to_location text b = (Ok loc, b') \<and>
    (\<forall>more. read_string (inner b' @ more) (unat (rva loc)) = Some (str_chars text)) \<and>
    prefix (inner b) (inner b') \<and>
    length (inner b') = unat (rva loc) + unat (data_size loc)"
proof -
  have "read_string (inner b @ string_bytes text @ more) (length (inner b)) = Some (str_chars text)" for more
    using assms by (intro read_string_written) simp_all
  moreover have "unat (word_of_nat (length (inner b)) :: u32) = length (inner b)"
    and "unat (word_of_nat (4 + 2 * length (encode_utf16 text)) :: u32) = 4 + 2 * length (encode_utf16 text)"
    using assms(2) by (auto intro!: unat_of_nat_less simp del: of_nat_add)
  ultimately show ?thesis
    using write_string_to_location_eq [OF assms(2)] length_string_bytes [of "text"]
    by (simp del: of_nat_add of_nat_mult)
qed

theorem write_string_roundtrip_witness:
  "\<exists>loc b'. write_string_to_location ''libc.so'' \<lparr>inner = [1, 2, 3]\<rparr> = (Ok loc, b') \<and>
    (\<forall>more. read_string (inner b' @ more) (unat (rva loc)) = Some (str_chars ''libc.so'')) \<and>
    prefix [1, 2, 3] (inner b') \<and>
    length (inner b') = unat (rva loc) + unat (data_size loc)"
proof -
  have "valid_str ''libc.so''"
    by (simp add: valid_str_def str_bytes_def utf8_valid.simps)
  moreover have "length [1, 2, 3 :: u8] + 4 + 2 * length (encode_utf16 ''libc.so'') < 2 ^ 32"
    by (simp add: encode_utf16_def str_chars_def str_bytes_def utf16_units_def)
  ultimately show ?thesis
    using write_string_roundtrip [of "''libc.so''" "\<lparr>inner = [1, 2, 3]\<rparr>"] by simp
qed

text \<open>
  A string whose UTF-16 byte count does not fit a \<open>u32\<close> is refused before anything is
  written: the error is \<open>TryFromIntError\<close> and the buffer is unchanged.
\<close>

theorem write_string_too_long:
  assumes "2 ^ 32 \<le> 2 * length (encode_utf16 text)"
  shows "write_string_to_location text b = (Err MemoryWriterError_TryFromIntError, b)"
  using assms by (simp add: write_string_to_location_def comp_simps Let_def)

lemma length_encode_utf16_ascii: "length (encode_utf16 (replicate n CHR ''a'')) = n"
  by (induction n) (simp_all add: encode_utf16_def str_chars_def str_bytes_def utf16_units_def)

theorem write_string_too_long_witness:
  "write_string_to_location (replicate (2 ^ 31) CHR ''a'') \<lparr>inner = []\<rparr> =
     (Err MemoryWriterError_TryFromIntError, \<lparr>inner = []\<rparr>)"
  by (rule write_string_too_long) (simp only: length_encode_utf16_ascii, simp)

end
