(* ===== verification/Dir_Section.thy ===== *)
theory Dir_Section
  imports Mem_Writer
begin

text \<open>
  \<open>src/src/dir_section.rs\<close>: the stream directory at the head of the dump and the
  incremental copy of the in-memory buffer to the output.

  The output type \<open>W: Write + Seek\<close> is the record \<open>write_seek\<close> of its three
  operations; the locale \<open>write_seek_laws\<close> states what the standard library documents of them,
  failures included. \<open>out_file\<close> is an output whose every call may fail as its
  \<open>faults\<close> say, and satisfies the contract.
\<close>

section \<open>Outputs\<close>

record 'w write_seek =
  stream_position :: "('w, u64, io_error) comp"
  seek_start :: "u64 \<Rightarrow> ('w, u64, io_error) comp"
  write_all :: "bytes \<Rightarrow> ('w, unit, io_error) comp"

text \<open>Bytes written at a position, with the gap of a seek past the end filled with zeroes.\<close>

definition put_at :: "bytes \<Rightarrow> nat \<Rightarrow> bytes \<Rightarrow> bytes" where
  "put_at c p bs = (if bs = [] then c else put_slice (resize c (max p (length c)) 0) p bs)"

locale write_seek_laws =
  fixes W :: "'w write_seek"
    and content :: "'w \<Rightarrow> bytes"
    and cursor :: "'w \<Rightarrow> nat"
  assumes position_law:
      "stream_position W w = (r, w') \<Longrightarrow>
         content w' = content w \<and> cursor w' = cursor w \<and> r \<noteq> Panic \<and>
         (\<forall>p. r = Ok p \<longrightarrow> cursor w < 2 ^ 64 \<and> p = word_of_nat (cursor w))"
    and seek_law:
      "seek_start W n w = (r, w') \<Longrightarrow>
         content w' = content w \<and> r \<noteq> Panic \<and> (\<forall>p. r = Ok p \<longrightarrow> cursor w' = unat n)"
    and write_law:
      "write_all W bs w = (q, w') \<Longrightarrow> q \<noteq> Panic \<and>
         (q = Ok () \<longrightarrow> content w' = put_at (content w) (cursor w) bs \<and> cursor w' = cursor w + length bs) \<and>
         (\<forall>e. q = Err e \<longrightarrow> (\<exists>n \<le> length bs. content w' = put_at (content w) (cursor w) (take n bs)))"

record out_file =
  file_bytes :: bytes
  file_pos :: nat
  faults :: "(io_error \<times> nat) option list"

definition next_fault :: "out_file \<Rightarrow> (io_error \<times> nat) option \<times> out_file" where
  "next_fault f = (case faults f of [] \<Rightarrow> (None, f) | x # xs \<Rightarrow> (x, f\<lparr>faults := xs\<rparr>))"

definition out_file_ops :: "out_file write_seek" where
  "out_file_ops =
     \<lparr>stream_position = (\<lambda>f. case next_fault f of
          (Some (e, _), f') \<Rightarrow> (Err e, f')
        | (None, f') \<Rightarrow> (if file_pos f < 2 ^ 64 then Ok (word_of_nat (file_pos f)) else Err (OsError 75), f')),
      seek_start = (\<lambda>n f. case next_fault f of
          (Some (e, _), f') \<Rightarrow> (Err e, f')
        | (None, f') \<Rightarrow> (Ok n, f'\<lparr>file_pos := unat n\<rparr>)),
      write_all = (\<lambda>bs f. case next_fault f of
          (Some (e, n), f') \<Rightarrow>
            (Err e, f'\<lparr>file_bytes := put_at (file_bytes f) (file_pos f) (take n bs),
                       file_pos := file_pos f + min n (length bs)\<rparr>)
        | (None, f') \<Rightarrow>
            (Ok (), f'\<lparr>file_bytes := put_at (file_bytes f) (file_pos f) bs,
                       file_pos := file_pos f + length bs\<rparr>))\<rparr>"

lemma next_fault_cases:
  obtains fs where "next_fault f = (None, f\<lparr>faults := fs\<rparr>)"
        | e n fs where "next_fault f = (Some (e, n), f\<lparr>faults := fs\<rparr>)"
proof (cases "faults f")
  case Nil
  then have "next_fault f = (None, f\<lparr>faults := []\<rparr>)" by (cases f) (simp add: next_fault_def)
  then show ?thesis by (rule that(1))
next
  case (Cons x xs)
  then show ?thesis using that by (cases x) (auto simp: next_fault_def)
qed

interpretation outf: write_seek_laws out_file_ops file_bytes file_pos
proof (unfold_locales, goal_cases)
  case (1 w r w')
  then show ?case by (cases w rule: next_fault_cases) (auto simp: out_file_ops_def split: if_splits)
next
  case (2 n w r w')
  then show ?case by (cases w rule: next_fault_cases) (auto simp: out_file_ops_def)
next
  case (3 bs w q w')
  then show ?case
  proof (cases w rule: next_fault_cases)
    case (2 e n fs)
    then have "file_bytes w' = put_at (file_bytes w) (file_pos w) (take (min n (length bs)) bs)"
      using 3 by (auto simp: out_file_ops_def min_def)
    then show ?thesis using 2 3 by (auto simp: out_file_ops_def intro: exI [of _ "min n (length bs)"])
  qed (auto simp: out_file_ops_def)
qed

section \<open>The directory section\<close>

datatype FileWriterError =
    FileWriterError_IOError io_error
  | FileWriterError_MemoryWriterError MemoryWriterError

record MDRawDirectory =
  stream_type :: u32
  location :: MDLocationDescriptor

record 'w DirSection =
  curr_idx :: nat
  dir_array :: MemoryArrayWriter
  destination_start_offset :: u64
  destination :: 'w
  last_position_written_to_file :: u64

definition DirSection_new ::
    "'w write_seek \<Rightarrow> MDRawDirectory pod \<Rightarrow> u32 \<Rightarrow> ('w \<times> Buffer, 'w DirSection, FileWriterError) comp" where
  "DirSection_new W D index_length =
     bindM (map_errM FileWriterError_MemoryWriterError
              (on_snd (MemoryArrayWriter_alloc_array D (unat index_length))))
       (\<lambda>dir_section. bindM (map_errM FileWriterError_IOError (on_fst (stream_position W)))
       (\<lambda>start. bindM (getM fst)
       (\<lambda>dest. ret \<lparr>curr_idx = 0, dir_array = dir_section, destination_start_offset = start,
                    destination = dest, last_position_written_to_file = 0\<rparr>)))"

definition DirSection_position :: "'w DirSection \<Rightarrow> u32" where
  "DirSection_position self = maw_position (dir_array self)"

definition on_destination :: "('w, 'a, io_error) comp \<Rightarrow> ('w DirSection \<times> Buffer, 'a, FileWriterError) comp" where
  "on_destination m p =
     (case m (destination (fst p)) of
        (r, w') \<Rightarrow> (map_err FileWriterError_IOError r, ((fst p)\<lparr>destination := w'\<rparr>, snd p)))"

text \<open>The slices \<open>buffer[start..end]\<close> and \<open>buffer[start..]\<close>; out of range they panic.\<close>

definition slice_range :: "nat \<Rightarrow> nat \<Rightarrow> 'a list \<Rightarrow> ('a list, 'e) result" where
  "slice_range i j xs = (if i \<le> j \<and> j \<le> length xs then Ok (take (j - i) (drop i xs)) else Panic)"

definition slice_from :: "nat \<Rightarrow> 'a list \<Rightarrow> ('a list, 'e) result" where
  "slice_from i xs = (if i \<le> length xs then Ok (drop i xs) else Panic)"

definition DirSection_dump_dir_entry ::
    "'w write_seek \<Rightarrow> MDRawDirectory pod \<Rightarrow> MDRawDirectory \<Rightarrow> ('w DirSection \<times> Buffer, unit, FileWriterError) comp" where
  "DirSection_dump_dir_entry W D dirent =
     bindM (getM fst)
       (\<lambda>self. bindM (map_errM FileWriterError_MemoryWriterError
                        (on_snd (MemoryArrayWriter_set_value_at D (dir_array self) dirent (curr_idx self))))
       (\<lambda>_. bindM (on_destination (stream_position W))
       (\<lambda>curr_file_pos. bindM (lift_result (MemoryArrayWriter_location_of_index D (dir_array self) (curr_idx self)))
       (\<lambda>idx_pos. bindM (modifyM (\<lambda>(d, b). (d\<lparr>curr_idx := curr_idx d + 1\<rparr>, b)))
       (\<lambda>_. bindM (lift_result (add_w (destination_start_offset self) (ucast (rva idx_pos))))
       (\<lambda>target. bindM (on_destination (seek_start W target))
       (\<lambda>_. bindM (lift_result (add_w (rva idx_pos) (data_size idx_pos)))
       (\<lambda>stop. bindM (getM snd)
       (\<lambda>buffer. bindM (lift_result (slice_range (unat (rva idx_pos)) (unat stop) (inner buffer)))
       (\<lambda>bs. bindM (on_destination (write_all W bs))
       (\<lambda>_. bindM (on_destination (seek_start W curr_file_pos))
       (\<lambda>_. ret ()))))))))))))"

definition DirSection_write_to_file ::
    "'w write_seek \<Rightarrow> MDRawDirectory pod \<Rightarrow> MDRawDirectory option \<Rightarrow> ('w DirSection \<times> Buffer, unit, FileWriterError) comp" where
  "DirSection_write_to_file W D dirent =
     bindM (case dirent of Some d \<Rightarrow> DirSection_dump_dir_entry W D d | None \<Rightarrow> ret ())
       (\<lambda>_. bindM (getM id)
       (\<lambda>(self, buffer).
          bindM (lift_result (slice_from (unat (last_position_written_to_file self)) (inner buffer)))
       (\<lambda>bs. bindM (on_destination (write_all W bs))
       (\<lambda>_. modifyM (\<lambda>(d, b). (d\<lparr>last_position_written_to_file := Buffer_position b\<rparr>, b))))))"

section \<open>The copy on the output mirrors the buffer\<close>

lemma drop_put_at: "drop s (put_at c (s + o') bs) = put_at (drop s c) o' bs"
  by (auto simp: put_at_def put_slice_def resize_def max_def min_def drop_take ac_simps)

lemma take_put_at: "s \<le> length c \<Longrightarrow> take s (put_at c (s + o') bs) = take s c"
  by (auto simp: put_at_def put_slice_def resize_def max_def min_def)

lemma take_put_at_same:
  assumes eq: "take l v = take l buf" and l: "l \<le> length buf" and o': "o' \<le> length buf"
  shows "take l (put_at v o' bs) = take l (put_slice buf o' bs)"
proof (cases "bs = []")
  case True
  with eq show ?thesis by (simp add: put_at_def put_slice_def)
next
  case False
  let ?v = "resize v (max o' (length v)) 0"
  have lv: "l \<le> length v" using eq l by (metis length_take min.absorb_iff2 min.commute)
  have len: "o' \<le> length ?v" "l \<le> length ?v" using lv by auto
  have le: "l \<le> length (put_slice ?v o' bs)" "l \<le> length (put_slice buf o' bs)"
    using len l o' by (auto simp: put_slice_def)
  have "put_slice ?v o' bs ! i = put_slice buf o' bs ! i" if "i < l" for i
  proof -
    have "?v ! i = v ! i" using that lv by (simp add: resize_def nth_append)
    also have "\<dots> = buf ! i" using eq that by (metis nth_take)
    finally show ?thesis using that len l o' by (simp add: nth_put_slice)
  qed
  with le False show ?thesis by (auto simp: put_at_def intro!: nth_take_lemma)
qed

lemma put_at_rest:
  assumes "take l v = take l buf" and "l \<le> length buf"
  shows "take (length buf) (put_at v l (drop l buf)) = buf"
proof (cases "drop l buf = []")
  case True
  with assms show ?thesis by (simp add: put_at_def)
next
  case False
  have "l \<le> length v" using assms by (metis length_take min.absorb_iff2 min.commute)
  with False assms show ?thesis
    by (simp add: put_at_def put_slice_def resize_def)
qed

lemma le_length_put_at: "n \<le> length c \<Longrightarrow> n \<le> length (put_at c p bs)"
  by (auto simp: put_at_def put_slice_def)

lemma slice_of_take_eq:
  assumes "take l xs = take l ys" and "i + n \<le> l"
  shows "take n (drop i xs) = take n (drop i ys)"
proof -
  have "take n (drop i (take l xs)) = take n (drop i xs)" for xs :: "'a list"
    using assms(2) by (simp add: drop_take)
  with assms(1) show ?thesis by metis
qed

lemma put_slice_before:
  "i + n \<le> o' \<Longrightarrow> o' \<le> length xs \<Longrightarrow> take n (drop i (put_slice xs o' ys)) = take n (drop i xs)"
  by (simp add: put_slice_def drop_take)

definition mirrors :: "('w \<Rightarrow> bytes) \<Rightarrow> ('w \<Rightarrow> nat) \<Rightarrow> 'w DirSection \<times> Buffer \<Rightarrow> bool" where
  "mirrors content cursor = (\<lambda>(d, b).
     let s = unat (destination_start_offset d); l = unat (last_position_written_to_file d) in
     l \<le> length (inner b) \<and> cursor (destination d) = s + l \<and>
     take l (drop s (content (destination d))) = take l (inner b))"

definition entry_offset :: "MDRawDirectory pod \<Rightarrow> 'w DirSection \<Rightarrow> nat" where
  "entry_offset D d = unat (maw_position (dir_array d)) + size_with D * curr_idx d"

lemma on_destination_OkE:
  assumes "on_destination m (d, b) = (Ok x, t)"
  obtains w' where "m (destination d) = (Ok x, w')" and "t = (d\<lparr>destination := w'\<rparr>, b)"
  using assms by (auto simp: on_destination_def split: prod.splits)

lemma on_snd_OkE:
  assumes "on_snd m (s, t) = (Ok x, u)"
  obtains t' where "m t = (Ok x, t')" and "u = (s, t')"
  using assms by (auto simp: on_snd_def split: prod.splits)

lemma lift_result_OkE:
  assumes "lift_result r s = (Ok x, t)"
  obtains "r = Ok x" and "t = s"
  using assms by (simp add: lift_result_def)

text \<open>An output together with a lawful codec for directory entries.\<close>

locale dir_output = write_seek_laws W content cursor + pod_codec D
  for W :: "'w write_seek" and content :: "'w \<Rightarrow> bytes" and cursor :: "'w \<Rightarrow> nat"
    and D :: "MDRawDirectory pod"
begin

lemma dump_dir_entry_buffer:
  assumes run: "DirSection_dump_dir_entry W D e (d, b) = (Ok (), (d', b'))"
  shows "entry_offset D d \<le> length (inner b)"
    and "b' = b\<lparr>inner := put_slice (inner b) (entry_offset D d) (pod_bytes D e)\<rparr>"
proof -
  have "\<exists>b1. MemoryArrayWriter_set_value_at D (dir_array d) e (curr_idx d) b = (Ok (), b1) \<and> b' = b1"
    using run unfolding DirSection_dump_dir_entry_def
    by (auto simp: getM_def modifyM_def ret_def
        elim!: bindM_OkE map_errM_OkE on_snd_OkE on_destination_OkE lift_result_OkE)
  moreover from this show o': "entry_offset D d \<le> length (inner b)"
    by (cases "entry_offset D d \<le> length (inner b)")
      (auto simp: entry_offset_def set_value_at_beyond)
  ultimately show "b' = b\<lparr>inner := put_slice (inner b) (entry_offset D d) (pod_bytes D e)\<rparr>"
    using set_value_at_eq [of "dir_array d" "curr_idx d" b e] by (simp add: entry_offset_def)
qed

lemma entry_location:
  assumes "entry_offset D d + size_with D < 2 ^ 32"
  shows "(MemoryArrayWriter_location_of_index D (dir_array d) (curr_idx d) :: (MDLocationDescriptor, 'e) result) =
           Ok \<lparr>data_size = word_of_nat (size_with D), rva = word_of_nat (entry_offset D d)\<rparr>"
    and "unat (word_of_nat (entry_offset D d) :: u32) = entry_offset D d"
    and "unat (word_of_nat (size_with D) :: u32) = size_with D"
proof -
  show o': "unat (word_of_nat (entry_offset D d) :: u32) = entry_offset D d"
    and "unat (word_of_nat (size_with D) :: u32) = size_with D"
    using assms by (simp_all add: unat_u32_of_nat)
  have "size_with D * curr_idx d < 2 ^ 32" using assms by (simp add: entry_offset_def)
  then have "unat (word_of_nat (size_with D * curr_idx d) :: u32) = size_with D * curr_idx d"
    by (intro unat_of_nat_less) simp
  with o' have "(add_w (maw_position (dir_array d)) (word_of_nat (size_with D * curr_idx d)) :: (u32, 'e) result)
      = Ok (word_of_nat (entry_offset D d))"
    by (simp only: add_w_Ok_iff) (simp add: entry_offset_def)
  then show "(MemoryArrayWriter_location_of_index D (dir_array d) (curr_idx d) :: (MDLocationDescriptor, 'e) result) =
           Ok \<lparr>data_size = word_of_nat (size_with D), rva = word_of_nat (entry_offset D d)\<rparr>"
    by (simp only: MemoryArrayWriter_location_of_index_def bindR.simps)
qed

lemma dump_dir_entry_dest:
  assumes run: "DirSection_dump_dir_entry W D e (d, b) = (Ok (), (d', b'))"
    and len: "length (inner b') < 2 ^ 32"
  shows "\<exists>w. d' = d\<lparr>curr_idx := curr_idx d + 1, destination := w\<rparr> \<and> cursor w = cursor (destination d) \<and>
           content w = put_at (content (destination d))
             (unat (destination_start_offset d) + entry_offset D d) (pod_bytes D e)"
proof -
  let ?o = "entry_offset D d"
  note buf = dump_dir_entry_buffer [OF run]
  have bound: "?o + size_with D \<le> length (inner b')"
    using buf by (simp add: put_slice_def length_pod_bytes)
  with len have o: "?o + size_with D < 2 ^ 32" by simp
  note loc = entry_location [OF o]
  have u: "unat (word_of_nat (?o + size_with D) :: u32) = ?o + size_with D"
    using o by (intro unat_of_nat_less) simp
  have stop: "add_w (word_of_nat ?o) (word_of_nat (size_with D)) = (Ok (word_of_nat (?o + size_with D)) :: (u32, FileWriterError) result)"
    by (simp only: add_w_Ok_iff u loc(2,3))
  have bs: "slice_range ?o (?o + size_with D) (inner b') = (Ok (pod_bytes D e) :: (bytes, FileWriterError) result)"
    using bound buf put_slice_slice [of ?o "pod_bytes D e" "inner b"]
    by (simp add: slice_range_def length_pod_bytes put_slice_def)
  obtain w1 p target w2 x w3 w4 y where
      1: "stream_position W (destination d) = (Ok p, w1)"
    and 2: "add_w (destination_start_offset d) (ucast (word_of_nat ?o :: u32)) = (Ok target :: (u64, FileWriterError) result)"
    and 3: "seek_start W target w1 = (Ok x, w2)"
    and 4: "write_all W (pod_bytes D e) w2 = (Ok (), w3)"
    and 5: "seek_start W p w3 = (Ok y, w4)"
    and 6: "d' = d\<lparr>curr_idx := curr_idx d + 1, destination := w4\<rparr>"
    using run buf(2) stop bs u
    unfolding DirSection_dump_dir_entry_def
    by (auto simp: getM_def modifyM_def ret_def loc simp del: of_nat_add
        elim!: bindM_OkE map_errM_OkE on_snd_OkE on_destination_OkE lift_result_OkE)
  have t: "unat target = unat (destination_start_offset d) + ?o"
    using 2 loc(2) o by (simp add: add_w_Ok_iff unsigned_ucast_eq take_bit_nat_eq_self)
  have "content w1 = content (destination d)" "cursor w1 = cursor (destination d)"
      "cursor (destination d) < 2 ^ 64" "p = word_of_nat (cursor (destination d))"
    using position_law [OF 1] by auto
  moreover have "content w2 = content w1" "cursor w2 = unat target"
    using seek_law [OF 3] by auto
  moreover have "content w3 = put_at (content w2) (cursor w2) (pod_bytes D e)"
    using write_law [OF 4] by simp
  moreover have "content w4 = content w3" "cursor w4 = unat p"
    using seek_law [OF 5] by auto
  ultimately show ?thesis using t 6 by (auto simp: unat_of_nat_less)
qed

lemma dump_dir_entry_mirrors:
  assumes m: "mirrors content cursor (d, b)"
    and run: "DirSection_dump_dir_entry W D e (d, b) = (Ok (), (d', b'))"
    and len: "length (inner b') < 2 ^ 32"
  shows "mirrors content cursor (d', b')"
proof -
  let ?s = "unat (destination_start_offset d)" and ?l = "unat (last_position_written_to_file d)"
  note buf = dump_dir_entry_buffer [OF run]
  obtain w where d': "d' = d\<lparr>curr_idx := curr_idx d + 1, destination := w\<rparr>"
    and cur: "cursor w = cursor (destination d)"
    and con: "content w = put_at (content (destination d)) (?s + entry_offset D d) (pod_bytes D e)"
    using dump_dir_entry_dest [OF run len] by blast
  have l: "?l \<le> length (inner b)"
    and eq: "take ?l (drop ?s (content (destination d))) = take ?l (inner b)"
    and pos: "cursor (destination d) = ?s + ?l"
    using m by (auto simp: mirrors_def Let_def)
  have "take ?l (drop ?s (content w)) = take ?l (inner b')"
    using take_put_at_same [OF eq l buf(1)] buf(2) by (simp add: con drop_put_at)
  moreover have "?l \<le> length (inner b')"
    using l buf by (simp add: put_slice_def)
  ultimately show ?thesis
    using pos cur by (simp add: mirrors_def Let_def d')
qed

lemma flush_mirrors:
  assumes m: "mirrors content cursor (d, b)"
    and wr: "write_all W (drop (unat (last_position_written_to_file d)) (inner b)) (destination d) = (Ok (), w)"
    and len: "length (inner b) < 2 ^ 64"
  shows "mirrors content cursor (d\<lparr>destination := w, last_position_written_to_file := Buffer_position b\<rparr>, b)"
proof -
  let ?s = "unat (destination_start_offset d)" and ?l = "unat (last_position_written_to_file d)"
  have l: "?l \<le> length (inner b)"
    and eq: "take ?l (drop ?s (content (destination d))) = take ?l (inner b)"
    and pos: "cursor (destination d) = ?s + ?l"
    using m by (auto simp: mirrors_def Let_def)
  have c: "content w = put_at (content (destination d)) (?s + ?l) (drop ?l (inner b))"
    and cur: "cursor w = ?s + length (inner b)"
    using write_law [OF wr] pos l by auto
  have n: "unat (Buffer_position b) = length (inner b)"
    using len by (simp add: Buffer_position_def unat_of_nat_less)
  show ?thesis
    using put_at_rest [OF eq l] by (simp add: mirrors_def Let_def n c cur drop_put_at)
qed

lemma write_to_file_mirrors:
  assumes m: "mirrors content cursor (d, b)"
    and run: "DirSection_write_to_file W D dirent (d, b) = (Ok (), (d', b'))"
    and len: "length (inner b') < 2 ^ 32"
  shows "mirrors content cursor (d', b')" and "last_position_written_to_file d' = Buffer_position b'"
proof -
  obtain d1 b1 where first: "(case dirent of Some e \<Rightarrow> DirSection_dump_dir_entry W D e | None \<Rightarrow> ret ()) (d, b)
        = (Ok (), (d1, b1))"
    and rest: "\<exists>bs w. slice_from (unat (last_position_written_to_file d1)) (inner b1) = (Ok bs :: (bytes, FileWriterError) result) \<and>
        write_all W bs (destination d1) = (Ok (), w) \<and> b' = b1 \<and>
        d' = d1\<lparr>destination := w, last_position_written_to_file := Buffer_position b1\<rparr>"
    using run unfolding DirSection_write_to_file_def
    by (auto simp: getM_def modifyM_def elim!: bindM_OkE on_destination_OkE lift_result_OkE)
  from rest len have len1: "length (inner b1) < 2 ^ 32" by auto
  have m1: "mirrors content cursor (d1, b1)"
    using first m dump_dir_entry_mirrors [OF m _ len1] by (cases dirent) (auto simp: ret_def)
  from rest obtain w where
      "write_all W (drop (unat (last_position_written_to_file d1)) (inner b1)) (destination d1) = (Ok (), w)"
    and eqs: "b' = b1" "d' = d1\<lparr>destination := w, last_position_written_to_file := Buffer_position b1\<rparr>"
    by (auto simp: slice_from_def split: if_splits)
  then show "mirrors content cursor (d', b')" and "last_position_written_to_file d' = Buffer_position b'"
    using flush_mirrors [OF m1] len1 by auto
qed

lemma write_to_file_buffer:
  assumes run: "DirSection_write_to_file W D dirent (d, b) = (Ok (), (d', b'))"
    and len: "length (inner b') < 2 ^ 32"
  shows "inner b' = (case dirent of None \<Rightarrow> inner b
                     | Some e \<Rightarrow> put_slice (inner b) (entry_offset D d) (pod_bytes D e))"
    and "dirent = Some e \<Longrightarrow> entry_offset D d \<le> length (inner b)"
    and "dir_array d' = dir_array d"
    and "destination_start_offset d' = destination_start_offset d"
    and "curr_idx d' = (case dirent of None \<Rightarrow> curr_idx d | Some _ \<Rightarrow> curr_idx d + 1)"
proof -
  obtain d1 w where first: "(case dirent of Some e \<Rightarrow> DirSection_dump_dir_entry W D e | None \<Rightarrow> ret ()) (d, b)
        = (Ok (), (d1, b'))"
    and d': "d' = d1\<lparr>destination := w, last_position_written_to_file := Buffer_position b'\<rparr>"
    using run unfolding DirSection_write_to_file_def
    by (auto simp: getM_def modifyM_def elim!: bindM_OkE on_destination_OkE lift_result_OkE)
  show "inner b' = (case dirent of None \<Rightarrow> inner b
                     | Some e \<Rightarrow> put_slice (inner b) (entry_offset D d) (pod_bytes D e))"
    and "dirent = Some e \<Longrightarrow> entry_offset D d \<le> length (inner b)"
    and "dir_array d' = dir_array d"
    and "destination_start_offset d' = destination_start_offset d"
    and "curr_idx d' = (case dirent of None \<Rightarrow> curr_idx d | Some _ \<Rightarrow> curr_idx d + 1)"
    using first d' dump_dir_entry_buffer [of _ d b d1 b'] dump_dir_entry_dest [of _ d b d1 b', OF _ len]
    by (cases dirent; fastforce simp: ret_def)+
qed

lemma write_to_file_before:
  assumes m: "mirrors content cursor (d, b)"
    and run: "DirSection_write_to_file W D dirent (d, b) = (Ok (), (d', b'))"
    and len: "length (inner b') < 2 ^ 32"
    and s: "unat (destination_start_offset d) \<le> length (content (destination d))"
  shows "unat (destination_start_offset d) \<le> length (content (destination d')) \<and>
    take (unat (destination_start_offset d)) (content (destination d')) =
      take (unat (destination_start_offset d)) (content (destination d))"
proof -
  let ?s = "unat (destination_start_offset d)"
  obtain d1 w bs where first: "(case dirent of Some e \<Rightarrow> DirSection_dump_dir_entry W D e | None \<Rightarrow> ret ()) (d, b)
        = (Ok (), (d1, b'))"
    and wr: "write_all W bs (destination d1) = (Ok (), w)" and d': "destination d' = w"
    using run unfolding DirSection_write_to_file_def
    by (auto simp: getM_def modifyM_def elim!: bindM_OkE on_destination_OkE lift_result_OkE)
  have cur: "\<exists>k. cursor (destination d) = ?s + k" using m by (auto simp: mirrors_def Let_def)
  have "cursor (destination d1) = cursor (destination d) \<and>
      ?s \<le> length (content (destination d1)) \<and>
      take ?s (content (destination d1)) = take ?s (content (destination d))"
  proof (cases dirent)
    case (Some e)
    with first dump_dir_entry_dest [OF _ len, of e d b d1] s show ?thesis
      by (auto simp: take_put_at intro: le_length_put_at)
  qed (use first s in \<open>simp add: ret_def\<close>)
  with cur write_law [OF wr] show ?thesis
    by (auto simp: d' take_put_at intro: le_length_put_at)
qed

end

section \<open>Runs of the directory section\<close>

text \<open>
  A client alternates between adding to the buffer, leaving what was already copied to the output
  as it is, and \<open>write_to_file\<close>. The list collects the entries that were dumped, in order.
\<close>

inductive dir_run ::
    "'w write_seek \<Rightarrow> MDRawDirectory pod \<Rightarrow> 'w DirSection \<times> Buffer \<Rightarrow> MDRawDirectory list \<Rightarrow>
     'w DirSection \<times> Buffer \<Rightarrow> bool"
  for W D s where
  run_start: "dir_run W D s [] s"
| run_append: "dir_run W D s es (d, b) \<Longrightarrow> length (inner b) \<le> length (inner b') \<Longrightarrow>
    take (unat (last_position_written_to_file d)) (inner b') =
      take (unat (last_position_written_to_file d)) (inner b) \<Longrightarrow>
    dir_run W D s es (d, b')"
| run_write: "dir_run W D s es (d, b) \<Longrightarrow>
    DirSection_write_to_file W D dirent (d, b) = (Ok (), (d', b')) \<Longrightarrow>
    dir_run W D s (es @ (case dirent of None \<Rightarrow> [] | Some e \<Rightarrow> [e])) (d', b')"

inductive_cases dir_run_NilE: "dir_run W D s [] t"

definition dir_slot :: "MDRawDirectory pod \<Rightarrow> MemoryArrayWriter \<Rightarrow> nat \<Rightarrow> bytes \<Rightarrow> bytes" where
  "dir_slot D arr i buf = take (size_with D) (drop (unat (maw_position arr) + size_with D * i) buf)"

context dir_output
begin

lemma write_length_mono:
  assumes "DirSection_write_to_file W D dirent (d, b) = (Ok (), (d', b'))" and "length (inner b') < 2 ^ 32"
  shows "length (inner b) \<le> length (inner b')"
  using write_to_file_buffer(1) [OF assms] by (auto simp: put_slice_def split: option.splits)

text \<open>The copy, the directory and the bytes before the dump, by induction on the run.\<close>

lemma run_mirrors:
  assumes "dir_run W D (d0, b0) es t" and "mirrors content cursor (d0, b0)"
    and "length (inner (snd t)) < 2 ^ 32"
  shows "mirrors content cursor t \<and> dir_array (fst t) = dir_array d0 \<and>
    destination_start_offset (fst t) = destination_start_offset d0 \<and>
    curr_idx (fst t) = curr_idx d0 + length es \<and> length (inner b0) \<le> length (inner (snd t))"
  using assms
proof (induction rule: dir_run.induct)
  case (run_append es d b b')
  then have ih: "mirrors content cursor (d, b)" by simp
  then have "unat (last_position_written_to_file d) \<le> length (inner b)"
    by (simp add: mirrors_def Let_def)
  with ih run_append.hyps have "mirrors content cursor (d, b')" by (simp add: mirrors_def Let_def)
  with run_append show ?case by simp
next
  case (run_write es d b dirent d' b')
  have mono: "length (inner b) \<le> length (inner b')" and len: "length (inner b') < 2 ^ 32"
    using write_length_mono [OF run_write.hyps(2)] run_write.prems by auto
  with run_write have "mirrors content cursor (d, b)" by simp
  from write_to_file_mirrors(1) [OF this run_write.hyps(2) len] write_to_file_buffer [OF run_write.hyps(2) len]
    mono len run_write show ?case by (auto split: option.splits)
qed simp

lemma run_before:
  assumes "dir_run W D (d0, b0) es t" and "mirrors content cursor (d0, b0)"
    and "length (inner (snd t)) < 2 ^ 32"
    and "unat (destination_start_offset d0) \<le> length (content (destination d0))"
  shows "unat (destination_start_offset d0) \<le> length (content (destination (fst t))) \<and>
    take (unat (destination_start_offset d0)) (content (destination (fst t))) =
      take (unat (destination_start_offset d0)) (content (destination d0))"
  using assms
proof (induction rule: dir_run.induct)
  case (run_write es d b dirent d' b')
  have len: "length (inner b') < 2 ^ 32" "length (inner b) < 2 ^ 32"
    using write_length_mono [OF run_write.hyps(2)] run_write.prems by auto
  with run_mirrors [OF run_write.hyps(1)] run_write.prems
  have "mirrors content cursor (d, b)" "destination_start_offset d = destination_start_offset d0" by auto
  with write_to_file_before [OF _ run_write.hyps(2) len(1)] run_write len show ?case by simp
qed simp_all

lemma run_slots:
  assumes "dir_run W D (d0, b0) es t" and "mirrors content cursor (d0, b0)"
    and "length (inner (snd t)) < 2 ^ 32" and "i < length es"
  shows "dir_slot D (dir_array d0) (curr_idx d0 + i) (inner (snd t)) = pod_bytes D (es ! i) \<and>
    unat (maw_position (dir_array d0)) + size_with D * (curr_idx d0 + i) + size_with D
      \<le> unat (last_position_written_to_file (fst t))"
  using assms
proof (induction arbitrary: i rule: dir_run.induct)
  case (run_append es d b b')
  then have "dir_slot D (dir_array d0) (curr_idx d0 + i) (inner b) = pod_bytes D (es ! i) \<and>
    unat (maw_position (dir_array d0)) + size_with D * (curr_idx d0 + i) + size_with D
      \<le> unat (last_position_written_to_file d)" by simp
  with slice_of_take_eq [OF run_append.hyps(3)] show ?case by (simp add: dir_slot_def)
next
  case (run_write es d b dirent d' b')
  have len: "length (inner b') < 2 ^ 32" "length (inner b) < 2 ^ 32" and mono: "length (inner b) \<le> length (inner b')"
    using write_length_mono [OF run_write.hyps(2)] run_write.prems by auto
  have m: "mirrors content cursor (d, b)" and arr: "dir_array d = dir_array d0"
    and idx: "curr_idx d = curr_idx d0 + length es"
    using run_mirrors [OF run_write.hyps(1)] run_write.prems len by auto
  have l': "unat (last_position_written_to_file d') = length (inner b')"
    using write_to_file_mirrors(2) [OF m run_write.hyps(2) len(1)] len(1)
    by (simp add: Buffer_position_def unat_of_nat_less)
  have l: "unat (last_position_written_to_file d) \<le> length (inner b)"
    using m by (simp add: mirrors_def Let_def)
  show ?case
  proof (cases "i < length es")
    case True
    with run_write.IH [OF run_write.prems(1) _ True] len
    have ih: "dir_slot D (dir_array d0) (curr_idx d0 + i) (inner b) = pod_bytes D (es ! i)"
      and le: "unat (maw_position (dir_array d0)) + size_with D * (curr_idx d0 + i) + size_with D \<le> length (inner b)"
      using l by auto
    have "size_with D * (curr_idx d0 + i) + size_with D \<le> size_with D * curr_idx d"
      using mult_le_mono2 [of "Suc (curr_idx d0 + i)" "curr_idx d" "size_with D"] True by (simp add: idx)
    then have "dir_slot D (dir_array d0) (curr_idx d0 + i) (inner b') = dir_slot D (dir_array d0) (curr_idx d0 + i) (inner b)"
      using write_to_file_buffer(1,2) [OF run_write.hyps(2) len(1)]
      by (auto simp: dir_slot_def entry_offset_def arr put_slice_before split: option.splits)
    with ih le l' mono True show ?thesis by (simp add: nth_append)
  next
    case False
    with run_write.prems(3) obtain e where e: "dirent = Some e" and i: "i = length es"
      by (cases dirent) (auto simp: less_Suc_eq)
    have o: "unat (maw_position (dir_array d0)) + size_with D * (curr_idx d0 + i) = entry_offset D d"
      by (simp add: entry_offset_def arr idx i)
    from write_to_file_buffer(1,2) [OF run_write.hyps(2) len(1)]
    have b': "inner b' = put_slice (inner b) (entry_offset D d) (pod_bytes D e)" and "entry_offset D d \<le> length (inner b)"
      by (auto simp: e)
    then show ?thesis
      unfolding o dir_slot_def by (simp add: l' i e put_slice_def length_pod_bytes)
  qed
qed simp

text \<open>What lies behind the directory is never touched again once it was copied.\<close>

lemma run_stable:
  assumes "dir_run W D (d0, b0) es t" and "mirrors content cursor (d0, b0)"
    and "length (inner (snd t)) < 2 ^ 32" and "curr_idx d0 + length es \<le> n"
  defines "k \<equiv> unat (maw_position (dir_array d0)) + size_with D * n"
  shows "unat (last_position_written_to_file d0) \<le> unat (last_position_written_to_file (fst t)) \<and>
    drop k (take (unat (last_position_written_to_file d0)) (inner (snd t))) =
    drop k (take (unat (last_position_written_to_file d0)) (inner b0))"
  using assms(1-4)
proof (induction rule: dir_run.induct)
  case (run_append es d b b')
  let ?l0 = "unat (last_position_written_to_file d0)"
  from run_append have le: "?l0 \<le> unat (last_position_written_to_file d)"
    and ih: "drop k (take ?l0 (inner b)) = drop k (take ?l0 (inner b0))" by auto
  have "take ?l0 (inner b') = take ?l0 (inner b)"
    using arg_cong [OF run_append.hyps(3), of "take ?l0"] le by (simp add: min_absorb1)
  with ih le show ?case by simp
next
  case (run_write es d b dirent d' b')
  let ?l0 = "unat (last_position_written_to_file d0)"
  have len: "length (inner b') < 2 ^ 32" "length (inner b) < 2 ^ 32" and mono: "length (inner b) \<le> length (inner b')"
    using write_length_mono [OF run_write.hyps(2)] run_write.prems by auto
  have m: "mirrors content cursor (d, b)" and arr: "dir_array d = dir_array d0"
    and idx: "curr_idx d = curr_idx d0 + length es"
    using run_mirrors [OF run_write.hyps(1)] run_write.prems len by auto
  have l': "unat (last_position_written_to_file d') = length (inner b')"
    using write_to_file_mirrors(2) [OF m run_write.hyps(2) len(1)] len(1)
    by (simp add: Buffer_position_def unat_of_nat_less)
  have l: "unat (last_position_written_to_file d) \<le> length (inner b)"
    using m by (simp add: mirrors_def Let_def)
  from run_write len have ih: "?l0 \<le> unat (last_position_written_to_file d)"
      "drop k (take ?l0 (inner b)) = drop k (take ?l0 (inner b0))" by auto
  have "drop k (inner b') = drop k (inner b)" if "dirent = Some e" for e
  proof -
    have "Suc (curr_idx d) \<le> n" using run_write.prems(3) idx by (simp add: that)
    from mult_le_mono2 [OF this, of "size_with D"]
    have "entry_offset D d + size_with D \<le> k" by (simp add: k_def entry_offset_def arr)
    then show ?thesis
      using write_to_file_buffer(1,2) [OF run_write.hyps(2) len(1)]
      by (simp add: that put_slice_other length_pod_bytes)
  qed
  then have "drop k (inner b') = drop k (inner b)"
    using write_to_file_buffer(1) [OF run_write.hyps(2) len(1)] by (cases dirent) auto
  with ih l l' mono show ?case by (simp add: drop_take)
qed simp

end

section \<open>A lawful codec for directory entries\<close>

definition directory_pod :: "MDRawDirectory pod" where
  "directory_pod = fixed_pod 12 (\<lambda>e.
     le_bytes 4 (stream_type e) @ le_bytes 4 (data_size (location e)) @ le_bytes 4 (rva (location e)))"

interpretation dirf: dir_output out_file_ops file_bytes file_pos directory_pod
  unfolding dir_output_def directory_pod_def
  by (intro conjI outf.write_seek_laws_axioms pod_codec_fixed) simp

text \<open>One entry dumped to an output that already holds two bytes.\<close>

definition ex_entry :: MDRawDirectory where
  "ex_entry = \<lparr>stream_type = 3, location = \<lparr>data_size = 5, rva = 12\<rparr>\<rparr>"

definition ex_dir :: "out_file DirSection" where
  "ex_dir = \<lparr>curr_idx = 0, dir_array = \<lparr>maw_position = 0, array_size = 1\<rparr>, destination_start_offset = 2,
     destination = \<lparr>file_bytes = [7, 8], file_pos = 2, faults = []\<rparr>, last_position_written_to_file = 0\<rparr>"

definition ex_done :: "out_file DirSection" where
  "ex_done = ex_dir\<lparr>curr_idx := 1,
     destination := \<lparr>file_bytes = [7, 8] @ pod_bytes directory_pod ex_entry, file_pos = 14, faults = []\<rparr>,
     last_position_written_to_file := 12\<rparr>"

lemma size_directory_pod [simp]: "size_with directory_pod = 12"
  by (simp add: directory_pod_def)

lemma out_file_no_fault [comp_simps]:
  "faults f = [] \<Longrightarrow> file_pos f < 2 ^ 64 \<Longrightarrow> stream_position out_file_ops f = (Ok (word_of_nat (file_pos f)), f)"
  "faults f = [] \<Longrightarrow> seek_start out_file_ops n f = (Ok n, f\<lparr>file_pos := unat n\<rparr>)"
  "faults f = [] \<Longrightarrow> write_all out_file_ops bs f =
     (Ok (), f\<lparr>file_bytes := put_at (file_bytes f) (file_pos f) bs, file_pos := file_pos f + length bs\<rparr>)"
  by (simp_all add: out_file_ops_def next_fault_def)

lemma on_destination_eq [comp_simps]:
  "m (destination d) = (r, w') \<Longrightarrow> on_destination m (d, b) = (map_err FileWriterError_IOError r, (d\<lparr>destination := w'\<rparr>, b))"
  by (simp add: on_destination_def)

lemma ex_new:
  "DirSection_new out_file_ops directory_pod 1 (destination ex_dir, \<lparr>inner = []\<rparr>) =
     (Ok ex_dir, (destination ex_dir, \<lparr>inner = replicate 12 0\<rparr>))"
  by (simp add: DirSection_new_def ex_dir_def dirf.alloc_array_eq comp_simps)

lemma ex_write:
  "DirSection_write_to_file out_file_ops directory_pod (Some ex_entry) (ex_dir, \<lparr>inner = replicate 12 0\<rparr>) =
     (Ok (), (ex_done, \<lparr>inner = pod_bytes directory_pod ex_entry\<rparr>))"
  by (simp add: DirSection_write_to_file_def DirSection_dump_dir_entry_def ex_dir_def ex_done_def
      dirf.set_value_at_eq dirf.length_pod_bytes comp_simps MemoryArrayWriter_location_of_index_def add_w_def
      slice_range_def slice_from_def put_slice_all put_at_def put_slice_def resize_def Buffer_position_def)

lemma ex_run: "dir_run out_file_ops directory_pod (ex_dir, \<lparr>inner = replicate 12 0\<rparr>) [ex_entry]
    (ex_done, \<lparr>inner = pod_bytes directory_pod ex_entry\<rparr>)"
  using run_write [OF run_start ex_write] by simp

text \<open>The same entry, with three bytes of a stream already flushed behind the directory.\<close>

definition ex_dir2 :: "out_file DirSection" where
  "ex_dir2 = ex_dir\<lparr>last_position_written_to_file := 15,
     destination := \<lparr>file_bytes = [7, 8] @ replicate 12 0 @ [1, 2, 3], file_pos = 17, faults = []\<rparr>\<rparr>"

definition ex_done2 :: "out_file DirSection" where
  "ex_done2 = ex_dir2\<lparr>curr_idx := 1, destination :=
     \<lparr>file_bytes = [7, 8] @ pod_bytes directory_pod ex_entry @ [1, 2, 3], file_pos = 17, faults = []\<rparr>\<rparr>"

lemma ex_mirrors2: "mirrors file_bytes file_pos (ex_dir2, \<lparr>inner = replicate 12 0 @ [1, 2, 3]\<rparr>)"
  by (simp add: mirrors_def ex_dir2_def ex_dir_def)

lemma ex_run2: "dir_run out_file_ops directory_pod (ex_dir2, \<lparr>inner = replicate 12 0 @ [1, 2, 3]\<rparr>) [ex_entry]
    (ex_done2, \<lparr>inner = pod_bytes directory_pod ex_entry @ [1, 2, 3]\<rparr>)"
proof -
  have "pod_bytes directory_pod ex_entry \<noteq> []"
    using dirf.length_pod_bytes [of ex_entry] by force
  then have "DirSection_write_to_file out_file_ops directory_pod (Some ex_entry)
      (ex_dir2, \<lparr>inner = replicate 12 0 @ [1, 2, 3]\<rparr>) =
    (Ok (), (ex_done2, \<lparr>inner = pod_bytes directory_pod ex_entry @ [1, 2, 3]\<rparr>))"
    by (simp add: DirSection_write_to_file_def DirSection_dump_dir_entry_def ex_dir_def ex_dir2_def ex_done2_def
        dirf.set_value_at_eq dirf.length_pod_bytes comp_simps MemoryArrayWriter_location_of_index_def add_w_def
        slice_range_def slice_from_def put_at_def put_slice_def resize_def Buffer_position_def)
  from run_write [OF run_start this] show ?thesis by simp
qed

section \<open>Properties\<close>

lemma new_mirrors:
  assumes "write_seek_laws W content cursor"
    and "DirSection_new W D n (w, b) = (Ok d, (w', b'))"
  shows "mirrors content cursor (d, b')" and "content (destination d) = content w"
    and "unat (destination_start_offset d) = cursor w" and "last_position_written_to_file d = 0"
proof -
  obtain p where pos: "stream_position W w = (Ok p, w')" and d: "destination_start_offset d = p"
      "destination d = w'" "last_position_written_to_file d = 0"
    using assms(2) unfolding DirSection_new_def
    by (auto simp: getM_def ret_def on_fst_def on_snd_def split: prod.splits elim!: bindM_OkE map_errM_OkE)
  have "content w' = content w" "cursor w' = cursor w" "p = word_of_nat (cursor w)" "cursor w < 2 ^ 64"
    using write_seek_laws.position_law [OF assms(1) pos] by auto
  then show "mirrors content cursor (d, b')" "content (destination d) = content w"
      "unat (destination_start_offset d) = cursor w" "last_position_written_to_file d = 0"
    by (simp_all add: d mirrors_def Let_def unat_of_nat_less)
qed

text \<open>
  C8. The output mirrors the buffer. Starting from \<open>DirSection::new\<close> on an output with
  any previous contents and position, after any alternation of additions to the buffer and
  successful \<open>write_to_file\<close> calls, the output holds from the starting position on exactly
  the part of the buffer that was flushed, which is all of it right after a
  \<open>write_to_file\<close>; the bytes before the starting position are those that were there.
\<close>

theorem output_mirrors_buffer:
  assumes "dir_output W content cursor D"
    and "DirSection_new W D n (w, b0) = (Ok d0, (w0, b1))"
    and "dir_run W D (d0, b1) es (d, b)" and "length (inner b) < 2 ^ 32" and "cursor w \<le> length (content w)"
  shows "take (unat (last_position_written_to_file d)) (drop (cursor w) (content (destination d))) =
      take (unat (last_position_written_to_file d)) (inner b) \<and>
    take (cursor w) (content (destination d)) = take (cursor w) (content w) \<and>
    (\<forall>dirent d' b'. DirSection_write_to_file W D dirent (d, b) = (Ok (), (d', b')) \<longrightarrow>
       length (inner b') < 2 ^ 32 \<longrightarrow>
       take (length (inner b')) (drop (cursor w) (content (destination d'))) = inner b')"
proof -
  have laws: "write_seek_laws W content cursor" using assms(1) by (simp add: dir_output_def)
  note new = new_mirrors [OF laws assms(2)]
  have run: "mirrors content cursor (d, b)" "destination_start_offset d = destination_start_offset d0"
    using dir_output.run_mirrors [OF assms(1,3) new(1)] assms(4) by auto
  have before: "take (cursor w) (content (destination d)) = take (cursor w) (content w)"
    using dir_output.run_before [OF assms(1,3) new(1)] assms(4,5) by (simp add: new)
  have last: "take (length (inner b')) (drop (cursor w) (content (destination d'))) = inner b'"
    if wr: "DirSection_write_to_file W D dirent (d, b) = (Ok (), (d', b'))" and len: "length (inner b') < 2 ^ 32"
    for dirent d' b'
  proof -
    have "unat (last_position_written_to_file d') = length (inner b')"
      using dir_output.write_to_file_mirrors(2) [OF assms(1) run(1) wr len] len
      by (simp add: Buffer_position_def unat_of_nat_less)
    then show ?thesis
      using dir_output.write_to_file_mirrors(1) [OF assms(1) run(1) wr len]
        dir_output.write_to_file_buffer(4) [OF assms(1) wr len] run(2)
      by (simp add: mirrors_def Let_def new)
  qed
  from run before last show ?thesis by (auto simp: mirrors_def Let_def new)
qed

theorem output_mirrors_buffer_witness:
  "take 12 (drop 2 (file_bytes (destination ex_done))) = pod_bytes directory_pod ex_entry \<and>
   take 2 (file_bytes (destination ex_done)) = [7, 8]"
  using output_mirrors_buffer [OF dirf.dir_output_axioms ex_new ex_run]
  by (simp add: dirf.length_pod_bytes) (simp add: ex_done_def ex_dir_def dirf.length_pod_bytes)

text \<open>
  C9. The directory lists what was dumped, in order. After any such run, slot \<open>i\<close> of the
  directory array holds the encoding of the \<open>i\<close>-th entry that was passed to
  \<open>write_to_file\<close>, both in the buffer and in the output, whatever was appended and
  flushed in between.
\<close>

theorem directory_holds_entries:
  assumes "dir_output W content cursor D"
    and "DirSection_new W D n (w, b0) = (Ok d0, (w0, b1))"
    and "dir_run W D (d0, b1) es (d, b)" and "length (inner b) < 2 ^ 32" and "i < length es"
  shows "dir_slot D (dir_array d0) i (inner b) = pod_bytes D (es ! i) \<and>
    dir_slot D (dir_array d0) i (drop (cursor w) (content (destination d))) = pod_bytes D (es ! i)"
proof -
  have laws: "write_seek_laws W content cursor" using assms(1) by (simp add: dir_output_def)
  note new = new_mirrors [OF laws assms(2)]
  have "curr_idx d0 = 0"
    using assms(2) unfolding DirSection_new_def
    by (auto simp: getM_def ret_def elim!: bindM_OkE)
  with dir_output.run_slots [OF assms(1,3) new(1) _ assms(5)] assms(4)
  have slot: "dir_slot D (dir_array d0) i (inner b) = pod_bytes D (es ! i)"
    and le: "unat (maw_position (dir_array d0)) + size_with D * i + size_with D \<le> unat (last_position_written_to_file d)"
    by auto
  have "take (unat (last_position_written_to_file d)) (drop (cursor w) (content (destination d))) =
      take (unat (last_position_written_to_file d)) (inner b)"
    using dir_output.run_mirrors [OF assms(1,3) new(1)] assms(4) by (auto simp: mirrors_def Let_def new)
  from slice_of_take_eq [OF this le] slot show ?thesis by (simp add: dir_slot_def)
qed

theorem directory_holds_entries_witness:
  "dir_slot directory_pod (dir_array ex_dir) 0 (pod_bytes directory_pod ex_entry) = pod_bytes directory_pod ex_entry \<and>
   dir_slot directory_pod (dir_array ex_dir) 0 (drop 2 (file_bytes (destination ex_done))) = pod_bytes directory_pod ex_entry"
  using directory_holds_entries [OF dirf.dir_output_axioms ex_new ex_run, of 0]
  by (simp add: dirf.length_pod_bytes) (simp add: ex_dir_def)

text \<open>
  C10. A stream that was flushed is final: as long as no more entries are dumped than the
  directory has room for, the bytes behind the directory that had reached the output stay
  the same in the buffer and in the output through every later addition and flush.
\<close>

theorem flushed_streams_stable:
  assumes "dir_output W content cursor D" and "mirrors content cursor (d0, b0)"
    and "dir_run W D (d0, b0) es (d, b)" and "length (inner b) < 2 ^ 32"
    and "curr_idx d0 + length es \<le> array_size (dir_array d0)"
  defines "k \<equiv> unat (maw_position (dir_array d0)) + size_with D * array_size (dir_array d0)"
    and "l \<equiv> unat (last_position_written_to_file d0)" and "s \<equiv> unat (destination_start_offset d0)"
  shows "drop k (take l (inner b)) = drop k (take l (inner b0)) \<and>
    drop k (take l (drop s (content (destination d)))) = drop k (take l (drop s (content (destination d0))))"
proof -
  note stable = dir_output.run_stable [OF assms(1,3,2) _ assms(5)]
  have eq: "drop k (take l (inner b)) = drop k (take l (inner b0))"
    and le: "l \<le> unat (last_position_written_to_file d)"
    using stable assms(4) by (auto simp: k_def l_def)
  have "take (unat (last_position_written_to_file d)) (drop s (content (destination d))) =
      take (unat (last_position_written_to_file d)) (inner b)"
    using dir_output.run_mirrors [OF assms(1,3,2)] assms(4) by (auto simp: mirrors_def Let_def s_def)
  from slice_of_take_eq [OF this, of 0 l] le
  have "take l (drop s (content (destination d))) = take l (inner b)" by simp
  moreover have "take l (drop s (content (destination d0))) = take l (inner b0)"
    using assms(2) by (simp add: mirrors_def Let_def l_def s_def)
  ultimately show ?thesis using eq by simp
qed

theorem flushed_streams_stable_witness:
  "drop 12 (take 15 (drop 2 (file_bytes (destination ex_done2)))) = [1, 2, 3]"
  using flushed_streams_stable [OF dirf.dir_output_axioms ex_mirrors2 ex_run2]
  by (simp add: dirf.length_pod_bytes) (simp add: ex_dir2_def ex_dir_def)

end
