(* ===== verification/Mem_Reader.thy ===== *)
theory Mem_Reader
  imports Mem_Writer
begin

text \<open>
  \<open>src/src/linux/mem_reader.rs\<close>: reading the memory of the target process. The four
  services of the kernel that it uses are the record \<open>mem_sys\<close>. \<open>MemReader\<close> probes
  them in order of speed on the first read and keeps the method that worked in its
  \<open>style\<close>, which is written at most once.

  The contents of the destination slice after a failed read are not modelled: the source
  drops the slice or overwrites all of it.
\<close>

section \<open>Kernel services\<close>

record mem_sys =
  process_vm_readv :: "Pid \<Rightarrow> usize \<Rightarrow> nat \<Rightarrow> (bytes, nix_error) result"
  open_proc_mem :: "Pid \<Rightarrow> (nat, io_error) result"
  read_exact_at :: "nat \<Rightarrow> u64 \<Rightarrow> nat \<Rightarrow> (bytes, io_error) result"
  ptrace_read :: "Pid \<Rightarrow> usize \<Rightarrow> (u64, nix_error) result"

definition E2BIG :: nix_error where "E2BIG = 7"
definition EACCES :: nix_error where "EACCES = 13"
definition EINVAL :: nix_error where "EINVAL = 22"
definition EOVERFLOW :: nix_error where "EOVERFLOW = 75"

section \<open>The reader\<close>

datatype Style =
    VirtualMem
  | File nat
  | Ptrace
  | Unavailable (vmem_err: nix_error) (file_err: nix_error) (ptrace_err: nix_error)

record CopyFromProcessError =
  child :: Pid
  cfp_src :: usize
  cfp_offset :: nat
  cfp_length :: nat
  cfp_source :: nix_error

record MemReader =
  mr_pid :: Pid
  style :: "Style option"

definition MemReader_new :: "Pid \<Rightarrow> MemReader" where
  "MemReader_new pid = \<lparr>mr_pid = pid, style = None\<rparr>"

definition MemReader_for_virtual_mem :: "Pid \<Rightarrow> MemReader" where
  "MemReader_for_virtual_mem pid = \<lparr>mr_pid = pid, style = Some VirtualMem\<rparr>"

definition MemReader_for_file :: "mem_sys \<Rightarrow> Pid \<Rightarrow> (MemReader, io_error) result" where
  "MemReader_for_file S pid =
     bindR (open_proc_mem S pid) (\<lambda>file. Ok \<lparr>mr_pid = pid, style = Some (File file)\<rparr>)"

definition MemReader_for_ptrace :: "Pid \<Rightarrow> MemReader" where
  "MemReader_for_ptrace pid = \<lparr>mr_pid = pid, style = Some Ptrace\<rparr>"

text \<open>\<open>process_vm_readv\<close> may transfer fewer bytes than asked for; the rest of the slice stays.\<close>

definition MemReader_vmem :: "mem_sys \<Rightarrow> Pid \<Rightarrow> usize \<Rightarrow> bytes \<Rightarrow> (nat \<times> bytes, nix_error) result" where
  "MemReader_vmem S pid src dst =
     bindR (process_vm_readv S pid src (length dst)) (\<lambda>bs. Ok (length bs, put_slice dst 0 bs))"

definition MemReader_file :: "mem_sys \<Rightarrow> nat \<Rightarrow> usize \<Rightarrow> bytes \<Rightarrow> (nat \<times> bytes, nix_error) result" where
  "MemReader_file S file src dst =
     bindR (map_err (\<lambda>err. case raw_os_error err of Some os \<Rightarrow> os | None \<Rightarrow> E2BIG)
              (read_exact_at S file src (length dst)))
       (\<lambda>bs. Ok (length dst, bs))"

text \<open>The loop over the complete words of the slice, then the bytes that are left.\<close>

fun ptrace_words ::
    "mem_sys \<Rightarrow> Pid \<Rightarrow> usize \<Rightarrow> nat \<Rightarrow> nat \<Rightarrow> (bytes \<times> nat, nix_error \<times> nat) result" where
  "ptrace_words S pid src offset 0 = Ok ([], offset)"
| "ptrace_words S pid src offset (Suc k) =
     bindR (add_w src (word_of_nat offset))
       (\<lambda>addr. bindR (map_err (\<lambda>err. (err, offset)) (ptrace_read S pid addr))
       (\<lambda>word. bindR (ptrace_words S pid src (offset + 8) k)
       (\<lambda>(bs, stop). Ok (le_bytes 8 word @ bs, stop))))"

definition MemReader_ptrace ::
    "mem_sys \<Rightarrow> Pid \<Rightarrow> usize \<Rightarrow> bytes \<Rightarrow> (nat \<times> bytes, nix_error \<times> nat) result" where
  "MemReader_ptrace S pid src dst =
     bindR (ptrace_words S pid src 0 (length dst div 8))
       (\<lambda>(bs, offset).
          let last_len = length dst mod 8 in
          if last_len \<noteq> 0 then
            bindR (add_w src (word_of_nat offset))
              (\<lambda>addr. bindR (map_err (\<lambda>err. (err, offset)) (ptrace_read S pid addr))
              (\<lambda>word. Ok (length dst, bs @ take last_len (le_bytes 8 word))))
          else Ok (length dst, bs))"

definition copy_error :: "MemReader \<Rightarrow> usize \<Rightarrow> bytes \<Rightarrow> nix_error \<times> nat \<Rightarrow> CopyFromProcessError" where
  "copy_error self src dst = (\<lambda>(source, offset).
     \<lparr>child = mr_pid self, cfp_src = src, cfp_offset = offset, cfp_length = length dst, cfp_source = source\<rparr>)"

definition set_style :: "Style \<Rightarrow> (MemReader, unit, CopyFromProcessError) comp" where
  "set_style s self = (if style self = None then (Ok (), self\<lparr>style := Some s\<rparr>) else (Panic, self))"

definition open_error :: "io_error \<Rightarrow> (nix_error, 'e) result" where
  "open_error err = (case raw_os_error err of Some os \<Rightarrow> Ok os | None \<Rightarrow> Panic)"

text \<open>
  \<open>MemReader::read\<close>. With a style set, only that method is used. Otherwise the methods are
  tried in turn and the first that succeeds is stored; if none does, \<open>Unavailable\<close> is.
\<close>

definition MemReader_read ::
    "mem_sys \<Rightarrow> usize \<Rightarrow> bytes \<Rightarrow> (MemReader, nat \<times> bytes, CopyFromProcessError) comp" where
  "MemReader_read S src dst self =
     (case style self of
        Some rs \<Rightarrow>
          (map_err (copy_error self src dst)
             (case rs of
                VirtualMem \<Rightarrow> map_err (\<lambda>s. (s, 0)) (MemReader_vmem S (mr_pid self) src dst)
              | File file \<Rightarrow> map_err (\<lambda>s. (s, 0)) (MemReader_file S file src dst)
              | Ptrace \<Rightarrow> MemReader_ptrace S (mr_pid self) src dst
              | Unavailable _ _ ptrace \<Rightarrow> Err (ptrace, 0)), self)
      | None \<Rightarrow>
          (case MemReader_vmem S (mr_pid self) src dst of
             Ok r \<Rightarrow> bindM (set_style VirtualMem) (\<lambda>_. ret r) self
           | Panic \<Rightarrow> (Panic, self)
           | Err vmem \<Rightarrow>
               (case (case open_proc_mem S (mr_pid self) of
                        Ok file \<Rightarrow>
                          (case MemReader_file S file src dst of
                             Ok r \<Rightarrow> Ok (Inl (file, r))
                           | Err err \<Rightarrow> Ok (Inr err)
                           | Panic \<Rightarrow> Panic)
                      | Err err \<Rightarrow> bindR (open_error err) (\<lambda>os. Ok (Inr os))
                      | Panic \<Rightarrow> Panic) of
                  Ok (Inl (file, r)) \<Rightarrow> bindM (set_style (File file)) (\<lambda>_. ret r) self
                | Ok (Inr file) \<Rightarrow>
                    (case MemReader_ptrace S (mr_pid self) src dst of
                       Ok r \<Rightarrow> bindM (set_style Ptrace) (\<lambda>_. ret r) self
                     | Panic \<Rightarrow> (Panic, self)
                     | Err (ptrace, _) \<Rightarrow>
                         bindM (set_style (Unavailable vmem file ptrace))
                           (\<lambda>_. throw (copy_error self src dst (ptrace, 0))) self)
                | Err e \<Rightarrow> (Err e, self)
                | Panic \<Rightarrow> (Panic, self))))"

definition MemReader_read_to_vec ::
    "mem_sys \<Rightarrow> usize \<Rightarrow> nat \<Rightarrow> (MemReader, bytes, CopyFromProcessError) comp" where
  "MemReader_read_to_vec S src len =
     bindM (MemReader_read S src (replicate len 0))
       (\<lambda>(bytes_read, out). ret (take bytes_read out))"

definition copy_from_process ::
    "mem_sys \<Rightarrow> Pid \<Rightarrow> usize \<Rightarrow> nat \<Rightarrow> (bytes, CopyFromProcessError) result" where
  "copy_from_process S pid src len =
     (if len = 0
      then Err \<lparr>child = pid, cfp_src = src, cfp_offset = 0, cfp_length = len, cfp_source = EINVAL\<rparr>
      else fst (MemReader_read_to_vec S src len (MemReader_new pid)))"

section \<open>What is read is the target's memory\<close>

text \<open>The bytes \<open>bs\<close> are the contents of the memory \<open>mem\<close> from address \<open>a\<close> on.\<close>

definition reads :: "(usize \<Rightarrow> u8 option) \<Rightarrow> usize \<Rightarrow> bytes \<Rightarrow> bool" where
  "reads mem a bs \<longleftrightarrow> list_all2 (\<lambda>i b. mem (a + word_of_nat i) = Some b) [0..<length bs] bs"

lemma reads_iff: "reads mem a bs \<longleftrightarrow> (\<forall>i < length bs. mem (a + word_of_nat i) = Some (bs ! i))"
  by (auto simp: reads_def list_all2_conv_all_nth)

lemma reads_Nil [simp]: "reads mem a []"
  by (simp add: reads_iff)

lemma reads_Cons: "reads mem a (b # bs) \<longleftrightarrow> mem a = Some b \<and> reads mem (a + 1) bs"
  by (simp add: reads_iff All_less_Suc2 add.assoc)

lemma reads_append:
  "reads mem a (xs @ ys) \<longleftrightarrow> reads mem a xs \<and> reads mem (a + word_of_nat (length xs)) ys"
  by (simp add: reads_iff all_less_add_iff nth_append add.assoc)

lemma reads_take: "reads mem a bs \<Longrightarrow> reads mem a (take n bs)"
  by (auto simp: reads_iff)

lemma read_Ok_method:
  assumes "MemReader_read S src dst self = (Ok r, self')"
  shows "MemReader_vmem S (mr_pid self) src dst = Ok r \<or>
    (\<exists>f. style self = Some (File f) \<and> MemReader_file S f src dst = Ok r) \<or>
    (\<exists>f. open_proc_mem S (mr_pid self) = Ok f \<and> MemReader_file S f src dst = Ok r) \<or>
    MemReader_ptrace S (mr_pid self) src dst = Ok r"
  using assms
  by (auto simp: MemReader_read_def bindM_def set_style_def ret_def throw_def bindR_Ok_iff
      split: option.splits Style.splits result.splits sum.splits prod.splits if_splits)

text \<open>A style that the reader could have stored for this process.\<close>

definition style_ok :: "mem_sys \<Rightarrow> Pid \<Rightarrow> MemReader \<Rightarrow> bool" where
  "style_ok S pid self \<longleftrightarrow>
     mr_pid self = pid \<and> (\<forall>f. style self = Some (File f) \<longrightarrow> open_proc_mem S pid = Ok f)"

text \<open>A sequence of reads, whatever their results.\<close>

fun read_many :: "mem_sys \<Rightarrow> (usize \<times> bytes) list \<Rightarrow> MemReader \<Rightarrow> MemReader" where
  "read_many S [] self = self"
| "read_many S ((src, dst) # rs) self = read_many S rs (snd (MemReader_read S src dst self))"

lemma read_settled: "style self \<noteq> None \<Longrightarrow> snd (MemReader_read S src dst self) = self"
  by (auto simp: MemReader_read_def)

lemma read_many_settled: "style self \<noteq> None \<Longrightarrow> read_many S rs self = self"
  by (induction S rs self rule: read_many.induct) (simp_all add: read_settled)

lemma first_read_style:
  assumes "style self = None" and "MemReader_read S src dst self = (r, self')" and "r \<noteq> Panic"
  shows "mr_pid self' = mr_pid self \<and>
    (\<exists>s. style self' = Some s \<and>
      (case s of
         VirtualMem \<Rightarrow> \<exists>x. r = Ok x \<and> MemReader_vmem S (mr_pid self) src dst = Ok x
       | File f \<Rightarrow> (\<exists>e. MemReader_vmem S (mr_pid self) src dst = Err e) \<and> open_proc_mem S (mr_pid self) = Ok f \<and>
           (\<exists>x. r = Ok x \<and> MemReader_file S f src dst = Ok x)
       | Ptrace \<Rightarrow> (\<exists>e. MemReader_vmem S (mr_pid self) src dst = Err e) \<and>
           (\<forall>f x. open_proc_mem S (mr_pid self) = Ok f \<longrightarrow> MemReader_file S f src dst \<noteq> Ok x) \<and>
           (\<exists>x. r = Ok x \<and> MemReader_ptrace S (mr_pid self) src dst = Ok x)
       | Unavailable v f p \<Rightarrow> MemReader_vmem S (mr_pid self) src dst = Err v \<and>
           (\<exists>offset. MemReader_ptrace S (mr_pid self) src dst = Err (p, offset)) \<and>
           r = Err (copy_error self' src dst (p, 0))))"
  using assms
  by (auto simp: MemReader_read_def bindM_def set_style_def ret_def throw_def bindR_Ok_iff bindR_Err_iff
      open_error_def copy_error_def
      split: option.splits Style.splits result.splits sum.splits prod.splits if_splits)

text \<open>The kernel's side of the contract: every service that succeeds tells the truth.\<close>

locale kernel_memory =
  fixes S :: mem_sys and pid :: Pid and mem :: "usize \<Rightarrow> u8 option"
  assumes vm_law: "process_vm_readv S pid a n = Ok bs \<Longrightarrow> length bs \<le> n \<and> reads mem a bs"
    and file_law: "open_proc_mem S pid = Ok f \<Longrightarrow> read_exact_at S f a n = Ok bs \<Longrightarrow> length bs = n \<and> reads mem a bs"
    and ptrace_law: "ptrace_read S pid a = Ok w \<Longrightarrow> reads mem a (le_bytes 8 w)"
    and no_panic: "process_vm_readv S pid a n \<noteq> Panic" "open_proc_mem S pid \<noteq> Panic"
      "read_exact_at S f a n \<noteq> Panic" "ptrace_read S pid a \<noteq> Panic"
    and open_code: "open_proc_mem S pid = Err e \<Longrightarrow> raw_os_error e \<noteq> None"

text \<open>The reader's side, what its clients rely on.\<close>

locale memory_reader =
  fixes copy :: "usize \<Rightarrow> nat \<Rightarrow> (bytes, CopyFromProcessError) result" and mem :: "usize \<Rightarrow> u8 option"
  assumes copy_reads: "copy a n = Ok bs \<Longrightarrow> length bs \<le> n \<and> reads mem a bs"
    and copy_empty: "copy a 0 \<noteq> Ok bs"
    and copy_no_panic: "unat a + n < 2 ^ 64 \<Longrightarrow> copy a n \<noteq> Panic"

context kernel_memory
begin

lemma vmem_reads:
  assumes "MemReader_vmem S pid src (replicate n 0) = Ok (k, out)"
  shows "k \<le> n \<and> length out = n \<and> reads mem src (take k out)"
  using assms vm_law [of src n] by (auto simp: MemReader_vmem_def bindR_Ok_iff put_slice_def)

lemma file_reads:
  assumes "open_proc_mem S pid = Ok f" and "MemReader_file S f src (replicate n 0) = Ok (k, out)"
  shows "k \<le> n \<and> length out = n \<and> reads mem src (take k out)"
  using assms file_law [OF assms(1), of src n] by (auto simp: MemReader_file_def bindR_Ok_iff)

lemma ptrace_words_reads:
  assumes "ptrace_words S pid src offset k = Ok (bs, stop)"
  shows "length bs = 8 * k \<and> stop = offset + 8 * k \<and> reads mem (src + word_of_nat offset) bs"
  using assms
proof (induction k arbitrary: offset bs stop)
  case 0
  then show ?case by simp
next
  case (Suc k)
  from Suc.prems obtain w bs' where
      w: "ptrace_read S pid (src + word_of_nat offset) = Ok w"
    and r: "ptrace_words S pid src (offset + 8) k = Ok (bs', stop)"
    and bs: "bs = le_bytes 8 w @ bs'"
    by (auto simp: bindR_Ok_iff add_w_def split: if_splits)
  from Suc.IH [OF r] ptrace_law [OF w] bs show ?case
    by (simp add: reads_append ac_simps)
qed

lemma ptrace_reads:
  assumes "MemReader_ptrace S pid src (replicate n 0) = Ok (k, out)"
  shows "k \<le> n \<and> length out = n \<and> reads mem src (take k out)"
proof -
  obtain bs offset where w: "ptrace_words S pid src 0 (n div 8) = Ok (bs, offset)"
    using assms by (auto simp: MemReader_ptrace_def bindR_Ok_iff)
  note ws = ptrace_words_reads [OF w]
  show ?thesis
  proof (cases "n mod 8 = 0")
    case True
    with assms w ws show ?thesis by (auto simp: MemReader_ptrace_def)
  next
    case False
    with assms w ws obtain word where
        "ptrace_read S pid (src + word_of_nat offset) = Ok word"
      and out: "out = bs @ take (n mod 8) (le_bytes 8 word)" and "k = n"
      by (auto simp: MemReader_ptrace_def Let_def bindR_Ok_iff add_w_def split: if_splits)
    then have "reads mem (src + word_of_nat offset) (take (n mod 8) (le_bytes 8 word))"
      by (intro reads_take ptrace_law)
    moreover have "length bs + n mod 8 = n" using ws by auto
    with out have "length out = n" using mod_less_divisor [of 8 n] by simp
    moreover from calculation(1) have "reads mem src out" using ws by (simp add: out reads_append)
    ultimately show ?thesis using \<open>k = n\<close> by simp
  qed
qed

lemma read_reads:
  assumes ok: "style_ok S pid self" and run: "MemReader_read S src (replicate n 0) self = (Ok (k, out), self')"
  shows "k \<le> n \<and> length out = n \<and> reads mem src (take k out)"
proof -
  from ok have p: "mr_pid self = pid" by (simp add: style_ok_def)
  from read_Ok_method [OF run] show ?thesis
  proof (elim disjE exE conjE)
    assume "MemReader_vmem S (mr_pid self) src (replicate n 0) = Ok (k, out)"
    then show ?thesis using vmem_reads by (simp add: p)
  next
    fix f assume "style self = Some (File f)" and f: "MemReader_file S f src (replicate n 0) = Ok (k, out)"
    with ok have "open_proc_mem S pid = Ok f" by (simp add: style_ok_def)
    then show ?thesis using f by (rule file_reads)
  next
    fix f assume "open_proc_mem S (mr_pid self) = Ok f" and f: "MemReader_file S f src (replicate n 0) = Ok (k, out)"
    then show ?thesis using file_reads by (simp add: p)
  next
    assume "MemReader_ptrace S (mr_pid self) src (replicate n 0) = Ok (k, out)"
    then show ?thesis using ptrace_reads by (simp add: p)
  qed
qed

lemma read_to_vec_reads:
  assumes "style_ok S pid self" and "MemReader_read_to_vec S src n self = (Ok bs, self')"
  shows "length bs \<le> n \<and> reads mem src bs"
proof -
  from assms(2) obtain k out where "MemReader_read S src (replicate n 0) self = (Ok (k, out), self')"
    and bs: "bs = take k out"
    unfolding MemReader_read_to_vec_def by (auto simp: ret_def elim!: bindM_OkE)
  from read_reads [OF assms(1) this(1)] bs show ?thesis by simp
qed

lemma read_keeps_style_ok:
  "style_ok S pid self \<Longrightarrow> style_ok S pid (snd (MemReader_read S src dst self))"
  by (auto simp: MemReader_read_def style_ok_def bindM_def set_style_def ret_def throw_def open_error_def
      split: option.splits Style.splits result.splits sum.splits prod.splits if_splits)

lemma read_to_vec_style_ok:
  assumes "style_ok S pid self" and "MemReader_read_to_vec S src n self = (Ok bs, self')"
  shows "style_ok S pid self'"
  using read_keeps_style_ok [OF assms(1), of src "replicate n 0"] assms(2)
  unfolding MemReader_read_to_vec_def by (auto simp: ret_def elim!: bindM_OkE)

lemma new_style_ok: "style_ok S pid (MemReader_new pid)"
  by (simp add: style_ok_def MemReader_new_def)

lemma copy_from_process_reads:
  assumes "copy_from_process S pid src n = Ok bs"
  shows "0 < n \<and> length bs \<le> n \<and> reads mem src bs"
proof -
  from assms have "n \<noteq> 0" and run: "fst (MemReader_read_to_vec S src n (MemReader_new pid)) = Ok bs"
    by (auto simp: copy_from_process_def split: if_splits)
  from run obtain self' where "MemReader_read_to_vec S src n (MemReader_new pid) = (Ok bs, self')"
    by (metis prod.collapse)
  with read_to_vec_reads [OF new_style_ok] \<open>n \<noteq> 0\<close> show ?thesis by blast
qed

text \<open>Addresses that stay below the end of the address space make no addition overflow.\<close>

lemma ptrace_words_no_panic:
  assumes "unat src + offset + 8 * k < 2 ^ 64"
  shows "ptrace_words S pid src offset k \<noteq> Panic"
  using assms
proof (induction k arbitrary: offset)
  case (Suc k)
  from Suc.prems have "unat (word_of_nat offset :: usize) = offset"
    by (intro unat_of_nat_less) simp
  with Suc.prems have "unat src + unat (word_of_nat offset :: usize) < 2 ^ LENGTH(64)" by simp
  moreover from Suc.prems have "ptrace_words S pid src (offset + 8) k \<noteq> Panic"
    by (intro Suc.IH) simp
  ultimately show ?case
    using no_panic(4) by (auto simp: add_w_def bindR_Panic_iff)
qed simp

lemma ptrace_no_panic:
  assumes "unat src + length dst < 2 ^ 64"
  shows "MemReader_ptrace S pid src dst \<noteq> Panic"
proof -
  have "unat src + 0 + 8 * (length dst div 8) < 2 ^ 64" using assms by simp
  note words = ptrace_words_no_panic [OF this]
  have "unat src + unat (word_of_nat offset :: usize) < 2 ^ LENGTH(64)"
    if "ptrace_words S pid src 0 (length dst div 8) = Ok (bs, offset)" for bs offset
  proof -
    have o: "offset = 8 * (length dst div 8)" using ptrace_words_reads [OF that] by simp
    then have "offset \<le> length dst" by simp
    with assms have "unat src + offset < 2 ^ 64" by simp
    moreover from this have "unat (word_of_nat offset :: usize) = offset"
      by (intro unat_of_nat_less) simp
    ultimately show ?thesis by simp
  qed
  with words no_panic(4) show ?thesis
    by (auto simp: MemReader_ptrace_def bindR_Panic_iff add_w_def Let_def split: if_splits)
qed

lemma read_no_panic:
  assumes "style_ok S pid self" and "unat src + length dst < 2 ^ 64"
  shows "fst (MemReader_read S src dst self) \<noteq> Panic"
proof -
  have "MemReader_vmem S pid src dst \<noteq> Panic" "MemReader_file S f src dst \<noteq> Panic" for f
    using no_panic by (auto simp: MemReader_vmem_def MemReader_file_def bindR_Panic_iff)
  with assms(1) ptrace_no_panic [OF assms(2)] no_panic(2) open_code show ?thesis
    by (auto simp: MemReader_read_def style_ok_def bindM_def set_style_def ret_def throw_def
        open_error_def bindR_Panic_iff bindR_Ok_iff
        split: option.splits Style.splits result.splits sum.splits prod.splits if_splits)
qed

lemma copy_from_process_no_panic:
  assumes "unat src + n < 2 ^ 64"
  shows "copy_from_process S pid src n \<noteq> Panic"
  using read_no_panic [OF new_style_ok, of src "replicate n 0"] assms
  by (auto simp: copy_from_process_def MemReader_read_to_vec_def bindM_def ret_def
      split: prod.splits result.splits)

end

sublocale kernel_memory \<subseteq> memory_reader "copy_from_process S pid" mem
proof unfold_locales
  show "length bs \<le> n \<and> reads mem a bs" if "copy_from_process S pid a n = Ok bs" for a n bs
    using copy_from_process_reads [OF that] by simp
  show "copy_from_process S pid a 0 \<noteq> Ok bs" for a bs
    by (simp add: copy_from_process_def)
  show "copy_from_process S pid a n \<noteq> Panic" if "unat a + n < 2 ^ 64" for a n
    using copy_from_process_no_panic that .
qed

section \<open>A kernel that satisfies the contract\<close>

text \<open>
  A target whose memory is \<open>mem\<close>; \<open>vm\<close> and \<open>proc\<close> say whether
  \<open>process_vm_readv\<close> and \<open>/proc/<pid>/mem\<close> are permitted. A read by the former stops
  at the first unmapped byte, the others want every byte mapped.
\<close>

fun peek :: "(usize \<Rightarrow> u8 option) \<Rightarrow> usize \<Rightarrow> nat \<Rightarrow> bytes" where
  "peek mem a 0 = []"
| "peek mem a (Suc n) = (case mem a of None \<Rightarrow> [] | Some b \<Rightarrow> b # peek mem (a + 1) n)"

definition target_sys :: "bool \<Rightarrow> bool \<Rightarrow> (usize \<Rightarrow> u8 option) \<Rightarrow> mem_sys" where
  "target_sys vm proc mem =
     \<lparr>process_vm_readv = (\<lambda>pid a n.
        if \<not> vm then Err 1 else if peek mem a n = [] then Err 14 else Ok (peek mem a n)),
      open_proc_mem = (\<lambda>pid. if proc then Ok 3 else Err (OsError 13)),
      read_exact_at = (\<lambda>f a n. if length (peek mem a n) = n then Ok (peek mem a n) else Err (OsError 5)),
      ptrace_read = (\<lambda>pid a.
        if length (peek mem a 8) = 8 then Ok (word_of_nat (le_nat (peek mem a 8))) else Err 5)\<rparr>"

lemma length_peek: "length (peek mem a n) \<le> n"
  by (induction mem a n rule: peek.induct) (auto split: option.splits)

lemma reads_peek: "reads mem a (peek mem a n)"
proof (induction mem a n rule: peek.induct)
  case (2 mem a n)
  then show ?case by (auto simp: reads_Cons split: option.splits)
qed simp

interpretation tm: kernel_memory "target_sys vm proc mem" pid mem for vm proc mem pid
proof unfold_locales
  show "length bs = n \<and> reads mem a bs"
    if "read_exact_at (target_sys vm proc mem) f a n = Ok bs" for f a n bs
    using that reads_peek [of mem a n] by (auto simp: target_sys_def split: if_splits)
qed (auto simp: target_sys_def length_peek reads_peek le_bytes_le_nat split: if_splits)

section \<open>Properties\<close>

text \<open>
  C11. Whatever method the reader has settled on, and whichever it falls back to on the first
  read, the bytes it returns are the bytes of the target's memory at the requested address:
  the result is a (possibly shorter) prefix of the requested range.
\<close>

theorem read_to_vec_truthful:
  assumes "kernel_memory S pid mem" and "style_ok S pid self"
    and "MemReader_read_to_vec S src n self = (Ok bs, self')"
  shows "length bs \<le> n \<and> (\<forall>i < length bs. mem (src + word_of_nat i) = Some (bs ! i)) \<and> style_ok S pid self'"
  using kernel_memory.read_to_vec_reads [OF assms] kernel_memory.read_to_vec_style_ok [OF assms]
  by (simp add: reads_iff)

theorem read_to_vec_truthful_witness:
  "MemReader_read_to_vec (target_sys False True [100 \<mapsto> 7, 101 \<mapsto> 8]) 100 2 (MemReader_new 42)
     = (Ok [7, 8], \<lparr>mr_pid = 42, style = Some (File 3)\<rparr>) \<and>
   [100 :: usize \<mapsto> 7, 101 \<mapsto> 8] (100 + word_of_nat 1) = Some ([7, 8 :: u8] ! 1)"
proof -
  let ?S = "target_sys False True [100 \<mapsto> 7, 101 \<mapsto> 8]"
  have run: "MemReader_read_to_vec ?S 100 2 (MemReader_new 42)
      = (Ok [7, 8], \<lparr>mr_pid = 42, style = Some (File 3)\<rparr>)"
    by code_simp
  note read_to_vec_truthful [OF tm.kernel_memory_axioms tm.new_style_ok run]
  then have "[100 :: usize \<mapsto> 7, 101 \<mapsto> 8] (100 + word_of_nat 1) = Some ([7, 8 :: u8] ! 1)"
    by (elim conjE allE [of _ 1]) (erule impE, simp, assumption)
  with run show ?thesis by (rule conjI)
qed

text \<open>
  C12. The method is chosen once. The first read that does not panic stores a style, and no
  sequence of later reads, successful or not, changes it, nor the process it belongs to; the
  styles are tried in the order virtual memory, \<open>/proc/<pid>/mem\<close>, ptrace, and a reader on
  which all three failed stays unavailable.
\<close>

theorem style_chosen_once:
  assumes "MemReader_read S src dst (MemReader_new pid) = (r, self')" and "r \<noteq> Panic"
  shows "read_many S rs self' = self' \<and> mr_pid self' = pid \<and>
    (\<exists>s. style self' = Some s \<and>
      (case s of
         VirtualMem \<Rightarrow> \<exists>x. r = Ok x \<and> MemReader_vmem S pid src dst = Ok x
       | File f \<Rightarrow> (\<exists>e. MemReader_vmem S pid src dst = Err e) \<and> open_proc_mem S pid = Ok f \<and>
           (\<exists>x. r = Ok x \<and> MemReader_file S f src dst = Ok x)
       | Ptrace \<Rightarrow> (\<exists>e. MemReader_vmem S pid src dst = Err e) \<and>
           (\<forall>f x. open_proc_mem S pid = Ok f \<longrightarrow> MemReader_file S f src dst \<noteq> Ok x) \<and>
           (\<exists>x. r = Ok x \<and> MemReader_ptrace S pid src dst = Ok x)
       | Unavailable v f p \<Rightarrow> MemReader_vmem S pid src dst = Err v \<and>
           (\<exists>offset. MemReader_ptrace S pid src dst = Err (p, offset)) \<and>
           r = Err (copy_error self' src dst (p, 0))))"
proof -
  have new: "mr_pid (MemReader_new pid) = pid" "style (MemReader_new pid) = None"
    by (simp_all add: MemReader_new_def)
  note first = first_read_style [OF new(2) assms, unfolded new]
  then have "read_many S rs self' = self'" by (intro read_many_settled) auto
  with first show ?thesis by blast
qed

theorem style_chosen_once_witness:
  "read_many (target_sys False False Map.empty) [(8, [0])] \<lparr>mr_pid = 42, style = Some (Unavailable 1 13 5)\<rparr>
     = \<lparr>mr_pid = 42, style = Some (Unavailable 1 13 5)\<rparr>"
proof -
  have "MemReader_read (target_sys False False Map.empty) 4 [0] (MemReader_new 42) =
    (Err \<lparr>child = 42, cfp_src = 4, cfp_offset = 0, cfp_length = 1, cfp_source = 5\<rparr>,
     \<lparr>mr_pid = 42, style = Some (Unavailable 1 13 5)\<rparr>)"
    by code_simp
  from style_chosen_once [OF this, of "[(8, [0])]"] show ?thesis by simp
qed

end
