(* ===== verification/Module_Reader.thy ===== *)
theory Module_Reader
  imports Mem_Reader
begin

unbundle bit_operations_syntax

text \<open>
  \<open>src/src/linux/module_reader.rs\<close>: the build id and the SONAME of an ELF module, read
  either from a file image or from the memory of the target process.

  Parsing of ELF structures is the work of the goblin crate: its functions are the fields of
  the record \<open>goblin\<close>, an argument of every definition that needs them, and the header
  structures are records of the fields that the source uses. The numeric constants are those
  of the ELF specification.
\<close>

section \<open>ELF structures and the parser\<close>

record ElfHeader =
  e_phoff :: u64
  e_phentsize :: u16
  e_phnum :: u16
  e_shoff :: u64
  e_shentsize :: u16
  e_shnum :: u16
  e_shstrndx :: u16

record ProgramHeader =
  p_type :: u32
  p_offset :: u64
  p_vaddr :: u64
  p_filesz :: u64
  p_memsz :: u64
  p_align :: u64

record SectionHeader =
  sh_name :: u32
  sh_type :: u32
  sh_flags :: u64
  sh_addr :: u64
  sh_offset :: u64
  sh_size :: u64
  sh_link :: u32
  sh_addralign :: u64

record Dyn =
  d_tag :: u64
  d_val :: u64

record Note =
  n_type :: u32
  note_name :: string
  desc :: bytes

text \<open>
  \<open>Ctx\<close>: the container (word size of the file) and the endianness, the latter as the parser encodes it.
  The two widths of a dynamic entry are those of \<open>Elf32_Dyn\<close> and \<open>Elf64_Dyn\<close>.
\<close>

datatype Container = Little | Big

type_synonym Ctx = "Container \<times> nat"

fun SIZEOF_DYN :: "Container \<Rightarrow> nat" where
  "SIZEOF_DYN Little = 8"
| "SIZEOF_DYN Big = 16"

record goblin =
  header_size :: nat
  parse_header :: "bytes \<Rightarrow> (ElfHeader, goblin_error) result"
  container :: "ElfHeader \<Rightarrow> (Container, goblin_error) result"
  endianness :: "ElfHeader \<Rightarrow> (nat, goblin_error) result"
  parse_program_headers :: "bytes \<Rightarrow> nat \<Rightarrow> Ctx \<Rightarrow> (ProgramHeader list, goblin_error) result"
  parse_section_headers :: "bytes \<Rightarrow> nat \<Rightarrow> Ctx \<Rightarrow> (SectionHeader list, goblin_error) result"
  dyn_from_ctx :: "bytes \<Rightarrow> Ctx \<Rightarrow> goblin_error + Dyn"
  note_items :: "bytes \<Rightarrow> nat \<Rightarrow> nat \<Rightarrow> Ctx \<Rightarrow> (Note, goblin_error) result list"

definition SHT_PROGBITS :: u32 where "SHT_PROGBITS = 1"
definition SHT_STRTAB :: u32 where "SHT_STRTAB = 3"
definition SHT_DYNAMIC :: u32 where "SHT_DYNAMIC = 6"
definition SHF_ALLOC :: u64 where "SHF_ALLOC = 2"
definition SHF_EXECINSTR :: u64 where "SHF_EXECINSTR = 4"
definition PT_DYNAMIC :: u32 where "PT_DYNAMIC = 2"
definition PT_NOTE :: u32 where "PT_NOTE = 4"
definition DT_NULL :: u64 where "DT_NULL = 0"
definition DT_STRTAB :: u64 where "DT_STRTAB = 5"
definition DT_STRSZ :: u64 where "DT_STRSZ = 10"
definition DT_SONAME :: u64 where "DT_SONAME = 14"
definition NT_GNU_BUILD_ID :: u32 where "NT_GNU_BUILD_ID = 3"

lemmas elf_consts = SHT_PROGBITS_def SHT_STRTAB_def SHT_DYNAMIC_def SHF_ALLOC_def SHF_EXECINSTR_def
  PT_DYNAMIC_def PT_NOTE_def DT_NULL_def DT_STRTAB_def DT_STRSZ_def DT_SONAME_def NT_GNU_BUILD_ID_def

definition name_bytes :: "string \<Rightarrow> bytes" where
  "name_bytes s = map (\<lambda>c. word_of_nat (of_char c)) s"

definition bytes_name :: "bytes \<Rightarrow> string" where
  "bytes_name bs = map (\<lambda>b. char_of (unat b)) bs"

definition NOTE_SECTION_NAME :: bytes where
  "NOTE_SECTION_NAME = name_bytes ''.note.gnu.build-id'' @ [0]"

section \<open>Errors and module memory\<close>

datatype ModuleReaderError =
    MapFile OsString io_error
  | ReadModuleMemory (rmm_offset: u64) (rmm_length: u64) (rmm_start: "u64 option") (rmm_error: nix_error)
  | Parsing goblin_error
  | NoProgramHeaderNote
  | NoStrTab
  | NoSectionNote
  | NoProgramHeaders
  | NoSections
  | NoTextSection
  | NoBuildId (nb_program_headers: ModuleReaderError) (nb_section: ModuleReaderError) (nb_generated: ModuleReaderError)
  | NoDynStrSection
  | StrTabNoNulByte
  | NoSoNameEntry
  | NoDynamicSection
  | NoSoName (ns_program_headers: ModuleReaderError) (ns_section: ModuleReaderError)

record ProcessReader =
  pr_inner :: MemReader
  pr_start_address :: u64

definition ProcessReader_new :: "Pid \<Rightarrow> usize \<Rightarrow> ProcessReader" where
  "ProcessReader_new pid start_address =
     \<lparr>pr_inner = MemReader_new pid, pr_start_address = start_address\<rparr>"

datatype ProcessMemory = Slice bytes | Process ProcessReader

text \<open>\<open>ProcessMemory::read\<close>. The reader inside may change, as it learns its style.\<close>

definition ProcessMemory_read ::
    "mem_sys \<Rightarrow> u64 \<Rightarrow> u64 \<Rightarrow> (ProcessMemory, bytes, ModuleReaderError) comp" where
  "ProcessMemory_read S offset len self =
     (case self of
        Process pr \<Rightarrow>
          (let error = ReadModuleMemory offset len (Some (pr_start_address pr)) in
           if len = 0 then (Err (error EINVAL), self)
           else case checked_add (pr_start_address pr) offset of
             None \<Rightarrow> (Err (error EOVERFLOW), self)
           | Some proc_offset \<Rightarrow>
               (case MemReader_read_to_vec S proc_offset (unat len) (pr_inner pr) of
                  (r, inner') \<Rightarrow>
                    (map_err (\<lambda>err. error (cfp_source err)) r, Process (pr\<lparr>pr_inner := inner'\<rparr>))))
      | Slice s \<Rightarrow>
          (let error = ReadModuleMemory offset len None in
           case checked_add offset len of
             None \<Rightarrow> (Err (error EOVERFLOW), self)
           | Some stop \<Rightarrow>
               (if unat stop \<le> length s
                then (Ok (take (unat len) (drop (unat offset) s)), self)
                else (Err (error EACCES), self))))"

definition ProcessMemory_absolute :: "ProcessMemory \<Rightarrow> u64 \<Rightarrow> u64" where
  "ProcessMemory_absolute self addr =
     (case self of
        Process pr \<Rightarrow> (case checked_sub addr (pr_start_address pr) of Some a \<Rightarrow> a | None \<Rightarrow> addr)
      | Slice _ \<Rightarrow> addr)"

fun is_process_memory :: "ProcessMemory \<Rightarrow> bool" where
  "is_process_memory (Process _) = True"
| "is_process_memory (Slice _) = False"

definition is_executable_section :: "SectionHeader \<Rightarrow> bool" where
  "is_executable_section header \<longleftrightarrow>
     sh_type header = SHT_PROGBITS \<and> sh_flags header AND SHF_ALLOC \<noteq> 0 \<and> sh_flags header AND SHF_EXECINSTR \<noteq> 0"

text \<open>The fold over 16-byte chunks; the last chunk may be shorter and is xored onto a prefix.\<close>

definition xor_chunk :: "bytes \<Rightarrow> bytes \<Rightarrow> bytes" where
  "xor_chunk bytes chunk = map (\<lambda>(b, c). b XOR c) (zip bytes chunk) @ drop (length chunk) bytes"

definition build_id_from_bytes :: "bytes \<Rightarrow> bytes" where
  "build_id_from_bytes data = fold (\<lambda>chunk bytes. xor_chunk bytes chunk) (chunks 16 data) (replicate 16 0)"

text \<open>The loop of \<open>section_header_with_name\<close> over the headers.\<close>

fun find_section ::
    "mem_sys \<Rightarrow> SectionHeader \<Rightarrow> bytes \<Rightarrow> SectionHeader list \<Rightarrow>
     (ProcessMemory, SectionHeader option, ModuleReaderError) comp" where
  "find_section S strtab name [] = ret None"
| "find_section S strtab name (header # headers) =
     (let n = ucast (sh_name header) :: u64 in
      if sh_size strtab \<le> n then find_section S strtab name headers
      else if sh_size strtab \<le> n + word_of_nat (length name) then find_section S strtab name headers
      else bindM (lift_result (add_w (sh_offset strtab) n))
        (\<lambda>off. bindM (ProcessMemory_read S off (word_of_nat (length name)))
        (\<lambda>bs. if name = bs then ret (Some header) else find_section S strtab name headers)))"

definition section_header_with_name ::
    "mem_sys \<Rightarrow> SectionHeader list \<Rightarrow> nat \<Rightarrow> bytes \<Rightarrow>
     (ProcessMemory, SectionHeader option, ModuleReaderError) comp" where
  "section_header_with_name S section_headers strtab_index name =
     bindM (if strtab_index < length section_headers \<and> sh_type (section_headers ! strtab_index) = SHT_STRTAB
            then ret (section_headers ! strtab_index) else throw NoStrTab)
       (\<lambda>strtab. find_section S strtab name section_headers)"

section \<open>The module reader\<close>

record ModuleReader =
  module_memory :: ProcessMemory
  header :: ElfHeader
  elf_ctx :: Ctx

text \<open>A computation on the module memory of a reader.\<close>

definition on_memory :: "(ProcessMemory, 'a, 'e) comp \<Rightarrow> (ModuleReader, 'a, 'e) comp" where
  "on_memory m self = (case m (module_memory self) of (r, mm) \<Rightarrow> (r, self\<lparr>module_memory := mm\<rparr>))"

definition ModuleReader_new ::
    "mem_sys \<Rightarrow> goblin \<Rightarrow> ProcessMemory \<Rightarrow> (ModuleReader, ModuleReaderError) result" where
  "ModuleReader_new S G mm =
     (case ProcessMemory_read S 0 (word_of_nat (header_size G)) mm of
        (r, mm') \<Rightarrow>
          bindR r
            (\<lambda>data. bindR (map_err Parsing (parse_header G data))
            (\<lambda>h. bindR (map_err Parsing (container G h))
            (\<lambda>c. bindR (map_err Parsing (endianness G h))
            (\<lambda>e. Ok \<lparr>module_memory = mm', header = h, elf_ctx = (c, e)\<rparr>)))))"

text \<open>
  \<open>DynIter\<close>, an iterator over the entries of a dynamic section. \<open>gread_with\<close> of the scroll crate, which it
  calls, refuses an offset at the end of the data or behind it; otherwise it decodes from the offset on and, only
  when that succeeds, moves the offset behind the entry. So a call of \<open>next\<close> yields an entry, or ends the iteration at
  \<open>DT_NULL\<close>, or yields the decoder's error and leaves the iterator where it was: the next call yields the same error
  again, and only a caller that gives up on an error gets to an end.
\<close>

record DynIter =
  iter_data :: bytes
  iter_offset :: nat
  iter_ctx :: Ctx

definition DynIter_new :: "bytes \<Rightarrow> Ctx \<Rightarrow> DynIter" where
  "DynIter_new data ctx = \<lparr>iter_data = data, iter_offset = 0, iter_ctx = ctx\<rparr>"

definition gread_dyn :: "goblin \<Rightarrow> DynIter \<Rightarrow> goblin_error + Dyn \<times> DynIter" where
  "gread_dyn G self =
     (if length (iter_data self) \<le> iter_offset self then Inl ''BadOffset''
      else case dyn_from_ctx G (drop (iter_offset self) (iter_data self)) (iter_ctx self) of
        Inl e \<Rightarrow> Inl e
      | Inr v \<Rightarrow> Inr (v, self\<lparr>iter_offset := iter_offset self + SIZEOF_DYN (fst (iter_ctx self))\<rparr>))"

definition DynIter_next :: "goblin \<Rightarrow> DynIter \<Rightarrow> (ModuleReaderError + Dyn) option \<times> DynIter" where
  "DynIter_next G self =
     (case gread_dyn G self of
        Inl e \<Rightarrow> (Some (Inl (Parsing e)), self)
      | Inr (dyn, self') \<Rightarrow> (if d_tag dyn = DT_NULL then None else Some (Inr dyn), self'))"

lemma SIZEOF_DYN_pos: "0 < SIZEOF_DYN c"
  by (cases c) simp_all

lemma DynIter_next_entry:
  "DynIter_next G self = (Some (Inr d), self') \<Longrightarrow>
   iter_data self' = iter_data self \<and> iter_offset self < length (iter_data self) \<and> iter_offset self < iter_offset self' \<and>
   d_tag d \<noteq> DT_NULL"
  using SIZEOF_DYN_pos [of "fst (iter_ctx self)"]
  by (auto simp: DynIter_next_def gread_dyn_def split: sum.splits if_splits)

lemma DynIter_next_measure:
  "(Some (Inr d), self') = DynIter_next G self \<Longrightarrow>
   length (iter_data self') - iter_offset self' < length (iter_data self) - iter_offset self"
  using DynIter_next_entry [of G self d self'] by force

text \<open>\<open>CStr::from_bytes_until_nul\<close> and the lossy conversion.\<close>

definition read_name_from_strtab ::
    "mem_sys \<Rightarrow> u64 \<Rightarrow> u64 \<Rightarrow> u64 \<Rightarrow> (ModuleReader, str, ModuleReaderError) comp" where
  "read_name_from_strtab S strtab_offset strtab_size name_offset =
     (if \<not> name_offset < strtab_size then panic
      else bindM (lift_result (add_w strtab_offset name_offset))
        (\<lambda>off. bindM (on_memory (ProcessMemory_read S off (strtab_size - name_offset)))
        (\<lambda>name. if 0 \<in> set name
                then ret (to_string_lossy (bytes_name (takeWhile (\<lambda>b. b \<noteq> 0) name)))
                else throw StrTabNoNulByte)))"

definition section_offset :: "ModuleReader \<Rightarrow> SectionHeader \<Rightarrow> u64" where
  "section_offset self h = (if is_process_memory (module_memory self) then sh_addr h else sh_offset h)"

definition read_segment :: "mem_sys \<Rightarrow> ProgramHeader \<Rightarrow> (ModuleReader, bytes, ModuleReaderError) comp" where
  "read_segment S h self =
     (let (offset, size) = (if is_process_memory (module_memory self) then (p_vaddr h, p_memsz h)
                            else (p_offset h, p_filesz h))
      in on_memory (ProcessMemory_read S offset size) self)"

definition read_program_headers ::
    "mem_sys \<Rightarrow> goblin \<Rightarrow> (ModuleReader, ProgramHeader list, ModuleReaderError) comp" where
  "read_program_headers S G =
     bindM (getM id)
       (\<lambda>self. if e_phoff (header self) = 0 then throw NoProgramHeaders
        else bindM (on_memory (ProcessMemory_read S (e_phoff (header self))
                     (ucast (e_phentsize (header self)) * ucast (e_phnum (header self)))))
          (\<lambda>data. lift_result (map_err Parsing
                     (parse_program_headers G data (unat (e_phnum (header self))) (elf_ctx self)))))"

definition read_section_headers ::
    "mem_sys \<Rightarrow> goblin \<Rightarrow> (ModuleReader, SectionHeader list, ModuleReaderError) comp" where
  "read_section_headers S G =
     bindM (getM id)
       (\<lambda>self. if e_shoff (header self) = 0 then throw NoSections
        else bindM (on_memory (ProcessMemory_read S (e_shoff (header self))
                     (ucast (e_shentsize (header self)) * ucast (e_shnum (header self)))))
          (\<lambda>data. lift_result (map_err Parsing
                     (parse_section_headers G data (unat (e_shnum (header self))) (elf_ctx self)))))"

fun first_build_id :: "(Note, goblin_error) result list \<Rightarrow> (bytes option, 'e) result" where
  "first_build_id [] = Ok None"
| "first_build_id (Ok note # items) =
     (if note_name note = ''GNU'' \<and> n_type note = NT_GNU_BUILD_ID then Ok (Some (desc note))
      else first_build_id items)"
| "first_build_id (Err _ # items) = Ok None"
| "first_build_id (Panic # items) = Panic"

definition find_build_id_note ::
    "mem_sys \<Rightarrow> goblin \<Rightarrow> u64 \<Rightarrow> u64 \<Rightarrow> u64 \<Rightarrow> (ModuleReader, bytes option, ModuleReaderError) comp" where
  "find_build_id_note S G offset sz alignment =
     bindM (getM elf_ctx)
       (\<lambda>ctx. bindM (on_memory (ProcessMemory_read S offset sz))
       (\<lambda>notes. lift_result (first_build_id (note_items G notes (unat sz) (unat alignment) ctx))))"

fun build_id_from_notes ::
    "mem_sys \<Rightarrow> goblin \<Rightarrow> ProgramHeader list \<Rightarrow> (ModuleReader, bytes, ModuleReaderError) comp" where
  "build_id_from_notes S G [] = throw NoProgramHeaderNote"
| "build_id_from_notes S G (h # hs) =
     (if p_type h \<noteq> PT_NOTE then build_id_from_notes S G hs
      else handleM (find_build_id_note S G (p_offset h) (p_filesz h) (p_align h))
        (\<lambda>r. case r of Some v \<Rightarrow> ret v | None \<Rightarrow> build_id_from_notes S G hs)
        (\<lambda>_. build_id_from_notes S G hs))"

definition build_id_from_program_headers ::
    "mem_sys \<Rightarrow> goblin \<Rightarrow> (ModuleReader, bytes, ModuleReaderError) comp" where
  "build_id_from_program_headers S G = bindM (read_program_headers S G) (build_id_from_notes S G)"

definition build_id_from_section ::
    "mem_sys \<Rightarrow> goblin \<Rightarrow> (ModuleReader, bytes, ModuleReaderError) comp" where
  "build_id_from_section S G =
     bindM (read_section_headers S G)
       (\<lambda>section_headers. bindM (getM header)
       (\<lambda>eh. bindM (on_memory (section_header_with_name S section_headers (unat (e_shstrndx eh)) NOTE_SECTION_NAME))
       (\<lambda>found. bindM (case found of Some h \<Rightarrow> ret h | None \<Rightarrow> throw NoSectionNote)
       (\<lambda>h. bindM (find_build_id_note S G (sh_offset h) (sh_size h) (sh_addralign h))
       (\<lambda>r. case r of Some v \<Rightarrow> ret v | None \<Rightarrow> throw NoSectionNote)))))"

definition build_id_generate_from_text ::
    "mem_sys \<Rightarrow> goblin \<Rightarrow> (ModuleReader, bytes, ModuleReaderError) comp" where
  "build_id_generate_from_text S G =
     bindM (read_section_headers S G)
       (\<lambda>section_headers. case find is_executable_section section_headers of
          None \<Rightarrow> throw NoTextSection
        | Some text_header \<Rightarrow>
            bindM (on_memory (ProcessMemory_read S (sh_offset text_header) (min 4096 (sh_size text_header))))
              (\<lambda>data. ret (build_id_from_bytes data)))"

text \<open>
  The loop over the dynamic section of \<open>soname_from_program_headers\<close>: the three entries that locate the SONAME, the last
  of each kind counting; an error ends the loop and the function.
\<close>

record DynInfo =
  soname_strtab_offset :: "u64 option"
  strtab_addr :: "u64 option"
  strtab_size :: "u64 option"

definition note_dyn :: "Dyn \<Rightarrow> DynInfo \<Rightarrow> DynInfo" where
  "note_dyn d info =
     (if d_tag d = DT_SONAME then info\<lparr>soname_strtab_offset := Some (d_val d)\<rparr>
      else if d_tag d = DT_STRTAB then info\<lparr>strtab_addr := Some (d_val d)\<rparr>
      else if d_tag d = DT_STRSZ then info\<lparr>strtab_size := Some (d_val d)\<rparr>
      else info)"

function collect_dyn :: "goblin \<Rightarrow> DynIter \<Rightarrow> DynInfo \<Rightarrow> (DynInfo, ModuleReaderError) result" where
  "collect_dyn G it info =
     (case DynIter_next G it of
        (None, _) \<Rightarrow> Ok info
      | (Some (Inl e), _) \<Rightarrow> Err e
      | (Some (Inr d), it') \<Rightarrow> collect_dyn G it' (note_dyn d info))"
  by pat_completeness auto
termination
  by (relation "measure (\<lambda>(_, it, _). length (iter_data it) - iter_offset it)") (auto dest: DynIter_next_measure)

declare collect_dyn.simps [simp del]

definition soname_from_program_headers ::
    "mem_sys \<Rightarrow> goblin \<Rightarrow> (ModuleReader, str, ModuleReaderError) comp" where
  "soname_from_program_headers S G =
     bindM (read_program_headers S G)
       (\<lambda>program_headers. bindM (case find (\<lambda>h. p_type h = PT_DYNAMIC) program_headers of
                                   Some h \<Rightarrow> ret h | None \<Rightarrow> throw NoDynamicSection)
       (\<lambda>h. bindM (read_segment S h)
       (\<lambda>dynamic_section. bindM (getM id)
       (\<lambda>self. bindM (lift_result (collect_dyn G (DynIter_new dynamic_section (elf_ctx self))
                         \<lparr>soname_strtab_offset = None, strtab_addr = None, strtab_size = None\<rparr>))
       (\<lambda>info. case (strtab_addr info, strtab_size info, soname_strtab_offset info) of
              (None, _, _) \<Rightarrow> throw NoDynStrSection
            | (_, None, _) \<Rightarrow> throw NoDynStrSection
            | (_, _, None) \<Rightarrow> throw NoSoNameEntry
            | (Some addr, Some sz, Some offset) \<Rightarrow>
                if offset < sz
                then read_name_from_strtab S (ProcessMemory_absolute (module_memory self) addr) sz offset
                else throw NoSoNameEntry)))))"

text \<open>The loop over the dynamic section of \<open>soname_from_sections\<close>, which returns from its middle.\<close>

function soname_in_section ::
    "mem_sys \<Rightarrow> goblin \<Rightarrow> SectionHeader \<Rightarrow> DynIter \<Rightarrow> (ModuleReader, str, ModuleReaderError) comp" where
  "soname_in_section S G dynstr it =
     (case DynIter_next G it of
        (None, _) \<Rightarrow> throw NoSoNameEntry
      | (Some (Inl e), _) \<Rightarrow> throw e
      | (Some (Inr d), it') \<Rightarrow>
          if d_tag d = DT_SONAME \<and> d_val d < sh_size dynstr
          then bindM (getM (\<lambda>self. section_offset self dynstr))
                 (\<lambda>off. read_name_from_strtab S off (sh_size dynstr) (d_val d))
          else soname_in_section S G dynstr it')"
  by pat_completeness auto
termination
  by (relation "measure (\<lambda>(_, _, _, it). length (iter_data it) - iter_offset it)") (auto dest: DynIter_next_measure)

declare soname_in_section.simps [simp del]

definition DYNSTR_NAME :: bytes where
  "DYNSTR_NAME = name_bytes ''.dynstr'' @ [0]"

definition soname_from_sections ::
    "mem_sys \<Rightarrow> goblin \<Rightarrow> (ModuleReader, str, ModuleReaderError) comp" where
  "soname_from_sections S G =
     bindM (read_section_headers S G)
       (\<lambda>section_headers. bindM (case find (\<lambda>h. sh_type h = SHT_DYNAMIC) section_headers of
                                   Some h \<Rightarrow> ret h | None \<Rightarrow> throw NoDynamicSection)
       (\<lambda>dynamic_header. bindM (getM id)
       (\<lambda>self. bindM (if unat (sh_link dynamic_header) < length section_headers \<and>
                         sh_type (section_headers ! unat (sh_link dynamic_header)) = SHT_STRTAB
                      then ret (section_headers ! unat (sh_link dynamic_header))
                      else bindM (on_memory (section_header_with_name S section_headers
                                    (unat (e_shstrndx (header self))) DYNSTR_NAME))
                             (\<lambda>found. case found of Some h \<Rightarrow> ret h | None \<Rightarrow> throw NoDynStrSection))
       (\<lambda>dynstr_header. bindM (on_memory (ProcessMemory_read S (section_offset self dynamic_header) (sh_size dynamic_header)))
       (\<lambda>dynamic_section. soname_in_section S G dynstr_header (DynIter_new dynamic_section (elf_ctx self)))))))"

text \<open>\<open>BuildId\<close> and \<open>SoName\<close>: the strategies in order, with the collected errors at the end.\<close>

definition BuildId_read_from_module ::
    "mem_sys \<Rightarrow> goblin \<Rightarrow> ProcessMemory \<Rightarrow> (bytes, ModuleReaderError) result" where
  "BuildId_read_from_module S G mm =
     bindR (ModuleReader_new S G mm)
       (\<lambda>reader. fst (handleM (build_id_from_program_headers S G) ret
          (\<lambda>program_headers. handleM (build_id_from_section S G) ret
          (\<lambda>section. handleM (build_id_generate_from_text S G) ret
          (\<lambda>generated. throw (NoBuildId program_headers section generated)))) reader))"

definition SoName_read_from_module ::
    "mem_sys \<Rightarrow> goblin \<Rightarrow> ProcessMemory \<Rightarrow> (str, ModuleReaderError) result" where
  "SoName_read_from_module S G mm =
     bindR (ModuleReader_new S G mm)
       (\<lambda>reader. fst (handleM (soname_from_program_headers S G) ret
          (\<lambda>program_headers. handleM (soname_from_sections S G) ret
          (\<lambda>section. throw (NoSoName program_headers section))) reader))"

text \<open>\<open>read_from_file\<close>; opening and mapping the file is the argument \<open>map_file\<close>.\<close>

definition BuildId_read_from_file ::
    "mem_sys \<Rightarrow> goblin \<Rightarrow> (OsString \<Rightarrow> (bytes, io_error) result) \<Rightarrow> OsString \<Rightarrow> (bytes, ModuleReaderError) result" where
  "BuildId_read_from_file S G map_file path =
     bindR (map_err (MapFile path) (map_file path)) (\<lambda>m. BuildId_read_from_module S G (Slice m))"

definition SoName_read_from_file ::
    "mem_sys \<Rightarrow> goblin \<Rightarrow> (OsString \<Rightarrow> (bytes, io_error) result) \<Rightarrow> OsString \<Rightarrow> (str, ModuleReaderError) result" where
  "SoName_read_from_file S G map_file path =
     bindR (map_err (MapFile path) (map_file path)) (\<lambda>m. SoName_read_from_module S G (Slice m))"

section \<open>The generated build id\<close>

text \<open>The bytes of the data that are xored into byte \<open>j\<close> of the identifier.\<close>

definition column :: "nat \<Rightarrow> bytes \<Rightarrow> bytes" where
  "column j data = map ((!) data) (filter (\<lambda>i. i mod 16 = j) [0..<length data])"

lemma filter_upt_eq: "filter (\<lambda>i. i = j) [0..<m] = (if j < m then [j] else [])"
  by (induction m) auto

lemma column_step:
  assumes "j < 16"
  shows "column j data = (if j < length data then [data ! j] else []) @ column j (drop 16 data)"
proof -
  let ?n = "length data" and ?P = "\<lambda>i. i mod 16 = j"
  let ?m = "min 16 ?n"
  have "[0..<?n] = [0..<?m] @ [?m..<?n]" using upt_add_eq_append [of 0 ?m "?n - ?m"] by simp
  moreover have "filter ?P [0..<?m] = (if j < ?n then [j] else [])"
  proof -
    have "filter ?P [0..<?m] = filter (\<lambda>i. i = j) [0..<?m]" by (rule filter_cong) auto
    also have "\<dots> = (if j < ?m then [j] else [])"
      by (rule filter_upt_eq)
    finally show ?thesis using assms by simp
  qed
  moreover have "[?m..<?n] = map (\<lambda>i. i + 16) [0..<?n - 16]"
    using map_add_upt [of 16 "?n - 16"] by (cases "?n \<le> 16") simp_all
  ultimately show ?thesis
    by (auto simp: column_def filter_map comp_def add.commute)
qed

lemma column_Nil: "column j [] = []"
  by (simp add: column_def)

lemma length_xor_chunk: "length chunk \<le> length bs \<Longrightarrow> length (xor_chunk bs chunk) = length bs"
  by (simp add: xor_chunk_def)

lemma nth_xor_chunk:
  "length chunk \<le> length bs \<Longrightarrow> j < length bs \<Longrightarrow>
   xor_chunk bs chunk ! j = (if j < length chunk then bs ! j XOR chunk ! j else bs ! j)"
  by (auto simp: xor_chunk_def nth_append)

lemma fold_chunks:
  assumes "length acc = 16" and "j < 16"
  shows "length (fold (\<lambda>chunk bytes. xor_chunk bytes chunk) (chunks 16 data) acc) = 16 \<and>
    fold (\<lambda>chunk bytes. xor_chunk bytes chunk) (chunks 16 data) acc ! j = fold (XOR) (column j data) (acc ! j)"
  using assms(1)
proof (induction "16 :: nat" data arbitrary: acc rule: chunks.induct)
  case (1 data)
  show ?case
  proof (cases "data = []")
    case True
    with 1 show ?thesis by (simp add: chunks.simps [of 16 "[]"] column_Nil)
  next
    case False
    let ?acc = "xor_chunk acc (take 16 data)"
    have "length ?acc = 16" using 1(2) by (simp add: length_xor_chunk)
    note ih = 1(1) [OF _ this]
    have "?acc ! j = (if j < length data then data ! j XOR acc ! j else acc ! j)"
      using 1(2) assms(2) by (simp add: nth_xor_chunk xor.commute)
    with ih False 1(2) assms(2) show ?thesis
      by (simp add: chunks.simps [of 16 data] column_step [OF assms(2), of data])
  qed
qed

section \<open>Properties\<close>

text \<open>
  C20. The identifier generated from a text section is the chunkwise xor it is meant to be:
  always 16 bytes, and byte \<open>j\<close> is the exclusive or of all bytes of the data whose
  position is congruent to \<open>j\<close> modulo 16, a short last chunk included.
\<close>

theorem build_id_from_bytes_columns:
  "build_id_from_bytes data = map (\<lambda>j. fold (XOR) (column j data) 0) [0..<16]"
proof (rule nth_equalityI)
  show "length (build_id_from_bytes data) = length (map (\<lambda>j. fold (XOR) (column j data) 0) [0..<16])"
    using fold_chunks [of "replicate 16 0" 0 data] by (simp add: build_id_from_bytes_def)
  fix j assume "j < length (build_id_from_bytes data)"
  then have "j < 16" using fold_chunks [of "replicate 16 0" 0 data] by (simp add: build_id_from_bytes_def)
  then show "build_id_from_bytes data ! j = map (\<lambda>j. fold (XOR) (column j data) 0) [0..<16] ! j"
    using fold_chunks [of "replicate 16 0" j data] by (simp add: build_id_from_bytes_def)
qed

section \<open>Lookups\<close>

lemma Slice_read:
  "ProcessMemory_read S off len (Slice s) =
     (if unat off + unat len \<le> length s \<and> unat off + unat len < 2 ^ 64
      then Ok (take (unat len) (drop (unat off) s))
      else Err (ReadModuleMemory off len None (if unat off + unat len < 2 ^ 64 then EACCES else EOVERFLOW)), Slice s)"
proof (cases "unat off + unat len < 2 ^ 64")
  case True
  then have "unat (off + len) = unat off + unat len" by (simp add: unat_add_lem [THEN iffD1])
  with True show ?thesis by (simp add: ProcessMemory_read_def checked_add_def)
qed (simp add: ProcessMemory_read_def checked_add_def)

text \<open>The bytes of a section name in a file image.\<close>

definition name_at :: "bytes \<Rightarrow> SectionHeader \<Rightarrow> SectionHeader \<Rightarrow> nat \<Rightarrow> bytes" where
  "name_at s strtab h n = take n (drop (unat (sh_offset strtab) + unat (sh_name h)) s)"

lemma find_section_Slice:
  assumes "find_section S strtab name hs (Slice s) = (Ok (Some h), mm)"
    and "length name < 2 ^ 32"
  shows "h \<in> set hs \<and> mm = Slice s \<and> unat (sh_name h) + length name < unat (sh_size strtab) \<and>
    name_at s strtab h (length name) = name"
  using assms(1)
proof (induction hs)
  case Nil
  then show ?case by (simp add: ret_def)
next
  case (Cons h' hs)
  let ?n = "ucast (sh_name h') :: u64"
  have n: "unat ?n = unat (sh_name h')" by (simp add: unsigned_ucast_eq take_bit_nat_eq_self unsigned_less [THEN order.strict_trans])
  have len: "unat (word_of_nat (length name) :: u64) = length name"
    using assms(2) by (intro unat_of_nat_less) simp
  have sum: "unat (?n + word_of_nat (length name)) = unat (sh_name h') + length name"
    using unsigned_less [of "sh_name h'", where 'a = nat] assms(2) n len
    by (subst unat_add_lem [THEN iffD1]) simp_all
  show ?case
  proof (cases "sh_size strtab \<le> ?n \<or> sh_size strtab \<le> ?n + word_of_nat (length name)")
    case True
    with Cons show ?thesis by (auto simp: Let_def split: if_splits)
  next
    case False
    then have lt: "unat (sh_name h') + length name < unat (sh_size strtab)"
      by (simp add: word_le_nat_alt sum)
    with Cons False n len sum show ?thesis
      by (auto simp: Let_def bindM_def lift_result_def ret_def Slice_read add_w_def name_at_def unat_word_ariths
          split: if_splits)
  qed
qed

section \<open>The iteration over dynamic entries\<close>

text \<open>
  The iterator by itself is not a loop that ends: once the decoder fails, every further call yields that error. What
  the callers rely on is that there are at most as many entries as bytes before the first call that yields none.
\<close>

fun iterate_next :: "goblin \<Rightarrow> nat \<Rightarrow> DynIter \<Rightarrow> (ModuleReaderError + Dyn) option \<times> DynIter" where
  "iterate_next G 0 it = DynIter_next G it"
| "iterate_next G (Suc n) it = iterate_next G n (snd (DynIter_next G it))"

lemma dyn_error_repeats:
  assumes "fst (DynIter_next G it) = Some (Inl e)"
  shows "iterate_next G n it = (Some (Inl e), it)"
proof -
  have "DynIter_next G it = (Some (Inl e), it)"
    using assms by (auto simp: DynIter_next_def split: sum.splits if_splits)
  then show ?thesis by (induction n) simp_all
qed

lemma dyn_entries_bounded:
  "\<exists>n \<le> length (iter_data it) - iter_offset it. \<nexists>d. fst (iterate_next G n it) = Some (Inr d)"
proof (induction "length (iter_data it) - iter_offset it" arbitrary: it rule: less_induct)
  case less
  show ?case
  proof (cases "\<exists>d. fst (DynIter_next G it) = Some (Inr d)")
    case True
    then obtain d it' where n: "DynIter_next G it = (Some (Inr d), it')" by (metis prod.collapse)
    note lt = DynIter_next_measure [OF n [symmetric]]
    from less [OF lt] obtain n where "n \<le> length (iter_data it') - iter_offset it'"
      and "\<nexists>d. fst (iterate_next G n it') = Some (Inr d)" by blast
    with n lt show ?thesis by (intro exI [of _ "Suc n"]) simp
  qed (auto intro!: exI [of _ 0])
qed

text \<open>The decoders for 64-bit little-endian files, as the ELF specification lays the structures out.\<close>

definition word_at :: "nat \<Rightarrow> nat \<Rightarrow> bytes \<Rightarrow> 'w::len word" where
  "word_at n off bs = word_of_nat (le_nat (take n (drop off bs)))"

definition dyn_from_ctx_le64 :: "bytes \<Rightarrow> Ctx \<Rightarrow> goblin_error + Dyn" where
  "dyn_from_ctx_le64 data ctx =
     (if 16 \<le> length data then Inr \<lparr>d_tag = word_at 8 0 data, d_val = word_at 8 8 data\<rparr> else Inl ''TooBig'')"

definition ph_le64 :: "bytes \<Rightarrow> nat \<Rightarrow> ProgramHeader" where
  "ph_le64 bs o' = \<lparr>p_type = word_at 4 o' bs, p_offset = word_at 8 (o' + 8) bs, p_vaddr = word_at 8 (o' + 16) bs,
     p_filesz = word_at 8 (o' + 32) bs, p_memsz = word_at 8 (o' + 40) bs, p_align = word_at 8 (o' + 48) bs\<rparr>"

definition sh_le64 :: "bytes \<Rightarrow> nat \<Rightarrow> SectionHeader" where
  "sh_le64 bs o' = \<lparr>sh_name = word_at 4 o' bs, sh_type = word_at 4 (o' + 4) bs, sh_flags = word_at 8 (o' + 8) bs,
     sh_addr = word_at 8 (o' + 16) bs, sh_offset = word_at 8 (o' + 24) bs, sh_size = word_at 8 (o' + 32) bs,
     sh_link = word_at 4 (o' + 40) bs, sh_addralign = word_at 8 (o' + 48) bs\<rparr>"

definition goblin_le64 :: goblin where
  "goblin_le64 =
     \<lparr>header_size = 64,
      parse_header = (\<lambda>bs. if length bs < 64 \<or> take 4 bs \<noteq> [127, 69, 76, 70] then Err ''BadMagic''
        else Ok \<lparr>e_phoff = word_at 8 32 bs, e_phentsize = word_at 2 54 bs, e_phnum = word_at 2 56 bs,
                 e_shoff = word_at 8 40 bs, e_shentsize = word_at 2 58 bs, e_shnum = word_at 2 60 bs,
                 e_shstrndx = word_at 2 62 bs\<rparr>),
      container = (\<lambda>_. Ok Big), endianness = (\<lambda>_. Ok 1),
      parse_program_headers = (\<lambda>bs n _. if length bs < 56 * n then Err ''TooBig'' else Ok (map (\<lambda>i. ph_le64 bs (56 * i)) [0..<n])),
      parse_section_headers = (\<lambda>bs n _. if length bs < 64 * n then Err ''TooBig'' else Ok (map (\<lambda>i. sh_le64 bs (64 * i)) [0..<n])),
      dyn_from_ctx = dyn_from_ctx_le64,
      note_items = (\<lambda>bs size align _.
        let namesz = le_nat (take 4 bs); descsz = le_nat (take 4 (drop 4 bs)) in
        if size < 12 then [] else
        [Ok \<lparr>n_type = word_at 4 8 bs, note_name = bytes_name (takeWhile (\<lambda>b. b \<noteq> 0) (take namesz (drop 12 bs))),
            desc = take descsz (drop (12 + 4 * ((namesz + 3) div 4)) bs)\<rparr>])\<rparr>"

section \<open>Properties of the lookups\<close>

text \<open>
  The section lookup is sound: in a file image, a header that
  \<open>section_header_with_name\<close> returns is one of the headers, and the string table it names,
  which is of type \<open>SHT_STRTAB\<close>, holds exactly the wanted name (with its NUL) at the
  header's \<open>sh_name\<close>; the image is not changed.
\<close>

theorem section_lookup_sound:
  assumes "section_header_with_name S hs idx name (Slice s) = (Ok (Some h), mm)" and "length name < 2 ^ 32"
  shows "h \<in> set hs \<and> idx < length hs \<and> sh_type (hs ! idx) = SHT_STRTAB \<and> mm = Slice s \<and>
    name_at s (hs ! idx) h (length name) = name"
proof -
  from assms(1) have "idx < length hs" "sh_type (hs ! idx) = SHT_STRTAB"
    and "find_section S (hs ! idx) name hs (Slice s) = (Ok (Some h), mm)"
    by (auto simp: section_header_with_name_def bindM_def ret_def throw_def split: if_splits)
  with find_section_Slice [OF _ assms(2)] show ?thesis by blast
qed

text \<open>A string table in a file of six bytes, with one header for the table itself.\<close>

definition ex_strtab :: "u32 \<Rightarrow> u64 \<Rightarrow> SectionHeader" where
  "ex_strtab n sz = \<lparr>sh_name = n, sh_type = 3, sh_flags = 0, sh_addr = 0, sh_offset = 0, sh_size = sz,
     sh_link = 0, sh_addralign = 1\<rparr>"

theorem section_lookup_sound_witness:
  "name_at [0, 97, 98, 0, 9, 9] (ex_strtab 1 6) (ex_strtab 1 6) 3 = [97, 98, 0]"
proof -
  have "section_header_with_name (target_sys True True Map.empty) [ex_strtab 1 6] 0 [97, 98, 0]
      (Slice [0, 97, 98, 0, 9, 9]) = (Ok (Some (ex_strtab 1 6)), Slice [0, 97, 98, 0, 9, 9])"
    by (simp add: section_header_with_name_def ex_strtab_def SHT_STRTAB_def bindM_def ret_def lift_result_def
        Slice_read add_w_def word_le_nat_alt)
  from section_lookup_sound [OF this] show ?thesis by (simp add: numeral_3_eq_3)
qed

text \<open>
  The section lookup misses a name that ends its string table. If the name with its NUL
  occupies the last bytes of the table, the test \<open>sh_name + name.len() >= sh_size\<close> skips the
  header although the table holds the name: no search result, on any memory, is that header.
\<close>

theorem last_name_missed:
  assumes "length name < 2 ^ 32"
    and "\<forall>h \<in> set hs. unat (sh_name h) + length name = unat (sh_size strtab)"
  shows "find_section S strtab name hs mm = (Ok None, mm)"
  using assms(2)
proof (induction hs)
  case (Cons h hs)
  let ?n = "ucast (sh_name h) :: u64"
  have "unat ?n = unat (sh_name h)" by (simp add: unsigned_ucast_eq take_bit_nat_eq_self unsigned_less [THEN order.strict_trans])
  moreover have "unat (word_of_nat (length name) :: u64) = length name"
    using assms(1) by (intro unat_of_nat_less) simp
  ultimately have "unat (?n + word_of_nat (length name)) = unat (sh_name h) + length name"
    using unsigned_less [of "sh_name h", where 'a = nat] assms(1)
    by (subst unat_add_lem [THEN iffD1]) simp_all
  with Cons show ?case by (simp add: Let_def word_le_nat_alt)
qed (simp add: ret_def)

theorem last_name_missed_witness:
  "name_at [0, 97, 98, 0] (ex_strtab 1 4) (ex_strtab 1 4) 3 = [97, 98, 0] \<and>
   find_section (target_sys True True Map.empty) (ex_strtab 1 4) [97, 98, 0] [ex_strtab 1 4] (Slice [0, 97, 98, 0])
     = (Ok None, Slice [0, 97, 98, 0])"
proof
  show "name_at [0, 97, 98, 0] (ex_strtab 1 4) (ex_strtab 1 4) 3 = [97, 98, 0]"
    by (simp add: name_at_def ex_strtab_def)
  show "find_section (target_sys True True Map.empty) (ex_strtab 1 4) [97, 98, 0] [ex_strtab 1 4] (Slice [0, 97, 98, 0])
     = (Ok None, Slice [0, 97, 98, 0])"
    by (rule last_name_missed) (simp_all add: ex_strtab_def)
qed

text \<open>
  The bytes of a module by their offset, in a file image or in the memory \<open>mem\<close> of a process, and what a process
  reader needs to deliver them: the kernel's contract and a style that was chosen under it.
\<close>

definition module_byte :: "(usize \<Rightarrow> u8 option) \<Rightarrow> ProcessMemory \<Rightarrow> nat \<Rightarrow> u8 option" where
  "module_byte mem mm i =
     (case mm of
        Slice s \<Rightarrow> if i < length s then Some (s ! i) else None
      | Process pr \<Rightarrow> mem (pr_start_address pr + word_of_nat i))"

definition module_readable :: "mem_sys \<Rightarrow> Pid \<Rightarrow> (usize \<Rightarrow> u8 option) \<Rightarrow> ProcessMemory \<Rightarrow> bool" where
  "module_readable S pid mem mm \<longleftrightarrow>
     (case mm of Slice _ \<Rightarrow> True | Process pr \<Rightarrow> kernel_memory S pid mem \<and> style_ok S pid (pr_inner pr))"

lemma ProcessMemory_read_bytes:
  assumes "module_readable S pid mem mm" and "ProcessMemory_read S off len mm = (Ok bs, mm')"
  shows "length bs \<le> unat len \<and> (\<forall>i < length bs. module_byte mem mm (unat off + i) = Some (bs ! i)) \<and>
    module_readable S pid mem mm' \<and> module_byte mem mm' = module_byte mem mm"
proof (cases mm)
  case (Slice s)
  with assms(2) show ?thesis
    by (auto simp: Slice_read module_byte_def module_readable_def split: if_splits)
next
  case (Process pr)
  from assms(1) Process have k: "kernel_memory S pid mem" and st: "style_ok S pid (pr_inner pr)"
    by (simp_all add: module_readable_def)
  from assms(2) Process obtain inner' where run: "MemReader_read_to_vec S (pr_start_address pr + off) (unat len) (pr_inner pr) = (Ok bs, inner')"
    and mm': "mm' = ProcessMemory.Process (pr\<lparr>pr_inner := inner'\<rparr>)"
    by (auto simp: ProcessMemory_read_def checked_add_def Let_def map_err_Ok_iff split: if_splits prod.splits)
  have off: "word_of_nat (unat off + i) = off + word_of_nat i" for i by simp
  from kernel_memory.read_to_vec_reads [OF k st run] kernel_memory.read_to_vec_style_ok [OF k st run] k
  show ?thesis
    by (auto simp: mm' Process module_byte_def module_readable_def reads_iff off add.assoc)
qed

lemma until_nul:
  assumes "0 \<in> set name"
  shows "\<exists>k < length name. name ! k = 0 \<and> takeWhile (\<lambda>b. b \<noteq> (0 :: u8)) name = take k name \<and> (\<forall>i < k. name ! i \<noteq> 0)"
proof (intro exI conjI allI impI)
  let ?k = "length (takeWhile (\<lambda>b. b \<noteq> 0) name)"
  show k: "?k < length name" using assms by (induction name) auto
  then show "name ! ?k = 0" using nth_length_takeWhile [of "\<lambda>b. b \<noteq> 0" name] by simp
  show "takeWhile (\<lambda>b. b \<noteq> 0) name = take ?k name" by (rule takeWhile_eq_take)
  fix i assume i: "i < ?k"
  show "name ! i \<noteq> 0" using set_takeWhileD [OF nth_mem [OF i]] unfolding takeWhile_nth [OF i] by (rule conjunct2)
qed

text \<open>
  C22. A name read from a string table stays inside the table, in a file image and in the memory of a process
  alike: when \<open>read_name_from_strtab\<close> returns a name, the module has a NUL at some position of the table not before
  the name's offset, the bytes from the offset to there are none of them NUL, and the name is their lossy UTF-8
  text, a valid string. The reader still reads the same module afterwards.
\<close>

theorem strtab_name_inside:
  assumes "module_readable S pid mem (module_memory self)"
    and "read_name_from_strtab S tab sz off self = (Ok nm, self')"
  shows "\<exists>name. unat off + length name < unat sz \<and>
    module_byte mem (module_memory self) (unat tab + unat off + length name) = Some 0 \<and>
    (\<forall>i < length name. name ! i \<noteq> 0 \<and> module_byte mem (module_memory self) (unat tab + unat off + i) = Some (name ! i)) \<and>
    nm = to_string_lossy (bytes_name name) \<and> valid_str nm \<and>
    module_readable S pid mem (module_memory self') \<and>
    module_byte mem (module_memory self') = module_byte mem (module_memory self)"
proof -
  from assms(2) obtain bs where lt: "off < sz" and ov: "unat tab + unat off < 2 ^ 64"
    and read: "ProcessMemory_read S (tab + off) (sz - off) (module_memory self) = (Ok bs, module_memory self')"
    and nm: "nm = to_string_lossy (bytes_name (takeWhile (\<lambda>b. b \<noteq> 0) bs))" and nul: "0 \<in> set bs"
    by (auto simp: read_name_from_strtab_def panic_def bindM_def lift_result_def add_w_def on_memory_def
        throw_def ret_def split: if_splits prod.splits result.splits)
  have sub: "unat (sz - off) = unat sz - unat off" and le: "unat off < unat sz" and sum: "unat (tab + off) = unat tab + unat off"
    using lt ov by (simp_all add: unat_sub word_less_nat_alt word_le_nat_alt unat_word_ariths)
  note bytes = ProcessMemory_read_bytes [OF assms(1) read, unfolded sub sum]
  obtain k where k: "k < length bs" "bs ! k = 0" "takeWhile (\<lambda>b. b \<noteq> 0) bs = take k bs" "\<forall>i < k. bs ! i \<noteq> 0"
    using until_nul [OF nul] by blast
  with bytes nm le show ?thesis
    by (intro exI [of _ "take k bs"]) (auto simp: valid_str_lossy)
qed

definition ex_reader :: ModuleReader where
  "ex_reader = \<lparr>module_memory = Process (ProcessReader_new 42 0x1000), header = \<lparr>e_phoff = 0, e_phentsize = 0, e_phnum = 0,
     e_shoff = 0, e_shentsize = 0, e_shnum = 0, e_shstrndx = 0\<rparr>, elf_ctx = (Big, 1)\<rparr>"

text \<open>A table of five bytes at offset 2 of a module mapped at \<open>0x1000\<close>, read through \<open>/proc/<pid>/mem\<close>.\<close>

theorem strtab_name_inside_witness:
  "fst (read_name_from_strtab (target_sys False True [0x1003 \<mapsto> 97, 0x1004 \<mapsto> 98, 0x1005 \<mapsto> 0, 0x1006 \<mapsto> 99]) 2 5 1 ex_reader) = Ok ''ab'' \<and>
   (\<exists>name. unat (1 :: u64) + length name < unat (5 :: u64) \<and> ''ab'' = to_string_lossy (bytes_name name))"
proof -
  define mem :: "usize \<rightharpoonup> u8" where "mem = [0x1003 \<mapsto> 97, 0x1004 \<mapsto> 98, 0x1005 \<mapsto> 0, 0x1006 \<mapsto> 99]"
  let ?S = "target_sys False True mem"
  let ?run = "read_name_from_strtab ?S 2 5 1 ex_reader"
  have run: "fst ?run = Ok ''ab''" unfolding mem_def by code_simp
  then have "?run = (Ok ''ab'', snd ?run)" by (simp only: prod_eq_iff fst_conv snd_conv)
  moreover have "module_readable ?S 42 mem (module_memory ex_reader)"
    using tm.kernel_memory_axioms tm.new_style_ok
    by (simp add: module_readable_def ex_reader_def ProcessReader_new_def)
  ultimately obtain name where "unat (1 :: u64) + length name < unat (5 :: u64)" "''ab'' = to_string_lossy (bytes_name name)"
    using strtab_name_inside by blast
  with run show ?thesis unfolding mem_def by blast
qed

end
