(* ===== verification/Rust_Path.thy ===== *)
theory Rust_Path
  imports Rust_Str
begin

text \<open>
  What the source uses of \<open>std::path\<close>, of the searching and splitting methods of
  \<open>str\<close>, and of the parsing and formatting of integers. Paths and strings are byte strings;
  on a \<open>str\<close> (valid UTF-8) the separators searched for are ASCII, so splitting at bytes is
  splitting at characters.
\<close>

section \<open>Searching and splitting\<close>

abbreviation starts_with :: "string \<Rightarrow> string \<Rightarrow> bool" where
  "starts_with s p \<equiv> prefix p s"

definition strip_suffix :: "string \<Rightarrow> string \<Rightarrow> string option" where
  "strip_suffix suf s = (if suffix suf s then Some (take (length s - length suf) s) else None)"

fun split_once :: "string \<Rightarrow> string \<Rightarrow> (string \<times> string) option" where
  "split_once sep [] = (if sep = [] then Some ([], []) else None)"
| "split_once sep (c # s) =
     (if prefix sep (c # s) then Some ([], drop (length sep) (c # s))
      else map_option (\<lambda>(a, b). (c # a, b)) (split_once sep s))"

fun split_on :: "char \<Rightarrow> string \<Rightarrow> string list" where
  "split_on sep [] = [[]]"
| "split_on sep (c # s) =
     (if c = sep then [] # split_on sep s
      else case split_on sep s of [] \<Rightarrow> [[c]] | w # ws \<Rightarrow> (c # w) # ws)"

lemma split_on_nonempty [simp]: "split_on sep s \<noteq> []"
  by (cases s) (auto split: list.splits)

lemma split_on_word: "sep \<notin> set w \<Longrightarrow> split_on sep w = [w]"
  by (induction w) auto

lemma split_on_append: "sep \<notin> set w \<Longrightarrow> split_on sep (w @ sep # s) = w # split_on sep s"
  by (induction w) auto

lemma strip_suffix_append [simp]: "strip_suffix suf (s @ suf) = Some s"
  by (simp add: strip_suffix_def suffix_def)

lemma strip_suffix_Some: "strip_suffix suf s = Some t \<longleftrightarrow> s = t @ suf"
  by (auto simp: strip_suffix_def suffix_def)

section \<open>Integers as text\<close>

definition is_ascii_digit :: "char \<Rightarrow> bool" where
  "is_ascii_digit c \<longleftrightarrow> 48 \<le> (of_char c :: nat) \<and> (of_char c :: nat) < 58"

definition digit_char :: "nat \<Rightarrow> char" where
  "digit_char d = (if d < 10 then char_of (48 + d) else char_of (87 + d))"

function radix_string :: "nat \<Rightarrow> nat \<Rightarrow> string" where
  "radix_string r n = (if r < 2 \<or> n < r then [digit_char n] else radix_string r (n div r) @ [digit_char (n mod r)])"
  by pat_completeness auto
termination by (relation "measure snd") auto

declare radix_string.simps [simp del]

abbreviation dec_string :: "nat \<Rightarrow> string" where "dec_string \<equiv> radix_string 10"
abbreviation hex_string :: "nat \<Rightarrow> string" where "hex_string \<equiv> radix_string 16"

definition digit_val :: "nat \<Rightarrow> char \<Rightarrow> nat option" where
  "digit_val r c =
     (let k = of_char c :: nat;
          d = (if 48 \<le> k \<and> k < 58 then Some (k - 48)
               else if 97 \<le> k \<and> k < 123 then Some (k - 87)
               else if 65 \<le> k \<and> k < 91 then Some (k - 55) else None)
      in case d of Some v \<Rightarrow> (if v < r then Some v else None) | None \<Rightarrow> None)"

fun digits_val :: "nat \<Rightarrow> string \<Rightarrow> nat \<Rightarrow> nat option" where
  "digits_val r [] acc = Some acc"
| "digits_val r (c # s) acc =
     (case digit_val r c of Some v \<Rightarrow> digits_val r s (acc * r + v) | None \<Rightarrow> None)"

text \<open>
  \<open>from_str_radix\<close> for an unsigned type: an optional plus sign, at least one digit, no overflow.
\<close>

definition parse_unsigned :: "nat \<Rightarrow> string \<Rightarrow> 'w::len word option" where
  "parse_unsigned r s =
     (let ds = (case s of c # t \<Rightarrow> (if c = CHR ''+'' \<and> t \<noteq> [] then t else s) | [] \<Rightarrow> []) in
      if ds = [] then None
      else case digits_val r ds 0 of
        Some n \<Rightarrow> (if n < 2 ^ LENGTH('w) then Some (word_of_nat n) else None)
      | None \<Rightarrow> None)"

abbreviation parse_u32 :: "string \<Rightarrow> u32 option" where "parse_u32 \<equiv> parse_unsigned 10"

lemma of_char_digit: "d < 10 \<Longrightarrow> (of_char (digit_char d) :: nat) = 48 + d"
  by (simp add: digit_char_def)

lemma digit_val_digit_char: "d < 10 \<Longrightarrow> digit_val 10 (digit_char d) = Some d"
  by (simp add: digit_val_def of_char_digit)

lemma digits_val_append:
  "digits_val r (s @ t) acc = (case digits_val r s acc of Some n \<Rightarrow> digits_val r t n | None \<Rightarrow> None)"
  by (induction r s acc rule: digits_val.induct) (auto split: option.splits)

lemma digits_val_dec_string: "digits_val 10 (dec_string n) 0 = Some n"
proof (induction "10 :: nat" n rule: radix_string.induct)
  case (1 n)
  show ?case
  proof (cases "n < 10")
    case True
    then show ?thesis by (simp add: radix_string.simps [of 10 n] digit_val_digit_char)
  next
    case False
    with 1 show ?thesis
      by (simp add: radix_string.simps [of 10 n] digits_val_append digit_val_digit_char)
  qed
qed

lemma dec_string_nonempty [simp]: "dec_string n \<noteq> []"
  by (subst radix_string.simps) simp

lemma dec_string_digits: "\<forall>c \<in> set (dec_string n). is_ascii_digit c"
proof (induction "10 :: nat" n rule: radix_string.induct)
  case (1 n)
  have "is_ascii_digit (digit_char d)" if "d < 10" for d
    using that by (simp add: is_ascii_digit_def of_char_digit)
  with 1 show ?case by (subst radix_string.simps) auto
qed

lemma parse_u32_dec_string: "n < 2 ^ 32 \<Longrightarrow> parse_u32 (dec_string n) = Some (word_of_nat n)"
proof -
  assume n: "n < 2 ^ 32"
  have "hd (dec_string n) \<noteq> CHR ''+''"
    using bspec [OF dec_string_digits [of n] hd_in_set] by (auto simp: is_ascii_digit_def)
  then have "(case dec_string n of c # t \<Rightarrow> if c = CHR ''+'' \<and> t \<noteq> [] then t else dec_string n | [] \<Rightarrow> [])
      = dec_string n"
    by (auto split: list.splits)
  with n show ?thesis by (simp add: parse_unsigned_def digits_val_dec_string)
qed

section \<open>Paths\<close>

text \<open>
  \<open>Components\<close> read from the back: the body of the path, reversed, with trailing separators and
  \<open>.\<close> components removed. The prefix that is kept is the root or a leading \<open>.\<close>.
\<close>

definition len_before_body :: "OsString \<Rightarrow> nat" where
  "len_before_body p =
     (if starts_with p ''/'' then 1 else if p = ''.'' \<or> starts_with p ''./'' then 1 else 0)"

function trim_back :: "string \<Rightarrow> string" where
  "trim_back r =
     (let c = takeWhile (\<lambda>x. x \<noteq> CHR ''/'') r; rest = dropWhile (\<lambda>x. x \<noteq> CHR ''/'') r in
      if (c = [] \<or> c = ''.'') \<and> r \<noteq> [] then (case rest of [] \<Rightarrow> [] | _ # rest' \<Rightarrow> trim_back rest') else r)"
  by pat_completeness auto
termination
proof (relation "measure length", goal_cases)
  case (2 r c rest x rest')
  have "length (dropWhile (\<lambda>x. x \<noteq> CHR ''/'') r) \<le> length r" by (rule length_dropWhile_le)
  moreover have "length (dropWhile (\<lambda>x. x \<noteq> CHR ''/'') r) = Suc (length rest')"
    using 2(2,4) by (metis length_Cons)
  ultimately show ?case by simp
qed simp

declare trim_back.simps [simp del]

definition path_body :: "OsString \<Rightarrow> string" where
  "path_body p = trim_back (rev (drop (len_before_body p) p))"

definition file_name :: "OsString \<Rightarrow> OsString option" where
  "file_name p =
     (let r = path_body p; c = rev (takeWhile (\<lambda>x. x \<noteq> CHR ''/'') r) in
      if r = [] \<or> c = ''..'' then None else Some c)"

definition path_pop :: "OsString \<Rightarrow> OsString" where
  "path_pop p =
     (case dropWhile (\<lambda>x. x \<noteq> CHR ''/'') (path_body p) of
        [] \<Rightarrow> take (len_before_body p) p
      | _ # r \<Rightarrow> take (len_before_body p) p @ rev (trim_back r))"

definition path_push :: "OsString \<Rightarrow> OsString \<Rightarrow> OsString" where
  "path_push p q =
     (if starts_with q ''/'' then q
      else if p \<noteq> [] \<and> last p \<noteq> CHR ''/'' then p @ ''/'' @ q else p @ q)"

definition set_file_name :: "OsString \<Rightarrow> OsString \<Rightarrow> OsString" where
  "set_file_name p q = path_push (if file_name p = None then p else path_pop p) q"

lemma takeWhile_no_slash: "CHR ''/'' \<notin> set f \<Longrightarrow> takeWhile (\<lambda>x. x \<noteq> CHR ''/'') f = f"
  by (simp add: takeWhile_eq_all_conv) auto

lemma trim_back_name:
  assumes "CHR ''/'' \<notin> set f" and "f \<noteq> []" and "f \<noteq> ''.''" and "r = [] \<or> hd r = CHR ''/''"
  shows "trim_back (rev f @ r) = rev f @ r"
proof -
  have "takeWhile (\<lambda>x. x \<noteq> CHR ''/'') (rev f @ r) = rev f"
    using assms(1,4) by (cases r) (auto simp: takeWhile_append takeWhile_eq_all_conv)
  moreover have "rev f \<noteq> ''.''" using assms(3) by (metis rev_rev_ident rev_singleton_conv)
  ultimately show ?thesis using assms(2) by (subst trim_back.simps) (simp add: Let_def)
qed

text \<open>The file name of a path is what follows its last slash.\<close>

lemma file_name_append:
  assumes f: "CHR ''/'' \<notin> set f" "f \<noteq> []" "f \<noteq> ''.''" "f \<noteq> ''..''" and d: "d = [] \<or> last d = CHR ''/''"
    and "len_before_body (d @ f) \<le> length d"
  shows "file_name (d @ f) = Some f"
proof -
  let ?k = "len_before_body (d @ f)"
  have "rev (drop ?k (d @ f)) = rev f @ rev (drop ?k d)" using assms(6) by simp
  moreover have "rev (drop ?k d) = [] \<or> hd (rev (drop ?k d)) = CHR ''/''"
    using d by (cases "drop ?k d = []") (auto simp: hd_rev last_drop)
  ultimately have body: "path_body (d @ f) = rev f @ rev (drop ?k d)"
    using trim_back_name [OF f(1-3)] by (simp add: path_body_def)
  have "takeWhile (\<lambda>x. x \<noteq> CHR ''/'') (rev f @ rev (drop ?k d)) = rev f"
    using f(1) \<open>rev (drop ?k d) = [] \<or> _\<close>
    by (cases "rev (drop ?k d)") (auto simp: takeWhile_append takeWhile_eq_all_conv)
  with body f show ?thesis by (simp add: file_name_def)
qed

lemma len_before_body_name:
  assumes "CHR ''/'' \<notin> set f" and "f \<noteq> ''.''" and "d = [] \<or> last d = CHR ''/''"
  shows "len_before_body (d @ f) \<le> length d"
proof (cases d)
  case Nil
  with assms(1,2) show ?thesis by (auto simp: len_before_body_def prefix_def)
qed (simp add: len_before_body_def)

lemma file_name_path_push:
  assumes "CHR ''/'' \<notin> set q" and "q \<noteq> []" and "q \<noteq> ''.''" and "q \<noteq> ''..''"
  shows "file_name (path_push p q) = Some q"
proof -
  have "\<not> starts_with q ''/''" using assms(1) by (auto simp: prefix_def)
  then obtain d where d: "path_push p q = d @ q" "d = [] \<or> last d = CHR ''/''"
    by (cases "p \<noteq> [] \<and> last p \<noteq> CHR ''/''") (auto simp: path_push_def)
  from file_name_append [OF assms d(2) len_before_body_name [OF assms(1,3) d(2)]] d(1) show ?thesis by simp
qed

lemma split_once_first:
  assumes "hd sep \<notin> set base" and "sep \<noteq> []"
  shows "split_once sep (base @ sep @ v) = Some (base, v)"
  using assms(1)
proof (induction base)
  case Nil
  with assms(2) show ?case by (cases sep) simp_all
next
  case (Cons c base)
  then have "\<not> prefix sep (c # base @ sep @ v)" using assms(2) by (cases sep) auto
  with Cons show ?case by simp
qed

lemma utf8_valid_ascii: "\<forall>b \<in> set bs. b < 128 \<Longrightarrow> utf8_valid bs"
proof (induction bs)
  case (Cons b bs)
  then show ?case by (subst utf8_valid.simps) simp
qed (simp add: utf8_valid.simps)

lemma valid_str_ascii: "\<forall>c \<in> set s. (of_char c :: nat) < 128 \<Longrightarrow> valid_str s"
  by (auto simp: valid_str_def str_bytes_def intro!: utf8_valid_ascii)

end
