(* ===== verification/Maps_Reader.thy ===== *)
theory Maps_Reader
  imports Module_Reader Rust_Path
begin

text \<open>
  \<open>src/src/linux/maps_reader.rs\<close>: the memory mappings of the target, aggregated from the lines of
  \<open>/proc/<pid>/maps\<close>, and what the dump derives from one mapping (its file, SONAME, version).

  The parsed lines are values of procfs\_core, an input here. The vector that \<open>aggregate\<close> builds is
  kept newest first while the loop runs (\<open>last_mut\<close> is the head) and reversed at the end.
\<close>

section \<open>Lines of the maps file\<close>

datatype perm = READ | WRITE | EXECUTE | SHARED | PRIVATE

datatype MMapPath =
    Path OsString
  | Heap
  | Stack
  | TStack u32
  | Vdso
  | Vvar
  | Vsyscall
  | Rollup
  | Vsys i32
  | Other string
  | Anonymous

record MemoryMap =
  mm_start :: u64
  mm_end :: u64
  mm_perms :: "perm set"
  mm_offset :: u64
  mm_pathname :: MMapPath

section \<open>Mappings\<close>

definition LINUX_GATE_LIBRARY_NAME :: string where
  "LINUX_GATE_LIBRARY_NAME = ''linux-gate.so''"

definition DELETED_SUFFIX :: string where
  "DELETED_SUFFIX = '' (deleted)''"

record SystemMappingInfo =
  sys_start_address :: usize
  sys_end_address :: usize

record MappingInfo =
  start_address :: usize
  map_size :: usize
  system_mapping_info :: SystemMappingInfo
  map_offset :: usize
  permissions :: "perm set"
  name :: "OsString option"

record MappingEntry =
  mapping :: MappingInfo
  map_identifier :: bytes

type_synonym MappingList = "MappingEntry list"

datatype MapsReaderError =
    ELFParsingFailed goblin_error
  | MapsReaderError_NoSoName OsString ModuleReaderError
  | MapEntryMalformed string
  | UnparsableInteger
  | LinuxGateNotConvertable
  | NotSafeToOpenMapping OsString
  | MapsReaderError_FileError io_error
  | MmapSanityCheckFailed
  | SymlinkError OsString OsString

definition is_mapping_a_path :: "OsString option \<Rightarrow> bool" where
  "is_mapping_a_path pathname = (case pathname of Some x \<Rightarrow> CHR ''/'' \<in> set x | None \<Rightarrow> False)"

definition sanitize_path :: "OsString \<Rightarrow> OsString" where
  "sanitize_path pathname = (case strip_suffix DELETED_SUFFIX pathname of Some bs \<Rightarrow> bs | None \<Rightarrow> pathname)"

definition name_is_path :: "MappingInfo \<Rightarrow> bool" where
  "name_is_path self = is_mapping_a_path (name self)"

definition is_empty_page :: "MappingInfo \<Rightarrow> bool" where
  "is_empty_page self \<longleftrightarrow> map_offset self = 0 \<and> permissions self = {PRIVATE} \<and> name self = None"

definition end_address :: "MappingInfo \<Rightarrow> (usize, 'e) result" where
  "end_address self = add_w (start_address self) (map_size self)"

definition is_executable :: "MappingInfo \<Rightarrow> bool" where
  "is_executable self \<longleftrightarrow> EXECUTE \<in> permissions self"

definition is_readable :: "MappingInfo \<Rightarrow> bool" where
  "is_readable self \<longleftrightarrow> READ \<in> permissions self"

definition is_writable :: "MappingInfo \<Rightarrow> bool" where
  "is_writable self \<longleftrightarrow> WRITE \<in> permissions self"

section \<open>Aggregation\<close>

fun path_of :: "MMapPath \<Rightarrow> OsString option" where
  "path_of (Path p) = Some (sanitize_path p)"
| "path_of Heap = Some ''[heap]''"
| "path_of Stack = Some ''[stack]''"
| "path_of (TStack i) = Some (''[stack:'' @ dec_string (unat i) @ '']'')"
| "path_of Vdso = Some ''[vdso]''"
| "path_of Vvar = Some ''[vvar]''"
| "path_of Vsyscall = Some ''[vsyscall]''"
| "path_of Rollup = Some ''[rollup]''"
| "path_of (Vsys i) = Some (''/SYSV'' @ hex_string (nat (i mod 2 ^ 32)))"
| "path_of (Other n) = Some (''['' @ n @ '']'')"
| "path_of Anonymous = None"

text \<open>The name and the offset of a line, the vDSO given a name of its own.\<close>

definition name_and_offset :: "u64 option \<Rightarrow> MemoryMap \<Rightarrow> OsString option \<times> usize" where
  "name_and_offset linux_gate_loc mm =
     (let pathname = path_of (mm_pathname mm); is_path = is_mapping_a_path pathname in
      if \<not> is_path \<and> linux_gate_loc = Some (mm_start mm) then (Some LINUX_GATE_LIBRARY_NAME, 0)
      else (pathname, mm_offset mm))"

text \<open>
  The first merge: a line that continues the last mapping, by name, or as an unused range that the
  linker reserved behind an executable mapping of a file.
\<close>

definition merge_prev ::
    "usize \<Rightarrow> usize \<Rightarrow> OsString option \<Rightarrow> usize \<Rightarrow> perm set \<Rightarrow> MappingInfo list \<Rightarrow>
     (MappingInfo list option, MapsReaderError) result" where
  "merge_prev start stop pathname offset perms infos =
     (case infos of
        [] \<Rightarrow> Ok None
      | prev_module # rest \<Rightarrow>
          bindR (end_address prev_module) (\<lambda>prev_end.
            if start = prev_end \<and> pathname \<noteq> None \<and> pathname = name prev_module then
              bindR (sub_w stop (start_address prev_module)) (\<lambda>sz.
                Ok (Some (prev_module\<lparr>map_size := sz,
                       system_mapping_info := (system_mapping_info prev_module)\<lparr>sys_end_address := stop\<rparr>,
                       permissions := permissions prev_module \<union> perms\<rparr> # rest)))
            else if start = prev_end \<and> is_executable prev_module \<and> name_is_path prev_module \<and>
                    (offset = 0 \<or> offset = prev_end) \<and> perms = {PRIVATE} then
              bindR (sub_w stop (start_address prev_module)) (\<lambda>sz.
                Ok (Some (prev_module\<lparr>map_size := sz\<rparr> # rest)))
            else Ok None))"

text \<open>
  The second merge: the last mapping is an empty page between two mappings of the same file. The conjunction
  is evaluated from the left, as the sums in it may overflow.
\<close>

definition merge_prev_prev ::
    "usize \<Rightarrow> usize \<Rightarrow> OsString option \<Rightarrow> perm set \<Rightarrow> MappingInfo list \<Rightarrow>
     (MappingInfo list option, MapsReaderError) result" where
  "merge_prev_prev start stop pathname perms infos =
     (case infos of
        prev_module # prev_prev_module # rest \<Rightarrow>
          bindR (if \<not> name_is_path prev_prev_module then Ok False
                 else bindR (end_address prev_prev_module) (\<lambda>pp_end.
                   if pp_end = start_address prev_module \<and> is_empty_page prev_module
                   then bindR (end_address prev_module) (\<lambda>prev_end. Ok (prev_end = start))
                   else Ok False))
            (\<lambda>empty_page.
               if empty_page \<and> pathname = name prev_prev_module then
                 bindR (sub_w stop (start_address prev_prev_module)) (\<lambda>sz.
                   Ok (Some (prev_prev_module\<lparr>map_size := sz,
                          system_mapping_info := (system_mapping_info prev_prev_module)\<lparr>sys_end_address := stop\<rparr>,
                          permissions := permissions prev_prev_module \<union> perms\<rparr> # rest)))
               else Ok None)
      | _ \<Rightarrow> Ok None)"

definition aggregate_step ::
    "u64 option \<Rightarrow> MappingInfo list \<Rightarrow> MemoryMap \<Rightarrow> (MappingInfo list, MapsReaderError) result" where
  "aggregate_step linux_gate_loc infos mm =
     (let start = mm_start mm; stop = mm_end mm;
          (pathname, offset) = name_and_offset linux_gate_loc mm in
      bindR (merge_prev start stop pathname offset (mm_perms mm) infos) (\<lambda>m1.
        case m1 of Some infos' \<Rightarrow> Ok infos' | None \<Rightarrow>
        bindR (merge_prev_prev start stop pathname (mm_perms mm) infos) (\<lambda>m2.
          case m2 of Some infos' \<Rightarrow> Ok infos' | None \<Rightarrow>
          bindR (sub_w stop start) (\<lambda>sz.
            Ok (\<lparr>start_address = start, map_size = sz,
                 system_mapping_info = \<lparr>sys_start_address = start, sys_end_address = stop\<rparr>,
                 map_offset = offset, permissions = mm_perms mm, name = pathname\<rparr> # infos)))))"

fun aggregate_loop ::
    "u64 option \<Rightarrow> MappingInfo list \<Rightarrow> MemoryMap list \<Rightarrow> (MappingInfo list, MapsReaderError) result" where
  "aggregate_loop linux_gate_loc infos [] = Ok infos"
| "aggregate_loop linux_gate_loc infos (mm # memory_maps) =
     bindR (aggregate_step linux_gate_loc infos mm) (\<lambda>infos'. aggregate_loop linux_gate_loc infos' memory_maps)"

definition aggregate ::
    "MemoryMap list \<Rightarrow> u64 option \<Rightarrow> (MappingInfo list, MapsReaderError) result" where
  "aggregate memory_maps linux_gate_loc =
     bindR (aggregate_loop linux_gate_loc [] memory_maps) (\<lambda>infos. Ok (rev infos))"

section \<open>Questions to one mapping\<close>

definition is_mapped_file_safe_to_open :: "OsString option \<Rightarrow> bool" where
  "is_mapped_file_safe_to_open n = (case n of Some s \<Rightarrow> \<not> starts_with s ''/dev/'' | None \<Rightarrow> True)"

text \<open>Opening and mapping a file from an offset is the argument \<open>map_file\<close>; \<open>SELFMAG\<close> is 4.\<close>

definition get_mmap ::
    "(OsString \<Rightarrow> u64 \<Rightarrow> (bytes, io_error) result) \<Rightarrow> OsString option \<Rightarrow> usize \<Rightarrow> (bytes, MapsReaderError) result" where
  "get_mmap map_file n offset =
     (let filename = (case n of Some s \<Rightarrow> s | None \<Rightarrow> []) in
      if \<not> is_mapped_file_safe_to_open n then Err (NotSafeToOpenMapping filename)
      else bindR (map_err MapsReaderError_FileError (map_file filename offset)) (\<lambda>mapped_file.
        if mapped_file = [] \<or> length mapped_file < 4 then Err MmapSanityCheckFailed else Ok mapped_file))"

text \<open>
  The scan of a stack copy for a word that points into the mapping. \<open>read_u64\<close> fails when
  fewer than eight bytes are left, which the loop condition excludes.
\<close>

definition read_word :: "bytes \<Rightarrow> nat \<Rightarrow> u64 option" where
  "read_word bs off = (if off + 8 \<le> length bs then Some (word_of_nat (le_nat (take 8 (drop off bs)))) else None)"

function scan_words :: "usize \<Rightarrow> usize \<Rightarrow> bytes \<Rightarrow> nat \<Rightarrow> bool" where
  "scan_words low_addr high_addr stack_copy off =
     (if off \<le> length stack_copy - 8 then
        (case read_word stack_copy off of
           Some addr \<Rightarrow>
             if low_addr \<le> addr \<and> addr \<le> high_addr then True
             else scan_words low_addr high_addr stack_copy (off + 8)
         | None \<Rightarrow> False)
      else False)"
  by pat_completeness auto
termination
  by (relation "measure (\<lambda>(_, _, bs, off). Suc (length bs) - off)") (auto simp: read_word_def split: if_splits)

declare scan_words.simps [simp del]

text \<open>
  The first aligned offset, \<open>(sp_offset + 8 - 1) & !7\<close> on \<open>usize\<close>: the sum overflows for an offset in the
  last eight bytes of the address space. The additions of the loop cannot overflow, since no slice is longer
  than half of the address space.
\<close>

definition align_up8 :: "usize \<Rightarrow> (usize, 'e) result" where
  "align_up8 n = bindR (add_w n 8) (\<lambda>s. bindR (sub_w s 1) (\<lambda>m. Ok (and m (not 7))))"

definition stack_has_pointer_to_mapping :: "MappingInfo \<Rightarrow> bytes \<Rightarrow> usize \<Rightarrow> (bool, 'e) result" where
  "stack_has_pointer_to_mapping self stack_copy sp_offset =
     bindR (align_up8 sp_offset) (\<lambda>offset.
       if length stack_copy < 8 then Panic
       else Ok (scan_words (sys_start_address (system_mapping_info self)) (sys_end_address (system_mapping_info self))
                  stack_copy (unat offset)))"

definition so_name ::
    "mem_sys \<Rightarrow> goblin \<Rightarrow> (OsString \<Rightarrow> u64 \<Rightarrow> (bytes, io_error) result) \<Rightarrow> MappingInfo \<Rightarrow> (str, MapsReaderError) result" where
  "so_name S G map_file self =
     bindR (get_mmap map_file (name self) (map_offset self)) (\<lambda>mapped_file.
       map_err (MapsReaderError_NoSoName (case name self of Some s \<Rightarrow> s | None \<Rightarrow> []))
         (SoName_read_from_module S G (Slice mapped_file)))"

definition is_contained_in :: "MappingInfo \<Rightarrow> MappingList \<Rightarrow> (bool, 'e) result" where
  "is_contained_in self user_mapping_list =
     fold (\<lambda>user acc. bindR acc (\<lambda>found.
         if found then Ok True
         else if start_address (mapping user) \<le> start_address self then
           bindR (end_address self) (\<lambda>e1. bindR (end_address (mapping user)) (\<lambda>e2. Ok (e1 \<le> e2)))
         else Ok False)) user_mapping_list (Ok False)"

definition is_interesting :: "MappingInfo \<Rightarrow> bool" where
  "is_interesting self \<longleftrightarrow>
     name self \<noteq> None \<and> (map_offset self = 0 \<or> is_executable self) \<and> 4096 \<le> map_size self"

definition contains_address :: "MappingInfo \<Rightarrow> usize \<Rightarrow> bool" where
  "contains_address self address \<longleftrightarrow>
     sys_start_address (system_mapping_info self) \<le> address \<and> address < sys_end_address (system_mapping_info self)"

section \<open>Versions in file names\<close>

record SoVersion =
  major :: u32
  minor :: u32
  patch :: u32
  prerelease :: u32

text \<open>
  The loop over the components after \<open>.so.\<close>, on the array of the four numbers. \<open>rfind\<close> gives the
  start of the last character that is not a digit; the slice that starts one byte later panics when that
  character is longer than one byte.
\<close>

definition or_zero :: "u32 option \<Rightarrow> u32" where
  "or_zero v = (case v of Some n \<Rightarrow> n | None \<Rightarrow> 0)"

fun so_version_loop :: "nat \<Rightarrow> string list \<Rightarrow> u32 list \<Rightarrow> (u32 list, 'e) result" where
  "so_version_loop i [] comps = Ok comps"
| "so_version_loop i (part # rest) comps =
     (if i \<le> 1 then so_version_loop (Suc i) rest (comps[i := or_zero (parse_u32 part)])
      else if 4 \<le> i then Ok comps
      else if list_all is_ascii_digit part
      then so_version_loop (Suc i) rest (comps[i := or_zero (parse_u32 part)])
      else
        let start = takeWhile is_ascii_digit part;
            comps' = (case parse_u32 start of Some p \<Rightarrow> comps[i := p] | None \<Rightarrow> comps);
            tail_digits = rev (takeWhile is_ascii_digit (rev part));
            last_other = part ! (length part - length tail_digits - 1)
        in if 3 \<le> i then Ok comps'
           else if 128 \<le> (of_char last_other :: nat) then Panic
           else case parse_u32 tail_digits of
             Some pre \<Rightarrow> Ok (comps'[i + 1 := pre])
           | None \<Rightarrow> so_version_loop (Suc i) rest comps')"

definition SoVersion_parse :: "OsString \<Rightarrow> (SoVersion option, 'e) result" where
  "SoVersion_parse so_path =
     (case file_name so_path of None \<Rightarrow> Ok None | Some filename \<Rightarrow>
      (case split_once ''.so.'' (to_string_lossy filename) of None \<Rightarrow> Ok None | Some (_, version) \<Rightarrow>
       bindR (so_version_loop 0 (split_on CHR ''.'' version) [0, 0, 0, 0]) (\<lambda>c.
         Ok (Some \<lparr>major = c ! 0, minor = c ! 1, patch = c ! 2, prerelease = c ! 3\<rparr>))))"

definition so_version :: "MappingInfo \<Rightarrow> (SoVersion option, 'e) result" where
  "so_version self = (case name self of None \<Rightarrow> Ok None | Some n \<Rightarrow> SoVersion_parse n)"

definition get_mapping_effective_path_name_and_version ::
    "mem_sys \<Rightarrow> goblin \<Rightarrow> (OsString \<Rightarrow> u64 \<Rightarrow> (bytes, io_error) result) \<Rightarrow> MappingInfo \<Rightarrow> str option \<Rightarrow>
     (OsString \<times> str \<times> SoVersion option, MapsReaderError) result" where
  "get_mapping_effective_path_name_and_version S G map_file self soname =
     (let file_path = (case name self of Some s \<Rightarrow> s | None \<Rightarrow> []) in
      bindR (case soname of Some s \<Rightarrow> Ok (Some s)
             | None \<Rightarrow> (case so_name S G map_file self of Ok s \<Rightarrow> Ok (Some s) | Err _ \<Rightarrow> Ok None | Panic \<Rightarrow> Panic))
        (\<lambda>found. case found of
           None \<Rightarrow>
             bindR (so_version self) (\<lambda>v.
               Ok (file_path, (case file_name file_path of Some f \<Rightarrow> to_string_lossy f | None \<Rightarrow> []), v))
         | Some f \<Rightarrow>
             bindR (so_version self) (\<lambda>v.
               Ok (if is_executable self \<and> map_offset self \<noteq> 0 then path_push file_path f
                   else set_file_name file_path f, f, v))))"

section \<open>What an aggregated mapping stands for\<close>

definition line_ok :: "MemoryMap \<Rightarrow> bool" where
  "line_ok mm \<longleftrightarrow> mm_start mm \<le> mm_end mm"

text \<open>
  The mapping \<open>info\<close> stands for the consecutive lines \<open>g\<close>: they touch, it spans them
  from the first start to the last end, it has the name and offset of the first, and every other line either
  carries the same name, its permissions then being included, or is an inaccessible private range.
\<close>

definition covers :: "u64 option \<Rightarrow> MappingInfo \<Rightarrow> MemoryMap list \<Rightarrow> bool" where
  "covers gate info g \<longleftrightarrow>
     g \<noteq> [] \<and> list_all line_ok g \<and> successively (\<lambda>a b. mm_end a = mm_start b) g \<and>
     start_address info = mm_start (hd g) \<and>
     unat (start_address info) + unat (map_size info) = unat (mm_end (last g)) \<and>
     sys_start_address (system_mapping_info info) = mm_start (hd g) \<and>
     sys_end_address (system_mapping_info info) \<in> mm_end ` set g \<and>
     (name info, map_offset info) = name_and_offset gate (hd g) \<and>
     permissions info \<subseteq> (\<Union>m \<in> set g. mm_perms m) \<and>
     (\<forall>m \<in> set g. mm_perms m = {PRIVATE} \<or>
        fst (name_and_offset gate m) = name info \<and> mm_perms m \<subseteq> permissions info) \<and>
     (name info = None \<longrightarrow> (\<exists>m. g = [m] \<and> permissions info = mm_perms m))"

lemma covers_end: "covers gate info g \<Longrightarrow> end_address info = Ok (mm_end (last g))"
  by (auto simp: covers_def end_address_def add_w_Ok_iff)

lemma covers_start_le: "covers gate info g \<Longrightarrow> start_address info \<le> mm_end (last g)"
  by (auto simp: covers_def word_le_nat_alt)

lemma successively_snoc:
  "g \<noteq> [] \<Longrightarrow> successively P (g @ [m]) \<longleftrightarrow> successively P g \<and> P (last g) m"
  by (simp add: successively_append_iff)

lemma covers_reserved:
  assumes "covers gate info g" and "mm_start mm = mm_end (last g)" and "line_ok mm"
    and "name info \<noteq> None" and "mm_perms mm = {PRIVATE}"
    and "sub_w (mm_end mm) (start_address info) = Ok sz"
  shows "covers gate (info\<lparr>map_size := sz\<rparr>) (g @ [mm])"
  using assms by (auto simp: covers_def sub_w_Ok_iff successively_snoc word_le_nat_alt)

lemma covers_named:
  assumes "covers gate info g" and "mm_start mm = mm_end (last g)" and "line_ok mm"
    and "name info \<noteq> None" and "fst (name_and_offset gate mm) = name info"
    and "sub_w (mm_end mm) (start_address info) = Ok sz"
  shows "covers gate (info\<lparr>map_size := sz,
      system_mapping_info := (system_mapping_info info)\<lparr>sys_end_address := mm_end mm\<rparr>,
      permissions := permissions info \<union> mm_perms mm\<rparr>) (g @ [mm])"
  using assms by (auto simp: covers_def sub_w_Ok_iff successively_snoc word_le_nat_alt)

lemma name_is_path_Some: "name_is_path info \<Longrightarrow> name info \<noteq> None"
  by (auto simp: name_is_path_def is_mapping_a_path_def split: option.splits)

lemma sub_w_le: "b \<le> a \<Longrightarrow> \<exists>c. sub_w a b = Ok c"
  by (simp add: sub_w_def)

lemma covers_new:
  assumes "line_ok mm" and "sub_w (mm_end mm) (mm_start mm) = Ok sz"
    and "name_and_offset gate mm = (pathname, offset)"
  shows "covers gate \<lparr>start_address = mm_start mm, map_size = sz,
    system_mapping_info = \<lparr>sys_start_address = mm_start mm, sys_end_address = mm_end mm\<rparr>,
    map_offset = offset, permissions = mm_perms mm, name = pathname\<rparr> [mm]"
  using assms by (auto simp: covers_def sub_w_Ok_iff word_le_nat_alt)

section \<open>The step keeps the grouping\<close>

text \<open>\<open>groups\<close> lists the groups of the mappings, newest first like the mappings themselves.\<close>

lemma merge_prev_groups:
  assumes all: "list_all2 (covers gate) infos groups" and ok: "line_ok mm"
    and no: "name_and_offset gate mm = (pathname, offset)"
  shows "merge_prev (mm_start mm) (mm_end mm) pathname offset (mm_perms mm) infos = Ok None \<or>
    (\<exists>infos' groups'. merge_prev (mm_start mm) (mm_end mm) pathname offset (mm_perms mm) infos = Ok (Some infos') \<and>
       list_all2 (covers gate) infos' groups' \<and> concat (rev groups') = concat (rev groups) @ [mm])"
proof (cases infos)
  case Nil
  then show ?thesis by (simp add: merge_prev_def)
next
  case (Cons info rest)
  with all obtain g gs where gs: "groups = g # gs" and c: "covers gate info g"
    and r: "list_all2 (covers gate) rest gs" by (auto simp: list_all2_Cons1)
  note e = covers_end [OF c, where 'a = MapsReaderError]
  show ?thesis
  proof (cases "mm_start mm = mm_end (last g)")
    case False
    with Cons e show ?thesis by (simp add: merge_prev_def)
  next
    case touch: True
    with covers_start_le [OF c] ok have "start_address info \<le> mm_end mm"
      by (simp add: line_ok_def)
    then obtain sz where sz: "sub_w (mm_end mm) (start_address info) = (Ok sz :: (usize, MapsReaderError) result)"
      using sub_w_le by blast
    have grp: "concat (rev ((g @ [mm]) # gs)) = concat (rev groups) @ [mm]" by (simp add: gs)
    let ?named = "pathname \<noteq> None \<and> pathname = name info"
    let ?res = "is_executable info \<and> name_is_path info \<and> (offset = 0 \<or> offset = mm_end (last g)) \<and>
      mm_perms mm = {PRIVATE}"
    consider (named) ?named | (res) "\<not> ?named" ?res | (none) "\<not> ?named" "\<not> ?res" by blast
    then show ?thesis
    proof cases
      case named
      have "covers gate (info\<lparr>map_size := sz,
          system_mapping_info := (system_mapping_info info)\<lparr>sys_end_address := mm_end mm\<rparr>,
          permissions := permissions info \<union> mm_perms mm\<rparr>) (g @ [mm])"
        by (rule covers_named [OF c touch ok _ _ sz]) (use named no in auto)
      moreover have "merge_prev (mm_start mm) (mm_end mm) pathname offset (mm_perms mm) infos = Ok (Some
          (info\<lparr>map_size := sz, system_mapping_info := (system_mapping_info info)\<lparr>sys_end_address := mm_end mm\<rparr>,
            permissions := permissions info \<union> mm_perms mm\<rparr> # rest))"
      proof -
        have "(mm_start mm = mm_end (last g) \<and> pathname \<noteq> None \<and> pathname = name info) = True"
          using named touch by blast
        then show ?thesis by (simp only: merge_prev_def Cons list.case e bindR.simps if_True sz)
      qed
      ultimately show ?thesis using r grp by (metis list.rel_intros(2))
    next
      case res
      then have "name info \<noteq> None" using name_is_path_Some by blast
      then have "covers gate (info\<lparr>map_size := sz\<rparr>) (g @ [mm])"
        using covers_reserved [OF c touch ok _ _ sz] res by blast
      moreover have "merge_prev (mm_start mm) (mm_end mm) pathname offset (mm_perms mm) infos =
          Ok (Some (info\<lparr>map_size := sz\<rparr> # rest))"
        using Cons e touch sz by (simp only: merge_prev_def list.case bindR.simps res if_False if_True simp_thms)
      ultimately show ?thesis using r grp by (metis list.rel_intros(2))
    next
      case none
      then show ?thesis using Cons e by (simp add: merge_prev_def) blast
    qed
  qed
qed

lemma merge_prev_prev_groups:
  assumes all: "list_all2 (covers gate) infos groups" and ok: "line_ok mm"
    and no: "name_and_offset gate mm = (pathname, offset)"
  shows "merge_prev_prev (mm_start mm) (mm_end mm) pathname (mm_perms mm) infos = Ok None \<or>
    (\<exists>infos' groups'. merge_prev_prev (mm_start mm) (mm_end mm) pathname (mm_perms mm) infos = Ok (Some infos') \<and>
       list_all2 (covers gate) infos' groups' \<and> concat (rev groups') = concat (rev groups) @ [mm])"
proof (cases "\<exists>p pp rest. infos = p # pp # rest")
  case False
  then show ?thesis by (auto simp: merge_prev_prev_def split: list.splits)
next
  case True
  then obtain p pp rest where infos: "infos = p # pp # rest" by blast
  with all obtain g gg gs where gs: "groups = g # gg # gs" and c: "covers gate p g" and cc: "covers gate pp gg"
    and r: "list_all2 (covers gate) rest gs" by (auto simp: list_all2_Cons1)
  note e = covers_end [OF c, where 'a = MapsReaderError] covers_end [OF cc, where 'a = MapsReaderError]
  show ?thesis
  proof (cases "name_is_path pp \<and> mm_end (last gg) = start_address p \<and> is_empty_page p \<and>
      mm_end (last g) = mm_start mm \<and> pathname = name pp")
    case False
    with infos e show ?thesis by (auto simp: merge_prev_prev_def)
  next
    case yes: True
    then have nn: "name pp \<noteq> None" using name_is_path_Some by blast
    from yes c obtain page where g: "g = [page]" and page: "mm_perms page = {PRIVATE}" "line_ok page"
      and ps: "start_address p = mm_start page"
      by (auto simp: covers_def is_empty_page_def)
    have le: "start_address pp \<le> mm_end page" "mm_end page \<le> mm_end mm"
      using covers_start_le [OF cc] yes page(2) ok ps g by (auto simp: line_ok_def)
    obtain s1 where s1: "sub_w (mm_end page) (start_address pp) = (Ok s1 :: (usize, MapsReaderError) result)"
      using sub_w_le [OF le(1)] by blast
    obtain sz where sz: "sub_w (mm_end mm) (start_address pp) = (Ok sz :: (usize, MapsReaderError) result)"
      using sub_w_le le by (meson order.trans)
    have "covers gate (pp\<lparr>map_size := s1\<rparr>) (gg @ [page])"
      using covers_reserved [OF cc _ page(2) nn page(1) s1] yes ps by simp
    from covers_named [OF this _ ok, of sz] have
      "covers gate (pp\<lparr>map_size := sz,
          system_mapping_info := (system_mapping_info pp)\<lparr>sys_end_address := mm_end mm\<rparr>,
          permissions := permissions pp \<union> mm_perms mm\<rparr>) ((gg @ [page]) @ [mm])"
      using yes nn g no sz by simp
    moreover have "concat (rev (((gg @ [page]) @ [mm]) # gs)) = concat (rev groups) @ [mm]" by (simp add: gs g)
    ultimately show ?thesis using yes infos e sz r
      by (intro disjI2 exI [of _ "_ # rest"] exI [of _ "_ # gs"] conjI) (auto simp: merge_prev_prev_def)
  qed
qed

lemma aggregate_step_groups:
  assumes all: "list_all2 (covers gate) infos groups" and ok: "line_ok mm"
  shows "\<exists>infos' groups'. aggregate_step gate infos mm = Ok infos' \<and>
    list_all2 (covers gate) infos' groups' \<and> concat (rev groups') = concat (rev groups) @ [mm]"
proof -
  obtain pathname offset where no: "name_and_offset gate mm = (pathname, offset)" by force
  obtain sz where sz: "sub_w (mm_end mm) (mm_start mm) = (Ok sz :: (usize, MapsReaderError) result)"
    using sub_w_le ok by (auto simp: line_ok_def)
  have new: "\<exists>groups'. list_all2 (covers gate) (\<lparr>start_address = mm_start mm, map_size = sz,
    system_mapping_info = \<lparr>sys_start_address = mm_start mm, sys_end_address = mm_end mm\<rparr>,
    map_offset = offset, permissions = mm_perms mm, name = pathname\<rparr> # infos) groups' \<and>
    concat (rev groups') = concat (rev groups) @ [mm]"
    using covers_new [OF ok sz no] all by (intro exI [of _ "[mm] # groups"]) simp
  show ?thesis
    using merge_prev_groups [OF all ok no] merge_prev_prev_groups [OF all ok no] new
    by (auto simp: aggregate_step_def Let_def no sz)
qed

lemma aggregate_loop_groups:
  assumes "list_all2 (covers gate) infos groups" and "list_all line_ok maps"
  shows "\<exists>infos' groups'. aggregate_loop gate infos maps = Ok infos' \<and>
    list_all2 (covers gate) infos' groups' \<and> concat (rev groups') = concat (rev groups) @ maps"
  using assms
proof (induction maps arbitrary: infos groups)
  case Nil
  then show ?case by auto
next
  case (Cons mm maps)
  then obtain infos1 groups1 where 1: "aggregate_step gate infos mm = Ok infos1"
    "list_all2 (covers gate) infos1 groups1" "concat (rev groups1) = concat (rev groups) @ [mm]"
    using aggregate_step_groups [of gate infos groups mm] by auto
  with Cons.IH [OF 1(2)] Cons.prems(2) show ?case by auto
qed

lemma aggregate_groups:
  assumes "list_all line_ok maps"
  shows "\<exists>infos groups. aggregate maps gate = Ok infos \<and> concat groups = maps \<and> list_all2 (covers gate) infos groups"
proof -
  obtain infos groups where "aggregate_loop gate [] maps = Ok infos" "list_all2 (covers gate) infos groups"
    "concat (rev groups) = maps"
    using aggregate_loop_groups [of gate "[]" "[]" maps] assms by auto
  then show ?thesis
    by (intro exI [of _ "rev infos"] exI [of _ "rev groups"]) (simp add: aggregate_def)
qed

section \<open>Address space and order\<close>

definition line_range :: "MemoryMap \<Rightarrow> nat set" where
  "line_range mm = {unat (mm_start mm) ..< unat (mm_end mm)}"

definition info_range :: "MappingInfo \<Rightarrow> nat set" where
  "info_range info = {unat (start_address info) ..< unat (start_address info) + unat (map_size info)}"

lemma group_range:
  "g \<noteq> [] \<Longrightarrow> list_all line_ok g \<Longrightarrow> successively (\<lambda>a b. mm_end a = mm_start b) g \<Longrightarrow>
   (\<Union>m \<in> set g. line_range m) = {unat (mm_start (hd g)) ..< unat (mm_end (last g))} \<and>
   mm_start (hd g) \<le> mm_end (last g)"
proof (induction g rule: induct_list012)
  case (3 a b g)
  then have ih: "(\<Union>m \<in> set (b # g). line_range m) = {unat (mm_start b) ..< unat (mm_end (last (b # g)))}"
    "mm_start b \<le> mm_end (last (b # g))" by auto
  from 3 have "mm_end a = mm_start b" "mm_start a \<le> mm_end a" by (auto simp: line_ok_def)
  moreover have "(\<Union>m \<in> set (a # b # g). line_range m) = line_range a \<union> (\<Union>m \<in> set (b # g). line_range m)" by simp
  ultimately show ?case
    using ih by (auto simp: line_range_def word_le_nat_alt)
qed (auto simp: line_range_def line_ok_def)

lemma covers_range: "covers gate info g \<Longrightarrow> info_range info = (\<Union>m \<in> set g. line_range m)"
  using group_range [of g] by (auto simp: covers_def info_range_def)

lemma covers_all_range:
  "list_all2 (covers gate) infos groups \<Longrightarrow>
   (\<Union>i \<in> set infos. info_range i) = (\<Union>m \<in> set (concat groups). line_range m)"
  by (induction rule: list_all2_induct) (auto simp: covers_range)

lemma covers_sorted:
  assumes "list_all2 (covers gate) infos groups"
    and "sorted_wrt (\<lambda>a b. mm_end a \<le> mm_start b) (concat groups)"
  shows "sorted_wrt (\<lambda>a b. unat (start_address a) + unat (map_size a) \<le> unat (start_address b)) infos"
  using assms
proof (induction rule: list_all2_induct)
  case (Cons info infos g groups)
  have "unat (start_address info) + unat (map_size info) \<le> unat (start_address i)" if i: "i \<in> set infos" for i
  proof -
    from i obtain k where "k < length infos" "i = infos ! k" by (auto simp: in_set_conv_nth)
    with Cons.hyps(2) obtain h where h: "h \<in> set groups" "covers gate i h"
      by (metis list_all2_lengthD list_all2_nthD nth_mem)
    then have "hd h \<in> set h" by (simp add: covers_def)
    with h(1) have "hd h \<in> set (concat groups)" by auto
    moreover have "last g \<in> set g" using Cons.hyps(1) by (simp add: covers_def)
    ultimately have "mm_end (last g) \<le> mm_start (hd h)"
      using Cons.prems by (auto simp: sorted_wrt_append)
    with Cons.hyps(1) h(2) show ?thesis by (auto simp: covers_def word_le_nat_alt)
  qed
  with Cons show ?case by (simp add: sorted_wrt_append)
qed simp

section \<open>Properties\<close>

text \<open>
  C15. \<open>aggregate\<close> only groups: on lines with ordered bounds it never panics or fails, and the
  lines can be cut into consecutive non-empty runs, one per mapping it returns, such that each mapping
  covers its run. So the lines of a run touch, the mapping spans exactly from the first start to the last end,
  it is named after its first line, and a line merged into it has the same name or is an inaccessible
  private range.
\<close>

theorem aggregate_partitions:
  assumes "list_all line_ok maps"
  shows "\<exists>infos groups. aggregate maps gate = Ok infos \<and> concat groups = maps \<and>
    list_all2 (covers gate) infos groups"
  using assms by (rule aggregate_groups)

definition ex_lib :: "u64 \<Rightarrow> u64 \<Rightarrow> perm set \<Rightarrow> MMapPath \<Rightarrow> MemoryMap" where
  "ex_lib a b ps p = \<lparr>mm_start = a, mm_end = b, mm_perms = ps, mm_offset = 0, mm_pathname = p\<rparr>"

theorem aggregate_partitions_witness:
  "\<exists>infos groups. aggregate [ex_lib 4096 8192 {READ, EXECUTE, PRIVATE} (Path ''/l.so''),
       ex_lib 8192 12288 {PRIVATE} Anonymous, ex_lib 12288 16384 {READ, PRIVATE} (Path ''/l.so'')] None = Ok infos \<and>
     concat groups = [ex_lib 4096 8192 {READ, EXECUTE, PRIVATE} (Path ''/l.so''),
       ex_lib 8192 12288 {PRIVATE} Anonymous, ex_lib 12288 16384 {READ, PRIVATE} (Path ''/l.so'')] \<and>
     list_all2 (covers None) infos groups"
  by (rule aggregate_partitions) (simp add: line_ok_def ex_lib_def)

text \<open>
  C23. No address is gained or lost: the addresses inside the returned mappings are exactly the addresses
  inside the lines, and if the lines are in order and do not overlap, neither do the mappings.
\<close>

theorem aggregate_keeps_addresses:
  assumes "list_all line_ok maps" and "aggregate maps gate = Ok infos"
  shows "(\<Union>i \<in> set infos. info_range i) = (\<Union>m \<in> set maps. line_range m) \<and>
    (sorted_wrt (\<lambda>a b. mm_end a \<le> mm_start b) maps \<longrightarrow>
     sorted_wrt (\<lambda>a b. unat (start_address a) + unat (map_size a) \<le> unat (start_address b)) infos)"
proof -
  obtain groups where maps: "concat groups = maps" and all: "list_all2 (covers gate) infos groups"
    using aggregate_groups [OF assms(1), of gate] assms(2) by auto
  show ?thesis
    using covers_all_range [OF all] covers_sorted [OF all] by (simp add: maps)
qed

theorem aggregate_keeps_addresses_witness:
  "info_range \<lparr>start_address = 4096, map_size = 4096,
      system_mapping_info = \<lparr>sys_start_address = 4096, sys_end_address = 8192\<rparr>,
      map_offset = 0, permissions = {READ}, name = Some ''[heap]''\<rparr> = line_range (ex_lib 4096 8192 {READ} Heap)"
proof -
  have "aggregate [ex_lib 4096 8192 {READ} Heap] None = Ok [\<lparr>start_address = 4096, map_size = 4096,
      system_mapping_info = \<lparr>sys_start_address = 4096, sys_end_address = 8192\<rparr>,
      map_offset = 0, permissions = {READ}, name = Some ''[heap]''\<rparr>]"
    by code_simp
  from aggregate_keeps_addresses [OF _ this] show ?thesis by (simp add: line_ok_def ex_lib_def)
qed

text \<open>The words of the stack copy that lie at or behind the stack pointer.\<close>

definition stack_word :: "bytes \<Rightarrow> nat \<Rightarrow> u64" where
  "stack_word bs off = word_of_nat (le_nat (take 8 (drop off bs)))"

lemma scan_words_iff:
  assumes "8 \<le> length bs"
  shows "scan_words lo hi bs off \<longleftrightarrow>
    (\<exists>k. off + 8 * k + 8 \<le> length bs \<and> lo \<le> stack_word bs (off + 8 * k) \<and> stack_word bs (off + 8 * k) \<le> hi)"
  using assms
proof (induction lo hi bs off rule: scan_words.induct)
  case (1 lo hi bs off)
  show ?case
  proof (cases "off + 8 \<le> length bs")
    case False
    then show ?thesis by (subst scan_words.simps) (auto simp: read_word_def)
  next
    case True
    let ?P = "\<lambda>off. lo \<le> stack_word bs off \<and> stack_word bs off \<le> hi"
    have r: "read_word bs off = Some (stack_word bs off)" using True by (simp add: read_word_def stack_word_def)
    have step: "scan_words lo hi bs off \<longleftrightarrow> ?P off \<or> scan_words lo hi bs (off + 8)"
    proof -
      have "off \<le> length bs - 8" using True by simp
      with r show ?thesis by (subst scan_words.simps) auto
    qed
    have ih: "\<not> ?P off \<Longrightarrow> scan_words lo hi bs (off + 8) \<longleftrightarrow> (\<exists>k. off + 8 + 8 * k + 8 \<le> length bs \<and> ?P (off + 8 + 8 * k))"
    proof -
      assume "\<not> ?P off"
      moreover have "off \<le> length bs - 8" using True by simp
      ultimately show ?thesis using "1.IH" [OF _ r] "1.prems" by blast
    qed
    have split: "(\<exists>k. Q k) \<longleftrightarrow> Q 0 \<or> (\<exists>k. Q (Suc k))" for Q :: "nat \<Rightarrow> bool"
      by (metis not0_implies_Suc)
    show ?thesis
    proof (cases "?P off")
      case False
      then show ?thesis unfolding step using ih True by (subst split) (simp add: ac_simps)
    qed (use True step in \<open>auto intro!: exI [of _ 0]\<close>)
  qed
qed

lemma unat_clear_low3: "unat (and m (- 8)) = unat m div 8 * 8" for m :: u64
  using page_mask [of m 3] by (simp add: mult.commute)

text \<open>Rounding up to a multiple of eight, as a number.\<close>

definition aligned8 :: "nat \<Rightarrow> nat" where
  "aligned8 n = (n + 7) div 8 * 8"

lemma align_up8_eq:
  "align_up8 n = (if unat n + 8 < 2 ^ 64 then Ok (word_of_nat (aligned8 (unat n))) else Panic)"
proof (cases "unat n + 8 < 2 ^ 64")
  case True
  then have n: "unat (n + 8) = unat n + 8" "unat (7 + n) = unat n + 7" by (simp_all add: unat_word_ariths)
  then have "1 \<le> n + 8" by (simp add: word_le_nat_alt)
  moreover have "unat (and (7 + n) (- 8)) = aligned8 (unat n)" by (simp only: unat_clear_low3 n aligned8_def)
  then have "and (7 + n) (- 8) = word_of_nat (aligned8 (unat n))" by (metis of_nat_unat ucast_id)
  ultimately show ?thesis using True n by (simp add: align_up8_def add_w_def sub_w_def)
qed (simp add: align_up8_def add_w_def)

lemma unat_aligned:
  assumes "unat n + 8 < 2 ^ 64"
  shows "unat (word_of_nat (aligned8 (unat n)) :: usize) = aligned8 (unat n)"
proof -
  have "aligned8 (unat n) < 2 ^ 64" using assms unfolding aligned8_def by linarith
  then show ?thesis by (simp add: unsigned_of_nat take_bit_nat_eq_self)
qed

lemma aligned_offsets_iff:
  fixes n :: nat
  shows "(\<exists>k. Q (aligned8 n + 8 * k)) \<longleftrightarrow> (\<exists>off. off mod 8 = 0 \<and> n \<le> off \<and> Q off)"
  unfolding aligned8_def
proof
  let ?a = "(n + 7) div 8 * 8"
  assume "\<exists>k. Q (?a + 8 * k)"
  then obtain k where "Q (?a + 8 * k)" by blast
  moreover have "n \<le> ?a" "(?a + 8 * k) mod 8 = 0" by simp_all
  ultimately show "\<exists>off. off mod 8 = 0 \<and> n \<le> off \<and> Q off" by (intro exI [of _ "?a + 8 * k"]) simp
next
  assume "\<exists>off. off mod 8 = 0 \<and> n \<le> off \<and> Q off"
  then obtain off where off: "off mod 8 = 0" "n \<le> off" "Q off" by (elim exE conjE)
  then obtain q where q: "off = 8 * q" by (metis mod_0_imp_dvd dvd_def)
  with off(2) have "(n + 7) div 8 \<le> q" by linarith
  then have "(n + 7) div 8 * 8 + 8 * (q - (n + 7) div 8) = off" by (simp add: q)
  with off(3) show "\<exists>k. Q ((n + 7) div 8 * 8 + 8 * k)" by metis
qed

text \<open>
  C24. The scan of a stack copy finds a pointer exactly when there is one: with at least one word of
  stack and an offset of the stack pointer that can be rounded up, \<open>stack_has_pointer_to_mapping\<close> returns true
  if and only if some word at a word-aligned offset not before the stack pointer lies between the system start
  and the system end of the mapping, both included. In the two remaining cases it panics, and in no other: a
  shorter copy makes the subtraction in the loop condition underflow, and an offset among the last eight of the
  address space makes the rounding overflow.
\<close>

theorem stack_pointer_scan_exact:
  "stack_has_pointer_to_mapping self stack_copy sp_offset =
    (if unat sp_offset + 8 < 2 ^ 64 \<and> 8 \<le> length stack_copy
     then Ok (\<exists>off. off mod 8 = 0 \<and> unat sp_offset \<le> off \<and> off + 8 \<le> length stack_copy \<and>
       sys_start_address (system_mapping_info self) \<le> stack_word stack_copy off \<and>
       stack_word stack_copy off \<le> sys_end_address (system_mapping_info self))
     else Panic)"
proof (cases "unat sp_offset + 8 < 2 ^ 64")
  case True
  then show ?thesis
    by (simp add: stack_has_pointer_to_mapping_def align_up8_eq unat_aligned scan_words_iff not_less
        aligned_offsets_iff [where Q = "\<lambda>off. off + 8 \<le> length stack_copy \<and>
          sys_start_address (system_mapping_info self) \<le> stack_word stack_copy off \<and>
          stack_word stack_copy off \<le> sys_end_address (system_mapping_info self)"])
qed (simp add: stack_has_pointer_to_mapping_def align_up8_eq)

definition ex_low_mapping :: MappingInfo where
  "ex_low_mapping = \<lparr>start_address = 0, map_size = 16,
     system_mapping_info = \<lparr>sys_start_address = 0, sys_end_address = 16\<rparr>,
     map_offset = 0, permissions = {}, name = None\<rparr>"

theorem stack_pointer_scan_exact_witness:
  "stack_has_pointer_to_mapping ex_low_mapping (replicate 8 0) 0 = Ok True \<and>
   stack_has_pointer_to_mapping ex_low_mapping (replicate 8 0) (- 5) = Panic"
proof -
  have "stack_word (replicate 8 0) 0 = 0" by code_simp
  then have "\<exists>off. off mod 8 = 0 \<and> unat (0 :: usize) \<le> off \<and> off + 8 \<le> length (replicate 8 (0 :: u8)) \<and>
      sys_start_address (system_mapping_info ex_low_mapping) \<le> stack_word (replicate 8 0) off \<and>
      stack_word (replicate 8 0) off \<le> sys_end_address (system_mapping_info ex_low_mapping)"
    by (intro exI [of _ 0]) (simp add: ex_low_mapping_def)
  moreover have "\<not> unat (- 5 :: usize) + 8 < 2 ^ 64" by simp
  ultimately show ?thesis by (simp only: stack_pointer_scan_exact) simp
qed

text \<open>
  The name written for a module agrees with its path: when a SONAME is known (a plain file name), the
  effective path that \<open>get_mapping_effective_path_name_and_version\<close> returns has that SONAME as its last
  component, whether it was appended to the path of an archive or replaced the name of the mapped file,
  and the returned name is the SONAME itself.
\<close>

theorem effective_path_ends_in_soname:
  assumes "get_mapping_effective_path_name_and_version S G map_file self (Some q) = Ok (path, fname, v)"
    and "CHR ''/'' \<notin> set q" and "q \<notin> {[], ''.'', ''..''}"
  shows "fname = q \<and> file_name path = Some q"
  using assms file_name_path_push [of q]
  by (auto simp: get_mapping_effective_path_name_and_version_def Let_def bindR_Ok_iff set_file_name_def)

definition ex_mapping :: "usize \<Rightarrow> MappingInfo" where
  "ex_mapping off = \<lparr>start_address = 4096, map_size = 8192,
     system_mapping_info = \<lparr>sys_start_address = 4096, sys_end_address = 12288\<rparr>,
     map_offset = off, permissions = {READ, EXECUTE, PRIVATE}, name = Some ''/data/app.apk''\<rparr>"

theorem effective_path_ends_in_soname_witness:
  "file_name ''/data/app.apk/libfoo.so'' = Some ''libfoo.so''"
proof -
  have "SoVersion_parse ''/data/app.apk'' = (Ok None :: (SoVersion option, MapsReaderError) result)"
    by code_simp
  then have "get_mapping_effective_path_name_and_version (target_sys True True Map.empty) goblin_le64 (\<lambda>_ _. Err (OsError 2))
      (ex_mapping 4096) (Some ''libfoo.so'') = Ok (''/data/app.apk/libfoo.so'', ''libfoo.so'', None)"
    by (simp add: get_mapping_effective_path_name_and_version_def ex_mapping_def so_version_def is_executable_def
        path_push_def)
  from effective_path_ends_in_soname [OF this] show ?thesis by simp
qed

lemma so_version_loop_first_two:
  "so_version_loop 0 (x # y # zs) cs = so_version_loop 2 zs (cs[0 := or_zero (parse_u32 x), 1 := or_zero (parse_u32 y)])"
  by (simp add: numeral_2_eq_2)

lemma so_file_name:
  assumes "CHR ''/'' \<notin> set base" "CHR ''/'' \<notin> set v" and "d = [] \<or> last d = CHR ''/''"
  shows "file_name (d @ base @ ''.so.'' @ v) = Some (base @ ''.so.'' @ v)"
proof -
  let ?f = "base @ ''.so.'' @ v"
  have "4 \<le> length ?f" by simp
  then have "?f \<noteq> []" "?f \<noteq> ''.''" "?f \<noteq> ''..''" by auto
  moreover have "CHR ''/'' \<notin> set ?f" using assms by simp
  ultimately show ?thesis
    using file_name_append [of ?f d] len_before_body_name [of ?f d] assms(3) by simp
qed

lemma ascii_digit: "is_ascii_digit c \<Longrightarrow> (of_char c :: nat) < 128 \<and> c \<noteq> CHR ''/'' \<and> c \<noteq> CHR ''.''"
  by (auto simp: is_ascii_digit_def)

lemma dec_string_chars:
  "c \<in> set (dec_string n) \<Longrightarrow> (of_char c :: nat) < 128 \<and> c \<noteq> CHR ''/'' \<and> c \<noteq> CHR ''.''"
  using dec_string_digits ascii_digit by blast

lemma split_version:
  "split_on CHR ''.'' (dec_string a @ ''.'' @ dec_string b @ ''.'' @ dec_string c @ ''.'' @ dec_string d) =
     [dec_string a, dec_string b, dec_string c, dec_string d]"
proof -
  have "CHR ''.'' \<notin> set (dec_string n)" for n using dec_string_chars by blast
  then show ?thesis by (simp add: split_on_append split_on_word)
qed

text \<open>
  Version numbers survive: a file name \<open>base.so.a.b.c.d\<close>, in any directory, with an ASCII base name without
  dots, parses to exactly the four numbers, for all values of a \<open>u32\<close>.
\<close>

theorem so_version_roundtrip:
  assumes "CHR ''/'' \<notin> set base" and "CHR ''.'' \<notin> set base" and "\<forall>x \<in> set base. (of_char x :: nat) < 128"
    and "dir = [] \<or> last dir = CHR ''/''"
  shows "SoVersion_parse (dir @ base @ ''.so.'' @ dec_string (unat a) @ ''.'' @ dec_string (unat b) @ ''.'' @
      dec_string (unat c) @ ''.'' @ dec_string (unat d)) =
    (Ok (Some \<lparr>major = a, minor = b, patch = c, prerelease = d\<rparr>) :: (SoVersion option, 'e) result)"
proof -
  let ?v = "dec_string (unat a) @ ''.'' @ dec_string (unat b) @ ''.'' @ dec_string (unat c) @ ''.'' @ dec_string (unat d)"
  have "CHR ''/'' \<notin> set ?v" using dec_string_chars by auto
  from so_file_name [OF assms(1) this assms(4)]
  have f: "file_name (dir @ base @ ''.so.'' @ ?v) = Some (base @ ''.so.'' @ ?v)" .
  have "\<forall>x \<in> set (base @ ''.so.'' @ ?v). (of_char x :: nat) < 128"
    using assms(3) dec_string_chars by auto
  then have lossy: "to_string_lossy (base @ ''.so.'' @ ?v) = base @ ''.so.'' @ ?v"
    by (intro to_string_lossy_valid valid_str_ascii)
  have once: "split_once ''.so.'' (base @ ''.so.'' @ ?v) = Some (base, ?v)"
    using assms(2) by (intro split_once_first) simp_all
  have p: "parse_u32 (dec_string (unat w)) = Some w" for w :: u32
    using parse_u32_dec_string [of "unat w"] unsigned_less [of w, where 'a = nat] by simp
  have digits: "list_all is_ascii_digit (dec_string n)" for n
    using dec_string_digits by (simp add: list_all_iff)
  have "so_version_loop 0 [dec_string (unat a), dec_string (unat b), dec_string (unat c), dec_string (unat d)] [0, 0, 0, 0]
      = (Ok [a, b, c, d] :: (u32 list, 'e) result)"
    by (simp add: p digits or_zero_def)
  note loop = this
  show ?thesis
    unfolding SoVersion_parse_def f option.case lossy once prod.case split_version loop bindR.simps by simp
qed

theorem so_version_roundtrip_witness:
  "SoVersion_parse (''/usr/lib/'' @ ''libfoo'' @ ''.so.'' @ dec_string (unat (3 :: u32)) @ ''.'' @ dec_string (unat (0 :: u32))
      @ ''.'' @ dec_string (unat (12 :: u32)) @ ''.'' @ dec_string (unat (5 :: u32))) =
    (Ok (Some \<lparr>major = 3, minor = 0, patch = 12, prerelease = 5\<rparr>) :: (SoVersion option, MapsReaderError) result)"
  by (rule so_version_roundtrip) simp_all

text \<open>
  A file name can crash the dumper: if the third version component ends, up to trailing digits,
  in a character that is not ASCII, the slice one byte behind the start of that character is not at a character
  boundary and \<open>SoVersion::parse\<close> panics.
\<close>

theorem so_version_panics:
  assumes "file_name path = Some f" and "valid_str f" and "split_once ''.so.'' f = Some (base, v)"
    and "split_on CHR ''.'' v = x # y # (u @ t) # rest"
    and "u \<noteq> []" and "128 \<le> (of_char (last u) :: nat)" and "list_all is_ascii_digit t"
  shows "SoVersion_parse path = (Panic :: (SoVersion option, 'e) result)"
proof -
  have nd: "\<not> is_ascii_digit (last u)" using assms(6) by (simp add: is_ascii_digit_def)
  have "takeWhile is_ascii_digit (rev t @ rev u) = rev t"
    using assms(5,7) nd by (cases u rule: rev_cases) (auto simp: takeWhile_append list_all_iff)
  then have t: "takeWhile is_ascii_digit (rev (u @ t)) = rev t" by simp
  have "\<not> list_all is_ascii_digit (u @ t)"
    using assms(5) nd by (auto simp: list_all_iff)
  moreover have "(u @ t) ! (length u - Suc 0) = last u"
    using assms(5) by (simp add: nth_append last_conv_nth)
  ultimately have "so_version_loop 2 ((u @ t) # rest) comps = (Panic :: (u32 list, 'e) result)" for comps
    using assms(6) t by (auto simp: Let_def)
  then have "so_version_loop 0 (x # y # (u @ t) # rest) [0, 0, 0, 0] = (Panic :: (u32 list, 'e) result)"
    by (simp only: so_version_loop_first_two)
  with assms show ?thesis by (simp add: SoVersion_parse_def)
qed

theorem so_version_panics_witness:
  "SoVersion_parse (''/lib/libx.so.1.2.3'' @ [CHR 0xC3, CHR 0xA9]) = (Panic :: (SoVersion option, MapsReaderError) result)"
proof (rule so_version_panics [where f = "''libx.so.1.2.3'' @ [CHR 0xC3, CHR 0xA9]" and base = "''libx''"
      and v = "''1.2.3'' @ [CHR 0xC3, CHR 0xA9]" and u = "''3'' @ [CHR 0xC3, CHR 0xA9]" and t = "[]"])
  show "file_name (''/lib/libx.so.1.2.3'' @ [CHR 0xC3, CHR 0xA9]) = Some (''libx.so.1.2.3'' @ [CHR 0xC3, CHR 0xA9])"
    by code_simp
  show "valid_str (''libx.so.1.2.3'' @ [CHR 0xC3, CHR 0xA9])"
    by code_simp
  show "split_once ''.so.'' (''libx.so.1.2.3'' @ [CHR 0xC3, CHR 0xA9]) = Some (''libx'', ''1.2.3'' @ [CHR 0xC3, CHR 0xA9])"
    by code_simp
  show "split_on CHR ''.'' (''1.2.3'' @ [CHR 0xC3, CHR 0xA9]) = ''1'' # ''2'' # ((''3'' @ [CHR 0xC3, CHR 0xA9]) @ []) # []"
    by code_simp
qed simp_all

end
