(* ===== verification/Auxv.thy ===== *)
theory Auxv
  imports Mem_Writer Rust_Path
begin

text \<open>
  \<open>src/src/linux/auxv/mod.rs\<close> and \<open>reader.rs\<close>: the auxiliary vector of the target, passed in by the
  caller or read from \<open>/proc/<pid>/auxv\<close>.

  The file is the list of what successive reads of it deliver: chunks of bytes, of any length, and
  errors; a read of length zero or the end of the list is the end of the file. Soft errors are
  collected in a list. The test hook \<open>failspot!\<close> does nothing in a production build and is left out.
\<close>

section \<open>Reading pairs\<close>

type_synonym AuxvType = u64

definition AT_NULL :: AuxvType where "AT_NULL = 0"
definition AT_PHDR :: AuxvType where "AT_PHDR = 3"
definition AT_PHNUM :: AuxvType where "AT_PHNUM = 5"
definition AT_ENTRY :: AuxvType where "AT_ENTRY = 9"
definition AT_SYSINFO_EHDR :: AuxvType where "AT_SYSINFO_EHDR = 33"

lemmas auxv_consts = AT_NULL_def AT_PHDR_def AT_PHNUM_def AT_ENTRY_def AT_SYSINFO_EHDR_def

record AuxvPair =
  key :: AuxvType
  val :: AuxvType

datatype AuxvError =
    OpenError string io_error
  | NoAuxvEntryFound Pid
  | InvalidFormat
  | AuxvError_IOError io_error

datatype read_event = Data bytes | ReadErr io_error

fun read_input :: "nat \<Rightarrow> read_event list \<Rightarrow> (bytes, io_error) result \<times> read_event list" where
  "read_input n [] = (Ok [], [])"
| "read_input n (ReadErr e # evs) = (Err e, evs)"
| "read_input n (Data bs # evs) =
     (if length bs \<le> n then (Ok bs, evs) else (Ok (take n bs), Data (drop n bs) # evs))"

record ProcfsAuxvIter =
  input :: "read_event list"
  keep_going :: bool

definition ProcfsAuxvIter_new :: "read_event list \<Rightarrow> ProcfsAuxvIter" where
  "ProcfsAuxvIter_new inp = \<lparr>input = inp, keep_going = True\<rparr>"

text \<open>The inner loop: read until the buffer of one pair is full.\<close>

function read_full :: "nat \<Rightarrow> read_event list \<Rightarrow> (bytes, AuxvError) result \<times> read_event list" where
  "read_full n inp =
     (if n = 0 then (Ok [], inp)
      else case read_input n inp of
        (Err e, inp') \<Rightarrow> (Err (AuxvError_IOError e), inp')
      | (Panic, inp') \<Rightarrow> (Panic, inp')
      | (Ok bs, inp') \<Rightarrow>
          if bs = [] then (Err InvalidFormat, inp')
          else case read_full (n - length bs) inp' of (r, inp'') \<Rightarrow> (bindR r (\<lambda>more. Ok (bs @ more)), inp''))"
  by pat_completeness auto
termination by (relation "measure fst") auto

declare read_full.simps [simp del]

definition read_long :: "bytes \<Rightarrow> AuxvType" where
  "read_long bs = word_of_nat (le_nat (take 8 bs))"

definition ProcfsAuxvIter_next ::
    "ProcfsAuxvIter \<Rightarrow> (AuxvPair, AuxvError) result option \<times> ProcfsAuxvIter" where
  "ProcfsAuxvIter_next self =
     (if \<not> keep_going self then (None, self)
      else case read_full 16 (input self) of
        (Err e, inp) \<Rightarrow> (Some (Err e), \<lparr>input = inp, keep_going = False\<rparr>)
      | (Panic, inp) \<Rightarrow> (Some Panic, \<lparr>input = inp, keep_going = False\<rparr>)
      | (Ok buf, inp) \<Rightarrow>
          (let aux_key = read_long buf; aux_val = read_long (drop 8 buf) in
           if aux_key = AT_NULL then (None, \<lparr>input = inp, keep_going = False\<rparr>)
           else (Some (Ok \<lparr>key = aux_key, val = aux_val\<rparr>), \<lparr>input = inp, keep_going = True\<rparr>)))"

section \<open>The collected information\<close>

record DirectAuxvDumpInfo =
  direct_program_header_count :: AuxvType
  direct_program_header_address :: AuxvType
  direct_linux_gate_address :: AuxvType
  direct_entry_address :: AuxvType

record AuxvDumpInfo =
  program_header_count :: "AuxvType option"
  program_header_address :: "AuxvType option"
  linux_gate_address :: "AuxvType option"
  entry_address :: "AuxvType option"

definition AuxvDumpInfo_default :: AuxvDumpInfo where
  "AuxvDumpInfo_default = \<lparr>program_header_count = None, program_header_address = None,
     linux_gate_address = None, entry_address = None\<rparr>"

definition AuxvDumpInfo_from :: "DirectAuxvDumpInfo \<Rightarrow> AuxvDumpInfo" where
  "AuxvDumpInfo_from f =
     (let opt = (\<lambda>v. if v > 0 then Some v else None) in
      \<lparr>program_header_count = opt (direct_program_header_count f),
       program_header_address = opt (direct_program_header_address f),
       linux_gate_address = opt (direct_linux_gate_address f),
       entry_address = opt (direct_entry_address f)\<rparr>)"

definition is_complete :: "AuxvDumpInfo \<Rightarrow> bool" where
  "is_complete self \<longleftrightarrow> program_header_count self \<noteq> None \<and> program_header_address self \<noteq> None \<and>
     linux_gate_address self \<noteq> None \<and> entry_address self \<noteq> None"

text \<open>One pair: the field of its key is written only while it is empty.\<close>

definition or_else :: "'a option \<Rightarrow> 'a \<Rightarrow> 'a option" where
  "or_else old v = (case old of None \<Rightarrow> Some v | Some _ \<Rightarrow> old)"

definition fill_pair :: "AuxvPair \<Rightarrow> AuxvDumpInfo \<Rightarrow> AuxvDumpInfo" where
  "fill_pair p self =
     (if key p = AT_PHNUM then self\<lparr>program_header_count := or_else (program_header_count self) (val p)\<rparr>
      else if key p = AT_PHDR then self\<lparr>program_header_address := or_else (program_header_address self) (val p)\<rparr>
      else if key p = AT_SYSINFO_EHDR then self\<lparr>linux_gate_address := or_else (linux_gate_address self) (val p)\<rparr>
      else if key p = AT_ENTRY then self\<lparr>entry_address := or_else (entry_address self) (val p)\<rparr>
      else self)"

text \<open>The number of reads that an input can still serve bounds the loop over the pairs.\<close>

fun event_size :: "read_event \<Rightarrow> nat" where
  "event_size (Data bs) = Suc (length bs)"
| "event_size (ReadErr _) = 1"

definition input_size :: "read_event list \<Rightarrow> nat" where
  "input_size evs = sum_list (map event_size evs)"

lemma read_input_size:
  "read_input n inp = (Ok bs, inp') \<Longrightarrow> bs \<noteq> [] \<Longrightarrow> 0 < n \<Longrightarrow>
   input_size inp' < input_size inp \<and> length bs \<le> n"
  by (cases "(n, inp)" rule: read_input.cases) (auto simp: input_size_def split: if_splits)

lemma read_full_size:
  "read_full n inp = (Ok buf, inp') \<Longrightarrow>
   length buf = n \<and> input_size inp' \<le> input_size inp \<and> (0 < n \<longrightarrow> input_size inp' < input_size inp)"
proof (induction n inp arbitrary: buf inp' rule: read_full.induct)
  case (1 n inp)
  show ?case
  proof (cases "n = 0")
    case True
    with 1(2) show ?thesis by (simp add: read_full.simps)
  next
    case False
    with 1(2) obtain bs inp1 more where
        r: "read_input n inp = (Ok bs, inp1)" "bs \<noteq> []"
      and f: "read_full (n - length bs) inp1 = (Ok more, inp')" and buf: "buf = bs @ more"
      by (subst (asm) read_full.simps) (auto simp: bindR_Ok_iff split: prod.splits result.splits if_splits)
    from read_input_size [OF r] False have "input_size inp1 < input_size inp" "length bs \<le> n" by auto
    moreover from 1(1) [OF False r(1) [symmetric] refl r(2) f]
    have "length more = n - length bs" "input_size inp' \<le> input_size inp1" by auto
    ultimately show ?thesis by (simp add: buf)
  qed
qed

lemma next_size:
  "ProcfsAuxvIter_next it = (Some (Ok p), it') \<Longrightarrow> input_size (input it') < input_size (input it)"
  "ProcfsAuxvIter_next it = (Some (Err e), it') \<Longrightarrow> \<not> keep_going it' \<and> keep_going it"
  "ProcfsAuxvIter_next it = (Some r, it') \<Longrightarrow> keep_going it"
  using read_full_size [of 16 "input it"]
  by (auto simp: ProcfsAuxvIter_next_def Let_def split: if_splits prod.splits result.splits)

function fill_loop ::
    "ProcfsAuxvIter \<Rightarrow> AuxvDumpInfo \<Rightarrow> AuxvError list \<Rightarrow> (unit, AuxvError) result \<times> AuxvDumpInfo \<times> AuxvError list" where
  "fill_loop it self soft_errors =
     (case ProcfsAuxvIter_next it of
        (None, _) \<Rightarrow> (Ok (), self, soft_errors)
      | (Some Panic, _) \<Rightarrow> (Panic, self, soft_errors)
      | (Some (Err e), it') \<Rightarrow> fill_loop it' self (soft_errors @ [e])
      | (Some (Ok p), it') \<Rightarrow> fill_loop it' (fill_pair p self) soft_errors)"
  by pat_completeness auto
termination
  by (relation "measure (\<lambda>(it, _, _). if keep_going it then Suc (input_size (input it)) else 0)")
    (auto dest!: sym [of "(Some _, _)"] dest: next_size)

declare fill_loop.simps [simp del]

definition int_string :: "int \<Rightarrow> string" where
  "int_string i = (if i < 0 then ''-'' @ dec_string (nat (- i)) else dec_string (nat i))"

definition try_filling_missing_info ::
    "(string \<Rightarrow> (read_event list, io_error) result) \<Rightarrow> Pid \<Rightarrow> AuxvDumpInfo \<times> AuxvError list \<Rightarrow>
     (unit, AuxvError) result \<times> AuxvDumpInfo \<times> AuxvError list" where
  "try_filling_missing_info open_file pid = (\<lambda>(self, soft_errors).
     if is_complete self then (Ok (), self, soft_errors)
     else
       let auxv_path = ''/proc/'' @ int_string pid @ ''/auxv'' in
       case map_err (OpenError auxv_path) (open_file auxv_path) of
         Ok inp \<Rightarrow> fill_loop (ProcfsAuxvIter_new inp) self soft_errors
       | Err e \<Rightarrow> (Err e, self, soft_errors)
       | Panic \<Rightarrow> (Panic, self, soft_errors))"

section \<open>The vector as a byte string\<close>

text \<open>What the bytes of the file say, independently of how they arrive.\<close>

function auxv_pairs :: "bytes \<Rightarrow> AuxvPair list \<times> AuxvError list" where
  "auxv_pairs bs =
     (if length bs < 16 then ([], [InvalidFormat])
      else if read_long bs = AT_NULL then ([], [])
      else case auxv_pairs (drop 16 bs) of
        (ps, es) \<Rightarrow> (\<lparr>key = read_long bs, val = read_long (drop 8 bs)\<rparr> # ps, es))"
  by pat_completeness auto
termination by (relation "measure length") auto

declare auxv_pairs.simps [simp del]

fun event_bytes :: "read_event \<Rightarrow> bytes" where
  "event_bytes (Data bs) = bs"
| "event_bytes (ReadErr _) = []"

definition flat :: "read_event list \<Rightarrow> bytes" where
  "flat evs = concat (map event_bytes evs)"

definition all_data :: "read_event list \<Rightarrow> bool" where
  "all_data evs \<longleftrightarrow> (\<forall>ev \<in> set evs. \<exists>bs. ev = Data bs \<and> bs \<noteq> [])"

lemma read_input_flat:
  assumes "all_data inp" and "0 < n"
  shows "\<exists>bs inp'. read_input n inp = (Ok bs, inp') \<and> all_data inp' \<and> flat inp = bs @ flat inp' \<and>
    length bs \<le> n \<and> (bs = [] \<longleftrightarrow> flat inp = [])"
proof (cases inp)
  case Nil
  then show ?thesis by (simp add: flat_def all_data_def)
next
  case (Cons ev evs)
  with assms obtain bs where "ev = Data bs" "bs \<noteq> []" by (auto simp: all_data_def)
  with Cons assms show ?thesis by (auto simp: flat_def all_data_def)
qed

lemma read_full_flat:
  "all_data inp \<Longrightarrow>
   (if n \<le> length (flat inp)
    then \<exists>inp'. read_full n inp = (Ok (take n (flat inp)), inp') \<and> all_data inp' \<and> flat inp' = drop n (flat inp)
    else \<exists>inp'. read_full n inp = (Err InvalidFormat, inp'))"
proof (induction n inp rule: read_full.induct)
  case (1 n inp)
  show ?case
  proof (cases "n = 0")
    case True
    with 1(2) show ?thesis by (simp add: read_full.simps)
  next
    case False
    with read_input_flat [OF 1(2), of n] obtain bs inp1 where r: "read_input n inp = (Ok bs, inp1)"
      and d: "all_data inp1" and fl: "flat inp = bs @ flat inp1" and le: "length bs \<le> n"
      and e: "bs = [] \<longleftrightarrow> flat inp = []" by auto
    show ?thesis
    proof (cases "bs = []")
      case True
      with e False r show ?thesis by (simp add: read_full.simps [of n inp])
    next
      case ne: False
      from 1(1) [OF False r [symmetric] refl ne d] False ne r le show ?thesis
        by (auto simp: read_full.simps [of n inp] fl split: if_splits)
    qed
  qed
qed

lemma fill_loop_flat:
  assumes "all_data inp"
  shows "fill_loop \<lparr>input = inp, keep_going = True\<rparr> self errs =
    (Ok (), fold fill_pair (fst (auxv_pairs (flat inp))) self, errs @ snd (auxv_pairs (flat inp)))"
  using assms
proof (induction "flat inp" arbitrary: inp self rule: auxv_pairs.induct)
  case 1
  note stop = fill_loop.simps [of "\<lparr>input = i, keep_going = False\<rparr>" for i]
  show ?case
  proof (cases "16 \<le> length (flat inp)")
    case False
    with read_full_flat [OF 1(2), of 16] show ?thesis
      by (auto simp: fill_loop.simps [of "\<lparr>input = inp, keep_going = True\<rparr>"] stop ProcfsAuxvIter_next_def
          auxv_pairs.simps [of "flat inp"])
  next
    case True
    with read_full_flat [OF 1(2), of 16] obtain inp' where
        r: "read_full 16 inp = (Ok (take 16 (flat inp)), inp')" "all_data inp'" "flat inp' = drop 16 (flat inp)" by auto
    have k: "read_long (take 16 (flat inp)) = read_long (flat inp)"
      "read_long (drop 8 (take 16 (flat inp))) = read_long (drop 8 (flat inp))"
      by (simp_all add: read_long_def drop_take)
    show ?thesis
    proof (cases "read_long (flat inp) = AT_NULL")
      case True
      with \<open>16 \<le> length (flat inp)\<close> r k show ?thesis
        by (simp add: fill_loop.simps [of "\<lparr>input = inp, keep_going = True\<rparr>"] ProcfsAuxvIter_next_def
          auxv_pairs.simps [of "flat inp"])
    next
      case False
      from 1(1) [OF _ False r(3) [symmetric] r(2)] False \<open>16 \<le> length (flat inp)\<close> r k show ?thesis
        by (simp add: fill_loop.simps [of "\<lparr>input = inp, keep_going = True\<rparr>"] ProcfsAuxvIter_next_def
          auxv_pairs.simps [of "flat inp"] split: prod.splits)
    qed
  qed
qed

section \<open>Filling fields\<close>

lemma or_else_Some [simp]: "or_else (Some x) v = Some x"
  by (simp add: or_else_def)

text \<open>The first pair with a key decides the field of that key, unless it was set before.\<close>

definition first_val :: "AuxvType \<Rightarrow> AuxvPair list \<Rightarrow> AuxvType option" where
  "first_val k ps = map_option val (find (\<lambda>p. key p = k) ps)"

definition keep_or :: "'a option \<Rightarrow> 'a option \<Rightarrow> 'a option" where
  "keep_or a b = (case a of Some x \<Rightarrow> Some x | None \<Rightarrow> b)"

lemma fold_fill_pair:
  "fold fill_pair ps self =
     \<lparr>program_header_count = keep_or (program_header_count self) (first_val AT_PHNUM ps),
      program_header_address = keep_or (program_header_address self) (first_val AT_PHDR ps),
      linux_gate_address = keep_or (linux_gate_address self) (first_val AT_SYSINFO_EHDR ps),
      entry_address = keep_or (entry_address self) (first_val AT_ENTRY ps)\<rparr>"
proof (induction ps arbitrary: self)
  case Nil
  then show ?case by (cases self) (simp add: first_val_def keep_or_def split: option.splits)
next
  case (Cons p ps)
  show ?case
    by (simp add: Cons.IH fill_pair_def [of p self] first_val_def keep_or_def or_else_def auxv_consts split: option.splits)
qed

section \<open>Properties\<close>

text \<open>
  C19. The vector is read correctly however the kernel delivers it: if the reads return the bytes
  in any non-empty portions, \<open>try_filling_missing_info\<close> returns normally, keeps every field that was
  already set, gives every other field the value of the first pair with its key before the terminating
  \<open>AT_NULL\<close>, and reports \<open>InvalidFormat\<close> as a soft error exactly when the bytes end before
  \<open>AT_NULL\<close>.
\<close>

theorem auxv_filled:
  assumes "open_file (''/proc/'' @ int_string pid @ ''/auxv'') = Ok inp" and "all_data inp" and "\<not> is_complete self"
  defines "ps \<equiv> fst (auxv_pairs (flat inp))"
  shows "try_filling_missing_info open_file pid (self, errs) =
    (Ok (), \<lparr>program_header_count = keep_or (program_header_count self) (first_val AT_PHNUM ps),
      program_header_address = keep_or (program_header_address self) (first_val AT_PHDR ps),
      linux_gate_address = keep_or (linux_gate_address self) (first_val AT_SYSINFO_EHDR ps),
      entry_address = keep_or (entry_address self) (first_val AT_ENTRY ps)\<rparr>,
     errs @ snd (auxv_pairs (flat inp)))"
  using assms(1-3)
  by (simp add: try_filling_missing_info_def ProcfsAuxvIter_new_def fill_loop_flat fold_fill_pair ps_def)

theorem auxv_filled_witness:
  "try_filling_missing_info (\<lambda>_. Ok [Data [9, 0, 0], Data ([0, 0, 0, 0, 0] @ [7] @ replicate 7 0), Data (replicate 16 0)]) 1
     (AuxvDumpInfo_default, []) = (Ok (), AuxvDumpInfo_default\<lparr>entry_address := Some 7\<rparr>, [])"
proof -
  let ?inp = "[Data [9, 0, 0], Data ([0, 0, 0, 0, 0] @ [7] @ replicate 7 0), Data (replicate 16 (0 :: u8))]"
  have "auxv_pairs (flat ?inp) = ([\<lparr>key = 9, val = 7\<rparr>], [])" by code_simp
  then show ?thesis
    using auxv_filled [of "\<lambda>_. Ok ?inp" 1 ?inp AuxvDumpInfo_default "[]"]
    by (simp add: all_data_def is_complete_def AuxvDumpInfo_default_def keep_or_def first_val_def auxv_consts)
qed

end
