(* ===== verification/Errors.thy ===== *)
theory Errors
  imports Dir_Section Maps_Reader Auxv
begin

text \<open>
  The error types of the dump: \<open>src/src/linux/minidump_writer/errors.rs\<close> and the error enums that stand
  at the head of the stream modules, \<open>thread_info/mod.rs\<close>, \<open>dumper_cpu_info/mod.rs\<close> and
  \<open>dso_debug.rs\<close>. A constructor carries its type's name where the source reuses a variant name.
  \<open>ErrorList<E>\<close> is the list of the errors pushed to it.
\<close>

section \<open>Components\<close>

datatype ThreadInfoError =
    IndexOutOfBounds nat nat
  | InvalidPid string Pid Pid
  | ThreadInfoError_IOError io_error
  | ThreadInfoError_UnparsableInteger
  | PtraceError nix_error
  | InvalidProcStatusFile Pid string

datatype CpuInfoError =
    CpuInfoError_IOError io_error
  | NotAllProcEntriesFound
  | CpuInfoError_UnparsableInteger
  | UnparsableCores string

datatype SectionDsoDebugError =
    SectionDsoDebugError_MemoryWriterError MemoryWriterError
  | CouldNotFind string
  | SectionDsoDebugError_CopyFromProcessError CopyFromProcessError
  | FromUTF8Error

datatype StopProcessError =
    Stop nix_error
  | State proc_error
  | Timeout

datatype ContinueProcessError = Continue nix_error

section \<open>Streams\<close>

datatype SectionAppMemoryError =
    SectionAppMemoryError_CopyFromProcessError CopyFromProcessError
  | SectionAppMemoryError_MemoryWriterError MemoryWriterError

datatype SectionExceptionStreamError =
  SectionExceptionStreamError_MemoryWriterError MemoryWriterError

datatype SectionHandleDataStreamError =
    SectionHandleDataStreamError_IOError io_error
  | SectionHandleDataStreamError_MemoryWriterError MemoryWriterError
  | SectionHandleDataStreamError_TryFromIntError

datatype SectionMappingsError =
    SectionMappingsError_MemoryWriterError MemoryWriterError
  | GetEffectivePathError MappingInfo MapsReaderError

datatype SectionMemInfoListError =
    SectionMemInfoListError_MemoryWriterError MemoryWriterError
  | ProcfsError proc_error

datatype SectionMemListError =
  SectionMemListError_MemoryWriterError MemoryWriterError

datatype SectionSystemInfoError =
    SectionSystemInfoError_MemoryWriterError MemoryWriterError
  | SectionSystemInfoError_CpuInfoError CpuInfoError
  | WriteCpuInformationFailed CpuInfoError

datatype SectionThreadNamesError =
    SectionThreadNamesError_TryFromIntError
  | SectionThreadNamesError_MemoryWriterError MemoryWriterError
  | SectionThreadNamesError_IOError io_error

section \<open>The writer\<close>

datatype (plugins only: code) WriterError =
    WriterError_InitError InitError
  | WriterError_SectionAppMemoryError SectionAppMemoryError
  | WriterError_SectionExceptionStreamError SectionExceptionStreamError
  | WriterError_SectionHandleDataStreamError SectionHandleDataStreamError
  | WriterError_SectionMappingsError SectionMappingsError
  | WriterError_SectionMemListError SectionMemListError
  | WriterError_SectionSystemInfoError SectionSystemInfoError
  | WriterError_SectionMemoryInfoListError SectionMemInfoListError
  | WriterError_SectionThreadListError SectionThreadListError
  | WriterError_SectionThreadNamesError SectionThreadNamesError
  | WriterError_SectionDsoDebugError SectionDsoDebugError
  | WriterError_MemoryWriterError MemoryWriterError
  | WriterError_FileWriterError FileWriterError
  | SystemTimeError string
  | InitErrors "InitError list"
  | ResumeThreadsErrors "WriterError list"
  | WriteSystemInfoErrors "SectionSystemInfoError list"
  | WriteCpuInfoFailed MemoryWriterError
  | WriteThreadProcStatusFailed MemoryWriterError
  | WriteOsReleaseInfoFailed MemoryWriterError
  | WriteCommandLineFailed MemoryWriterError
  | WriteEnvironmentFailed MemoryWriterError
  | WriteAuxvFailed MemoryWriterError
  | WriteMapsFailed MemoryWriterError
  | WriteDSODebugStreamFailed SectionDsoDebugError
  | WriteLimitsFailed MemoryWriterError
  | WriteHandleDataStreamFailed SectionHandleDataStreamError
  | WriteHandleDataStreamDirentFailed FileWriterError
  | ConvertToJsonFailed string
  | PtraceAttachError Pid nix_error
  | PtraceDetachError Pid nix_error
  | WaitPidError Pid nix_error
  | DetachSkippedThread Pid
  | WriterError_MapsReaderError MapsReaderError
  | SysConfError nix_error
  | NoStackPointerMapping
  | TryFromSliceError
  | WriterError_ELFParsingFailed goblin_error
  | WriterError_ModuleReaderError ModuleReaderError
  | WriterError_NotSafeToOpenMapping OsString
  | WriterError_TryFromIntError
and InitError =
    ReadAuxvFailed AuxvError
  | InitError_IOError string io_error
  | PageSizeError nix_error
  | CannotPtraceSameProcess
  | StopProcessFailed StopProcessError
  | FillMissingAuxvInfoErrors "AuxvError list"
  | FillMissingAuxvInfoFailed AuxvError
  | ReadProcessThreadEntryFailed io_error
  | ProcessTaskEntryNotTid OsString
  | ReadThreadNameFailed io_error
  | ProcPidTaskNotDirectory string
  | EnumerateThreadsErrors "InitError list"
  | EnumerateThreadsFailed InitError
  | ReadProcessMapFileFailed proc_error
  | AggregateMappingsFailed MapsReaderError
  | EnumerateMappingsFailed InitError
  | SuspendThreadsErrors "WriterError list"
  | SuspendNoThreadsLeft nat
  | PrincipalMappingNotReferenced
and SectionThreadListError =
    SectionThreadListError_MemoryWriterError MemoryWriterError
  | SectionThreadListError_TryFromIntError
  | SectionThreadListError_CopyFromProcessError CopyFromProcessError
  | SectionThreadListError_ThreadInfoError ThreadInfoError
  | SectionThreadListError_IOError io_error
  | SanitizeStackCopyFailed WriterError

end
