(* ===== verification/Thread_Info.thy ===== *)
theory Thread_Info
  imports Errors
begin

text \<open>
  Threads and their registers on x86-64: \<open>src/src/linux/thread_info/mod.rs\<close>, the x86-64 half of
  \<open>thread_info/x86.rs\<close>, and \<open>crash_context/{mod,x86_64}.rs\<close>.

  The register structures are those of libc and of minidump\_common, with the fields that the source
  reads and writes. The ptrace requests and the status file are the fields of the record
  \<open>thread_sys\<close>. The layout of the floating point save area is a codec argument.
\<close>

section \<open>Register structures\<close>

record user_regs_struct =
  ur_r15 :: u64
  ur_r14 :: u64
  ur_r13 :: u64
  ur_r12 :: u64
  ur_rbp :: u64
  ur_rbx :: u64
  ur_r11 :: u64
  ur_r10 :: u64
  ur_r9 :: u64
  ur_r8 :: u64
  ur_rax :: u64
  ur_rcx :: u64
  ur_rdx :: u64
  ur_rsi :: u64
  ur_rdi :: u64
  ur_rip :: u64
  ur_cs :: u64
  ur_eflags :: u64
  ur_rsp :: u64
  ur_ss :: u64
  ur_ds :: u64
  ur_es :: u64
  ur_fs :: u64
  ur_gs :: u64

record user_fpregs_struct =
  cwd :: u16
  swd :: u16
  ftw :: u16
  fop :: u16
  fp_rip :: u64
  fp_rdp :: u64
  mxcsr :: u32
  mxcr_mask :: u32
  st_space :: "u32 list"
  xmm_space :: "u32 list"

record FloatStateCPU =
  control_word :: u16
  status_word :: u16
  tag_word :: u8
  error_opcode :: u16
  error_offset :: u32
  error_selector :: u16
  data_offset :: u32
  data_selector :: u16
  mx_csr :: u32
  mx_csr_mask :: u32
  float_registers :: "128 word list"
  xmm_registers :: "128 word list"

record RawContextCPU =
  context_flags :: u32
  cs :: u16
  ds :: u16
  es :: u16
  fs :: u16
  gs :: u16
  ss :: u16
  eflags :: u32
  dr0 :: u64
  dr1 :: u64
  dr2 :: u64
  dr3 :: u64
  dr6 :: u64
  dr7 :: u64
  rax :: u64
  rcx :: u64
  rdx :: u64
  rbx :: u64
  rsp :: u64
  rbp :: u64
  rsi :: u64
  rdi :: u64
  r8 :: u64
  r9 :: u64
  r10 :: u64
  r11 :: u64
  r12 :: u64
  r13 :: u64
  r14 :: u64
  r15 :: u64
  rip :: u64
  float_save :: bytes

text \<open>\<open>Default::default()\<close>: every register zero, 8 and 16 wide registers, 512 bytes of save area.\<close>

definition FloatStateCPU_default :: FloatStateCPU where
  "FloatStateCPU_default = \<lparr>control_word = 0, status_word = 0, tag_word = 0, error_opcode = 0, error_offset = 0,
     error_selector = 0, data_offset = 0, data_selector = 0, mx_csr = 0, mx_csr_mask = 0,
     float_registers = replicate 8 0, xmm_registers = replicate 16 0\<rparr>"

definition RawContextCPU_default :: RawContextCPU where
  "RawContextCPU_default = \<lparr>context_flags = 0, cs = 0, ds = 0, es = 0, fs = 0, gs = 0, ss = 0, eflags = 0,
     dr0 = 0, dr1 = 0, dr2 = 0, dr3 = 0, dr6 = 0, dr7 = 0,
     rax = 0, rcx = 0, rdx = 0, rbx = 0, rsp = 0, rbp = 0, rsi = 0, rdi = 0, r8 = 0, r9 = 0, r10 = 0, r11 = 0,
     r12 = 0, r13 = 0, r14 = 0, r15 = 0, rip = 0, float_save = replicate 512 0\<rparr>"

definition CONTEXT_AMD64_FULL :: u32 where "CONTEXT_AMD64_FULL = 0x10000B"
definition CONTEXT_AMD64_SEGMENTS :: u32 where "CONTEXT_AMD64_SEGMENTS = 0x100004"

text \<open>The copy of 32-bit words over the bytes of 128-bit registers, as much of it as both hold.\<close>

definition copy_u32_registers :: "128 word list \<Rightarrow> u32 list \<Rightarrow> 128 word list" where
  "copy_u32_registers dst src =
     (let d = concat (map (le_bytes 16) dst); s = concat (map (le_bytes 4) src);
          to_copy = min (length d) (length s)
      in map (\<lambda>bs. word_of_nat (le_nat bs)) (chunks 16 (take to_copy s @ drop to_copy d)))"

section \<open>The status file\<close>

record thread_sys =
  open_lines :: "string \<Rightarrow> ((str, io_error) result list, io_error) result"
  getregset :: "Pid \<Rightarrow> (user_regs_struct, nix_error) result"
  getregs :: "Pid \<Rightarrow> (user_regs_struct, nix_error) result"
  getfpregset :: "Pid \<Rightarrow> (user_fpregs_struct, nix_error) result"
  getfpregs :: "Pid \<Rightarrow> (user_fpregs_struct, nix_error) result"
  peek_user :: "Pid \<Rightarrow> nat \<Rightarrow> (u64, nix_error) result"
  u_debugreg_offset :: nat

text \<open>\<open>str::get\<close> of a prefix and of the rest: none off a character boundary.\<close>

definition is_char_boundary :: "str \<Rightarrow> nat \<Rightarrow> bool" where
  "is_char_boundary s i \<longleftrightarrow> i = length s \<or> i < length s \<and> \<not> (128 \<le> (of_char (s ! i) :: nat) \<and> (of_char (s ! i) :: nat) < 192)"

definition str_get_to :: "str \<Rightarrow> nat \<Rightarrow> str option" where
  "str_get_to s i = (if is_char_boundary s i then Some (take i s) else None)"

definition str_get_from :: "str \<Rightarrow> nat \<Rightarrow> str option" where
  "str_get_from s i = (if is_char_boundary s i then Some (drop i s) else None)"

text \<open>\<open>parse::<i32>\<close>: an optional sign, digits, within the range of the type.\<close>

definition parse_i32 :: "str \<Rightarrow> i32 option" where
  "parse_i32 s =
     (let (neg, ds) = (case s of
            [] \<Rightarrow> (False, [])
          | c # t \<Rightarrow> if t \<noteq> [] \<and> c = CHR ''-'' then (True, t) else if t \<noteq> [] \<and> c = CHR ''+'' then (False, t) else (False, s))
      in if ds = [] then None
         else case digits_val 10 ds 0 of
           None \<Rightarrow> None
         | Some n \<Rightarrow>
             (if neg then (if n \<le> 2 ^ 31 then Some (- int n) else None)
              else (if n < 2 ^ 31 then Some (int n) else None)))"

fun status_loop ::
    "Pid \<Rightarrow> (str, io_error) result list \<Rightarrow> Pid \<times> Pid \<Rightarrow> (Pid \<times> Pid, ThreadInfoError) result" where
  "status_loop tid [] ids = Ok ids"
| "status_loop tid (line # lines) (ppid, tgid) =
     bindR (map_err ThreadInfoError_IOError line) (\<lambda>l.
     bindR (ok_or (InvalidProcStatusFile tid l) (str_get_to l 6)) (\<lambda>start.
       if start = ''Tgid:'' @ [CHR 0x09] then
         bindR (ok_or (InvalidProcStatusFile tid l) (str_get_from l 6)) (\<lambda>rest.
         bindR (ok_or ThreadInfoError_UnparsableInteger (parse_i32 rest)) (\<lambda>v.
           status_loop tid lines (ppid, v)))
       else if start = ''PPid:'' @ [CHR 0x09] then
         bindR (ok_or (InvalidProcStatusFile tid l) (str_get_from l 6)) (\<lambda>rest.
         bindR (ok_or ThreadInfoError_UnparsableInteger (parse_i32 rest)) (\<lambda>v.
           status_loop tid lines (v, tgid)))
       else status_loop tid lines (ppid, tgid)))"

definition get_ppid_and_tgid :: "thread_sys \<Rightarrow> Pid \<Rightarrow> (Pid \<times> Pid, ThreadInfoError) result" where
  "get_ppid_and_tgid T tid =
     (let path = ''/proc/'' @ int_string tid @ ''/status'' in
      bindR (map_err ThreadInfoError_IOError (open_lines T path)) (\<lambda>lines.
      bindR (status_loop tid lines (-1, -1)) (\<lambda>(ppid, tgid).
        if ppid = -1 \<or> tgid = -1 then Err (InvalidPid path ppid tgid) else Ok (ppid, tgid))))"

section \<open>Thread information\<close>

record ThreadInfo =
  stack_pointer :: usize
  ti_tgid :: Pid
  ti_ppid :: Pid
  regs :: user_regs_struct
  fpregs :: user_fpregs_struct
  dregs :: "u64 list"

definition NUM_DEBUG_REGISTERS :: nat where "NUM_DEBUG_REGISTERS = 8"

fun peek_debug_registers :: "thread_sys \<Rightarrow> Pid \<Rightarrow> nat list \<Rightarrow> (u64 list, ThreadInfoError) result" where
  "peek_debug_registers T tid [] = Ok []"
| "peek_debug_registers T tid (idx # idxs) =
     bindR (map_err PtraceError (peek_user T tid (u_debugreg_offset T + idx * 8))) (\<lambda>chunk.
     bindR (peek_debug_registers T tid idxs) (\<lambda>rest. Ok (chunk # rest)))"

fun or_else_result :: "('a, 'e) result \<Rightarrow> ('a, 'e) result \<Rightarrow> ('a, 'e) result" where
  "or_else_result (Err _) r = r"
| "or_else_result (Ok x) r = Ok x"
| "or_else_result Panic r = Panic"

definition ThreadInfo_create :: "thread_sys \<Rightarrow> Pid \<Rightarrow> Pid \<Rightarrow> (ThreadInfo, ThreadInfoError) result" where
  "ThreadInfo_create T pid tid =
     bindR (get_ppid_and_tgid T tid) (\<lambda>(ppid, tgid).
     bindR (map_err PtraceError (or_else_result (getregset T tid) (getregs T tid))) (\<lambda>rs.
     bindR (map_err PtraceError (or_else_result (getfpregset T tid) (getfpregs T tid))) (\<lambda>fps.
     bindR (peek_debug_registers T tid [0..<NUM_DEBUG_REGISTERS]) (\<lambda>drs.
       Ok \<lparr>stack_pointer = ur_rsp rs, ti_tgid = tgid, ti_ppid = ppid, regs = rs, fpregs = fps, dregs = drs\<rparr>))))"

definition ThreadInfo_get_instruction_pointer :: "ThreadInfo \<Rightarrow> usize" where
  "ThreadInfo_get_instruction_pointer self = ur_rip (regs self)"

text \<open>The floating point state, shared by both sources of a context.\<close>

definition float_state :: "user_fpregs_struct \<Rightarrow> FloatStateCPU" where
  "float_state f = FloatStateCPU_default\<lparr>control_word := cwd f, status_word := swd f, tag_word := ucast (ftw f),
     error_opcode := fop f, error_offset := ucast (fp_rip f), data_offset := ucast (fp_rdp f),
     error_selector := 0, data_selector := 0, mx_csr := mxcsr f, mx_csr_mask := mxcr_mask f,
     float_registers := copy_u32_registers (float_registers FloatStateCPU_default) (st_space f),
     xmm_registers := copy_u32_registers (xmm_registers FloatStateCPU_default) (xmm_space f)\<rparr>"

text \<open>\<open>pwrite_with(.., 0, ..)\<close> into the save area; \<open>expect\<close> turns an error into a panic.\<close>

definition put_float_state :: "FloatStateCPU pod \<Rightarrow> FloatStateCPU \<Rightarrow> bytes \<Rightarrow> (bytes, 'e) result" where
  "put_float_state C f area = (case try_into_ctx C f area of (Ok _, bs) \<Rightarrow> Ok bs | (_, _) \<Rightarrow> Panic)"

definition ThreadInfo_fill_cpu_context ::
    "FloatStateCPU pod \<Rightarrow> ThreadInfo \<Rightarrow> RawContextCPU \<Rightarrow> (RawContextCPU, 'e) result" where
  "ThreadInfo_fill_cpu_context C self out =
     (let r = regs self in
      if length (dregs self) < 8 then Panic
      else bindR (put_float_state C (float_state (fpregs self)) (float_save out)) (\<lambda>save.
        Ok (out\<lparr>context_flags := or CONTEXT_AMD64_FULL CONTEXT_AMD64_SEGMENTS,
             cs := ucast (ur_cs r), ds := ucast (ur_ds r), es := ucast (ur_es r), fs := ucast (ur_fs r),
             gs := ucast (ur_gs r), ss := ucast (ur_ss r), eflags := ucast (ur_eflags r),
             dr0 := dregs self ! 0, dr1 := dregs self ! 1, dr2 := dregs self ! 2, dr3 := dregs self ! 3,
             dr6 := dregs self ! 6, dr7 := dregs self ! 7,
             rax := ur_rax r, rcx := ur_rcx r, rdx := ur_rdx r, rbx := ur_rbx r, rsp := ur_rsp r,
             rbp := ur_rbp r, rsi := ur_rsi r, rdi := ur_rdi r, r8 := ur_r8 r, r9 := ur_r9 r,
             r10 := ur_r10 r, r11 := ur_r11 r, r12 := ur_r12 r, r13 := ur_r13 r, r14 := ur_r14 r,
             r15 := ur_r15 r, rip := ur_rip r, float_save := save\<rparr>)))"

section \<open>The crash context\<close>

record siginfo =
  ssi_signo :: u32
  ssi_code :: i32
  ssi_addr :: u64

text \<open>\<open>gregs\<close> holds the 23 general registers of \<open>ucontext_t\<close>, indexed as in libc.\<close>

record CrashContext =
  cc_siginfo :: siginfo
  gregs :: "u64 list"
  cc_float_state :: user_fpregs_struct

definition REG_R8 :: nat where "REG_R8 = 0"
definition REG_R9 :: nat where "REG_R9 = 1"
definition REG_R10 :: nat where "REG_R10 = 2"
definition REG_R11 :: nat where "REG_R11 = 3"
definition REG_R12 :: nat where "REG_R12 = 4"
definition REG_R13 :: nat where "REG_R13 = 5"
definition REG_R14 :: nat where "REG_R14 = 6"
definition REG_R15 :: nat where "REG_R15 = 7"
definition REG_RDI :: nat where "REG_RDI = 8"
definition REG_RSI :: nat where "REG_RSI = 9"
definition REG_RBP :: nat where "REG_RBP = 10"
definition REG_RBX :: nat where "REG_RBX = 11"
definition REG_RDX :: nat where "REG_RDX = 12"
definition REG_RAX :: nat where "REG_RAX = 13"
definition REG_RCX :: nat where "REG_RCX = 14"
definition REG_RSP :: nat where "REG_RSP = 15"
definition REG_RIP :: nat where "REG_RIP = 16"
definition REG_EFL :: nat where "REG_EFL = 17"
definition REG_CSGSFS :: nat where "REG_CSGSFS = 18"

definition CrashContext_get_instruction_pointer :: "CrashContext \<Rightarrow> usize" where
  "CrashContext_get_instruction_pointer self = gregs self ! REG_RIP"

definition CrashContext_get_stack_pointer :: "CrashContext \<Rightarrow> usize" where
  "CrashContext_get_stack_pointer self = gregs self ! REG_RSP"

definition CrashContext_fill_cpu_context ::
    "FloatStateCPU pod \<Rightarrow> CrashContext \<Rightarrow> RawContextCPU \<Rightarrow> (RawContextCPU, 'e) result" where
  "CrashContext_fill_cpu_context C self out =
     (let g = (!) (gregs self); seg = g REG_CSGSFS in
      bindR (put_float_state C (float_state (cc_float_state self)) (float_save out)) (\<lambda>save.
        Ok (out\<lparr>context_flags := CONTEXT_AMD64_FULL,
             cs := ucast (and seg 0xffff), fs := ucast (and (drop_bit 32 seg) 0xffff),
             gs := ucast (and (drop_bit 16 seg) 0xffff), eflags := ucast (g REG_EFL),
             rax := g REG_RAX, rcx := g REG_RCX, rdx := g REG_RDX, rbx := g REG_RBX,
             rsp := g REG_RSP, rbp := g REG_RBP, rsi := g REG_RSI, rdi := g REG_RDI,
             r8 := g REG_R8, r9 := g REG_R9, r10 := g REG_R10, r11 := g REG_R11,
             r12 := g REG_R12, r13 := g REG_R13, r14 := g REG_R14, r15 := g REG_R15,
             rip := g REG_RIP, float_save := save\<rparr>)))"

end
