(* ===== verification/Writer_State.thy ===== *)
theory Writer_State
  imports Thread_Info
begin

text \<open>
  The state of the dumper and its configuration, from the first part of
  \<open>src/src/linux/minidump_writer/mod.rs\<close>, and the record \<open>env\<close> of the services of the
  operating system and of foreign crates that the dumper calls. The services are functions of their arguments:
  while a dump is written the target is stopped, and the files under \<open>/proc\<close> that are read
  describe it. (The calls that stop, attach to and resume the target do change the system and are modelled
  with the state of the kernel where they occur.)
\<close>

section \<open>Services\<close>

record env =
  env_mem :: mem_sys
  env_goblin :: goblin
  env_threads :: thread_sys
  map_file_at :: "OsString \<Rightarrow> u64 \<Rightarrow> (bytes, io_error) result"
  map_file :: "OsString \<Rightarrow> (bytes, io_error) result"
  path_exists :: "OsString \<Rightarrow> bool"
  is_dir :: "string \<Rightarrow> bool"
  read_dir :: "string \<Rightarrow> ((OsString, io_error) result list, io_error) result"
  read_link :: "OsString \<Rightarrow> (OsString, io_error) result"
  st_mode :: "OsString \<Rightarrow> u32 option"
  read_file :: "string \<Rightarrow> (bytes, io_error) result"
  read_to_string :: "string \<Rightarrow> (str, io_error) result"
  open_auxv :: "string \<Rightarrow> (read_event list, io_error) result"
  open_maps :: "string \<Rightarrow> ((MemoryMap list, proc_error) result, io_error) result"
  maps_from_file :: "string \<Rightarrow> (MemoryMap list, proc_error) result"
  sysconf_page_size :: "(u64 option, nix_error) result"
  own_pid :: u32
  unix_time :: "(u64, string) result"
  to_json :: "WriterError list \<Rightarrow> (str, string) result"
  uname :: "(string \<times> string \<times> string \<times> string, nix_error) result"
  cpuinfo_lines :: "((str, io_error) result list, io_error) result"

text \<open>Reading the memory of the target, as every client does.\<close>

definition copy_mem :: "env \<Rightarrow> Pid \<Rightarrow> usize \<Rightarrow> nat \<Rightarrow> (bytes, CopyFromProcessError) result" where
  "copy_mem E pid src n = copy_from_process (env_mem E) pid src n"

section \<open>The dumper\<close>

record AppMemory =
  ptr :: usize
  length_of_region :: nat

record Thread =
  tid :: Pid
  thread_name :: "str option"

record MDMemoryDescriptor =
  start_of_memory_range :: u64
  md_memory :: MDLocationDescriptor

datatype CrashingThreadContext =
    NoContext
  | CrashContextOnly MDLocationDescriptor
  | CrashContextPlusAddress MDLocationDescriptor usize

record MinidumpWriterConfig =
  cf_process_id :: Pid
  cf_blamed_thread :: Pid
  cf_minidump_size_limit :: "u64 option"
  cf_skip_stacks_if_mapping_unreferenced :: bool
  cf_principal_mapping_address :: "usize option"
  cf_user_mapping_list :: MappingList
  cf_app_memory :: "AppMemory list"
  cf_memory_blocks :: "MDMemoryDescriptor list"
  cf_principal_mapping :: "MappingInfo option"
  cf_sanitize_stack :: bool
  cf_crash_context :: "CrashContext option"
  cf_crashing_thread_context :: CrashingThreadContext
  cf_stop_timeout :: nat
  cf_direct_auxv_dump_info :: "DirectAuxvDumpInfo option"

record MinidumpWriter =
  process_id :: Pid
  threads_suspended :: bool
  threads :: "Thread list"
  auxv :: AuxvDumpInfo
  mappings :: "MappingInfo list"
  page_size :: usize
  sanitize_stack :: bool
  minidump_size_limit :: "u64 option"
  user_mapping_list :: MappingList
  crashing_thread_context :: CrashingThreadContext
  stop_timeout :: nat
  skip_stacks_if_mapping_unreferenced :: bool
  principal_mapping_address :: "usize option"
  principal_mapping :: "MappingInfo option"
  blamed_thread :: Pid
  crash_context :: "CrashContext option"
  app_memory :: "AppMemory list"
  memory_blocks :: "MDMemoryDescriptor list"

text \<open>Durations are in nanoseconds.\<close>

definition STOP_TIMEOUT :: nat where "STOP_TIMEOUT = 100 * 10 ^ 6"

definition MinidumpWriterConfig_new :: "Pid \<Rightarrow> Pid \<Rightarrow> MinidumpWriterConfig" where
  "MinidumpWriterConfig_new pid blamed =
     \<lparr>cf_process_id = pid, cf_blamed_thread = blamed, cf_minidump_size_limit = None,
      cf_skip_stacks_if_mapping_unreferenced = False, cf_principal_mapping_address = None,
      cf_user_mapping_list = [], cf_app_memory = [], cf_memory_blocks = [], cf_principal_mapping = None,
      cf_sanitize_stack = False, cf_crash_context = None, cf_crashing_thread_context = NoContext,
      cf_stop_timeout = STOP_TIMEOUT, cf_direct_auxv_dump_info = None\<rparr>"

definition set_minidump_size_limit :: "u64 \<Rightarrow> MinidumpWriterConfig \<Rightarrow> MinidumpWriterConfig" where
  "set_minidump_size_limit limit c = c\<lparr>cf_minidump_size_limit := Some limit\<rparr>"

definition set_user_mapping_list :: "MappingList \<Rightarrow> MinidumpWriterConfig \<Rightarrow> MinidumpWriterConfig" where
  "set_user_mapping_list l c = c\<lparr>cf_user_mapping_list := l\<rparr>"

definition set_principal_mapping_address :: "usize \<Rightarrow> MinidumpWriterConfig \<Rightarrow> MinidumpWriterConfig" where
  "set_principal_mapping_address a c = c\<lparr>cf_principal_mapping_address := Some a\<rparr>"

definition set_app_memory :: "AppMemory list \<Rightarrow> MinidumpWriterConfig \<Rightarrow> MinidumpWriterConfig" where
  "set_app_memory l c = c\<lparr>cf_app_memory := l\<rparr>"

definition set_crash_context :: "CrashContext \<Rightarrow> MinidumpWriterConfig \<Rightarrow> MinidumpWriterConfig" where
  "set_crash_context cc c = c\<lparr>cf_crash_context := Some cc\<rparr>"

definition set_skip_stacks_if_mapping_unreferenced :: "MinidumpWriterConfig \<Rightarrow> MinidumpWriterConfig" where
  "set_skip_stacks_if_mapping_unreferenced c = c\<lparr>cf_skip_stacks_if_mapping_unreferenced := True\<rparr>"

definition set_sanitize_stack :: "MinidumpWriterConfig \<Rightarrow> MinidumpWriterConfig" where
  "set_sanitize_stack c = c\<lparr>cf_sanitize_stack := True\<rparr>"

definition set_stop_timeout :: "nat \<Rightarrow> MinidumpWriterConfig \<Rightarrow> MinidumpWriterConfig" where
  "set_stop_timeout d c = c\<lparr>cf_stop_timeout := d\<rparr>"

definition set_direct_auxv_dump_info :: "DirectAuxvDumpInfo \<Rightarrow> MinidumpWriterConfig \<Rightarrow> MinidumpWriterConfig" where
  "set_direct_auxv_dump_info i c = c\<lparr>cf_direct_auxv_dump_info := Some i\<rparr>"

definition MinidumpWriterConfig_build :: "MinidumpWriterConfig \<Rightarrow> MinidumpWriter" where
  "MinidumpWriterConfig_build c =
     \<lparr>process_id = cf_process_id c, threads_suspended = False, threads = [],
      auxv = (case cf_direct_auxv_dump_info c of Some i \<Rightarrow> AuxvDumpInfo_from i | None \<Rightarrow> AuxvDumpInfo_default),
      mappings = [], page_size = 0, sanitize_stack = cf_sanitize_stack c,
      minidump_size_limit = cf_minidump_size_limit c, user_mapping_list = cf_user_mapping_list c,
      crashing_thread_context = cf_crashing_thread_context c, stop_timeout = cf_stop_timeout c,
      skip_stacks_if_mapping_unreferenced = cf_skip_stacks_if_mapping_unreferenced c,
      principal_mapping_address = cf_principal_mapping_address c, principal_mapping = cf_principal_mapping c,
      blamed_thread = cf_blamed_thread c, crash_context = cf_crash_context c, app_memory = cf_app_memory c,
      memory_blocks = cf_memory_blocks c\<rparr>"

text \<open>
  An environment in which next to nothing can be read, for examples: the files of a process whose memory is gone,
  so that its maps file is empty.
\<close>

definition ex_env :: env where
  "ex_env = \<lparr>env_mem = target_sys True True Map.empty, env_goblin = goblin_le64,
     env_threads = \<lparr>open_lines = (\<lambda>_. Err (OsError 2)), getregset = (\<lambda>_. Err 3), getregs = (\<lambda>_. Err 3),
       getfpregset = (\<lambda>_. Err 3), getfpregs = (\<lambda>_. Err 3), peek_user = (\<lambda>_ _. Err 3), u_debugreg_offset = 848\<rparr>,
     map_file_at = (\<lambda>_ _. Err (OsError 2)), map_file = (\<lambda>_. Err (OsError 2)), path_exists = (\<lambda>_. False),
     is_dir = (\<lambda>_. False), read_dir = (\<lambda>_. Err (OsError 2)), read_link = (\<lambda>_. Err (OsError 2)), st_mode = (\<lambda>_. None),
     read_file = (\<lambda>p. if take 5 (rev p) = rev ''/maps'' then Ok [] else Err (OsError 2)), read_to_string = (\<lambda>_. Err (OsError 2)), open_auxv = (\<lambda>_. Err (OsError 13)),
     open_maps = (\<lambda>_. Ok (Ok [])), maps_from_file = (\<lambda>_. Ok []), sysconf_page_size = Ok (Some 4096), own_pid = 7,
     unix_time = Ok 1700000000, to_json = (\<lambda>_. Ok ''[]''), uname = Err 1, cpuinfo_lines = Err (OsError 2)\<rparr>"

end
