(* ===== verification/Stack.thy ===== *)
theory Stack
  imports Writer_State
begin

text \<open>
  The stack of a thread in \<open>src/src/linux/minidump_writer/mod.rs\<close>: the search for the mapping an
  address falls in, the search for the stack behind a guard page, the sanitization of a stack copy
  with its three search shortcuts, and the test whether the crashing thread refers to the
  principal mapping.
\<close>

section \<open>Mappings by address\<close>

definition find_mapping :: "MinidumpWriter \<Rightarrow> usize \<Rightarrow> MappingInfo option" where
  "find_mapping self address =
     find (\<lambda>m. start_address m \<le> address \<and> address - start_address m < map_size m) (mappings self)"

definition find_mapping_no_bias :: "MinidumpWriter \<Rightarrow> usize \<Rightarrow> MappingInfo option" where
  "find_mapping_no_bias self address =
     find (\<lambda>m. sys_start_address (system_mapping_info m) \<le> address \<and>
               address < sys_end_address (system_mapping_info m)) (mappings self)"

definition may_be_stack :: "MappingInfo option \<Rightarrow> bool" where
  "may_be_stack m = (case m of Some i \<Rightarrow> permissions i \<inter> {READ, WRITE} \<noteq> {} | None \<Rightarrow> False)"

section \<open>Finding the stack\<close>

text \<open>
  The loop past the guard page. A page size of zero cannot reach it: the mask of the rounding would
  underflow first.
\<close>

function stack_loop ::
    "MinidumpWriter \<Rightarrow> usize \<Rightarrow> usize \<Rightarrow> MappingInfo option \<Rightarrow> (usize \<times> MappingInfo option, WriterError) result" where
  "stack_loop self guard sp m =
     (if may_be_stack m \<or> guard < sp then Ok (sp, m)
      else if page_size self = 0 then Panic
      else case add_w sp (page_size self) of
        Ok sp' \<Rightarrow> stack_loop self guard sp' (find_mapping self sp')
      | Err e \<Rightarrow> Err e
      | Panic \<Rightarrow> Panic)"
  by pat_completeness auto
termination
proof (relation "measure (\<lambda>(_, _, sp, _). 2 ^ 64 - unat sp)", goal_cases)
  case (2 self guard sp m sp')
  then have "unat sp' = unat sp + unat (page_size self)" and "page_size self \<noteq> 0"
    by (auto simp: add_w_Ok_iff)
  moreover have "unat sp' < 2 ^ 64" using unsigned_less [of sp', where 'a = nat] by simp
  moreover have "0 < unat (page_size self)" using \<open>page_size self \<noteq> 0\<close> by (simp add: unat_gt_0)
  ultimately show ?case by simp
qed simp

declare stack_loop.simps [simp del]

definition get_stack_info :: "MinidumpWriter \<Rightarrow> usize \<Rightarrow> (usize \<times> usize, WriterError) result" where
  "get_stack_info self int_stack_pointer =
     bindR (sub_w (page_size self) 1) (\<lambda>low_bits.
       let sp = and int_stack_pointer (not low_bits);
           guard_page_max_addr = saturating_add sp (1024 * 1024)
       in bindR (stack_loop self guard_page_max_addr sp (find_mapping self sp)) (\<lambda>(sp, m).
          case m of
            None \<Rightarrow> Err NoStackPointerMapping
          | Some i \<Rightarrow>
              let valid = (if contains_address i sp then sp else start_address i) in
              bindR (sub_w valid (start_address i)) (\<lambda>d.
              bindR (sub_w (map_size i) d) (\<lambda>stack_len. Ok (valid, stack_len)))))"

section \<open>Sanitization\<close>

definition DEFACED :: bytes where
  "DEFACED = le_bytes 8 (0x0defaced0defaced :: u64)"

definition SMALL_INT :: usize where
  "SMALL_INT = 4096"

text \<open>The bitfield: 256 bytes, a bit for every value of the address shifted by 21, modulo 2048.\<close>

definition set_bit_at :: "nat \<Rightarrow> u32 list \<Rightarrow> u32 list" where
  "set_bit_at b field =
     (let i = (b div 8) mod 256 in field[i := or (field ! i) (push_bit (b mod 8) 1)])"

definition test_bit_at :: "nat \<Rightarrow> u32 list \<Rightarrow> bool" where
  "test_bit_at b field \<longleftrightarrow> and (field ! ((b div 8) mod 256)) (push_bit (b mod 8) 1) \<noteq> 0"

definition add_mapping_bits :: "MappingInfo \<Rightarrow> u32 list \<Rightarrow> (u32 list, WriterError) result" where
  "add_mapping_bits m field =
     (if \<not> is_executable m then Ok field
      else bindR (end_address m) (\<lambda>e.
        let start = unat (drop_bit 21 (start_address m)); stop = unat (drop_bit 21 e)
        in Ok (fold set_bit_at [start..<Suc stop] field)))"

fun could_hit_mapping :: "MappingInfo list \<Rightarrow> u32 list \<Rightarrow> (u32 list, WriterError) result" where
  "could_hit_mapping [] field = Ok field"
| "could_hit_mapping (m # ms) field = bindR (add_mapping_bits m field) (could_hit_mapping ms)"

definition word_of_bytes :: "bytes \<Rightarrow> u64" where
  "word_of_bytes bs = word_of_nat (le_nat bs)"

text \<open>
  One word of the stack: kept or replaced, with the mapping that was hit. The signed comparison of
  the source is written with the sign bit.
\<close>

definition sanitize_word ::
    "MinidumpWriter \<Rightarrow> MappingInfo option \<Rightarrow> u32 list \<Rightarrow> MappingInfo option \<Rightarrow> bytes \<Rightarrow> bytes \<times> MappingInfo option" where
  "sanitize_word self stack_mapping field last_hit word =
     (let addr = word_of_bytes word in
      if addr \<le> SMALL_INT \<and> - 4096 \<le> sint addr then (word, last_hit)
      else if (case stack_mapping of Some s \<Rightarrow> contains_address s addr | None \<Rightarrow> False) then (word, last_hit)
      else if (case last_hit of Some s \<Rightarrow> contains_address s addr | None \<Rightarrow> False) then (word, last_hit)
      else if test_bit_at (unat (drop_bit 21 addr)) field then
        (case find_mapping_no_bias self addr of
           Some hit \<Rightarrow> if is_executable hit then (word, Some hit) else (DEFACED, last_hit)
         | None \<Rightarrow> (DEFACED, last_hit))
      else (DEFACED, last_hit))"

fun sanitize_words ::
    "MinidumpWriter \<Rightarrow> MappingInfo option \<Rightarrow> u32 list \<Rightarrow> MappingInfo option \<Rightarrow> bytes list \<Rightarrow> bytes list" where
  "sanitize_words self stack_mapping field last_hit [] = []"
| "sanitize_words self stack_mapping field last_hit (w # ws) =
     (case sanitize_word self stack_mapping field last_hit w of
        (w', last_hit') \<Rightarrow> w' # sanitize_words self stack_mapping field last_hit' ws)"

definition sanitize_stack_copy ::
    "MinidumpWriter \<Rightarrow> bytes \<Rightarrow> usize \<Rightarrow> usize \<Rightarrow> (bytes, WriterError) result" where
  "sanitize_stack_copy self stack_copy sp sp_offset =
     (let stack_mapping = find_mapping_no_bias self sp in
      bindR (could_hit_mapping (mappings self) (replicate 256 0)) (\<lambda>field.
      bindR (align_up8 sp_offset) (\<lambda>offset.
        if length stack_copy < unat offset then Panic
        else
          let body = drop (unat offset) stack_copy; n = length body div 8
          in Ok (replicate (unat offset) 0 @
                 concat (sanitize_words self stack_mapping field None (chunks 8 (take (8 * n) body))) @
                 replicate (length body mod 8) 0))))"

section \<open>References to the principal mapping\<close>

definition crash_thread_references_principal_mapping :: "env \<Rightarrow> MinidumpWriter \<Rightarrow> (bool, WriterError) result" where
  "crash_thread_references_principal_mapping E self =
     (case (crash_context self, principal_mapping self) of
        (Some cc, Some pm) \<Rightarrow>
          (let low_addr = sys_start_address (system_mapping_info pm);
               high_addr = sys_end_address (system_mapping_info pm);
               pc = CrashContext_get_instruction_pointer cc;
               sp = CrashContext_get_stack_pointer cc in
           if low_addr \<le> pc \<and> pc < high_addr then Ok True
           else case get_stack_info self sp of
             Err _ \<Rightarrow> Ok False
           | Panic \<Rightarrow> Panic
           | Ok (valid, stack_len) \<Rightarrow>
               (case copy_mem E (blamed_thread self) valid (unat stack_len) of
                  Err _ \<Rightarrow> Ok False
                | Panic \<Rightarrow> Panic
                | Ok stack_copy \<Rightarrow>
                    stack_has_pointer_to_mapping pm stack_copy (saturating_sub sp valid)))
      | _ \<Rightarrow> Ok False)"

section \<open>Well-formed mappings\<close>

text \<open>
  What the search relies on, and what \<open>aggregate\<close> delivers: the range of a mapping does not overflow and
  contains the range that the system reported.
\<close>

definition mapping_wf :: "MappingInfo \<Rightarrow> bool" where
  "mapping_wf m \<longleftrightarrow>
     unat (start_address m) + unat (map_size m) < 2 ^ 64 \<and>
     start_address m \<le> sys_start_address (system_mapping_info m) \<and>
     unat (sys_end_address (system_mapping_info m)) \<le> unat (start_address m) + unat (map_size m)"

lemma group_ends:
  "list_all line_ok g \<Longrightarrow> successively (\<lambda>a b. mm_end a = mm_start b) g \<Longrightarrow>
   \<forall>m \<in> set g. mm_end m \<le> mm_end (last g)"
proof (induction g rule: induct_list012)
  case (3 a b g)
  then have ih: "\<forall>m \<in> set (b # g). mm_end m \<le> mm_end (last (b # g))" by simp
  have "mm_end a \<le> mm_end b" using 3 by (auto simp: line_ok_def)
  also have "mm_end b \<le> mm_end (last (b # g))" using ih by simp
  finally show ?case using ih by simp
qed auto

lemma sub_w_OkD: "sub_w a b = Ok c \<Longrightarrow> c = a - b"
  by (simp add: sub_w_def split: if_splits)

lemma covers_wf: "covers gate info g \<Longrightarrow> mapping_wf info"
  using group_ends [of g] unsigned_less [of "mm_end (last g)", where 'a = nat]
  by (auto simp: covers_def mapping_wf_def word_le_nat_alt)

lemma aggregate_wf:
  assumes "list_all line_ok maps" and "aggregate maps gate = Ok infos" and "m \<in> set infos"
  shows "mapping_wf m"
proof -
  obtain groups where "list_all2 (covers gate) infos groups"
    using aggregate_groups [OF assms(1), of gate] assms(2) by auto
  with assms(3) show ?thesis
    by (metis covers_wf in_set_conv_nth list_all2_lengthD list_all2_nthD)
qed

lemma find_mapping_Some:
  "find_mapping self a = Some m \<Longrightarrow>
   m \<in> set (mappings self) \<and> unat (start_address m) \<le> unat a \<and> unat a < unat (start_address m) + unat (map_size m)"
  by (auto simp: find_mapping_def find_Some_iff word_le_nat_alt word_less_nat_alt unat_sub)

lemma find_mapping_no_bias_Some:
  "find_mapping_no_bias self a = Some m \<Longrightarrow> m \<in> set (mappings self) \<and> contains_address m a"
  by (auto simp: find_mapping_no_bias_def find_Some_iff contains_address_def)

section \<open>The stack that is found\<close>

lemma stack_loop_result:
  assumes "stack_loop self guard sp m = Ok (sp', m')" and "m = find_mapping self sp"
  shows "m' = find_mapping self sp' \<and> sp \<le> sp' \<and> (may_be_stack m' \<or> guard < sp') \<and>
    (sp' = sp \<or> unat sp' \<le> unat guard + unat (page_size self))"
  using assms
proof (induction self guard sp m rule: stack_loop.induct)
  case (1 self guard sp m)
  show ?case
  proof (cases "may_be_stack m \<or> guard < sp")
    case True
    with 1(2,3) show ?thesis by (auto simp: stack_loop.simps)
  next
    case False
    with 1(2) obtain sp1 where nz: "page_size self \<noteq> 0" and add: "add_w sp (page_size self) = (Ok sp1 :: (usize, WriterError) result)"
      and run: "stack_loop self guard sp1 (find_mapping self sp1) = Ok (sp', m')"
      by (subst (asm) stack_loop.simps) (auto split: result.splits if_splits)
    have s1: "unat sp1 = unat sp + unat (page_size self)" using add by (simp add: add_w_Ok_iff)
    from 1(1) [OF False nz add run refl] False s1 show ?thesis
      by (auto simp: word_le_nat_alt word_less_nat_alt)
  qed
qed

lemma stack_loop_hit: "may_be_stack m \<Longrightarrow> stack_loop self guard sp m = Ok (sp, m)"
  by (simp add: stack_loop.simps)

definition page_round :: "MinidumpWriter \<Rightarrow> usize \<Rightarrow> usize" where
  "page_round self sp = and sp (not (page_size self - 1))"

text \<open>
  C17. A stack region that is found is real and complete: when \<open>get_stack_info\<close> returns
  \<open>(p, len)\<close>, a mapping of the process contains \<open>p\<close>, the region from \<open>p\<close> of length \<open>len\<close> is
  not empty and ends exactly where that mapping ends, and the mapping is readable or writable unless the
  search went past the megabyte that a guard page may take.
\<close>

theorem stack_info_sound:
  assumes "\<forall>m \<in> set (mappings self). mapping_wf m" and "get_stack_info self sp = Ok (p, len)"
  shows "\<exists>m \<in> set (mappings self). unat (start_address m) \<le> unat p \<and> 0 < unat len \<and>
    unat p + unat len = unat (start_address m) + unat (map_size m) \<and>
    (may_be_stack (Some m) \<or>
     (\<exists>q. find_mapping self q = Some m \<and> saturating_add (page_round self sp) (1024 * 1024) < q))"
proof -
  let ?sp = "page_round self sp" and ?g = "saturating_add (page_round self sp) (1024 * 1024)"
  from assms(2) obtain q i d where
      loop: "stack_loop self ?g ?sp (find_mapping self ?sp) = Ok (q, Some i)"
    and p: "p = (if contains_address i q then q else start_address i)"
    and d: "sub_w p (start_address i) = (Ok d :: (usize, WriterError) result)"
    and len: "sub_w (map_size i) d = (Ok len :: (usize, WriterError) result)"
    by (auto simp: get_stack_info_def page_round_def Let_def bindR_Ok_iff dest!: sub_w_OkD [of "page_size self"]
        split: prod.splits option.splits)
  from stack_loop_result [OF loop refl] have f: "find_mapping self q = Some i"
    and stop: "may_be_stack (Some i) \<or> ?g < q" by auto
  from find_mapping_Some [OF f] have i: "i \<in> set (mappings self)"
    and q: "unat (start_address i) \<le> unat q" "unat q < unat (start_address i) + unat (map_size i)" by auto
  have "unat d = unat p - unat (start_address i)" "unat (start_address i) \<le> unat p"
    "unat len = unat (map_size i) - unat d" "unat d \<le> unat (map_size i)"
    using d len by (auto simp: sub_w_Ok_iff word_le_nat_alt)
  moreover have "unat p < unat (start_address i) + unat (map_size i)"
    using q p by (auto split: if_splits)
  ultimately show ?thesis using i f stop by (intro bexI [of _ i]) auto
qed

text \<open>
  C18. The common case is exact: if the page-rounded stack pointer already lies in the system range of a readable or
  writable mapping, the region starts at the rounded pointer, so that all of the live stack above it
  and at most one page below it are captured, and it reaches to the end of the mapping.
\<close>

theorem stack_info_in_stack:
  assumes "find_mapping self (page_round self sp) = Some m" and "may_be_stack (Some m)"
    and "contains_address m (page_round self sp)" and "0 < page_size self"
  shows "get_stack_info self sp =
    Ok (page_round self sp, map_size m - (page_round self sp - start_address m))"
proof -
  have "1 \<le> page_size self" using assms(4) by (simp add: word_le_nat_alt word_less_nat_alt)
  moreover have "start_address m \<le> page_round self sp"
    "page_round self sp - start_address m \<le> map_size m"
    using assms(1) by (auto simp: find_mapping_def find_Some_iff)
  ultimately show ?thesis
    using assms by (simp add: get_stack_info_def sub_w_def page_round_def [symmetric] stack_loop_hit Let_def)
qed

definition ex_stack :: MappingInfo where
  "ex_stack = \<lparr>start_address = 0x7000, map_size = 0x3000,
     system_mapping_info = \<lparr>sys_start_address = 0x7000, sys_end_address = 0xA000\<rparr>,
     map_offset = 0, permissions = {READ, WRITE, PRIVATE}, name = Some ''[stack]''\<rparr>"

definition ex_writer :: MinidumpWriter where
  "ex_writer = (MinidumpWriterConfig_build (MinidumpWriterConfig_new 42 42))\<lparr>mappings := [ex_stack], page_size := 0x1000\<rparr>"

lemma ex_round: "page_round ex_writer 0x8123 = 0x8000"
  by (simp add: page_round_def ex_writer_def)

lemma ex_find: "find_mapping ex_writer 0x8000 = Some ex_stack"
  by (simp add: find_mapping_def ex_writer_def ex_stack_def word_le_nat_alt word_less_nat_alt)

lemma ex_stack_info: "get_stack_info ex_writer 0x8123 = Ok (0x8000, 0x2000)"
proof -
  have ps: "page_size ex_writer = 0x1000" by (simp add: ex_writer_def)
  have sw: "sub_w (0x1000 :: usize) 1 = (Ok 0xFFF :: (usize, WriterError) result)" by (simp add: sub_w_def)
  have rd: "and 0x8123 (not 0xFFF) = (0x8000 :: usize)" by simp
  have st: "stack_loop ex_writer g 0x8000 (Some ex_stack) = Ok (0x8000, Some ex_stack)" for g
    by (rule stack_loop_hit) (simp add: may_be_stack_def ex_stack_def)
  have c: "contains_address ex_stack 0x8000" by (simp add: contains_address_def ex_stack_def)
  have f: "start_address ex_stack = 0x7000" "map_size ex_stack = 0x3000" by (simp_all add: ex_stack_def)
  show ?thesis
    by (simp only: get_stack_info_def ps sw rd bindR.simps Let_def ex_find st prod.case option.case c f if_True)
      (simp add: sub_w_def)
qed

lemma ex_mappings: "set (mappings ex_writer) = {ex_stack}"
  by (simp add: ex_writer_def)

lemma ex_wf: "mapping_wf ex_stack"
  by (simp add: mapping_wf_def ex_stack_def)

theorem stack_info_sound_witness:
  "get_stack_info ex_writer 0x8123 = Ok (0x8000, 0x2000) \<and>
   unat (0x8000 :: usize) + unat (0x2000 :: usize) = unat (start_address ex_stack) + unat (map_size ex_stack)"
proof -
  have "\<forall>m \<in> set (mappings ex_writer). mapping_wf m" by (simp add: ex_mappings ex_wf)
  from stack_info_sound [OF this ex_stack_info] ex_stack_info show ?thesis by (simp add: ex_mappings)
qed

lemma ex_stack_facts:
  "may_be_stack (Some ex_stack)" "contains_address ex_stack 0x8000" "0 < page_size ex_writer"
  "map_size ex_stack - (0x8000 - start_address ex_stack) = 0x2000"
  by (simp_all add: may_be_stack_def contains_address_def ex_stack_def ex_writer_def)

theorem stack_info_in_stack_witness: "get_stack_info ex_writer 0x8123 = Ok (0x8000, 0x2000)"
  using stack_info_in_stack [of ex_writer "0x8123" ex_stack] by (simp only: ex_round ex_find ex_stack_facts)

section \<open>The sanitized copy\<close>

text \<open>
  The reference, with no bitfield and no cache of the last hit: which words are meant to survive. The source
  documents them as the integers of a magnitude of at most 4096, the pointers into the stack and the pointers into
  executable mappings.
\<close>

definition word_survives :: "MinidumpWriter \<Rightarrow> MappingInfo option \<Rightarrow> u64 \<Rightarrow> bool" where
  "word_survives self stack_mapping addr \<longleftrightarrow>
     \<bar>sint addr\<bar> \<le> 4096 \<or> (\<exists>s. stack_mapping = Some s \<and> contains_address s addr) \<or>
     (\<exists>m \<in> set (mappings self). is_executable m \<and> contains_address m addr)"

definition small_negative :: "u64 \<Rightarrow> bool" where
  "small_negative addr \<longleftrightarrow> - 4096 \<le> sint addr \<and> sint addr < 0"

text \<open>The complete words of a stack copy from an offset on.\<close>

definition complete_words :: "bytes \<Rightarrow> nat \<Rightarrow> bytes list" where
  "complete_words stack_copy offset = chunks 8 (take (8 * ((length stack_copy - offset) div 8)) (drop offset stack_copy))"

definition mappings_disjoint :: "MappingInfo list \<Rightarrow> bool" where
  "mappings_disjoint ms \<longleftrightarrow>
     (\<forall>a. \<forall>m \<in> set ms. \<forall>m' \<in> set ms. contains_address m a \<and> contains_address m' a \<longrightarrow> m = m')"

lemma and_push_bit_one: "n < LENGTH('w) \<Longrightarrow> and w (push_bit n 1) \<noteq> 0 \<longleftrightarrow> bit (w :: 'w::len word) n"
proof -
  assume n: "n < LENGTH('w)"
  have "and w (push_bit n 1) = (if bit w n then push_bit n 1 else 0)"
    by (rule bit_word_eqI) (auto simp: bit_simps)
  moreover have "push_bit n (1 :: 'w word) \<noteq> 0"
    using n by (auto simp: bit_eq_iff bit_simps intro!: exI [of _ n])
  ultimately show ?thesis by simp
qed

lemma test_bit_at_iff: "test_bit_at b f \<longleftrightarrow> bit (f ! (b div 8 mod 256)) (b mod 8)"
proof -
  have "b mod 8 < 32" using mod_less_divisor [of 8 b] by linarith
  then have "b mod 8 < LENGTH(32)" by simp
  then show ?thesis by (simp only: test_bit_at_def and_push_bit_one)
qed

lemma length_set_bit_at [simp]: "length (set_bit_at b f) = length f"
  by (simp add: set_bit_at_def Let_def)

lemma test_set_bit_at:
  assumes "length f = 256" and "c = b \<or> test_bit_at c f"
  shows "test_bit_at c (set_bit_at b f)"
proof -
  have "b mod 8 < 32" using mod_less_divisor [of 8 b] by linarith
  then show ?thesis using assms
    by (cases "c div 8 mod 256 = b div 8 mod 256")
      (auto simp: test_bit_at_iff set_bit_at_def Let_def bit_simps)
qed

lemma test_fold_set_bit_at:
  "length f = 256 \<Longrightarrow> c \<in> set bs \<or> test_bit_at c f \<Longrightarrow>
   test_bit_at c (fold set_bit_at bs f) \<and> length (fold set_bit_at bs f) = 256"
  by (induction bs arbitrary: f) (auto simp: test_set_bit_at)

lemma length_fold_set_bit_at: "length (fold set_bit_at bs f) = length f"
  by (induction bs arbitrary: f) auto

lemma shift21: "unat (drop_bit 21 (a :: usize)) = unat a div 2097152"
  unfolding unat_drop_bit_eq by (simp add: drop_bit_eq_div)

text \<open>No executable mapping is missed by the bitfield.\<close>

lemma add_mapping_bits_Ok:
  assumes "mapping_wf m" and "length f = 256"
  shows "\<exists>f'. add_mapping_bits m f = Ok f' \<and> length f' = 256 \<and> (\<forall>c. test_bit_at c f \<longrightarrow> test_bit_at c f') \<and>
    (\<forall>a. is_executable m \<and> contains_address m a \<longrightarrow> test_bit_at (unat (drop_bit 21 a)) f')"
proof (cases "is_executable m")
  case True
  obtain e where e: "end_address m = (Ok e :: (usize, WriterError) result)"
    and ue: "unat e = unat (start_address m) + unat (map_size m)"
    using assms(1) by (simp add: mapping_wf_def end_address_def add_w_def unat_word_ariths)
  define bs where "bs = [unat (drop_bit 21 (start_address m))..<Suc (unat (drop_bit 21 e))]"
  have "unat (drop_bit 21 a) \<in> set bs" if "contains_address m a" for a
  proof -
    have "unat (start_address m) \<le> unat a" "unat a \<le> unat e"
      using that assms(1) ue by (auto simp: contains_address_def mapping_wf_def word_le_nat_alt word_less_nat_alt)
    then have "unat (start_address m) div 2097152 \<le> unat a div 2097152" "unat a div 2097152 \<le> unat e div 2097152"
      by (simp_all add: div_le_mono)
    then show ?thesis by (simp only: bs_def shift21 set_upt atLeastLessThan_iff less_Suc_eq_le)
  qed
  moreover have "add_mapping_bits m f = Ok (fold set_bit_at bs f)"
    using True e by (simp add: add_mapping_bits_def bs_def del: upt_Suc)
  ultimately show ?thesis using assms(2)
    by (intro exI [of _ "fold set_bit_at bs f"]) (simp add: test_fold_set_bit_at length_fold_set_bit_at)
next
  case False
  then show ?thesis using assms(2) by (simp add: add_mapping_bits_def)
qed

lemma could_hit_mapping_Ok:
  "\<forall>m \<in> set ms. mapping_wf m \<Longrightarrow> length f = 256 \<Longrightarrow>
   \<exists>f'. could_hit_mapping ms f = Ok f' \<and> (\<forall>c. test_bit_at c f \<longrightarrow> test_bit_at c f') \<and>
    (\<forall>m \<in> set ms. \<forall>a. is_executable m \<and> contains_address m a \<longrightarrow> test_bit_at (unat (drop_bit 21 a)) f')"
proof (induction ms arbitrary: f)
  case (Cons m ms)
  obtain f1 where f1: "add_mapping_bits m f = Ok f1" "length f1 = 256" "\<forall>c. test_bit_at c f \<longrightarrow> test_bit_at c f1"
    "\<forall>a. is_executable m \<and> contains_address m a \<longrightarrow> test_bit_at (unat (drop_bit 21 a)) f1"
    using add_mapping_bits_Ok [of m f] Cons.prems by auto
  from Cons.IH [of f1] Cons.prems f1(2) obtain f2 where f2: "could_hit_mapping ms f1 = Ok f2"
    "\<forall>c. test_bit_at c f1 \<longrightarrow> test_bit_at c f2"
    "\<forall>m \<in> set ms. \<forall>a. is_executable m \<and> contains_address m a \<longrightarrow> test_bit_at (unat (drop_bit 21 a)) f2" by auto
  with f1 show ?case by (intro exI [of _ f2]) auto
qed simp

lemma sint_cases: "sint addr = (if uint addr < 2 ^ 63 then uint addr else uint addr - 2 ^ 64)" for addr :: u64
proof -
  have s: "sint addr = (uint addr + 2 ^ 63) mod 2 ^ 64 - 2 ^ 63" using int_word_sint [of "uint addr", where 'a = 64] by simp
  have u: "0 \<le> uint addr" "uint addr < 2 ^ 64" using uint_lt2p [of addr] by simp_all
  show ?thesis
  proof (cases "uint addr < 2 ^ 63")
    case True
    with u show ?thesis unfolding s by (simp add: mod_pos_pos_trivial)
  next
    case False
    then have "(uint addr + 2 ^ 63) mod 2 ^ 64 = (uint addr - 2 ^ 63) mod 2 ^ 64"
      using mod_add_self2 [of "uint addr - 2 ^ 63" "2 ^ 64"] by (simp add: add.commute)
    with False u show ?thesis unfolding s by (simp add: mod_pos_pos_trivial)
  qed
qed

lemma small_iff: "addr \<le> 4096 \<longleftrightarrow> 0 \<le> sint addr \<and> sint addr \<le> 4096" for addr :: u64
  using uint_lt2p [of addr] uint_ge_0 [of addr] by (auto simp: sint_cases word_le_def)

lemma small_int_iff: "addr \<le> SMALL_INT \<and> - 4096 \<le> sint addr \<longleftrightarrow> addr \<le> 4096"
  using small_iff [of addr] by (auto simp: SMALL_INT_def)

lemma magnitude_iff: "\<not> small_negative addr \<Longrightarrow> \<bar>sint addr\<bar> \<le> 4096 \<longleftrightarrow> addr \<le> 4096"
  by (auto simp: small_iff small_negative_def)

definition sanitize_ref :: "MinidumpWriter \<Rightarrow> MappingInfo option \<Rightarrow> bytes \<Rightarrow> bytes" where
  "sanitize_ref self stack_mapping w = (if word_survives self stack_mapping (word_of_bytes w) then w else DEFACED)"

lemma find_mapping_no_bias_disjoint:
  assumes "mappings_disjoint (mappings self)" and "m \<in> set (mappings self)" and "contains_address m a"
  shows "find_mapping_no_bias self a = Some m"
proof -
  obtain m' where "find_mapping_no_bias self a = Some m'"
    using assms(2,3) by (cases "find_mapping_no_bias self a")
      (auto simp: find_mapping_no_bias_def find_None_iff contains_address_def)
  then show ?thesis using find_mapping_no_bias_Some [of self a m'] assms by (auto simp: mappings_disjoint_def)
qed

definition hit_ok :: "MinidumpWriter \<Rightarrow> MappingInfo option \<Rightarrow> bool" where
  "hit_ok self h \<longleftrightarrow> (\<forall>m. h = Some m \<longrightarrow> m \<in> set (mappings self) \<and> is_executable m)"

lemma sanitize_word_ref:
  assumes disj: "mappings_disjoint (mappings self)" and hit: "hit_ok self last_hit"
    and field: "\<forall>m \<in> set (mappings self). \<forall>a. is_executable m \<and> contains_address m a \<longrightarrow> test_bit_at (unat (drop_bit 21 a)) field"
    and pos: "\<not> small_negative (word_of_bytes w)"
  shows "\<exists>h. sanitize_word self sm field last_hit w = (sanitize_ref self sm w, h) \<and> hit_ok self h"
proof -
  let ?a = "word_of_bytes w"
  have hits: "(\<exists>m \<in> set (mappings self). is_executable m \<and> contains_address m ?a) \<longleftrightarrow>
      test_bit_at (unat (drop_bit 21 ?a)) field \<and> (\<exists>m. find_mapping_no_bias self ?a = Some m \<and> is_executable m)"
    using find_mapping_no_bias_disjoint [OF disj] find_mapping_no_bias_Some [of self ?a] field by blast
  have last: "(\<exists>m \<in> set (mappings self). is_executable m \<and> contains_address m ?a)"
    if "last_hit = Some m" "contains_address m ?a" for m using that hit by (auto simp: hit_ok_def)
  have found: "hit_ok self (find_mapping_no_bias self ?a)" if "find_mapping_no_bias self ?a = Some m" "is_executable m" for m
    using find_mapping_no_bias_Some [OF that(1)] that by (simp add: hit_ok_def)
  show ?thesis
    using hit last found
    by (auto simp: sanitize_word_def sanitize_ref_def word_survives_def Let_def small_int_iff magnitude_iff [OF pos] hits split: option.splits)
qed

lemma sanitize_words_ref:
  assumes "mappings_disjoint (mappings self)"
    and "\<forall>m \<in> set (mappings self). \<forall>a. is_executable m \<and> contains_address m a \<longrightarrow> test_bit_at (unat (drop_bit 21 a)) field"
  shows "hit_ok self last_hit \<Longrightarrow> \<forall>w \<in> set ws. \<not> small_negative (word_of_bytes w) \<Longrightarrow>
    sanitize_words self sm field last_hit ws = map (sanitize_ref self sm) ws"
proof (induction ws arbitrary: last_hit)
  case (Cons w ws)
  then show ?case using sanitize_word_ref [OF assms(1) Cons.prems(1) assms(2), of w sm] by auto
qed simp

text \<open>
  C16. The shortcuts of the sanitizer do not change its result. With mappings as the kernel reports them (system
  ranges that do not overlap), the copy becomes: zeros below the aligned stack pointer, then every complete word kept if
  it is an integer of a magnitude of at most 4096, points into the stack's mapping or into an executable mapping, and
  replaced by \<open>0x0defaced0defaced\<close> otherwise, then zeros for a partial word. So the bitfield and the cache of the last
  hit are pure optimisations, and no word outside those three classes leaves the process. The words between minus 4096
  and minus 1 are excluded: for them the code does not do what its comment says, which is a property of its own.
\<close>

theorem sanitize_matches_reference:
  assumes "\<forall>m \<in> set (mappings self). mapping_wf m" and "mappings_disjoint (mappings self)"
    and "unat sp_offset + 8 < 2 ^ 64" and "aligned8 (unat sp_offset) \<le> length stack_copy"
    and "\<forall>w \<in> set (complete_words stack_copy (aligned8 (unat sp_offset))). \<not> small_negative (word_of_bytes w)"
  shows "sanitize_stack_copy self stack_copy sp sp_offset =
    Ok (replicate (aligned8 (unat sp_offset)) 0 @
        concat (map (sanitize_ref self (find_mapping_no_bias self sp)) (complete_words stack_copy (aligned8 (unat sp_offset)))) @
        replicate ((length stack_copy - aligned8 (unat sp_offset)) mod 8) 0)"
proof -
  obtain field where f: "could_hit_mapping (mappings self) (replicate 256 0) = Ok field"
    and hits: "\<forall>m \<in> set (mappings self). \<forall>a. is_executable m \<and> contains_address m a \<longrightarrow> test_bit_at (unat (drop_bit 21 a)) field"
    using could_hit_mapping_Ok [OF assms(1), of "replicate 256 0"] by auto
  have h: "hit_ok self None" by (simp add: hit_ok_def)
  note words = sanitize_words_ref [OF assms(2) hits h assms(5), unfolded complete_words_def]
  have al: "align_up8 sp_offset = Ok (word_of_nat (aligned8 (unat sp_offset)))" using assms(3) by (simp add: align_up8_eq)
  show ?thesis
    using f assms(4) words
    by (simp add: sanitize_stack_copy_def Let_def al unat_aligned [OF assms(3)] not_less complete_words_def)
qed

definition ex_code :: MappingInfo where
  "ex_code = \<lparr>start_address = 0x400000, map_size = 0x2000,
     system_mapping_info = \<lparr>sys_start_address = 0x400000, sys_end_address = 0x402000\<rparr>,
     map_offset = 0, permissions = {READ, EXECUTE, PRIVATE}, name = None\<rparr>"

definition ex_writer2 :: MinidumpWriter where
  "ex_writer2 = ex_writer\<lparr>mappings := [ex_stack, ex_code]\<rparr>"

lemma ex_writer2_mappings: "mappings ex_writer2 = [ex_stack, ex_code]"
  by (simp add: ex_writer2_def)

lemma ex_writer2_wf: "\<forall>m \<in> set (mappings ex_writer2). mapping_wf m"
  by (simp add: ex_writer2_mappings ex_wf) (simp add: mapping_wf_def ex_code_def)

lemma ex_writer2_disjoint: "mappings_disjoint (mappings ex_writer2)"
proof -
  have "\<not> (contains_address ex_stack a \<and> contains_address ex_code a)" for a
    by (simp add: contains_address_def ex_stack_def ex_code_def word_le_nat_alt word_less_nat_alt)
  then show ?thesis by (auto simp: mappings_disjoint_def ex_writer2_mappings)
qed

text \<open>A code pointer is kept, text is defaced, the partial word at the end is zeroed.\<close>

theorem sanitize_matches_reference_witness:
  "sanitize_stack_copy ex_writer2 ([0x23, 0x10, 0x40, 0, 0, 0, 0, 0] @ [0x61, 0x62, 0x63, 0x64, 0x65, 0x66, 0x67, 0x68] @ [7]) 0x8000 0 =
   Ok ([0x23, 0x10, 0x40, 0, 0, 0, 0, 0] @ DEFACED @ [0])"
proof -
  let ?copy = "[0x23, 0x10, 0x40, 0, 0, 0, 0, 0] @ [0x61, 0x62, 0x63, 0x64, 0x65, 0x66, 0x67, 0x68] @ [7] :: bytes"
  have ch: "complete_words ?copy 0 = [[0x23, 0x10, 0x40, 0, 0, 0, 0, 0], [0x61, 0x62, 0x63, 0x64, 0x65, 0x66, 0x67, 0x68]]"
    by (simp add: complete_words_def chunks.simps)
  have w: "word_of_bytes [0x23, 0x10, 0x40, 0, 0, 0, 0, 0] = 0x401023"
    "word_of_bytes [0x61, 0x62, 0x63, 0x64, 0x65, 0x66, 0x67, 0x68] = 0x6867666564636261"
    by (simp_all add: word_of_bytes_def)
  have k: "word_survives ex_writer2 s 0x401023" "word_survives ex_writer2 (Some ex_stack) 0x6867666564636261 = False" for s
    by (simp_all add: word_survives_def ex_writer2_mappings ex_stack_def ex_code_def contains_address_def is_executable_def)
  have st: "find_mapping_no_bias ex_writer2 0x8000 = Some ex_stack"
    by (simp add: find_mapping_no_bias_def ex_writer2_mappings ex_stack_def)
  have al: "aligned8 (unat (0 :: usize)) = 0" by (simp add: aligned8_def)
  have nn: "\<forall>w \<in> set (complete_words ?copy (aligned8 (unat (0 :: usize)))). \<not> small_negative (word_of_bytes w)"
    unfolding al ch by (simp add: w small_negative_def)
  show ?thesis
    using sanitize_matches_reference [OF ex_writer2_wf ex_writer2_disjoint _ _ nn, of "0x8000", unfolded al ch]
    by (simp add: st sanitize_ref_def w k)
qed




end
