(* ===== verification/Formats.thy ===== *)
theory Formats
  imports Stack
begin

text \<open>
  The structures of the minidump format that the streams are made of, and the contract of a stream writer.

  The structures are defined by the crate minidump\_common: here they are records of the fields that the writer sets,
  and their layouts and numeric codes are the fields of the record \<open>formats\<close>, an argument of every stream
  writer. The locale \<open>md_formats\<close> says that each layout is a lawful codec; it is interpreted on the packed
  little-endian layouts of the format.

  \<open>grows\<close> and \<open>keeps\<close> are the contract that the directory section asks of its client: a stream writer,
  whether it succeeds or fails, only adds to the buffer and leaves every byte that was there before.
\<close>

section \<open>Structures\<close>

datatype MDStreamType =
    ThreadListStream
  | ModuleListStream
  | MemoryListStream
  | ExceptionStream
  | SystemInfoStream
  | HandleDataStream
  | MemoryInfoListStream
  | ThreadNamesStream
  | LinuxCpuInfo
  | LinuxProcStatus
  | LinuxLsbRelease
  | LinuxCmdLine
  | LinuxEnviron
  | LinuxAuxv
  | LinuxMaps
  | LinuxDsoDebug
  | MozLinuxLimits
  | MozSoftErrors

datatype MemoryProtection =
    PAGE_NOACCESS
  | PAGE_READONLY
  | PAGE_READWRITE
  | PAGE_EXECUTE
  | PAGE_EXECUTE_READ
  | PAGE_EXECUTE_READWRITE

record MDRawHeader =
  signature :: u32
  hd_version :: u32
  stream_count :: u32
  stream_directory_rva :: u32
  hd_checksum :: u32
  time_date_stamp :: u32
  hd_flags :: u64

record MDRawThread =
  thread_id :: u32
  suspend_count :: u32
  priority_class :: u32
  priority :: u32
  teb :: u64
  stack :: MDMemoryDescriptor
  thread_context :: MDLocationDescriptor

record VS_FIXEDFILEINFO =
  vs_signature :: u32
  struct_version :: u32
  file_version_hi :: u32
  file_version_lo :: u32
  product_version_hi :: u32
  product_version_lo :: u32

text \<open>The remaining fields of a module, of an exception record and of the version block stay zero.\<close>

record MDRawModule =
  base_of_image :: u64
  size_of_image :: u32
  module_name_rva :: u32
  version_info :: VS_FIXEDFILEINFO
  cv_record :: MDLocationDescriptor

record MDException =
  exception_code :: u32
  exception_flags :: u32
  exception_address :: u64

record MDRawExceptionStream =
  ex_thread_id :: u32
  exception_record :: MDException
  ex_thread_context :: MDLocationDescriptor

record MDRawSystemInfo =
  processor_architecture :: u16
  processor_level :: u16
  processor_revision :: u16
  number_of_processors :: u8
  platform_id :: u32
  csd_version_rva :: u32
  cpu_data :: bytes

record MDMemoryInfoList =
  mi_size_of_header :: u32
  mi_size_of_entry :: u32
  number_of_entries :: u64

record MDMemoryInfo =
  base_address :: u64
  allocation_base :: u64
  allocation_protection :: u32
  region_size :: u64
  mi_state :: u32
  protection :: u32
  mi_type :: u32

record MDRawThreadName =
  tn_thread_id :: u32
  thread_name_rva :: u64

record MDRawHandleDataStream =
  hs_size_of_header :: u32
  size_of_descriptor :: u32
  number_of_descriptors :: u32
  hs_reserved :: u32

record MDRawHandleDescriptor =
  handle :: u64
  type_name_rva :: u32
  object_name_rva :: u32
  attributes :: u32
  granted_access :: u32
  handle_count :: u32
  pointer_count :: u32

record MDRawLinkMap =
  lm_addr :: u64
  lm_name :: u32
  lm_ld :: u64

record MDRawDebug =
  db_version :: u32
  db_map :: u32
  dso_count :: u32
  brk :: u64
  ldbase :: u64
  dynamic :: u64

record formats =
  f_directory :: "MDRawDirectory pod"
  f_header :: "MDRawHeader pod"
  f_thread :: "MDRawThread pod"
  f_memory :: "MDMemoryDescriptor pod"
  f_module :: "MDRawModule pod"
  f_exception :: "MDRawExceptionStream pod"
  f_system_info :: "MDRawSystemInfo pod"
  f_memory_info_list :: "MDMemoryInfoList pod"
  f_memory_info :: "MDMemoryInfo pod"
  f_thread_name :: "MDRawThreadName pod"
  f_handle_data :: "MDRawHandleDataStream pod"
  f_handle :: "MDRawHandleDescriptor pod"
  f_link_map :: "MDRawLinkMap pod"
  f_debug :: "MDRawDebug pod"
  f_context :: "RawContextCPU pod"
  f_float :: "FloatStateCPU pod"
  stream_code :: "MDStreamType \<Rightarrow> u32"
  protection_bits :: "MemoryProtection \<Rightarrow> u32"
  mem_commit :: u32
  mem_private :: u32
  mem_mapped :: u32
  dump_requested :: u32
  cv_signature_elf :: u32
  vs_ffi_signature :: u32
  vs_ffi_strucversion :: u32
  header_signature :: u32
  header_version :: u32
  platform_linux :: u32
  architecture_amd64 :: u16
  size_of_memory_info_list :: nat
  size_of_memory_info :: nat
  size_of_handle_data :: nat
  size_of_handle :: nat

text \<open>\<open>Default::default()\<close>.\<close>

definition MDLocationDescriptor_default :: MDLocationDescriptor where
  "MDLocationDescriptor_default = \<lparr>data_size = 0, rva = 0\<rparr>"

definition MDMemoryDescriptor_default :: MDMemoryDescriptor where
  "MDMemoryDescriptor_default = \<lparr>start_of_memory_range = 0, md_memory = MDLocationDescriptor_default\<rparr>"

definition MDRawDirectory_default :: MDRawDirectory where
  "MDRawDirectory_default = \<lparr>stream_type = 0, location = MDLocationDescriptor_default\<rparr>"

text \<open>\<open>dirent.location.data_size += n\<close>.\<close>

definition add_data_size :: "MDRawDirectory \<Rightarrow> u32 \<Rightarrow> ('s, MDRawDirectory, 'e) comp" where
  "add_data_size d n =
     bindM (lift_result (add_w (data_size (location d)) n))
       (\<lambda>ds. ret (d\<lparr>location := (location d)\<lparr>data_size := ds\<rparr>\<rparr>))"

section \<open>Lawful layouts\<close>

locale md_formats =
  fixes F :: formats
  assumes float_size: "size_with (f_float F) = 512"
    and directory: "pod_codec (f_directory F)"
    and header: "pod_codec (f_header F)"
    and thread: "pod_codec (f_thread F)"
    and memory: "pod_codec (f_memory F)"
    and module: "pod_codec (f_module F)"
    and exception: "pod_codec (f_exception F)"
    and system_info: "pod_codec (f_system_info F)"
    and memory_info_list: "pod_codec (f_memory_info_list F)"
    and memory_info: "pod_codec (f_memory_info F)"
    and thread_name: "pod_codec (f_thread_name F)"
    and handle_data: "pod_codec (f_handle_data F)"
    and handle: "pod_codec (f_handle F)"
    and link_map: "pod_codec (f_link_map F)"
    and debug: "pod_codec (f_debug F)"
    and cpu_context: "pod_codec (f_context F)"
    and float: "pod_codec (f_float F)"
begin

lemmas codecs = directory header thread memory module exception system_info memory_info_list memory_info
  thread_name handle_data handle link_map debug cpu_context float

end

section \<open>The packed little-endian layouts\<close>

definition loc_bytes :: "MDLocationDescriptor \<Rightarrow> bytes" where
  "loc_bytes l = le_bytes 4 (data_size l) @ le_bytes 4 (rva l)"

definition mem_bytes :: "MDMemoryDescriptor \<Rightarrow> bytes" where
  "mem_bytes m = le_bytes 8 (start_of_memory_range m) @ loc_bytes (md_memory m)"

lemma length_loc_bytes [simp]: "length (loc_bytes l) = 8"
  by (simp add: loc_bytes_def)

lemma length_mem_bytes [simp]: "length (mem_bytes m) = 16"
  by (simp add: mem_bytes_def)

text \<open>An array of 16-byte registers, cut or filled to its fixed number.\<close>

definition xmm_bytes :: "nat \<Rightarrow> 128 word list \<Rightarrow> bytes" where
  "xmm_bytes n rs = resize (concat (map (le_bytes 16) rs)) (16 * n) 0"

lemma length_xmm_bytes [simp]: "length (xmm_bytes n rs) = 16 * n"
  by (simp add: xmm_bytes_def)

definition header_pod :: "MDRawHeader pod" where
  "header_pod = fixed_pod 32 (\<lambda>h. le_bytes 4 (signature h) @ le_bytes 4 (hd_version h) @ le_bytes 4 (stream_count h) @
     le_bytes 4 (stream_directory_rva h) @ le_bytes 4 (hd_checksum h) @ le_bytes 4 (time_date_stamp h) @ le_bytes 8 (hd_flags h))"

definition thread_pod :: "MDRawThread pod" where
  "thread_pod = fixed_pod 48 (\<lambda>t. le_bytes 4 (thread_id t) @ le_bytes 4 (suspend_count t) @ le_bytes 4 (priority_class t) @
     le_bytes 4 (priority t) @ le_bytes 8 (teb t) @ mem_bytes (stack t) @ loc_bytes (thread_context t))"

definition memory_pod :: "MDMemoryDescriptor pod" where
  "memory_pod = fixed_pod 16 mem_bytes"

definition module_pod :: "MDRawModule pod" where
  "module_pod = fixed_pod 108 (\<lambda>m. le_bytes 8 (base_of_image m) @ le_bytes 4 (size_of_image m) @ replicate 8 0 @
     le_bytes 4 (module_name_rva m) @ le_bytes 4 (vs_signature (version_info m)) @ le_bytes 4 (struct_version (version_info m)) @
     le_bytes 4 (file_version_hi (version_info m)) @ le_bytes 4 (file_version_lo (version_info m)) @
     le_bytes 4 (product_version_hi (version_info m)) @ le_bytes 4 (product_version_lo (version_info m)) @
     replicate 28 0 @ loc_bytes (cv_record m) @ replicate 24 0)"

definition exception_pod :: "MDRawExceptionStream pod" where
  "exception_pod = fixed_pod 168 (\<lambda>x. le_bytes 4 (ex_thread_id x) @ replicate 4 0 @
     le_bytes 4 (exception_code (exception_record x)) @ le_bytes 4 (exception_flags (exception_record x)) @ replicate 8 0 @
     le_bytes 8 (exception_address (exception_record x)) @ replicate 128 0 @ loc_bytes (ex_thread_context x))"

definition system_info_pod :: "MDRawSystemInfo pod" where
  "system_info_pod = fixed_pod 56 (\<lambda>i. le_bytes 2 (processor_architecture i) @ le_bytes 2 (processor_level i) @
     le_bytes 2 (processor_revision i) @ [number_of_processors i] @ replicate 13 0 @ le_bytes 4 (platform_id i) @
     le_bytes 4 (csd_version_rva i) @ replicate 4 0 @ resize (cpu_data i) 24 0)"

definition memory_info_list_pod :: "MDMemoryInfoList pod" where
  "memory_info_list_pod = fixed_pod 16 (\<lambda>l. le_bytes 4 (mi_size_of_header l) @ le_bytes 4 (mi_size_of_entry l) @
     le_bytes 8 (number_of_entries l))"

definition memory_info_pod :: "MDMemoryInfo pod" where
  "memory_info_pod = fixed_pod 48 (\<lambda>m. le_bytes 8 (base_address m) @ le_bytes 8 (allocation_base m) @
     le_bytes 4 (allocation_protection m) @ replicate 4 0 @ le_bytes 8 (region_size m) @ le_bytes 4 (mi_state m) @
     le_bytes 4 (protection m) @ le_bytes 4 (mi_type m) @ replicate 4 0)"

definition thread_name_pod :: "MDRawThreadName pod" where
  "thread_name_pod = fixed_pod 12 (\<lambda>t. le_bytes 4 (tn_thread_id t) @ le_bytes 8 (thread_name_rva t))"

definition handle_data_pod :: "MDRawHandleDataStream pod" where
  "handle_data_pod = fixed_pod 16 (\<lambda>h. le_bytes 4 (hs_size_of_header h) @ le_bytes 4 (size_of_descriptor h) @
     le_bytes 4 (number_of_descriptors h) @ le_bytes 4 (hs_reserved h))"

definition handle_pod :: "MDRawHandleDescriptor pod" where
  "handle_pod = fixed_pod 32 (\<lambda>h. le_bytes 8 (handle h) @ le_bytes 4 (type_name_rva h) @ le_bytes 4 (object_name_rva h) @
     le_bytes 4 (attributes h) @ le_bytes 4 (granted_access h) @ le_bytes 4 (handle_count h) @ le_bytes 4 (pointer_count h))"

definition link_map_pod :: "MDRawLinkMap pod" where
  "link_map_pod = fixed_pod 20 (\<lambda>m. le_bytes 8 (lm_addr m) @ le_bytes 4 (lm_name m) @ le_bytes 8 (lm_ld m))"

definition debug_pod :: "MDRawDebug pod" where
  "debug_pod = fixed_pod 36 (\<lambda>d. le_bytes 4 (db_version d) @ le_bytes 4 (db_map d) @ le_bytes 4 (dso_count d) @
     le_bytes 8 (brk d) @ le_bytes 8 (ldbase d) @ le_bytes 8 (dynamic d))"

definition context_pod :: "RawContextCPU pod" where
  "context_pod = fixed_pod 1232 (\<lambda>c. replicate 48 0 @ le_bytes 4 (context_flags c) @ replicate 4 0 @
     le_bytes 2 (cs c) @ le_bytes 2 (ds c) @ le_bytes 2 (es c) @ le_bytes 2 (fs c) @ le_bytes 2 (gs c) @ le_bytes 2 (ss c) @
     le_bytes 4 (eflags c) @ concat (map (le_bytes 8) [dr0 c, dr1 c, dr2 c, dr3 c, dr6 c, dr7 c, rax c, rcx c, rdx c, rbx c,
       rsp c, rbp c, rsi c, rdi c, r8 c, r9 c, r10 c, r11 c, r12 c, r13 c, r14 c, r15 c, rip c]) @
     resize (float_save c) 512 0 @ replicate 464 0)"

definition float_pod :: "FloatStateCPU pod" where
  "float_pod = fixed_pod 512 (\<lambda>f. le_bytes 2 (control_word f) @ le_bytes 2 (status_word f) @ [tag_word f, 0] @
     le_bytes 2 (error_opcode f) @ le_bytes 4 (error_offset f) @ le_bytes 2 (error_selector f) @ replicate 2 0 @
     le_bytes 4 (data_offset f) @ le_bytes 2 (data_selector f) @ replicate 2 0 @ le_bytes 4 (mx_csr f) @
     le_bytes 4 (mx_csr_mask f) @ xmm_bytes 8 (float_registers f) @ xmm_bytes 16 (xmm_registers f) @ replicate 96 0)"

definition stream_codes :: "MDStreamType \<Rightarrow> u32" where
  "stream_codes t = (case t of ThreadListStream \<Rightarrow> 3 | ModuleListStream \<Rightarrow> 4 | MemoryListStream \<Rightarrow> 5 | ExceptionStream \<Rightarrow> 6
    | SystemInfoStream \<Rightarrow> 7 | HandleDataStream \<Rightarrow> 12 | MemoryInfoListStream \<Rightarrow> 16 | ThreadNamesStream \<Rightarrow> 24
    | LinuxCpuInfo \<Rightarrow> 0x47670003 | LinuxProcStatus \<Rightarrow> 0x47670004 | LinuxLsbRelease \<Rightarrow> 0x47670005
    | LinuxCmdLine \<Rightarrow> 0x47670006 | LinuxEnviron \<Rightarrow> 0x47670007 | LinuxAuxv \<Rightarrow> 0x47670008 | LinuxMaps \<Rightarrow> 0x47670009
    | LinuxDsoDebug \<Rightarrow> 0x4767000A | MozLinuxLimits \<Rightarrow> 0x4D7A0003 | MozSoftErrors \<Rightarrow> 0x4D7A0004)"

definition protection_codes :: "MemoryProtection \<Rightarrow> u32" where
  "protection_codes p = (case p of PAGE_NOACCESS \<Rightarrow> 1 | PAGE_READONLY \<Rightarrow> 2 | PAGE_READWRITE \<Rightarrow> 4 | PAGE_EXECUTE \<Rightarrow> 16
    | PAGE_EXECUTE_READ \<Rightarrow> 32 | PAGE_EXECUTE_READWRITE \<Rightarrow> 64)"

definition le_formats :: formats where
  "le_formats = \<lparr>f_directory = directory_pod, f_header = header_pod, f_thread = thread_pod, f_memory = memory_pod,
     f_module = module_pod, f_exception = exception_pod, f_system_info = system_info_pod,
     f_memory_info_list = memory_info_list_pod, f_memory_info = memory_info_pod, f_thread_name = thread_name_pod,
     f_handle_data = handle_data_pod, f_handle = handle_pod, f_link_map = link_map_pod, f_debug = debug_pod,
     f_context = context_pod, f_float = float_pod, stream_code = stream_codes, protection_bits = protection_codes,
     mem_commit = 0x1000, mem_private = 0x20000, mem_mapped = 0x40000, dump_requested = 0xFFFFFFFF,
     cv_signature_elf = 0x4270454C, vs_ffi_signature = 0xFEEF04BD, vs_ffi_strucversion = 0x10000,
     header_signature = 0x504D444D, header_version = 0xA793, platform_linux = 0x8201, architecture_amd64 = 9,
     size_of_memory_info_list = 16, size_of_memory_info = 48, size_of_handle_data = 16, size_of_handle = 32\<rparr>"

lemmas pod_defs = directory_pod_def header_pod_def thread_pod_def memory_pod_def module_pod_def exception_pod_def
  system_info_pod_def memory_info_list_pod_def memory_info_pod_def thread_name_pod_def handle_data_pod_def
  handle_pod_def link_map_pod_def debug_pod_def context_pod_def float_pod_def

lemma le_formats_codecs:
  "pod_codec directory_pod" "pod_codec header_pod" "pod_codec thread_pod" "pod_codec memory_pod"
  "pod_codec module_pod" "pod_codec exception_pod" "pod_codec system_info_pod" "pod_codec memory_info_list_pod"
  "pod_codec memory_info_pod" "pod_codec thread_name_pod" "pod_codec handle_data_pod" "pod_codec handle_pod"
  "pod_codec link_map_pod" "pod_codec debug_pod" "pod_codec context_pod" "pod_codec float_pod"
  unfolding pod_defs by (rule pod_codec_fixed, simp)+

interpretation lef: md_formats le_formats
  by (rule md_formats.intro) (simp_all add: le_formats_def le_formats_codecs float_pod_def [THEN arg_cong [where f = size_with]])

end
