(* ===== verification/Contract.thy ===== *)
theory Contract
  imports Formats
begin

text \<open>
  The contract of a stream writer, stated once for computations on any state that holds the dump buffer, and the rules by
  which it is established for a composed computation.

  \<open>grows\<close>: the buffer never shrinks, whatever the result. \<open>keeps k\<close>: the first \<open>k\<close> bytes stay as they are, as long
  as the dump stays below 4 GiB (beyond that the 32-bit positions wrap), and a returned value satisfies
  the given property (for a slot or an array: that it lies behind these bytes).
\<close>

definition grows :: "('s \<Rightarrow> Buffer) \<Rightarrow> ('s, 'a, 'e) comp \<Rightarrow> bool" where
  "grows buf m \<longleftrightarrow> (\<forall>s. length (inner (buf s)) \<le> length (inner (buf (snd (m s)))))"

definition keeps :: "nat \<Rightarrow> ('s \<Rightarrow> Buffer) \<Rightarrow> ('s, 'a, 'e) comp \<Rightarrow> ('a \<Rightarrow> bool) \<Rightarrow> bool" where
  "keeps k buf m Q \<longleftrightarrow> (\<forall>s r s'. m s = (r, s') \<longrightarrow> k \<le> length (inner (buf s)) \<longrightarrow> length (inner (buf s')) < 2 ^ 32 \<longrightarrow>
     take k (inner (buf s')) = take k (inner (buf s)) \<and> (\<forall>x. r = Ok x \<longrightarrow> Q x))"

text \<open>Both for every number of bytes: the computation only appends.\<close>

definition appends :: "('s \<Rightarrow> Buffer) \<Rightarrow> ('s, 'a, 'e) comp \<Rightarrow> bool" where
  "appends buf m \<longleftrightarrow> grows buf m \<and> (\<forall>k. keeps k buf m (\<lambda>_. True))"

named_theorems keeps_intros \<open>computations that keep the front of the buffer\<close>

lemma growsD: "grows buf m \<Longrightarrow> m s = (r, s') \<Longrightarrow> length (inner (buf s)) \<le> length (inner (buf s'))"
  by (auto simp: grows_def dest: spec [of _ s])

lemma keepsD:
  assumes "keeps k buf m Q" and "m s = (r, s')" and "k \<le> length (inner (buf s))" and "length (inner (buf s')) < 2 ^ 32"
  shows "take k (inner (buf s')) = take k (inner (buf s))" and "r = Ok x \<Longrightarrow> Q x"
  using assms unfolding keeps_def by blast+

lemma appendsI: "grows buf m \<Longrightarrow> (\<And>k. keeps k buf m (\<lambda>_. True)) \<Longrightarrow> appends buf m"
  by (simp add: appends_def)

lemma appends_result:
  assumes "appends buf m" and "m s = (r, s')" and "length (inner (buf s')) < 2 ^ 32"
  shows "prefix (inner (buf s)) (inner (buf s'))"
proof -
  have "take (length (inner (buf s))) (inner (buf s')) = inner (buf s)"
    using assms keepsD(1) [of "length (inner (buf s))" buf m "\<lambda>_. True" s r s'] by (simp add: appends_def)
  then show ?thesis by (metis take_is_prefix)
qed

lemma appends_grows: "appends buf m \<Longrightarrow> grows buf m"
  by (simp add: appends_def)

lemma appends_keeps: "appends buf m \<Longrightarrow> keeps k buf m (\<lambda>_. True)"
  by (simp add: appends_def)

section \<open>Composition\<close>

lemma grows_same: "(\<And>s. buf (snd (m s)) = buf s) \<Longrightarrow> grows buf m"
  by (simp add: grows_def)

lemma keeps_same: "(\<And>s. buf (snd (m s)) = buf s) \<Longrightarrow> keeps k buf m (\<lambda>_. True)"
  by (simp add: keeps_def) (metis snd_conv)

lemma grows_basic [grows_intros]:
  "grows buf (ret x)" "grows buf (throw e)" "grows buf panic" "grows buf (lift_result r)" "grows buf (getM f)"
  by (simp_all add: grows_def comp_simps)

lemma keeps_basic [keeps_intros]:
  "keeps k buf (ret x) (\<lambda>_. True)" "keeps k buf (throw e) Q" "keeps k buf panic Q"
  "keeps k buf (lift_result r) (\<lambda>_. True)" "keeps k buf (getM f) (\<lambda>_. True)"
  by (simp_all add: keeps_def comp_simps)

lemma keeps_ret: "Q x \<Longrightarrow> keeps k buf (ret x) Q"
  by (simp add: keeps_def comp_simps)

lemma grows_modifyM [grows_intros]: "(\<And>s. buf (g s) = buf s) \<Longrightarrow> grows buf (modifyM g)"
  by (simp add: grows_def comp_simps)

lemma keeps_modifyM [keeps_intros]: "(\<And>s. buf (g s) = buf s) \<Longrightarrow> keeps k buf (modifyM g) (\<lambda>_. True)"
  by (simp add: keeps_def comp_simps)

lemma grows_bindM [grows_intros]:
  assumes "grows buf m" and "\<And>x. grows buf (f x)"
  shows "grows buf (bindM m f)"
  unfolding grows_def
proof
  fix s
  obtain r s1 where m: "m s = (r, s1)" by fastforce
  note l = growsD [OF assms(1) m]
  show "length (inner (buf s)) \<le> length (inner (buf (snd (bindM m f s))))"
  proof (cases r)
    case (Ok x)
    then show ?thesis using l growsD [OF assms(2) surjective_pairing, of s1 x] m by (simp add: bindM_def)
  qed (use l m in \<open>simp_all add: bindM_def\<close>)
qed

lemma keeps_bindM [keeps_intros]:
  assumes m: "keeps k buf m Q" and gm: "grows buf m" and gf: "\<And>x. grows buf (f x)"
    and f: "\<And>x. Q x \<Longrightarrow> keeps k buf (f x) R"
  shows "keeps k buf (bindM m f) R"
  unfolding keeps_def
proof (intro allI impI)
  fix s r s'
  assume run: "bindM m f s = (r, s')" and k: "k \<le> length (inner (buf s))" and len: "length (inner (buf s')) < 2 ^ 32"
  obtain r1 s1 where m1: "m s = (r1, s1)" by fastforce
  note l1 = growsD [OF gm m1]
  show "take k (inner (buf s')) = take k (inner (buf s)) \<and> (\<forall>x. r = Ok x \<longrightarrow> R x)"
  proof (cases r1)
    case (Ok x)
    with run m1 have f1: "f x s1 = (r, s')" by (simp add: bindM_def)
    have "length (inner (buf s1)) < 2 ^ 32" using growsD [OF gf f1] len by simp
    with keepsD [OF m m1 k] Ok have t: "take k (inner (buf s1)) = take k (inner (buf s))" and "Q x" by auto
    with keepsD [OF f [OF \<open>Q x\<close>] f1 _ len] k l1 show ?thesis by auto
  qed (use run m1 keepsD(1) [OF m m1 k] len in \<open>auto simp: bindM_def\<close>)
qed

lemma grows_handleM [grows_intros]:
  assumes "grows buf m" and "\<And>x. grows buf (f x)" and "\<And>e. grows buf (h e)"
  shows "grows buf (handleM m f h)"
  unfolding grows_def
proof
  fix s
  obtain r s1 where m: "m s = (r, s1)" by fastforce
  note l = growsD [OF assms(1) m]
  show "length (inner (buf s)) \<le> length (inner (buf (snd (handleM m f h s))))"
  proof (cases r)
    case (Ok x)
    then show ?thesis using l growsD [OF assms(2) surjective_pairing, of s1 x] m by (simp add: handleM_def)
  next
    case (Err e)
    then show ?thesis using l growsD [OF assms(3) surjective_pairing, of s1 e] m by (simp add: handleM_def)
  qed (use l m in \<open>simp_all add: handleM_def\<close>)
qed

lemma keeps_handleM [keeps_intros]:
  assumes m: "keeps k buf m Q" and gm: "grows buf m" and gf: "\<And>x. grows buf (f x)" and gh: "\<And>e. grows buf (h e)"
    and f: "\<And>x. Q x \<Longrightarrow> keeps k buf (f x) R" and h: "\<And>e. keeps k buf (h e) R"
  shows "keeps k buf (handleM m f h) R"
  unfolding keeps_def
proof (intro allI impI)
  fix s r s'
  assume run: "handleM m f h s = (r, s')" and k: "k \<le> length (inner (buf s))" and len: "length (inner (buf s')) < 2 ^ 32"
  obtain r1 s1 where m1: "m s = (r1, s1)" by fastforce
  note l1 = growsD [OF gm m1]
  show "take k (inner (buf s')) = take k (inner (buf s)) \<and> (\<forall>x. r = Ok x \<longrightarrow> R x)"
  proof (cases r1)
    case (Ok x)
    with run m1 have f1: "f x s1 = (r, s')" by (simp add: handleM_def)
    have "length (inner (buf s1)) < 2 ^ 32" using growsD [OF gf f1] len by simp
    with keepsD [OF m m1 k] Ok have t: "take k (inner (buf s1)) = take k (inner (buf s))" and "Q x" by auto
    with keepsD [OF f [OF \<open>Q x\<close>] f1 _ len] k l1 show ?thesis by auto
  next
    case (Err e)
    with run m1 have h1: "h e s1 = (r, s')" by (simp add: handleM_def)
    have "length (inner (buf s1)) < 2 ^ 32" using growsD [OF gh h1] len by simp
    with keepsD(1) [OF m m1 k] have "take k (inner (buf s1)) = take k (inner (buf s))" by auto
    with keepsD [OF h h1 _ len] k l1 show ?thesis by auto
  qed (use run m1 keepsD(1) [OF m m1 k] len in \<open>auto simp: handleM_def\<close>)
qed

lemma grows_map_errM [grows_intros]: "grows buf m \<Longrightarrow> grows buf (map_errM g m)"
  by (auto simp: grows_def map_errM_def split: prod.splits) (metis snd_conv)

lemma keeps_map_errM [keeps_intros]: "keeps k buf m Q \<Longrightarrow> keeps k buf (map_errM g m) Q"
  by (auto simp: keeps_def map_errM_def split: prod.splits)

lemma grows_if [grows_intros]: "grows buf a \<Longrightarrow> grows buf b \<Longrightarrow> grows buf (if c then a else b)"
  by simp

lemma keeps_if [keeps_intros]: "keeps k buf a Q \<Longrightarrow> keeps k buf b Q \<Longrightarrow> keeps k buf (if c then a else b) Q"
  by simp

lemma grows_case_option [grows_intros]:
  "grows buf a \<Longrightarrow> (\<And>x. grows buf (f x)) \<Longrightarrow> grows buf (case_option a f v)"
  by (cases v) auto

lemma keeps_case_option [keeps_intros]:
  "keeps k buf a Q \<Longrightarrow> (\<And>x. keeps k buf (f x) Q) \<Longrightarrow> keeps k buf (case_option a f v) Q"
  by (cases v) auto

lemma grows_case_prod [grows_intros]: "(\<And>x y. grows buf (f x y)) \<Longrightarrow> grows buf (case_prod f v)"
  by (cases v) auto

lemma keeps_case_prod [keeps_intros]: "(\<And>x y. keeps k buf (f x y) Q) \<Longrightarrow> keeps k buf (case_prod f v) Q"
  by (cases v) auto

lemma grows_case_result [grows_intros]:
  "(\<And>x. grows buf (f x)) \<Longrightarrow> (\<And>e. grows buf (g e)) \<Longrightarrow> grows buf h \<Longrightarrow> grows buf (case_result f g h v)"
  by (cases v) auto

lemma keeps_case_result [keeps_intros]:
  "(\<And>x. keeps k buf (f x) Q) \<Longrightarrow> (\<And>e. keeps k buf (g e) Q) \<Longrightarrow> keeps k buf h Q \<Longrightarrow> keeps k buf (case_result f g h v) Q"
  by (cases v) auto

lemma grows_Let [grows_intros]: "grows buf (f x) \<Longrightarrow> grows buf (Let x f)"
  by simp

lemma keeps_Let [keeps_intros]: "keeps k buf (f x) Q \<Longrightarrow> keeps k buf (Let x f) Q"
  by simp

text \<open>A computation on the buffer alone, run on a state that contains it.\<close>

lemma grows_on_snd [grows_intros]: "grows id m \<Longrightarrow> grows snd (on_snd m)"
  by (auto simp: grows_def on_snd_def split: prod.splits) (metis snd_conv)

lemma keeps_on_snd [keeps_intros]: "keeps k id m Q \<Longrightarrow> keeps k snd (on_snd m) Q"
  by (auto simp: keeps_def on_snd_def split: prod.splits)

lemma appends_on_snd: "appends id m \<Longrightarrow> appends snd (on_snd m)"
  by (simp add: appends_def grows_on_snd keeps_on_snd)

lemma grows_add_data_size [grows_intros]: "grows buf (add_data_size d n)"
  by (simp add: add_data_size_def grows_intros)

lemma keeps_add_data_size [keeps_intros]: "keeps k buf (add_data_size d n) (\<lambda>_. True)"
  unfolding add_data_size_def by (rule keeps_intros grows_intros)+

section \<open>The writers\<close>

lemma take_append_le: "k \<le> length xs \<Longrightarrow> take k (xs @ ys) = take k xs"
  by simp

text \<open>Slots and arrays that were allocated behind the first \<open>k\<close> bytes.\<close>

definition slot_behind :: "nat \<Rightarrow> MemoryWriter \<Rightarrow> bool" where
  "slot_behind k w \<longleftrightarrow> k \<le> unat (mw_position w)"

definition array_behind :: "nat \<Rightarrow> MemoryArrayWriter \<Rightarrow> bool" where
  "array_behind k w \<longleftrightarrow> k \<le> unat (maw_position w)"

lemma write_at_length_mono:
  assumes "pod_codec C"
  shows "length (inner b) \<le> length (inner (snd (Buffer_write_at C n v b)))"
proof (cases "n \<le> length (inner b)")
  case True
  then show ?thesis using pod_codec.write_at_eq [OF assms True] by (simp add: put_slice_def)
qed (simp add: Buffer_write_at_def)

lemma write_at_keeps:
  assumes "pod_codec C" and "k \<le> n" and "Buffer_write_at C n v b = (r, b')"
  shows "take k (inner b') = take k (inner b)"
proof (cases "n \<le> length (inner b)")
  case True
  then show ?thesis using pod_codec.write_at_eq [OF assms(1) True, of v] assms by (auto simp: take_put_slice)
qed (use assms in \<open>simp add: Buffer_write_at_def\<close>)

context pod_codec
begin

lemma grows_writers:
  "grows id (MemoryWriter_alloc_with_val C v)" "grows id (MemoryWriter_alloc C)"
  "grows id (MemoryArrayWriter_alloc_from_array C vs)" "grows id (MemoryArrayWriter_alloc_from_iter C vs)"
  "grows id (MemoryArrayWriter_alloc_array C n)"
  by (simp_all add: grows_def alloc_with_val_eq alloc_eq alloc_from_array_eq alloc_from_iter_eq alloc_array_eq)

lemma grows_write_at: "grows id (Buffer_write_at C n v)"
  by (simp add: grows_def write_at_length_mono [OF pod_codec_axioms])

lemma grows_setters:
  "grows id (MemoryWriter_set_value C w v)" "grows id (MemoryArrayWriter_set_value_at C a v i)"
  unfolding MemoryWriter_set_value_def MemoryArrayWriter_set_value_at_def
  by (intro grows_intros grows_write_at)+

lemma keeps_writers:
  "keeps k id (MemoryWriter_alloc_with_val C v) (slot_behind k)" "keeps k id (MemoryWriter_alloc C) (slot_behind k)"
  "keeps k id (MemoryArrayWriter_alloc_from_array C vs) (array_behind k)"
  "keeps k id (MemoryArrayWriter_alloc_from_iter C vs) (array_behind k)"
  "keeps k id (MemoryArrayWriter_alloc_array C n) (array_behind k)"
  by (auto simp: keeps_def alloc_with_val_eq alloc_eq alloc_from_array_eq alloc_from_iter_eq alloc_array_eq
      slot_behind_def array_behind_def)

lemma keeps_write_at: "k \<le> n \<Longrightarrow> keeps k id (Buffer_write_at C n v) (\<lambda>_. True)"
  by (auto simp: keeps_def write_at_keeps [OF pod_codec_axioms])

lemma keeps_set_value: "slot_behind k w \<Longrightarrow> keeps k id (MemoryWriter_set_value C w v) (\<lambda>_. True)"
  unfolding MemoryWriter_set_value_def slot_behind_def
  by (rule keeps_intros grows_intros grows_write_at keeps_write_at | simp)+

lemma keeps_set_value_at: "array_behind k a \<Longrightarrow> keeps k id (MemoryArrayWriter_set_value_at C a v i) (\<lambda>_. True)"
  unfolding MemoryArrayWriter_set_value_at_def array_behind_def
  by (rule keeps_intros grows_intros grows_write_at keeps_write_at | simp)+

end

lemmas codec_grows = pod_codec.grows_writers pod_codec.grows_setters
lemmas codec_keeps = pod_codec.keeps_writers pod_codec.keeps_set_value pod_codec.keeps_set_value_at

lemmas int_grows [grows_intros] =
  u8c.grows_writers u8c.grows_setters u16c.grows_writers u16c.grows_setters u32c.grows_writers u32c.grows_setters

lemmas int_keeps [keeps_intros] =
  u8c.keeps_writers u8c.keeps_set_value_at u16c.keeps_writers u16c.keeps_set_value_at
  u32c.keeps_writers u32c.keeps_set_value_at

lemma grows_write_letters: "grows id (write_letters w i ls)"
  by (induction ls arbitrary: i) (auto intro!: grows_intros)

lemma keeps_write_letters: "array_behind k w \<Longrightarrow> keeps k id (write_letters w i ls) (\<lambda>_. True)"
proof (induction ls arbitrary: i)
  case (Cons l ls)
  show ?case unfolding write_letters.simps
    by (rule keeps_bindM [OF u16c.keeps_set_value_at [OF Cons.prems] u16c.grows_setters(2) grows_write_letters Cons.IH [OF Cons.prems]])
qed (simp add: keeps_basic)

lemma grows_write_string: "grows id (write_string_to_location t)"
  unfolding write_string_to_location_def by (intro grows_intros grows_write_letters)

lemma keeps_write_string: "keeps k id (write_string_to_location t) (\<lambda>_. True)"
  unfolding write_string_to_location_def
  by (rule keeps_intros grows_intros keeps_write_letters grows_write_letters | assumption)+

lemma appends_write_string: "appends id (write_string_to_location t)"
  by (rule appendsI [OF grows_write_string keeps_write_string])

end
