(* ===== verification/Streams.thy ===== *)
theory Streams
  imports Contract
begin

text \<open>
  The streams that are written in one pass: \<open>memory_list_stream.rs\<close>, \<open>memory_info_list_stream.rs\<close>,
  \<open>exception_stream.rs\<close>, \<open>thread_names_stream.rs\<close>, \<open>handle_data_stream.rs\<close>, \<open>app_memory.rs\<close>,
  \<open>systeminfo_stream.rs\<close> of \<open>src/src/linux/minidump_writer\<close>, with \<open>dumper_cpu_info/{mod,x86_mips}.rs\<close>, and
  \<open>write_file\<close> and \<open>write_soft_errors\<close> of \<open>minidump_writer/mod.rs\<close>.

  A writer with \<open>&self\<close>, or one that does not change it, is a computation on the buffer with the dumper as an argument;
  one that changes the dumper is a computation on the pair.
\<close>

section \<open>Helpers\<close>

fun map_result :: "('a \<Rightarrow> ('b, 'e) result) \<Rightarrow> 'a list \<Rightarrow> ('b list, 'e) result" where
  "map_result f [] = Ok []"
| "map_result f (x # xs) = bindR (f x) (\<lambda>y. bindR (map_result f xs) (\<lambda>ys. Ok (y # ys)))"

definition write_bytesM :: "bytes \<Rightarrow> (Buffer, MemoryArrayWriter, 'e) comp" where
  "write_bytesM bs b = (case MemoryArrayWriter_write_bytes bs b of (w, b') \<Rightarrow> (Ok w, b'))"

text \<open>\<open>u32::try_from\<close> of a thread id.\<close>

definition try_u32 :: "'e \<Rightarrow> i32 \<Rightarrow> (u32, 'e) result" where
  "try_u32 e i = (if 0 \<le> i \<and> i < 2 ^ 32 then Ok (word_of_int i) else Err e)"

text \<open>\<open>str::trim\<close> and \<open>trim_end\<close>, with the characters of the Unicode property White\_Space.\<close>

definition is_whitespace :: "nat \<Rightarrow> bool" where
  "is_whitespace c \<longleftrightarrow> 0x9 \<le> c \<and> c \<le> 0xD \<or> c = 0x20 \<or> c = 0x85 \<or> c = 0xA0 \<or> c = 0x1680 \<or>
     0x2000 \<le> c \<and> c \<le> 0x200A \<or> c = 0x2028 \<or> c = 0x2029 \<or> c = 0x202F \<or> c = 0x205F \<or> c = 0x3000"

definition of_chars :: "nat list \<Rightarrow> str" where
  "of_chars xs = of_str_bytes (concat (map encode_utf8 xs))"

definition trim_end :: "str \<Rightarrow> str" where
  "trim_end s = of_chars (rev (dropWhile is_whitespace (rev (str_chars s))))"

definition trim :: "str \<Rightarrow> str" where
  "trim s = of_chars (dropWhile is_whitespace (rev (dropWhile is_whitespace (rev (str_chars s)))))"

section \<open>Memory list\<close>

definition write_memory_list_stream :: "formats \<Rightarrow> MinidumpWriter \<Rightarrow> (Buffer, MDRawDirectory, SectionMemListError) comp" where
  "write_memory_list_stream F self =
     bindM (map_errM SectionMemListError_MemoryWriterError
              (MemoryWriter_alloc_with_val u32_pod (word_of_nat (length (memory_blocks self)))))
       (\<lambda>list_header.
          let dirent = \<lparr>stream_type = stream_code F MemoryListStream, location = MemoryWriter_location u32_pod list_header\<rparr> in
          bindM (map_errM SectionMemListError_MemoryWriterError
                   (MemoryArrayWriter_alloc_from_array (f_memory F) (memory_blocks self)))
            (\<lambda>block_list. add_data_size dirent (data_size (MemoryArrayWriter_location (f_memory F) block_list))))"

section \<open>Memory info list\<close>

definition get_memory_protection :: "perm set \<Rightarrow> MemoryProtection" where
  "get_memory_protection ps =
     (case (READ \<in> ps, WRITE \<in> ps, EXECUTE \<in> ps) of
        (False, False, False) \<Rightarrow> PAGE_NOACCESS
      | (False, False, True) \<Rightarrow> PAGE_EXECUTE
      | (True, False, False) \<Rightarrow> PAGE_READONLY
      | (True, False, True) \<Rightarrow> PAGE_EXECUTE_READ
      | (_, True, False) \<Rightarrow> PAGE_READWRITE
      | (_, True, True) \<Rightarrow> PAGE_EXECUTE_READWRITE)"

definition memory_info_of :: "formats \<Rightarrow> MemoryMap \<Rightarrow> (MDMemoryInfo, 'e) result" where
  "memory_info_of F mm =
     bindR (sub_w (mm_end mm) (mm_start mm)) (\<lambda>sz. Ok
       \<lparr>base_address = mm_start mm, allocation_base = mm_start mm,
        allocation_protection = protection_bits F (get_memory_protection (mm_perms mm)),
        region_size = sz, mi_state = mem_commit F,
        protection = protection_bits F (get_memory_protection (mm_perms mm)),
        mi_type = (if PRIVATE \<in> mm_perms mm then mem_private F else mem_mapped F)\<rparr>)"

definition write_memory_info_list_stream ::
    "formats \<Rightarrow> env \<Rightarrow> MinidumpWriter \<Rightarrow> (Buffer, MDRawDirectory, SectionMemInfoListError) comp" where
  "write_memory_info_list_stream F E self =
     bindM (lift_result (map_err ProcfsError (maps_from_file E (''/proc/'' @ int_string (blamed_thread self) @ ''/maps''))))
       (\<lambda>maps. bindM (map_errM SectionMemInfoListError_MemoryWriterError
          (MemoryWriter_alloc_with_val (f_memory_info_list F)
             \<lparr>mi_size_of_header = word_of_nat (size_of_memory_info_list F),
              mi_size_of_entry = word_of_nat (size_of_memory_info F), number_of_entries = word_of_nat (length maps)\<rparr>))
       (\<lambda>list_header.
          let dirent = \<lparr>stream_type = stream_code F MemoryInfoListStream,
                        location = MemoryWriter_location (f_memory_info_list F) list_header\<rparr> in
          bindM (lift_result (map_result (memory_info_of F) maps))
       (\<lambda>infos. bindM (map_errM SectionMemInfoListError_MemoryWriterError
          (MemoryArrayWriter_alloc_from_iter (f_memory_info F) infos))
       (\<lambda>block_list. add_data_size dirent (data_size (MemoryArrayWriter_location (f_memory_info F) block_list))))))"

section \<open>Exception\<close>

definition exception_of :: "formats \<Rightarrow> MinidumpWriter \<Rightarrow> MDException" where
  "exception_of F self =
     (case crash_context self of
        Some context' \<Rightarrow>
          \<lparr>exception_code = ssi_signo (cc_siginfo context'),
           exception_flags = word_of_int (ssi_code (cc_siginfo context')),
           exception_address = ssi_addr (cc_siginfo context')\<rparr>
      | None \<Rightarrow>
          \<lparr>exception_code = dump_requested F, exception_flags = 0,
           exception_address = (case crashing_thread_context self of CrashContextPlusAddress _ a \<Rightarrow> a | _ \<Rightarrow> 0)\<rparr>)"

definition exception_context :: "MinidumpWriter \<Rightarrow> MDLocationDescriptor" where
  "exception_context self =
     (case crashing_thread_context self of
        CrashContextPlusAddress ctx _ \<Rightarrow> ctx
      | CrashContextOnly ctx \<Rightarrow> ctx
      | NoContext \<Rightarrow> MDLocationDescriptor_default)"

definition write_exception_stream ::
    "formats \<Rightarrow> MinidumpWriter \<Rightarrow> (Buffer, MDRawDirectory, SectionExceptionStreamError) comp" where
  "write_exception_stream F self =
     bindM (map_errM SectionExceptionStreamError_MemoryWriterError
       (MemoryWriter_alloc_with_val (f_exception F)
          \<lparr>ex_thread_id = word_of_int (blamed_thread self), exception_record = exception_of F self,
           ex_thread_context = exception_context self\<rparr>))
       (\<lambda>exc. ret \<lparr>stream_type = stream_code F ExceptionStream, location = MemoryWriter_location (f_exception F) exc\<rparr>)"

section \<open>Thread names\<close>

fun write_thread_names ::
    "formats \<Rightarrow> MemoryArrayWriter \<Rightarrow> nat \<Rightarrow> Thread list \<Rightarrow> (Buffer, unit, SectionThreadNamesError) comp" where
  "write_thread_names F thread_list idx [] = ret ()"
| "write_thread_names F thread_list idx (item # items) =
     bindM (case thread_name item of
         None \<Rightarrow> ret ()
       | Some nm \<Rightarrow>
           bindM (map_errM SectionThreadNamesError_MemoryWriterError (write_string_to_location nm)) (\<lambda>pos.
           bindM (lift_result (try_u32 SectionThreadNamesError_TryFromIntError (tid item))) (\<lambda>t.
             map_errM SectionThreadNamesError_MemoryWriterError
               (MemoryArrayWriter_set_value_at (f_thread_name F) thread_list
                  \<lparr>tn_thread_id = t, thread_name_rva = ucast (rva pos)\<rparr> idx))))
       (\<lambda>_. write_thread_names F thread_list (Suc idx) items)"

definition write_thread_names_stream ::
    "formats \<Rightarrow> MinidumpWriter \<Rightarrow> (Buffer, MDRawDirectory, SectionThreadNamesError) comp" where
  "write_thread_names_stream F self =
     (let num_threads = length (filter (\<lambda>t. thread_name t \<noteq> None) (threads self)) in
      bindM (map_errM SectionThreadNamesError_MemoryWriterError (MemoryWriter_alloc_with_val u32_pod (word_of_nat num_threads)))
        (\<lambda>list_header.
           let dirent = \<lparr>stream_type = stream_code F ThreadNamesStream, location = MemoryWriter_location u32_pod list_header\<rparr> in
           bindM (map_errM SectionThreadNamesError_MemoryWriterError (MemoryArrayWriter_alloc_array (f_thread_name F) num_threads))
        (\<lambda>thread_list. bindM (add_data_size dirent (data_size (MemoryArrayWriter_location (f_thread_name F) thread_list)))
        (\<lambda>dirent. bindM (write_thread_names F thread_list 0 (threads self))
        (\<lambda>_. ret dirent)))))"

section \<open>Handles\<close>

definition filename_to_fd :: "OsString \<Rightarrow> u64 option" where
  "filename_to_fd filename = parse_unsigned 10 (to_string_lossy filename)"

text \<open>\<open>file_stat\<close> is the service \<open>st_mode\<close>, which has no value for a path with a NUL or when \<open>stat\<close> fails.\<close>

definition direntry_to_descriptor ::
    "env \<Rightarrow> OsString \<Rightarrow> OsString \<Rightarrow> (Buffer, MDRawHandleDescriptor option, SectionHandleDataStreamError) comp" where
  "direntry_to_descriptor E dir entry =
     (case filename_to_fd entry of
        None \<Rightarrow> ret None
      | Some h \<Rightarrow>
          (case read_link E (path_push dir entry) of
             Panic \<Rightarrow> panic
           | Err _ \<Rightarrow> ret None
           | Ok realpath \<Rightarrow>
               handleM (write_string_to_location (to_string_lossy realpath))
                 (\<lambda>path_rva. ret (case st_mode E (path_push dir entry) of
                      None \<Rightarrow> None
                    | Some mode \<Rightarrow> Some \<lparr>handle = h, type_name_rva = 0, object_name_rva = rva path_rva,
                        attributes = mode, granted_access = 0, handle_count = 0, pointer_count = 0\<rparr>))
                 (\<lambda>_. ret None)))"

fun collect_descriptors ::
    "env \<Rightarrow> OsString \<Rightarrow> (OsString, io_error) result list \<Rightarrow> (Buffer, MDRawHandleDescriptor list, SectionHandleDataStreamError) comp" where
  "collect_descriptors E dir [] = ret []"
| "collect_descriptors E dir (entry # entries) =
     (case entry of
        Ok nm \<Rightarrow>
          bindM (direntry_to_descriptor E dir nm) (\<lambda>d.
          bindM (collect_descriptors E dir entries) (\<lambda>ds.
            ret (case d of None \<Rightarrow> ds | Some x \<Rightarrow> x # ds)))
      | Err _ \<Rightarrow> collect_descriptors E dir entries
      | Panic \<Rightarrow> panic)"

definition write_handle_data_stream ::
    "formats \<Rightarrow> env \<Rightarrow> MinidumpWriter \<Rightarrow> (Buffer, MDRawDirectory, SectionHandleDataStreamError) comp" where
  "write_handle_data_stream F E self =
     (let proc_fd_path = ''/proc/'' @ int_string (process_id self) @ ''/fd'' in
      bindM (lift_result (map_err SectionHandleDataStreamError_IOError (read_dir E proc_fd_path)))
        (\<lambda>entries. bindM (collect_descriptors E proc_fd_path entries)
        (\<lambda>descriptors. bindM (map_errM SectionHandleDataStreamError_MemoryWriterError
           (MemoryWriter_alloc_with_val (f_handle_data F)
              \<lparr>hs_size_of_header = word_of_nat (size_of_handle_data F), size_of_descriptor = word_of_nat (size_of_handle F),
               number_of_descriptors = word_of_nat (length descriptors), hs_reserved = 0\<rparr>))
        (\<lambda>stream_header.
           let dirent = \<lparr>stream_type = stream_code F HandleDataStream,
                         location = MemoryWriter_location (f_handle_data F) stream_header\<rparr> in
           bindM (map_errM SectionHandleDataStreamError_MemoryWriterError
             (MemoryArrayWriter_alloc_from_iter (f_handle F) descriptors))
        (\<lambda>descriptor_list. add_data_size dirent (data_size (MemoryArrayWriter_location (f_handle F) descriptor_list)))))))"

section \<open>Application memory\<close>

fun write_app_regions :: "env \<Rightarrow> AppMemory list \<Rightarrow> (MinidumpWriter \<times> Buffer, unit, SectionAppMemoryError) comp" where
  "write_app_regions E [] = ret ()"
| "write_app_regions E (a # as) =
     bindM (getM fst) (\<lambda>self.
     bindM (lift_result (map_err SectionAppMemoryError_CopyFromProcessError
              (copy_mem E (blamed_thread self) (ptr a) (length_of_region a)))) (\<lambda>data_copy.
     bindM (on_snd (write_bytesM data_copy)) (\<lambda>w.
     bindM (modifyM (\<lambda>(self, b). (self\<lparr>memory_blocks := memory_blocks self @
              [\<lparr>start_of_memory_range = ptr a, md_memory = MemoryArrayWriter_location u8_pod w\<rparr>]\<rparr>, b))) (\<lambda>_.
       write_app_regions E as))))"

definition write_app_memory :: "env \<Rightarrow> (MinidumpWriter \<times> Buffer, unit, SectionAppMemoryError) comp" where
  "write_app_memory E = bindM (getM fst) (\<lambda>self. write_app_regions E (app_memory self))"

section \<open>System information\<close>

definition to_str_or_unknown :: "OsString \<Rightarrow> str" where
  "to_str_or_unknown s = (case from_utf8 s of Some t \<Rightarrow> t | None \<Rightarrow> ''<unknown>'')"

text \<open>\<open>uname\<close> returns sysname, release, version and machine.\<close>

definition os_information :: "formats \<Rightarrow> env \<Rightarrow> u32 \<times> str" where
  "os_information F E =
     (platform_linux F,
      case uname E of
        Ok (sysname, release, version, machine) \<Rightarrow>
          to_str_or_unknown sysname @ '' '' @ to_str_or_unknown release @ '' '' @ to_str_or_unknown version @ '' '' @
          to_str_or_unknown machine
      | _ \<Rightarrow> ''Linux <unknown> <unknown> x86_64'')"

record CpuInfoEntry =
  info_name :: str
  entry_value :: i32
  found :: bool

definition cpu_info_table :: "CpuInfoEntry list" where
  "cpu_info_table =
     [\<lparr>info_name = ''processor'', entry_value = -1, found = False\<rparr>,
      \<lparr>info_name = ''model'', entry_value = 0, found = False\<rparr>,
      \<lparr>info_name = ''stepping'', entry_value = 0, found = False\<rparr>,
      \<lparr>info_name = ''cpu family'', entry_value = 0, found = False\<rparr>]"

text \<open>One line against the table: later entries that were found are skipped, and so is the vendor check behind an
  unparsable value.\<close>

fun cpu_entries :: "str \<Rightarrow> str \<Rightarrow> bool \<Rightarrow> CpuInfoEntry list \<Rightarrow> str \<Rightarrow> CpuInfoEntry list \<times> str" where
  "cpu_entries field v is_first [] vendor = ([], vendor)"
| "cpu_entries field v is_first (e # rest) vendor =
     (if \<not> is_first \<and> found e then (case cpu_entries field v is_first rest vendor of (rest', ven) \<Rightarrow> (e # rest', ven))
      else
        let parsed = parse_i32 v;
            e' = (if field = info_name e then (case parsed of Some n \<Rightarrow> e\<lparr>entry_value := n, found := True\<rparr> | None \<Rightarrow> e) else e);
            skip = (field = info_name e \<and> parsed = None);
            vendor' = (if \<not> skip \<and> field = ''vendor_id'' \<and> v \<noteq> [] then v else vendor)
        in case cpu_entries field v False rest vendor' of (rest', ven) \<Rightarrow> (e' # rest', ven))"

fun cpu_lines ::
    "(str, io_error) result list \<Rightarrow> CpuInfoEntry list \<Rightarrow> str \<Rightarrow> (CpuInfoEntry list \<times> str, CpuInfoError) result" where
  "cpu_lines [] table vendor = Ok (table, vendor)"
| "cpu_lines (line # lines) table vendor =
     bindR (map_err CpuInfoError_IOError line) (\<lambda>l.
       if trim l = [] then cpu_lines lines table vendor
       else case map trim (split_on CHR '':'' l) of
         field # v # _ \<Rightarrow> (case cpu_entries field v True table vendor of (t, ven) \<Rightarrow> cpu_lines lines t ven)
       | _ \<Rightarrow> cpu_lines lines table vendor)"

definition write_cpu_information ::
    "formats \<Rightarrow> env \<Rightarrow> (MDRawSystemInfo, unit, CpuInfoError) comp" where
  "write_cpu_information F E =
     bindM (modifyM (\<lambda>i. i\<lparr>processor_architecture := architecture_amd64 F\<rparr>))
       (\<lambda>_. bindM (lift_result (bindR (map_err CpuInfoError_IOError (cpuinfo_lines E)) (\<lambda>ls. cpu_lines ls cpu_info_table [])))
       (\<lambda>(table, vendor_id).
          if \<not> list_all found table then throw NotAllProcEntriesFound
          else if entry_value (table ! 0) + 1 \<ge> 2 ^ 31 then panic
          else modifyM (\<lambda>i. i\<lparr>
            number_of_processors := word_of_int (entry_value (table ! 0) + 1),
            processor_level := word_of_int (entry_value (table ! 3)),
            processor_revision := word_of_int (or (push_bit 8 (entry_value (table ! 1))) (entry_value (table ! 2))),
            cpu_data := (if vendor_id = [] then cpu_data i
              else put_slice (cpu_data i) 0 (map (\<lambda>c. of_char c) (take (min 12 (length vendor_id)) vendor_id)))\<rparr>)))"

definition MDRawSystemInfo_zeroed :: MDRawSystemInfo where
  "MDRawSystemInfo_zeroed = \<lparr>processor_architecture = 0, processor_level = 0, processor_revision = 0,
     number_of_processors = 0, platform_id = 0, csd_version_rva = 0, cpu_data = replicate 24 0\<rparr>"

text \<open>The soft errors of the stream are returned with the directory entry.\<close>

definition write_systeminfo ::
    "formats \<Rightarrow> env \<Rightarrow> (Buffer, MDRawDirectory \<times> SectionSystemInfoError list, SectionSystemInfoError) comp" where
  "write_systeminfo F E =
     bindM (map_errM SectionSystemInfoError_MemoryWriterError (MemoryWriter_alloc (f_system_info F)))
       (\<lambda>info_section.
          let dirent = \<lparr>stream_type = stream_code F SystemInfoStream,
                        location = MemoryWriter_location (f_system_info F) info_section\<rparr> in
          case os_information F E of (platform, os_version) \<Rightarrow>
          bindM (map_errM SectionSystemInfoError_MemoryWriterError (write_string_to_location os_version))
       (\<lambda>os_version_loc.
          let info = MDRawSystemInfo_zeroed\<lparr>platform_id := platform, csd_version_rva := rva os_version_loc\<rparr> in
          case write_cpu_information F E info of (r, info') \<Rightarrow>
          if r = Panic then panic
          else bindM (map_errM SectionSystemInfoError_MemoryWriterError
                 (MemoryWriter_set_value (f_system_info F) info_section info'))
       (\<lambda>_. ret (dirent, case r of Err e \<Rightarrow> [WriteCpuInformationFailed e] | _ \<Rightarrow> []))))"

section \<open>Files and soft errors\<close>

definition write_file :: "env \<Rightarrow> string \<Rightarrow> (Buffer, MDLocationDescriptor, MemoryWriterError) comp" where
  "write_file E filename =
     bindM (lift_result (map_err MemoryWriterError_IOError (read_file E filename)))
       (\<lambda>content. bindM (write_bytesM content) (\<lambda>w. ret (MemoryArrayWriter_location u8_pod w)))"

definition write_soft_errors :: "env \<Rightarrow> WriterError list \<Rightarrow> (Buffer, MDLocationDescriptor, WriterError) comp" where
  "write_soft_errors E soft_errors =
     bindM (lift_result (map_err ConvertToJsonFailed (to_json E soft_errors)))
       (\<lambda>s. bindM (write_bytesM (map (\<lambda>c. of_char c) s)) (\<lambda>w. ret (MemoryArrayWriter_location u8_pod w)))"

section \<open>Every stream only appends\<close>

lemma grows_write_bytes [grows_intros]: "grows id (write_bytesM bs)"
  by (simp add: grows_def write_bytesM_def MemoryArrayWriter_write_bytes_def Buffer_write_all_def Let_def)

lemma keeps_write_bytes [keeps_intros]: "keeps k id (write_bytesM bs) (\<lambda>_. True)"
  by (auto simp: keeps_def write_bytesM_def MemoryArrayWriter_write_bytes_def Buffer_write_all_def Let_def)

lemma appends_write_file: "appends id (write_file E f)"
  unfolding write_file_def by (rule appendsI keeps_intros grows_intros)+

lemma appends_write_soft_errors: "appends id (write_soft_errors E errs)"
  unfolding write_soft_errors_def by (rule appendsI keeps_intros grows_intros)+

lemma grows_app_regions: "grows snd (write_app_regions E as)"
  by (induction "as") (auto intro!: grows_intros)

lemma keeps_app_regions: "keeps k snd (write_app_regions E as) (\<lambda>_. True)"
proof (induction "as")
  case (Cons a "as")
  show ?case unfolding write_app_regions.simps
    by (rule keeps_intros grows_intros grows_app_regions Cons.IH | simp split: prod.splits)+
qed (simp add: keeps_basic)

lemma appends_app_memory: "appends snd (write_app_memory E)"
  unfolding write_app_memory_def by (rule appendsI keeps_intros grows_intros keeps_app_regions grows_app_regions)+

lemma appends_direntry: "appends id (direntry_to_descriptor E dir entry)"
proof (cases "filename_to_fd entry")
  case (Some h)
  then show ?thesis
    by (cases "read_link E (path_push dir entry)"; simp add: direntry_to_descriptor_def)
      (rule appendsI keeps_intros grows_intros grows_write_string keeps_write_string)+
next
  case None
  then show ?thesis by (simp add: direntry_to_descriptor_def appends_def grows_basic keeps_basic)
qed

lemma appends_collect: "appends id (collect_descriptors E dir entries)"
proof (induction entries)
  case Nil
  then show ?case by (simp add: appends_def grows_basic keeps_basic)
next
  case (Cons x xs)
  show ?case
  proof (cases x)
    case (Ok nm)
    show ?thesis unfolding collect_descriptors.simps Ok result.case
      by (rule appendsI keeps_intros grows_intros appends_grows [OF appends_direntry] appends_keeps [OF appends_direntry]
          appends_grows [OF Cons.IH] appends_keeps [OF Cons.IH])+
  qed (use Cons.IH in \<open>simp_all add: appends_def grows_basic keeps_basic\<close>)
qed

context md_formats
begin

lemmas frm_grows = codecs [THEN pod_codec.grows_writers(1)] codecs [THEN pod_codec.grows_writers(2)]
  codecs [THEN pod_codec.grows_writers(3)] codecs [THEN pod_codec.grows_writers(4)] codecs [THEN pod_codec.grows_writers(5)]
  codecs [THEN pod_codec.grows_setters(1)] codecs [THEN pod_codec.grows_setters(2)]

lemmas frm_keeps = codecs [THEN pod_codec.keeps_writers(1)] codecs [THEN pod_codec.keeps_writers(2)]
  codecs [THEN pod_codec.keeps_writers(3)] codecs [THEN pod_codec.keeps_writers(4)] codecs [THEN pod_codec.keeps_writers(5)]
  codecs [THEN pod_codec.keeps_set_value] codecs [THEN pod_codec.keeps_set_value_at]

lemmas stream_rules = appendsI keeps_intros grows_intros frm_grows frm_keeps grows_write_string keeps_write_string

lemma appends_memory_list: "appends id (write_memory_list_stream F self)"
  unfolding write_memory_list_stream_def by (rule stream_rules)+

lemma appends_memory_info: "appends id (write_memory_info_list_stream F E self)"
  unfolding write_memory_info_list_stream_def by (rule stream_rules)+

lemma appends_exception: "appends id (write_exception_stream F self)"
  unfolding write_exception_stream_def by (rule stream_rules)+

lemma appends_handle_data: "appends id (write_handle_data_stream F E self)"
  unfolding write_handle_data_stream_def
  by (rule stream_rules appends_grows [OF appends_collect] appends_keeps [OF appends_collect])+

lemma grows_thread_names: "grows id (write_thread_names F a idx items)"
  by (induction items arbitrary: idx) (auto intro!: grows_intros frm_grows grows_write_string)

lemma keeps_thread_names: "array_behind k a \<Longrightarrow> keeps k id (write_thread_names F a idx items) (\<lambda>_. True)"
proof (induction items arbitrary: idx)
  case (Cons t items)
  show ?case unfolding write_thread_names.simps
    by (rule stream_rules grows_thread_names Cons.IH Cons.prems)+
qed (simp add: keeps_basic)

lemma appends_thread_names: "appends id (write_thread_names_stream F self)"
  unfolding write_thread_names_stream_def
  by (rule stream_rules grows_thread_names keeps_thread_names | assumption)+

lemma appends_systeminfo: "appends id (write_systeminfo F E)"
  unfolding write_systeminfo_def by (rule stream_rules | assumption)+

end

end
