(* ===== verification/Thread_List.thy ===== *)
theory Thread_List
  imports Streams
begin

text \<open>
  \<open>src/src/linux/minidump_writer/thread_list_stream.rs\<close>: one entry per thread with its stack and its registers, the
  memory around the crashing instruction, and the limit on the stacks of extra threads. The writer changes the dumper
  (\<open>memory_blocks\<close>, \<open>crashing_thread_context\<close>), so its state is the dumper with the buffer.
\<close>

section \<open>Stacks\<close>

definition LIMIT_AVERAGE_THREAD_STACK_LENGTH :: nat where "LIMIT_AVERAGE_THREAD_STACK_LENGTH = 8 * 1024"
definition LIMIT_BASE_THREAD_COUNT :: nat where "LIMIT_BASE_THREAD_COUNT = 20"
definition LIMIT_MAX_EXTRA_THREAD_STACK_LEN :: nat where "LIMIT_MAX_EXTRA_THREAD_STACK_LEN = 2 * 1024"
definition LIMIT_MINIDUMP_FUDGE_FACTOR :: nat where "LIMIT_MINIDUMP_FUDGE_FACTOR = 64 * 1024"

datatype MaxStackLen = NoMax | Len nat

definition stack_take :: "MaxStackLen \<Rightarrow> usize \<Rightarrow> nat" where
  "stack_take max_stack_len stack_len =
     (case max_stack_len of Len m \<Rightarrow> min (unat stack_len) m | NoMax \<Rightarrow> unat stack_len)"

text \<open>Whether a stack is left out because the principal mapping is not referenced.\<close>

definition stack_wanted :: "MinidumpWriter \<Rightarrow> usize \<Rightarrow> bytes \<Rightarrow> usize \<Rightarrow> (bool, SectionThreadListError) result" where
  "stack_wanted self instruction_ptr stack_bytes stack_pointer_offset =
     (if skip_stacks_if_mapping_unreferenced self then
        (case principal_mapping self of
           None \<Rightarrow> Ok False
         | Some pm \<Rightarrow>
             (if instruction_ptr < sys_start_address (system_mapping_info pm) \<or>
                 sys_end_address (system_mapping_info pm) < instruction_ptr
              then stack_has_pointer_to_mapping pm stack_bytes stack_pointer_offset
              else Ok True))
      else Ok True)"

definition try_i32 :: "u32 \<Rightarrow> (i32, SectionThreadListError) result" where
  "try_i32 w = (if unat w < 2 ^ 31 then Ok (int (unat w)) else Err SectionThreadListError_TryFromIntError)"

definition fill_thread_stack ::
    "env \<Rightarrow> MDRawThread \<Rightarrow> usize \<Rightarrow> usize \<Rightarrow> MaxStackLen \<Rightarrow>
     (MinidumpWriter \<times> Buffer, MDRawThread, SectionThreadListError) comp" where
  "fill_thread_stack E thread instruction_ptr stack_ptr max_stack_len =
     bindM (getM id) (\<lambda>(self, buffer).
       let th = thread\<lparr>stack := \<lparr>start_of_memory_range = stack_ptr,
                  md_memory = \<lparr>data_size = 0, rva = ucast (Buffer_position buffer)\<rparr>\<rparr>\<rparr> in
       case get_stack_info self stack_ptr of
         Panic \<Rightarrow> panic
       | Err _ \<Rightarrow> ret th
       | Ok (valid_stack_ptr, stack_len) \<Rightarrow>
           bindM (lift_result (try_i32 (thread_id thread))) (\<lambda>pid.
           bindM (lift_result (map_err SectionThreadListError_CopyFromProcessError
                    (copy_mem E pid valid_stack_ptr (stack_take max_stack_len stack_len)))) (\<lambda>stack_bytes.
             let stack_pointer_offset = saturating_sub stack_ptr valid_stack_ptr in
           bindM (lift_result (stack_wanted self instruction_ptr stack_bytes stack_pointer_offset)) (\<lambda>wanted.
             if \<not> wanted then ret th
             else
           bindM (if sanitize_stack self
                  then lift_result (map_err SanitizeStackCopyFailed
                         (sanitize_stack_copy self stack_bytes stack_ptr stack_pointer_offset))
                  else ret stack_bytes) (\<lambda>stack_bytes.
           bindM (on_snd (write_bytesM stack_bytes)) (\<lambda>w.
             let th = th\<lparr>stack := \<lparr>start_of_memory_range = valid_stack_ptr,
                        md_memory = \<lparr>data_size = word_of_nat (length stack_bytes), rva = maw_position w\<rparr>\<rparr>\<rparr> in
           bindM (modifyM (\<lambda>(self, b). (self\<lparr>memory_blocks := memory_blocks self @ [stack th]\<rparr>, b))) (\<lambda>_.
             ret th)))))))"

section \<open>Memory at the crash\<close>

definition ip_memory_size :: usize where "ip_memory_size = 256"

definition ip_range :: "usize \<Rightarrow> MappingInfo \<Rightarrow> (usize \<times> usize, SectionThreadListError) result" where
  "ip_range instruction_ptr m =
     bindR (sub_w instruction_ptr (ip_memory_size div 2)) (\<lambda>low.
     bindR (end_address m) (\<lambda>stop.
     bindR (add_w instruction_ptr (ip_memory_size div 2)) (\<lambda>high.
       Ok (max (start_address m) low, min stop high))))"

fun write_ip_memory ::
    "env \<Rightarrow> u32 \<Rightarrow> usize \<Rightarrow> MappingInfo list \<Rightarrow> (MinidumpWriter \<times> Buffer, unit, SectionThreadListError) comp" where
  "write_ip_memory E t instruction_ptr [] = ret ()"
| "write_ip_memory E t instruction_ptr (m # ms) =
     (if instruction_ptr < start_address m then write_ip_memory E t instruction_ptr ms
      else
        bindM (lift_result (end_address m)) (\<lambda>stop.
        if stop \<le> instruction_ptr then write_ip_memory E t instruction_ptr ms
        else
          bindM (lift_result (ip_range instruction_ptr m)) (\<lambda>(start, end_of_range).
          bindM (lift_result (sub_w end_of_range start)) (\<lambda>n.
          bindM (lift_result (map_err SectionThreadListError_CopyFromProcessError
                   (copy_mem E (sint t) start (unat (ucast n :: u32))))) (\<lambda>memory_copy.
          bindM (map_errM SectionThreadListError_MemoryWriterError
                   (on_snd (MemoryArrayWriter_alloc_from_array u8_pod memory_copy))) (\<lambda>w.
            modifyM (\<lambda>(self, b). (self\<lparr>memory_blocks := memory_blocks self @
              [\<lparr>start_of_memory_range = start, md_memory = MemoryArrayWriter_location u8_pod w\<rparr>]\<rparr>, b))))))))"

section \<open>Threads\<close>

definition get_thread_info_by_index :: "env \<Rightarrow> MinidumpWriter \<Rightarrow> nat \<Rightarrow> (ThreadInfo, ThreadInfoError) result" where
  "get_thread_info_by_index E self index =
     (if length (threads self) < index then Err (IndexOutOfBounds index (length (threads self)))
      else if length (threads self) \<le> index then Panic
      else ThreadInfo_create (env_threads E) (process_id self) (tid (threads self ! index)))"

definition write_context ::
    "formats \<Rightarrow> (RawContextCPU, SectionThreadListError) result \<Rightarrow>
     (MinidumpWriter \<times> Buffer, MDLocationDescriptor, SectionThreadListError) comp" where
  "write_context F cpu =
     bindM (lift_result cpu) (\<lambda>c.
     bindM (map_errM SectionThreadListError_MemoryWriterError (on_snd (MemoryWriter_alloc_with_val (f_context F) c))) (\<lambda>w.
       ret (MemoryWriter_location (f_context F) w)))"

definition write_crashing_thread ::
    "formats \<Rightarrow> env \<Rightarrow> CrashContext \<Rightarrow> MDRawThread \<Rightarrow>
     (MinidumpWriter \<times> Buffer, MDRawThread, SectionThreadListError) comp" where
  "write_crashing_thread F E cc thread =
     (let instruction_ptr = CrashContext_get_instruction_pointer cc in
      bindM (fill_thread_stack E thread instruction_ptr (CrashContext_get_stack_pointer cc) NoMax) (\<lambda>thread.
      bindM (getM (mappings \<circ> fst)) (\<lambda>ms.
      bindM (write_ip_memory E (thread_id thread) instruction_ptr ms) (\<lambda>_.
      bindM (write_context F (CrashContext_fill_cpu_context (f_float F) cc RawContextCPU_default)) (\<lambda>loc.
      bindM (modifyM (\<lambda>(self, b). (self\<lparr>crashing_thread_context := CrashContextOnly loc\<rparr>, b))) (\<lambda>_.
        ret (thread\<lparr>thread_context := loc\<rparr>)))))))"

definition write_live_thread ::
    "formats \<Rightarrow> env \<Rightarrow> MaxStackLen \<Rightarrow> nat \<Rightarrow> Pid \<Rightarrow> MDRawThread \<Rightarrow>
     (MinidumpWriter \<times> Buffer, MDRawThread, SectionThreadListError) comp" where
  "write_live_thread F E extra_thread_stack_len idx t thread =
     bindM (getM fst) (\<lambda>self.
     bindM (lift_result (map_err SectionThreadListError_ThreadInfoError (get_thread_info_by_index E self idx))) (\<lambda>info.
       let max_stack_len = (if minidump_size_limit self \<noteq> None \<and> LIMIT_BASE_THREAD_COUNT \<le> idx
             then extra_thread_stack_len else NoMax);
           instruction_ptr = ThreadInfo_get_instruction_pointer info in
     bindM (fill_thread_stack E thread instruction_ptr (stack_pointer info) max_stack_len) (\<lambda>thread.
     bindM (write_context F (ThreadInfo_fill_cpu_context (f_float F) info RawContextCPU_default)) (\<lambda>loc.
     bindM (if t = blamed_thread self
            then modifyM (\<lambda>(self, b). (self\<lparr>crashing_thread_context := CrashContextPlusAddress loc instruction_ptr\<rparr>, b))
            else ret ()) (\<lambda>_.
       ret (thread\<lparr>thread_context := loc\<rparr>))))))"

definition blank_thread :: "u32 \<Rightarrow> MDRawThread" where
  "blank_thread t = \<lparr>thread_id = t, suspend_count = 0, priority_class = 0, priority = 0, teb = 0,
     stack = MDMemoryDescriptor_default, thread_context = MDLocationDescriptor_default\<rparr>"

definition write_thread ::
    "formats \<Rightarrow> env \<Rightarrow> MaxStackLen \<Rightarrow> nat \<Rightarrow> Thread \<Rightarrow> (MinidumpWriter \<times> Buffer, MDRawThread, SectionThreadListError) comp" where
  "write_thread F E extra_thread_stack_len idx item =
     bindM (lift_result (try_u32 SectionThreadListError_TryFromIntError (tid item))) (\<lambda>t.
     bindM (getM fst) (\<lambda>self.
       case crash_context self of
         Some cc \<Rightarrow>
           (if t = word_of_int (blamed_thread self) then write_crashing_thread F E cc (blank_thread t)
            else write_live_thread F E extra_thread_stack_len idx (tid item) (blank_thread t))
       | None \<Rightarrow> write_live_thread F E extra_thread_stack_len idx (tid item) (blank_thread t)))"

fun write_threads ::
    "formats \<Rightarrow> env \<Rightarrow> MaxStackLen \<Rightarrow> MemoryArrayWriter \<Rightarrow> nat \<Rightarrow> Thread list \<Rightarrow>
     (MinidumpWriter \<times> Buffer, unit, SectionThreadListError) comp" where
  "write_threads F E extra thread_list idx [] = ret ()"
| "write_threads F E extra thread_list idx (item # items) =
     bindM (write_thread F E extra idx item) (\<lambda>thread.
     bindM (map_errM SectionThreadListError_MemoryWriterError
              (on_snd (MemoryArrayWriter_set_value_at (f_thread F) thread_list thread idx))) (\<lambda>_.
       write_threads F E extra thread_list (Suc idx) items))"

text \<open>The estimate against the size limit; the sum is formed in \<open>u64\<close>.\<close>

definition extra_stack_len :: "u64 option \<Rightarrow> nat \<Rightarrow> Buffer \<Rightarrow> (MaxStackLen, SectionThreadListError) result" where
  "extra_stack_len limit num_threads buffer =
     (case limit of
        None \<Rightarrow> Ok NoMax
      | Some l \<Rightarrow>
          (let estimated = length (inner buffer) + num_threads * LIMIT_AVERAGE_THREAD_STACK_LENGTH + LIMIT_MINIDUMP_FUDGE_FACTOR in
           if 2 ^ 64 \<le> estimated then Panic
           else if unat l < estimated then Ok (Len LIMIT_MAX_EXTRA_THREAD_STACK_LEN)
           else Ok NoMax))"

definition write_thread_list_stream ::
    "formats \<Rightarrow> env \<Rightarrow> (MinidumpWriter \<times> Buffer, MDRawDirectory, SectionThreadListError) comp" where
  "write_thread_list_stream F E =
     bindM (getM fst) (\<lambda>self.
       let num_threads = length (threads self) in
     bindM (map_errM SectionThreadListError_MemoryWriterError
              (on_snd (MemoryWriter_alloc_with_val u32_pod (word_of_nat num_threads)))) (\<lambda>list_header.
       let dirent = \<lparr>stream_type = stream_code F ThreadListStream, location = MemoryWriter_location u32_pod list_header\<rparr> in
     bindM (map_errM SectionThreadListError_MemoryWriterError
              (on_snd (MemoryArrayWriter_alloc_array (f_thread F) num_threads))) (\<lambda>thread_list.
     bindM (add_data_size dirent (data_size (MemoryArrayWriter_location (f_thread F) thread_list))) (\<lambda>dirent.
     bindM (getM snd) (\<lambda>buffer.
     bindM (lift_result (extra_stack_len (minidump_size_limit self) num_threads buffer)) (\<lambda>extra.
     bindM (write_threads F E extra thread_list 0 (threads self)) (\<lambda>_.
       ret dirent)))))))"

section \<open>The stream only appends\<close>

lemma grows_fill_stack: "grows snd (fill_thread_stack E thread ip sp m)"
  unfolding fill_thread_stack_def by (intro grows_intros) auto

lemma keeps_fill_stack: "keeps k snd (fill_thread_stack E thread ip sp m) (\<lambda>_. True)"
  unfolding fill_thread_stack_def by (rule keeps_intros grows_intros | simp split: prod.splits)+

lemma grows_ip_memory: "grows snd (write_ip_memory E t ip ms)"
proof (induction ms)
  case (Cons m ms)
  show ?case unfolding write_ip_memory.simps by (rule grows_intros Cons.IH | simp split: prod.splits)+
qed (simp add: grows_basic)

lemma keeps_ip_memory: "keeps k snd (write_ip_memory E t ip ms) (\<lambda>_. True)"
proof (induction ms)
  case (Cons m ms)
  show ?case unfolding write_ip_memory.simps
    by (rule keeps_intros grows_intros grows_ip_memory Cons.IH | simp split: prod.splits)+
qed (simp add: keeps_basic)

context md_formats
begin

lemmas thread_rules = stream_rules grows_fill_stack keeps_fill_stack grows_ip_memory keeps_ip_memory

lemma appends_context: "appends snd (write_context F c)"
  unfolding write_context_def by (rule thread_rules)+

lemma appends_crashing_thread: "appends snd (write_crashing_thread F E cc t)"
  unfolding write_crashing_thread_def
  by (rule thread_rules appends_grows [OF appends_context] appends_keeps [OF appends_context] | simp split: prod.splits)+

lemma appends_live_thread: "appends snd (write_live_thread F E m idx t th)"
  unfolding write_live_thread_def
  by (rule thread_rules appends_grows [OF appends_context] appends_keeps [OF appends_context] | simp split: prod.splits)+

lemma appends_thread: "appends snd (write_thread F E m idx item)"
  unfolding write_thread_def
  by (rule thread_rules appends_grows [OF appends_crashing_thread] appends_keeps [OF appends_crashing_thread]
      appends_grows [OF appends_live_thread] appends_keeps [OF appends_live_thread])+

lemma grows_threads: "grows snd (write_threads F E m a idx items)"
proof (induction items arbitrary: idx)
  case (Cons t items)
  show ?case unfolding write_threads.simps by (rule stream_rules appends_grows [OF appends_thread] Cons.IH)+
qed (simp add: grows_basic)

lemma keeps_threads: "array_behind k a \<Longrightarrow> keeps k snd (write_threads F E m a idx items) (\<lambda>_. True)"
proof (induction items arbitrary: idx)
  case (Cons t items)
  show ?case unfolding write_threads.simps
    by (rule stream_rules appends_grows [OF appends_thread] appends_keeps [OF appends_thread] grows_threads Cons.IH Cons.prems)+
qed (simp add: keeps_basic)

lemma appends_thread_list: "appends snd (write_thread_list_stream F E)"
  unfolding write_thread_list_stream_def
  by (rule stream_rules grows_threads keeps_threads | assumption)+

end

end
