(* ===== verification/Modules.thy ===== *)
theory Modules
  imports Streams
begin

text \<open>
  \<open>src/src/linux/minidump_writer/mappings.rs\<close>: the module list, from the mappings of the process and from those the
  caller provided, and \<open>from_process_memory_for_mapping\<close> of \<open>minidump_writer/mod.rs\<close>.
\<close>

definition from_process_memory_for_mapping ::
    "(mem_sys \<Rightarrow> goblin \<Rightarrow> ProcessMemory \<Rightarrow> ('a, ModuleReaderError) result) \<Rightarrow> env \<Rightarrow> MappingInfo \<Rightarrow> Pid \<Rightarrow> ('a, WriterError) result" where
  "from_process_memory_for_mapping read E m pid =
     map_err WriterError_ModuleReaderError
       (read (env_mem E) (env_goblin E) (Process (ProcessReader_new pid (start_address m))))"

definition from_process_memory_for_index ::
    "(mem_sys \<Rightarrow> goblin \<Rightarrow> ProcessMemory \<Rightarrow> ('a, ModuleReaderError) result) \<Rightarrow> env \<Rightarrow> MinidumpWriter \<Rightarrow> nat \<Rightarrow> ('a, WriterError) result" where
  "from_process_memory_for_index read E self idx =
     (if length (mappings self) \<le> idx then Panic
      else from_process_memory_for_mapping read E (mappings self ! idx) (process_id self))"

text \<open>The build id of a mapping: from memory, else from the file if it exists, else none.\<close>

definition module_identifier :: "env \<Rightarrow> MinidumpWriter \<Rightarrow> nat \<Rightarrow> (bytes, SectionMappingsError) result" where
  "module_identifier E self idx =
     (case from_process_memory_for_index BuildId_read_from_module E self idx of
        Ok i \<Rightarrow> Ok i
      | Panic \<Rightarrow> Panic
      | Err _ \<Rightarrow>
          (case name (mappings self ! idx) of
             None \<Rightarrow> Ok []
           | Some path \<Rightarrow>
               (if path_exists E path then
                  (case BuildId_read_from_file (env_mem E) (env_goblin E) (map_file E) path of
                     Ok i \<Rightarrow> Ok i
                   | Err _ \<Rightarrow> Ok []
                   | Panic \<Rightarrow> Panic)
                else Ok [])))"

definition module_soname :: "env \<Rightarrow> MinidumpWriter \<Rightarrow> nat \<Rightarrow> (str option, SectionMappingsError) result" where
  "module_soname E self idx =
     (case from_process_memory_for_index SoName_read_from_module E self idx of
        Ok s \<Rightarrow> Ok (Some s)
      | Err _ \<Rightarrow> Ok None
      | Panic \<Rightarrow> Panic)"

definition version_of :: "formats \<Rightarrow> SoVersion option \<Rightarrow> VS_FIXEDFILEINFO" where
  "version_of F v =
     (case v of
        None \<Rightarrow> \<lparr>vs_signature = 0, struct_version = 0, file_version_hi = 0, file_version_lo = 0,
                 product_version_hi = 0, product_version_lo = 0\<rparr>
      | Some sov \<Rightarrow> \<lparr>vs_signature = vs_ffi_signature F, struct_version = vs_ffi_strucversion F,
                     file_version_hi = major sov, file_version_lo = minor sov,
                     product_version_hi = patch sov, product_version_lo = prerelease sov\<rparr>)"

definition write_cv_record :: "formats \<Rightarrow> bytes \<Rightarrow> (Buffer, MDLocationDescriptor, SectionMappingsError) comp" where
  "write_cv_record F ident =
     (if ident = [] then ret MDLocationDescriptor_default
      else
        bindM (map_errM SectionMappingsError_MemoryWriterError (MemoryArrayWriter_alloc_array u8_pod (4 + length ident)))
          (\<lambda>sig_section. bindM (map_errM SectionMappingsError_MemoryWriterError
             (fill_array u8_pod sig_section 0 (le_bytes 4 (cv_signature_elf F) @ ident)))
          (\<lambda>_. ret (MemoryArrayWriter_location u8_pod sig_section))))"

definition fill_raw_module ::
    "formats \<Rightarrow> env \<Rightarrow> MappingInfo \<Rightarrow> bytes \<Rightarrow> str option \<Rightarrow> (Buffer, MDRawModule, SectionMappingsError) comp" where
  "fill_raw_module F E m ident soname =
     bindM (write_cv_record F ident) (\<lambda>cv.
     bindM (lift_result (map_err (GetEffectivePathError m)
              (get_mapping_effective_path_name_and_version (env_mem E) (env_goblin E) (map_file_at E) m soname)))
       (\<lambda>(file_path, _, so_version').
     bindM (map_errM SectionMappingsError_MemoryWriterError (write_string_to_location (to_string_lossy file_path)))
       (\<lambda>name_header.
       ret \<lparr>base_of_image = start_address m, size_of_image = ucast (map_size m), module_name_rva = rva name_header,
            version_info = version_of F so_version', cv_record = cv\<rparr>)))"

definition write_module ::
    "formats \<Rightarrow> env \<Rightarrow> MinidumpWriter \<Rightarrow> nat \<Rightarrow> (Buffer, MDRawModule option, SectionMappingsError) comp" where
  "write_module F E self idx =
     (let m = mappings self ! idx in
      if \<not> is_interesting m then ret None
      else
        bindM (lift_result (is_contained_in m (user_mapping_list self))) (\<lambda>contained.
        if contained then ret None
        else
          bindM (lift_result (module_identifier E self idx)) (\<lambda>ident.
          if list_all (\<lambda>x. x = 0) ident then ret None
          else
            bindM (lift_result (module_soname E self idx)) (\<lambda>soname.
            bindM (fill_raw_module F E m ident soname) (\<lambda>md. ret (Some md))))))"

fun write_modules ::
    "formats \<Rightarrow> env \<Rightarrow> MinidumpWriter \<Rightarrow> nat list \<Rightarrow> (Buffer, MDRawModule list, SectionMappingsError) comp" where
  "write_modules F E self [] = ret []"
| "write_modules F E self (idx # idxs) =
     bindM (write_module F E self idx) (\<lambda>md.
     bindM (write_modules F E self idxs) (\<lambda>mds. ret (case md of None \<Rightarrow> mds | Some x \<Rightarrow> x # mds)))"

fun write_user_modules ::
    "formats \<Rightarrow> env \<Rightarrow> MappingList \<Rightarrow> (Buffer, MDRawModule list, SectionMappingsError) comp" where
  "write_user_modules F E [] = ret []"
| "write_user_modules F E (user # users) =
     bindM (fill_raw_module F E (mapping user) (map_identifier user) None) (\<lambda>md.
     bindM (write_user_modules F E users) (\<lambda>mds. ret (md # mds)))"

definition write_mappings :: "formats \<Rightarrow> env \<Rightarrow> MinidumpWriter \<Rightarrow> (Buffer, MDRawDirectory, SectionMappingsError) comp" where
  "write_mappings F E self =
     bindM (write_modules F E self [0..<length (mappings self)]) (\<lambda>own.
     bindM (write_user_modules F E (user_mapping_list self)) (\<lambda>users.
       let modules = own @ users in
     bindM (map_errM SectionMappingsError_MemoryWriterError
              (MemoryWriter_alloc_with_val u32_pod (word_of_nat (length modules)))) (\<lambda>list_header.
       let dirent = \<lparr>stream_type = stream_code F ModuleListStream, location = MemoryWriter_location u32_pod list_header\<rparr> in
       if modules = [] then ret dirent
       else
     bindM (map_errM SectionMappingsError_MemoryWriterError (MemoryArrayWriter_alloc_from_iter (f_module F) modules))
       (\<lambda>mapping_list. add_data_size dirent (data_size (MemoryArrayWriter_location (f_module F) mapping_list))))))"

section \<open>The stream only appends\<close>

lemma grows_fill_u8: "grows id (fill_array u8_pod a i vs)"
  by (induction vs arbitrary: i) (auto intro!: grows_intros)

lemma keeps_fill_u8: "array_behind k a \<Longrightarrow> keeps k id (fill_array u8_pod a i vs) (\<lambda>_. True)"
proof (induction vs arbitrary: i)
  case (Cons v vs)
  show ?case unfolding fill_array.simps by (rule keeps_intros grows_intros grows_fill_u8 Cons.IH Cons.prems)+
qed (simp add: keeps_basic)

lemma appends_cv_record: "appends id (write_cv_record F ident)"
  unfolding write_cv_record_def by (rule appendsI keeps_intros grows_intros grows_fill_u8 keeps_fill_u8 | assumption)+

lemma appends_raw_module: "appends id (fill_raw_module F E m ident soname)"
  unfolding fill_raw_module_def
  by (rule appendsI keeps_intros grows_intros appends_grows [OF appends_cv_record] appends_keeps [OF appends_cv_record]
      grows_write_string keeps_write_string)+

lemmas raw_module_rules = appendsI keeps_intros grows_intros appends_grows [OF appends_raw_module] appends_keeps [OF appends_raw_module]

lemma appends_module: "appends id (write_module F E self idx)"
  unfolding write_module_def by (rule raw_module_rules)+

lemma appends_modules: "appends id (write_modules F E self idxs)"
proof (induction idxs)
  case (Cons i idxs)
  show ?case unfolding write_modules.simps
    by (rule raw_module_rules appends_grows [OF appends_module] appends_keeps [OF appends_module]
        appends_grows [OF Cons.IH] appends_keeps [OF Cons.IH])+
qed (simp add: appends_def grows_basic keeps_basic)

lemma appends_user_modules: "appends id (write_user_modules F E users)"
proof (induction users)
  case (Cons u users)
  show ?case unfolding write_user_modules.simps
    by (rule raw_module_rules appends_grows [OF Cons.IH] appends_keeps [OF Cons.IH])+
qed (simp add: appends_def grows_basic keeps_basic)

context md_formats
begin

lemma appends_mappings: "appends id (write_mappings F E self)"
  unfolding write_mappings_def
  by (rule stream_rules appends_grows [OF appends_modules] appends_keeps [OF appends_modules]
      appends_grows [OF appends_user_modules] appends_keeps [OF appends_user_modules])+

end

end
