(* ===== verification/Dso_Debug.thy ===== *)
theory Dso_Debug
  imports Streams
begin

text \<open>
  \<open>src/src/linux/dso_debug.rs\<close>: the stream that describes the dynamic linker's list of loaded objects. The walk over the list
  follows pointers of the target process and need not end, so what is gathered from the target is an option: no value
  means that the source does not return. The structures \<open>RDebug\<close> and \<open>LinkMap\<close> are read from the copied bytes with their C
  layout; goblin's program headers and dynamic entries are decoded by the functions of the record \<open>dso_sys\<close>.
\<close>

record LinkMap =
  l_addr :: u64
  l_name :: usize
  l_ld :: usize
  l_next :: usize
  l_prev :: usize

record RDebug =
  r_version :: u32
  r_map :: usize
  r_brk :: u64
  r_ldbase :: u64

definition LINK_MAP_SIZE :: nat where "LINK_MAP_SIZE = 40"
definition R_DEBUG_SIZE :: nat where "R_DEBUG_SIZE = 40"
definition SIZEOF_PHDR :: nat where "SIZEOF_PHDR = 56"
definition DYN_SIZE :: nat where "DYN_SIZE = 16"
definition PT_LOAD :: u32 where "PT_LOAD = 1"
definition DT_DEBUG :: u64 where "DT_DEBUG = 21"

definition link_map_of :: "bytes \<Rightarrow> LinkMap" where
  "link_map_of bs = \<lparr>l_addr = word_at 8 0 bs, l_name = word_at 8 8 bs, l_ld = word_at 8 16 bs,
     l_next = word_at 8 24 bs, l_prev = word_at 8 32 bs\<rparr>"

definition r_debug_of :: "bytes \<Rightarrow> RDebug" where
  "r_debug_of bs = \<lparr>r_version = word_at 4 0 bs, r_map = word_at 8 8 bs, r_brk = word_at 8 16 bs, r_ldbase = word_at 8 32 bs\<rparr>"

text \<open>\<open>from_bytes\<close> of the program headers panics, here \<open>None\<close>, if the bytes do not hold as many headers.\<close>

record dso_sys =
  phdrs_from_bytes :: "bytes \<Rightarrow> nat \<Rightarrow> ProgramHeader list option"
  dyn_of_bytes :: "bytes \<Rightarrow> Dyn"

text \<open>A structure copied from the target: \<open>body[0]\<close> panics when the copy is too short.\<close>

definition copy_struct :: "env \<Rightarrow> Pid \<Rightarrow> usize \<Rightarrow> nat \<Rightarrow> (bytes, SectionDsoDebugError) result" where
  "copy_struct E pid a n =
     bindR (map_err SectionDsoDebugError_CopyFromProcessError (copy_mem E pid a n))
       (\<lambda>bs. if length bs < n then Panic else Ok bs)"

section \<open>The dynamic section\<close>

fun scan_headers :: "ProgramHeader list \<Rightarrow> usize \<Rightarrow> u64 \<Rightarrow> (usize \<times> u64, SectionDsoDebugError) result" where
  "scan_headers [] base dyn_addr = Ok (base, dyn_addr)"
| "scan_headers (ph # phs) base dyn_addr =
     bindR (if p_type ph = PT_LOAD \<and> p_offset ph = 0 then sub_w base (p_vaddr ph) else Ok base) (\<lambda>base.
       scan_headers phs base (if p_type ph = PT_DYNAMIC then p_vaddr ph else dyn_addr))"

text \<open>The loop over the entries; it ends since the address grows and its overflow panics.\<close>

lemma dynamic_grows:
  "add_w n (word_of_nat DYN_SIZE) = (Ok n' :: (usize, SectionDsoDebugError) result) \<Longrightarrow> 2 ^ 64 - unat n' < 2 ^ 64 - unat n"
  using unsigned_less [of n', where 'a = nat] by (simp add: add_w_Ok_iff DYN_SIZE_def)

function dynamic_loop :: "dso_sys \<Rightarrow> env \<Rightarrow> Pid \<Rightarrow> u64 \<Rightarrow> usize \<Rightarrow> usize \<Rightarrow> (usize \<times> usize, SectionDsoDebugError) result" where
  "dynamic_loop D E pid dyn_addr dynamic_length r_debug =
     (case add_w dyn_addr dynamic_length of
        Ok a \<Rightarrow>
          (case copy_struct E pid a DYN_SIZE of
             Ok dyn_data \<Rightarrow>
               (case add_w dynamic_length (word_of_nat DYN_SIZE) of
                  Ok dynamic_length' \<Rightarrow>
                    (let d = dyn_of_bytes D dyn_data in
                     if d_tag d = DT_DEBUG then dynamic_loop D E pid dyn_addr dynamic_length' (d_val d)
                     else if d_tag d = DT_NULL then Ok (dynamic_length', r_debug)
                     else dynamic_loop D E pid dyn_addr dynamic_length' r_debug)
                | Err e \<Rightarrow> Err e
                | Panic \<Rightarrow> Panic)
           | Err e \<Rightarrow> Err e
           | Panic \<Rightarrow> Panic)
      | Err e \<Rightarrow> Err e
      | Panic \<Rightarrow> Panic)"
  by pat_completeness auto

termination
  by (relation "measure (\<lambda>(_, _, _, _, n, _). 2 ^ 64 - unat n)") (use dynamic_grows in auto)

declare dynamic_loop.simps [simp del]

section \<open>The list of loaded objects\<close>

partial_function (option) link_maps :: "env \<Rightarrow> Pid \<Rightarrow> usize \<Rightarrow> (LinkMap list, SectionDsoDebugError) result option" where
  "link_maps E pid curr_map =
     (if curr_map = 0 then Some (Ok [])
      else case copy_struct E pid curr_map LINK_MAP_SIZE of
        Err e \<Rightarrow> Some (Err e)
      | Panic \<Rightarrow> Some Panic
      | Ok bs \<Rightarrow>
          Option.bind (link_maps E pid (l_next (link_map_of bs)))
            (\<lambda>r. Some (bindR r (\<lambda>rest. Ok (link_map_of bs # rest)))))"

declare link_maps.simps [code]

record dso_info =
  di_dyn_addr :: u64
  di_dynamic_length :: usize
  di_debug :: RDebug
  di_maps :: "LinkMap list"

text \<open>Everything before the first write to the buffer.\<close>

definition find_debug :: "dso_sys \<Rightarrow> env \<Rightarrow> Pid \<Rightarrow> AuxvDumpInfo \<Rightarrow> (u64 \<times> usize \<times> RDebug, SectionDsoDebugError) result" where
  "find_debug D E pid aux =
     bindR (ok_or (CouldNotFind ''AT_PHNUM in auxv'') (program_header_count aux)) (\<lambda>phnum_max.
     bindR (ok_or (CouldNotFind ''AT_PHDR in auxv'') (program_header_address aux)) (\<lambda>phdr.
     bindR (if SIZEOF_PHDR * unat phnum_max < 2 ^ 64 then Ok () else Panic) (\<lambda>_.
     bindR (map_err SectionDsoDebugError_CopyFromProcessError (copy_mem E pid phdr (SIZEOF_PHDR * unat phnum_max))) (\<lambda>ph.
     bindR (case phdrs_from_bytes D ph (unat phnum_max) of Some program_headers \<Rightarrow> Ok program_headers | None \<Rightarrow> Panic) (\<lambda>program_headers.
     bindR (scan_headers program_headers (and phdr (not 0xFFF)) 0) (\<lambda>(base, dyn_addr).
       if dyn_addr = 0 then Err (CouldNotFind ''dyn_addr in program headers'')
       else
     bindR (add_w dyn_addr base) (\<lambda>dyn_addr.
     bindR (dynamic_loop D E pid dyn_addr 0 0) (\<lambda>(dynamic_length, r_debug).
     bindR (copy_struct E pid r_debug R_DEBUG_SIZE) (\<lambda>bs.
       Ok (dyn_addr, dynamic_length, r_debug_of bs))))))))))"

definition gather_dso :: "dso_sys \<Rightarrow> env \<Rightarrow> Pid \<Rightarrow> AuxvDumpInfo \<Rightarrow> (dso_info, SectionDsoDebugError) result option" where
  "gather_dso D E pid aux =
     (case find_debug D E pid aux of
        Err e \<Rightarrow> Some (Err e)
      | Panic \<Rightarrow> Some Panic
      | Ok (dyn_addr, dynamic_length, debug_entry) \<Rightarrow>
          Option.bind (link_maps E pid (r_map debug_entry)) (\<lambda>r. Some (bindR r (\<lambda>maps.
            Ok \<lparr>di_dyn_addr = dyn_addr, di_dynamic_length = dynamic_length, di_debug = debug_entry, di_maps = maps\<rparr>))))"

section \<open>Writing\<close>

definition link_name :: "env \<Rightarrow> Pid \<Rightarrow> usize \<Rightarrow> (str, SectionDsoDebugError) result" where
  "link_name E pid a =
     (if a = 0 then Ok []
      else bindR (map_err SectionDsoDebugError_CopyFromProcessError (copy_mem E pid a 256)) (\<lambda>bs.
        ok_or FromUTF8Error (from_utf8 (bytes_name (takeWhile (\<lambda>x. x \<noteq> 0) bs)))))"

fun write_link_maps ::
    "formats \<Rightarrow> env \<Rightarrow> Pid \<Rightarrow> MemoryArrayWriter \<Rightarrow> nat \<Rightarrow> LinkMap list \<Rightarrow> (Buffer, unit, SectionDsoDebugError) comp" where
  "write_link_maps F E pid linkmap idx [] = ret ()"
| "write_link_maps F E pid linkmap idx (m # ms) =
     bindM (lift_result (link_name E pid (l_name m))) (\<lambda>filename.
     bindM (map_errM SectionDsoDebugError_MemoryWriterError (write_string_to_location filename)) (\<lambda>loc.
     bindM (map_errM SectionDsoDebugError_MemoryWriterError
              (MemoryArrayWriter_set_value_at (f_link_map F) linkmap \<lparr>lm_addr = l_addr m, lm_name = rva loc, lm_ld = l_ld m\<rparr> idx))
       (\<lambda>_. write_link_maps F E pid linkmap (Suc idx) ms)))"

definition write_link_map_array ::
    "formats \<Rightarrow> env \<Rightarrow> Pid \<Rightarrow> LinkMap list \<Rightarrow> (Buffer, u32, SectionDsoDebugError) comp" where
  "write_link_map_array F E pid dso_vec =
     (if dso_vec = [] then ret (- 1)
      else
        bindM (map_errM SectionDsoDebugError_MemoryWriterError (MemoryArrayWriter_alloc_array (f_link_map F) (length dso_vec)))
          (\<lambda>linkmap. bindM (write_link_maps F E pid linkmap 0 dso_vec)
          (\<lambda>_. ret (rva (MemoryArrayWriter_location (f_link_map F) linkmap)))))"

definition write_dso_info :: "formats \<Rightarrow> env \<Rightarrow> Pid \<Rightarrow> dso_info \<Rightarrow> (Buffer, MDRawDirectory, SectionDsoDebugError) comp" where
  "write_dso_info F E pid i =
     bindM (write_link_map_array F E pid (di_maps i)) (\<lambda>linkmap_rva.
     bindM (map_errM SectionDsoDebugError_MemoryWriterError (MemoryWriter_alloc_with_val (f_debug F)
       \<lparr>db_version = r_version (di_debug i), db_map = linkmap_rva, dso_count = word_of_nat (length (di_maps i)),
        brk = r_brk (di_debug i), ldbase = r_ldbase (di_debug i), dynamic = di_dyn_addr i\<rparr>)) (\<lambda>debug_loc.
       let dirent = \<lparr>stream_type = stream_code F LinuxDsoDebug, location = MemoryWriter_location (f_debug F) debug_loc\<rparr> in
     bindM (add_data_size dirent (ucast (di_dynamic_length i))) (\<lambda>dirent.
     bindM (lift_result (map_err SectionDsoDebugError_CopyFromProcessError
              (copy_mem E pid (di_dyn_addr i) (unat (di_dynamic_length i))))) (\<lambda>dso_debug_data.
     bindM (write_bytesM dso_debug_data) (\<lambda>_. ret dirent)))))"

definition write_dso_debug_stream ::
    "formats \<Rightarrow> dso_sys \<Rightarrow> env \<Rightarrow> Pid \<Rightarrow> AuxvDumpInfo \<Rightarrow> (Buffer, MDRawDirectory, SectionDsoDebugError) comp option" where
  "write_dso_debug_stream F D E pid aux =
     map_option (\<lambda>r. bindM (lift_result r) (write_dso_info F E pid)) (gather_dso D E pid aux)"

section \<open>The stream only appends\<close>

context md_formats
begin

lemma grows_link_maps: "grows id (write_link_maps F E pid a idx ms)"
proof (induction ms arbitrary: idx)
  case (Cons m ms)
  show ?case unfolding write_link_maps.simps by (rule stream_rules Cons.IH)+
qed (simp add: grows_basic)

lemma keeps_link_maps: "array_behind k a \<Longrightarrow> keeps k id (write_link_maps F E pid a idx ms) (\<lambda>_. True)"
proof (induction ms arbitrary: idx)
  case (Cons m ms)
  show ?case unfolding write_link_maps.simps by (rule stream_rules grows_link_maps Cons.IH Cons.prems)+
qed (simp add: keeps_basic)

lemma appends_link_map_array: "appends id (write_link_map_array F E pid ms)"
  unfolding write_link_map_array_def by (rule stream_rules grows_link_maps keeps_link_maps | assumption)+

lemma appends_dso_info: "appends id (write_dso_info F E pid i)"
  unfolding write_dso_info_def
  by (rule stream_rules appends_grows [OF appends_link_map_array] appends_keeps [OF appends_link_map_array])+

lemma appends_dso_debug: "write_dso_debug_stream F D E pid aux = Some m \<Longrightarrow> appends id m"
  unfolding write_dso_debug_stream_def
  by (auto intro!: stream_rules appends_grows [OF appends_dso_info] appends_keeps [OF appends_dso_info])

end

section \<open>The linked list in the target\<close>

text \<open>
  The list of the loader as it lies in the memory of the target. A node is a C structure of five fields of eight bytes
  each, in little-endian order; the list goes on at the address in the fourth of them and ends at the null pointer.
\<close>

definition link_map_bytes :: "LinkMap \<Rightarrow> bytes" where
  "link_map_bytes m = le_bytes 8 (l_addr m) @ le_bytes 8 (l_name m) @ le_bytes 8 (l_ld m) @ le_bytes 8 (l_next m) @ le_bytes 8 (l_prev m)"

inductive linked :: "(usize \<Rightarrow> u8 option) \<Rightarrow> usize \<Rightarrow> LinkMap list \<Rightarrow> bool" for mem where
  linked_end: "linked mem 0 []"
| linked_node: "a \<noteq> 0 \<Longrightarrow> reads mem a (link_map_bytes m) \<Longrightarrow> linked mem (l_next m) ms \<Longrightarrow> linked mem a (m # ms)"

lemma word_at_le_bytes: "word_at 8 0 (le_bytes 8 w @ bs) = w" for w :: u64
proof -
  have "le_nat (le_bytes 8 w) = unat w" using unsigned_less [of w, where 'a = nat] by (simp add: le_nat_le_bytes)
  then show ?thesis by (simp add: word_at_def)
qed

lemma word_at_append: "length xs \<le> k \<Longrightarrow> word_at n k (xs @ ys) = word_at n (k - length xs) ys"
  by (simp add: word_at_def)

lemma link_map_of_bytes: "link_map_of (link_map_bytes m) = m"
  using word_at_le_bytes [of _ "[]"] by (simp add: link_map_of_def link_map_bytes_def word_at_append word_at_le_bytes)

lemma le_bytes_word_at: "k + 8 \<le> length bs \<Longrightarrow> le_bytes 8 (word_at 8 k bs :: u64) = take 8 (drop k bs)"
  by (simp add: word_at_def le_bytes_le_nat)

lemma take_drop_append: "take n (drop k bs) @ drop (k + n) bs = drop k bs"
  by (metis add.commute append_take_drop_id drop_drop)

lemma link_map_bytes_of:
  assumes "length bs = 40"
  shows "link_map_bytes (link_map_of bs) = bs"
proof -
  have "take 8 (drop 32 bs) = drop 32 bs" using assms by simp
  moreover have "take 8 bs @ drop 8 bs = bs" by simp
  ultimately show ?thesis
    using assms take_drop_append [of 8 8 bs] take_drop_append [of 8 16 bs] take_drop_append [of 8 24 bs] le_bytes_word_at [of 0 bs]
    by (simp add: link_map_bytes_def link_map_of_def le_bytes_word_at)
qed

text \<open>Memory that is mapped can be copied, in the usual case that \<open>process_vm_readv\<close> is permitted.\<close>

definition mapped_copied :: "mem_sys \<Rightarrow> Pid \<Rightarrow> (usize \<Rightarrow> u8 option) \<Rightarrow> bool" where
  "mapped_copied S pid mem \<longleftrightarrow> (\<forall>a bs. bs \<noteq> [] \<longrightarrow> reads mem a bs \<longrightarrow> process_vm_readv S pid a (length bs) = Ok bs)"

lemma copy_struct_mapped:
  assumes "mapped_copied (env_mem E) pid mem" and "reads mem a (link_map_bytes m)"
  shows "copy_struct E pid a LINK_MAP_SIZE = Ok (link_map_bytes m)"
proof -
  have len: "length (link_map_bytes m) = 40" by (simp add: link_map_bytes_def)
  then have "link_map_bytes m \<noteq> []" by auto
  with assms len have "process_vm_readv (env_mem E) pid a 40 = Ok (link_map_bytes m)" unfolding mapped_copied_def by metis
  then show ?thesis using len
    by (simp add: copy_struct_def LINK_MAP_SIZE_def copy_mem_def copy_from_process_def MemReader_read_to_vec_def MemReader_read_def
        MemReader_new_def MemReader_vmem_def set_style_def comp_simps put_slice_def)
qed

lemma copy_struct_reads:
  assumes "kernel_memory (env_mem E) pid mem" and "copy_struct E pid a LINK_MAP_SIZE = Ok bs"
  shows "reads mem a (link_map_bytes (link_map_of bs))"
proof -
  from assms(2) have "copy_from_process (env_mem E) pid a 40 = Ok bs" "40 \<le> length bs"
    by (auto simp: copy_struct_def copy_mem_def bindR_Ok_iff LINK_MAP_SIZE_def split: if_splits)
  from kernel_memory.copy_from_process_reads [OF assms(1) this(1)] this(2) show ?thesis by (simp add: link_map_bytes_of)
qed

lemma linked_found:
  assumes "mapped_copied (env_mem E) pid mem"
  shows "linked mem a ms \<Longrightarrow> link_maps E pid a = Some (Ok ms)"
proof (induction rule: linked.induct)
  case (linked_node a m ms)
  then show ?case using copy_struct_mapped [OF assms linked_node(2)] by (simp add: link_maps.simps link_map_of_bytes)
qed (simp add: link_maps.simps)

lemma found_linked:
  assumes "kernel_memory (env_mem E) pid mem" and "link_maps E pid a = Some (Ok ms)"
  shows "linked mem a ms"
proof -
  let ?P = "\<lambda>(E :: env) pid a (r :: (LinkMap list, SectionDsoDebugError) result).
    kernel_memory (env_mem E) pid mem \<longrightarrow> (\<forall>ms. r = Ok ms \<longrightarrow> linked mem a ms)"
  have "?P E pid a (Ok ms)"
  proof (rule link_maps.raw_induct [where P = ?P, OF _ assms(2)], intro allI impI)
    fix w E pid a r ms
    assume IH: "\<And>E pid a r. w E pid a = Some r \<Longrightarrow> ?P E pid a r" and k: "kernel_memory (env_mem E) pid mem" and r: "r = Ok ms"
      and run: "(if a = 0 then Some (Ok [])
        else case copy_struct E pid a LINK_MAP_SIZE of
             Ok bs \<Rightarrow> Option.bind (w E pid (l_next (link_map_of bs))) (\<lambda>r. Some (bindR r (\<lambda>rest. Ok (link_map_of bs # rest))))
           | Err e \<Rightarrow> Some (Err e) | Panic \<Rightarrow> Some Panic) = Some r"
    show "linked mem a ms"
    proof (cases "a = 0")
      case False
      then obtain bs rest where bs: "copy_struct E pid a LINK_MAP_SIZE = Ok bs"
        and rest: "w E pid (l_next (link_map_of bs)) = Some (Ok rest)" and ms: "ms = link_map_of bs # rest"
        using run r by (auto simp: bind_eq_Some_conv bindR_Ok_iff split: result.splits)
      show ?thesis unfolding ms using IH [OF rest] k False copy_struct_reads [OF k bs] by (blast intro: linked_node)
    qed (use run r in \<open>simp add: linked_end\<close>)
  qed
  with assms(1) show ?thesis by blast
qed

text \<open>
  C35. The walk over the loader's list is exact. On a kernel that reads the target's memory truthfully and lets mapped memory
  be copied, it returns a list of link maps if and only if the memory of the target holds exactly these structures, node
  after node in the layout of \<open>struct link_map\<close>, from the given address along \<open>l_next\<close> to the null pointer.
\<close>

theorem link_maps_exact:
  assumes "kernel_memory (env_mem E) pid mem" and "mapped_copied (env_mem E) pid mem"
  shows "link_maps E pid a = Some (Ok ms) \<longleftrightarrow> linked mem a ms"
  using linked_found [OF assms(2)] found_linked [OF assms(1)] by blast

lemma peek_reads: "reads mem a bs \<Longrightarrow> peek mem a (length bs) = bs"
  by (induction bs arbitrary: a) (auto simp: reads_Cons)

lemma target_mapped_copied: "mapped_copied (target_sys True proc mem) pid mem"
  by (auto simp: mapped_copied_def target_sys_def peek_reads)

text \<open>A list of two nodes, at \<open>0x100\<close> and \<open>0x200\<close>, which are found in the memory of a process.\<close>

definition ex_node1 :: LinkMap where
  "ex_node1 = \<lparr>l_addr = 0x400000, l_name = 0x300, l_ld = 0x401000, l_next = 0x200, l_prev = 0\<rparr>"

definition ex_node2 :: LinkMap where
  "ex_node2 = \<lparr>l_addr = 0x7f0000, l_name = 0x310, l_ld = 0x7f2000, l_next = 0, l_prev = 0x100\<rparr>"

definition ex_loader_memory :: "usize \<Rightarrow> u8 option" where
  "ex_loader_memory a =
     (if unat (a - 0x100) < 40 then Some (link_map_bytes ex_node1 ! unat (a - 0x100))
      else if unat (a - 0x200) < 40 then Some (link_map_bytes ex_node2 ! unat (a - 0x200)) else None)"

theorem link_maps_exact_witness:
  "link_maps (ex_env\<lparr>env_mem := target_sys True False ex_loader_memory\<rparr>) 42 0x100 = Some (Ok [ex_node1, ex_node2])"
proof -
  let ?E = "ex_env\<lparr>env_mem := target_sys True False ex_loader_memory\<rparr>"
  have len: "length (link_map_bytes m) = 40" for m by (simp add: link_map_bytes_def)
  have i: "unat (word_of_nat i :: usize) = i" if "i < 40" for i using that by (intro unat_of_nat_less) simp
  have r: "reads ex_loader_memory 0x100 (link_map_bytes ex_node1)" "reads ex_loader_memory 0x200 (link_map_bytes ex_node2)"
    by (auto simp: reads_iff len ex_loader_memory_def i unat_word_ariths)
  have "linked ex_loader_memory (l_next ex_node2) []" by (simp add: ex_node2_def linked_end)
  from linked_node [OF _ r(2) this] have "linked ex_loader_memory (l_next ex_node1) [ex_node2]" by (simp add: ex_node1_def)
  from linked_node [OF _ r(1) this] have l: "linked ex_loader_memory 0x100 [ex_node1, ex_node2]" by simp
  have "kernel_memory (env_mem ?E) 42 ex_loader_memory" "mapped_copied (env_mem ?E) 42 ex_loader_memory"
    using tm.kernel_memory_axioms target_mapped_copied by simp_all
  from link_maps_exact [OF this] l show ?thesis by blast
qed

lemma cycle_no_result:
  assumes "link_maps E pid a = Some r"
    and "\<forall>a \<in> C. a \<noteq> 0 \<and> (\<exists>bs. copy_struct E pid a LINK_MAP_SIZE = Ok bs \<and> l_next (link_map_of bs) \<in> C)"
  shows "a \<notin> C"
proof -
  let ?P = "\<lambda>E pid a r. (\<forall>a \<in> C. a \<noteq> 0 \<and> (\<exists>bs. copy_struct E pid a LINK_MAP_SIZE = Ok bs \<and> l_next (link_map_of bs) \<in> C)) \<longrightarrow> a \<notin> C"
  have "?P E pid a r"
  proof (rule link_maps.raw_induct [where P = ?P, OF _ assms(1)], intro impI notI)
    fix w E pid a r
    assume IH: "\<And>E pid a r. w E pid a = Some r \<Longrightarrow> ?P E pid a r"
      and C: "\<forall>a \<in> C. a \<noteq> 0 \<and> (\<exists>bs. copy_struct E pid a LINK_MAP_SIZE = Ok bs \<and> l_next (link_map_of bs) \<in> C)" and "a \<in> C"
      and run: "(if a = 0 then Some (Ok [])
        else case copy_struct E pid a LINK_MAP_SIZE of
             Ok bs \<Rightarrow> Option.bind (w E pid (l_next (link_map_of bs))) (\<lambda>r. Some (bindR r (\<lambda>rest. Ok (link_map_of bs # rest))))
           | Err e \<Rightarrow> Some (Err e) | Panic \<Rightarrow> Some Panic) = Some r"
    obtain bs where "a \<noteq> 0" "copy_struct E pid a LINK_MAP_SIZE = Ok bs" "l_next (link_map_of bs) \<in> C" using C \<open>a \<in> C\<close> by blast
    with run IH C show False by (auto simp: bind_eq_Some_conv)
  qed
  with assms(2) show ?thesis by blast
qed

text \<open>
  C40. A damaged list can make the writer hang: if the nodes at a set of addresses can be read and each points to another one of
  the set, as in a list whose last node points back, the walk from any of them does not end, and neither does the
  DSO debug stream, so that no dump is produced.
\<close>

theorem link_map_cycle_hangs:
  assumes "\<forall>a \<in> C. a \<noteq> 0 \<and> (\<exists>bs. copy_struct E pid a LINK_MAP_SIZE = Ok bs \<and> l_next (link_map_of bs) \<in> C)"
    and "find_debug D E pid aux = Ok (dyn, n, debug)" and "r_map debug \<in> C"
  shows "link_maps E pid (r_map debug) = None \<and> write_dso_debug_stream F D E pid aux = None"
proof -
  have "link_maps E pid (r_map debug) = None" using cycle_no_result [OF _ assms(1)] assms(3) by (cases "link_maps E pid (r_map debug)") auto
  then show ?thesis using assms(2) by (simp add: write_dso_debug_stream_def gather_dso_def)
qed

text \<open>A list whose only node points to itself.\<close>

definition ex_cyclic :: "usize \<Rightarrow> u8" where
  "ex_cyclic a = (if a = 0x2000 then 21 else if a = 0x3008 then 0x80 else if a = 0x98 then 0x80 else 0)"

definition ex_cyclic_env :: env where
  "ex_cyclic_env = ex_env\<lparr>env_mem := (env_mem ex_env)\<lparr>process_vm_readv :=
     \<lambda>_ a n. Ok (map (\<lambda>i. ex_cyclic (a + word_of_nat i)) [0..<n])\<rparr>\<rparr>"

definition ex_dynamic_phdr :: ProgramHeader where
  "ex_dynamic_phdr = \<lparr>p_type = PT_DYNAMIC, p_offset = 0, p_vaddr = 0x2000, p_filesz = 32, p_memsz = 32, p_align = 8\<rparr>"

definition ex_cyclic_sys :: dso_sys where
  "ex_cyclic_sys = \<lparr>phdrs_from_bytes = (\<lambda>bs n. if length bs < SIZEOF_PHDR * n then None
       else Some [ex_dynamic_phdr]),
     dyn_of_bytes = (\<lambda>bs. if hd bs = 21 then \<lparr>d_tag = DT_DEBUG, d_val = 0x3000\<rparr> else \<lparr>d_tag = DT_NULL, d_val = 0\<rparr>)\<rparr>"

lemma ex_cyclic_copy: "0 < n \<Longrightarrow> copy_mem ex_cyclic_env pid a n = Ok (map (\<lambda>i. ex_cyclic (a + word_of_nat i)) [0..<n])"
  by (simp add: copy_mem_def copy_from_process_def MemReader_read_to_vec_def MemReader_read_def MemReader_new_def MemReader_vmem_def
      ex_cyclic_env_def set_style_def comp_simps put_slice_def)

lemma ex_cyclic_struct: "0 < n \<Longrightarrow> copy_struct ex_cyclic_env pid a n = Ok (map (\<lambda>i. ex_cyclic (a + word_of_nat i)) [0..<n])"
  by (simp add: copy_struct_def ex_cyclic_copy)

lemma ex_cyclic_dyn:
  "dynamic_loop ex_cyclic_sys ex_cyclic_env pid 0x2000 0 0 = Ok (32, 0x3000)"
proof -
  have 1: "dyn_of_bytes ex_cyclic_sys (map (\<lambda>i. ex_cyclic (0x2000 + word_of_nat i)) [0..<16]) = \<lparr>d_tag = DT_DEBUG, d_val = 0x3000\<rparr>"
    "dyn_of_bytes ex_cyclic_sys (map (\<lambda>i. ex_cyclic (0x2010 + word_of_nat i)) [0..<16]) = \<lparr>d_tag = DT_NULL, d_val = 0\<rparr>"
    by (simp_all add: ex_cyclic_sys_def ex_cyclic_def upt_conv_Cons)
  have "dynamic_loop ex_cyclic_sys ex_cyclic_env pid 0x2000 0x10 0x3000 = Ok (0x20, 0x3000)"
    by (subst dynamic_loop.simps) (simp add: add_w_def ex_cyclic_struct DYN_SIZE_def 1 DT_NULL_def DT_DEBUG_def)
  then show ?thesis
    by (subst dynamic_loop.simps) (simp add: add_w_def ex_cyclic_struct DYN_SIZE_def 1 DT_NULL_def DT_DEBUG_def)
qed

lemma ex_cyclic_nodes:
  "r_map (r_debug_of (map (\<lambda>i. ex_cyclic (0x3000 + word_of_nat i)) [0..<40])) = 0x80"
  "l_next (link_map_of (map (\<lambda>i. ex_cyclic (0x80 + word_of_nat i)) [0..<40])) = 0x80"
  by code_simp+

theorem link_map_cycle_hangs_witness:
  "write_dso_debug_stream le_formats ex_cyclic_sys ex_cyclic_env 42
    (AuxvDumpInfo_default\<lparr>program_header_count := Some 1, program_header_address := Some 0x40\<rparr>) = None"
proof -
  let ?aux = "AuxvDumpInfo_default\<lparr>program_header_count := Some 1, program_header_address := Some 0x40\<rparr>"
  let ?d = "r_debug_of (map (\<lambda>i. ex_cyclic (0x3000 + word_of_nat i)) [0..<40])"
  have "phdrs_from_bytes ex_cyclic_sys bs 1 = Some [ex_dynamic_phdr]" if "length bs = 56" for bs
    using that by (simp add: ex_cyclic_sys_def SIZEOF_PHDR_def)
  moreover have "scan_headers [ex_dynamic_phdr] (and 0x40 (not 0xFFF)) 0 = Ok (0, 0x2000)"
    by (simp add: ex_dynamic_phdr_def PT_DYNAMIC_def PT_LOAD_def)
  ultimately have fd: "find_debug ex_cyclic_sys ex_cyclic_env 42 ?aux = Ok (0x2000, 32, ?d)"
    by (simp add: find_debug_def SIZEOF_PHDR_def ex_cyclic_copy add_w_def ex_cyclic_dyn ex_cyclic_struct R_DEBUG_SIZE_def)
  have "\<forall>a \<in> {0x80}. a \<noteq> 0 \<and>
      (\<exists>bs. copy_struct ex_cyclic_env 42 a LINK_MAP_SIZE = Ok bs \<and> l_next (link_map_of bs) \<in> {0x80})"
    by (simp add: ex_cyclic_struct LINK_MAP_SIZE_def ex_cyclic_nodes)
  from link_map_cycle_hangs [OF this fd] show ?thesis by (simp add: ex_cyclic_nodes)
qed

end
