(* ===== verification/Process.thy ===== *)
theory Process
  imports Streams "HOL-Library.Multiset"
begin

text \<open>
  Control of the target process in \<open>src/src/linux/minidump_writer/mod.rs\<close>: stopping it, attaching to and detaching from
  its threads, \<open>init\<close> with the enumeration of threads and mappings, and \<open>Drop\<close>.

  The calls that change the system are the fields of the record \<open>proc_sys\<close>, functions of a kernel state. The two loops
  that wait for the kernel (\<open>waitpid\<close>, and the polling of the process state) need not end, so they
  are partial: no value means that the source does not return.
\<close>

section \<open>The kernel\<close>

datatype WaitStatus = Stopped int | OtherStatus

record 'k proc_sys =
  attach :: "Pid \<Rightarrow> 'k \<Rightarrow> (nix_error + unit) \<times> 'k"
  waitpid :: "Pid \<Rightarrow> 'k \<Rightarrow> (nix_error + WaitStatus) \<times> 'k"
  cont :: "Pid \<Rightarrow> int \<Rightarrow> 'k \<Rightarrow> (nix_error + unit) \<times> 'k"
  detach :: "Pid \<Rightarrow> 'k \<Rightarrow> (nix_error + unit) \<times> 'k"
  kill :: "Pid \<Rightarrow> int \<Rightarrow> 'k \<Rightarrow> (nix_error + unit) \<times> 'k"
  stat_stopped :: "string \<Rightarrow> 'k \<Rightarrow> (proc_error + bool) \<times> 'k"
  now :: "'k \<Rightarrow> nat \<times> 'k"
  sleep :: "nat \<Rightarrow> 'k \<Rightarrow> 'k"

definition SIGSTOP :: int where "SIGSTOP = 19"
definition SIGCONT :: int where "SIGCONT = 18"
definition EINTR :: nix_error where "EINTR = 4"
definition ESRCH :: nix_error where "ESRCH = 3"
definition UnknownErrno :: nix_error where "UnknownErrno = 0"

section \<open>Threads\<close>

definition ptrace_detach :: "'k proc_sys \<Rightarrow> Pid \<Rightarrow> 'k \<Rightarrow> (WriterError + unit) \<times> 'k" where
  "ptrace_detach K thr k =
     (case detach K thr k of
        (Inr _, k') \<Rightarrow> (Inr (), k')
      | (Inl e, k') \<Rightarrow> if e = ESRCH then (Inr (), k') else (Inl (PtraceDetachError thr e), k'))"

definition detach_then :: "'k proc_sys \<Rightarrow> Pid \<Rightarrow> WriterError \<Rightarrow> 'k \<Rightarrow> (WriterError + unit) \<times> 'k" where
  "detach_then K thr e k =
     (case ptrace_detach K thr k of (Inl e', k') \<Rightarrow> (Inl e', k') | (Inr _, k') \<Rightarrow> (Inl e, k'))"

partial_function (option) suspend_wait :: "'k proc_sys \<Rightarrow> Pid \<Rightarrow> 'k \<Rightarrow> ((WriterError + unit) \<times> 'k) option" where
  "suspend_wait K thr k =
     (case waitpid K thr k of
        (Inr (Stopped sig), k1) \<Rightarrow>
          (if sig = SIGSTOP then Some (Inr (), k1)
           else case cont K thr sig k1 of
             (Inl e, k2) \<Rightarrow> Some (Inl (WaitPidError thr e), k2)
           | (Inr _, k2) \<Rightarrow> suspend_wait K thr k2)
      | (Inr OtherStatus, k1) \<Rightarrow> Some (Inl (WaitPidError thr UnknownErrno), k1)
      | (Inl e, k1) \<Rightarrow>
          (if e = EINTR then suspend_wait K thr k1
           else Some (detach_then K thr (WaitPidError thr e) k1)))"

declare suspend_wait.simps [code]

definition skip_thread :: "env \<Rightarrow> Pid \<Rightarrow> bool" where
  "skip_thread E thr = (case getregs (env_threads E) thr of Ok r \<Rightarrow> ur_rsp r = 0 | _ \<Rightarrow> True)"

definition suspend_thread :: "'k proc_sys \<Rightarrow> env \<Rightarrow> Pid \<Rightarrow> 'k \<Rightarrow> ((WriterError + unit) \<times> 'k) option" where
  "suspend_thread K E thr k =
     (case attach K thr k of
        (Inl e, k1) \<Rightarrow> Some (Inl (PtraceAttachError thr e), k1)
      | (Inr _, k1) \<Rightarrow>
          Option.bind (suspend_wait K thr k1) (\<lambda>(r, k2).
            Some (case r of
                Inl e \<Rightarrow> (Inl e, k2)
              | Inr _ \<Rightarrow> if skip_thread E thr then detach_then K thr (DetachSkippedThread thr) k2 else (Inr (), k2))))"

definition resume_thread :: "'k proc_sys \<Rightarrow> Pid \<Rightarrow> 'k \<Rightarrow> (WriterError + unit) \<times> 'k" where
  "resume_thread = ptrace_detach"

fun retain_suspended ::
    "'k proc_sys \<Rightarrow> env \<Rightarrow> Thread list \<Rightarrow> 'k \<Rightarrow> (Thread list \<times> WriterError list \<times> 'k) option" where
  "retain_suspended K E [] k = Some ([], [], k)"
| "retain_suspended K E (t # ts) k =
     Option.bind (suspend_thread K E (tid t) k) (\<lambda>(r, k1).
     Option.bind (retain_suspended K E ts k1) (\<lambda>(kept, errs, k2).
       Some (case r of Inr _ \<Rightarrow> (t # kept, errs, k2) | Inl e \<Rightarrow> (kept, e # errs, k2))))"

definition suspend_threads ::
    "'k proc_sys \<Rightarrow> env \<Rightarrow> MinidumpWriter \<Rightarrow> 'k \<Rightarrow> (WriterError list \<times> MinidumpWriter \<times> 'k) option" where
  "suspend_threads K E self k =
     Option.bind (retain_suspended K E (threads self) k) (\<lambda>(kept, errs, k').
       Some (errs, self\<lparr>threads := kept, threads_suspended := True\<rparr>, k'))"

fun resume_all :: "'k proc_sys \<Rightarrow> Thread list \<Rightarrow> 'k \<Rightarrow> WriterError list \<times> 'k" where
  "resume_all K [] k = ([], k)"
| "resume_all K (t # ts) k =
     (case resume_thread K (tid t) k of
        (r, k1) \<Rightarrow> (case resume_all K ts k1 of
          (errs, k2) \<Rightarrow> ((case r of Inl e \<Rightarrow> e # errs | Inr _ \<Rightarrow> errs), k2)))"

definition resume_threads :: "'k proc_sys \<Rightarrow> MinidumpWriter \<Rightarrow> 'k \<Rightarrow> WriterError list \<times> MinidumpWriter \<times> 'k" where
  "resume_threads K self k =
     (case (if threads_suspended self then resume_all K (threads self) k else ([], k)) of
        (errs, k') \<Rightarrow> (errs, self\<lparr>threads_suspended := False\<rparr>, k'))"

section \<open>The process\<close>

text \<open>
  Instants and durations are in nanoseconds. An \<open>Instant\<close> counts its seconds in 64 bits with a sign, and adding a duration
  to it panics when the sum is not one.
\<close>

definition POLL_INTERVAL :: nat where "POLL_INTERVAL = 10 ^ 6"

definition INSTANT_LIMIT :: nat where "INSTANT_LIMIT = 2 ^ 63 * 10 ^ 9"

definition Instant_add :: "nat \<Rightarrow> nat \<Rightarrow> (nat, 'e) result" where
  "Instant_add t d = (if t + d < INSTANT_LIMIT then Ok (t + d) else Panic)"

partial_function (option) stop_poll ::
    "'k proc_sys \<Rightarrow> string \<Rightarrow> nat \<Rightarrow> 'k \<Rightarrow> ((unit, StopProcessError) result \<times> 'k) option" where
  "stop_poll K proc_file stop k =
     (case stat_stopped K proc_file k of
        (Inl e, k1) \<Rightarrow> Some (Err (State e), k1)
      | (Inr stopped, k1) \<Rightarrow>
          (if stopped then Some (Ok (), k1)
           else case now K (sleep K POLL_INTERVAL k1) of
             (t, k2) \<Rightarrow> if stop < t then Some (Err Timeout, k2) else stop_poll K proc_file stop k2))"

declare stop_poll.simps [code]

definition stop_process ::
    "'k proc_sys \<Rightarrow> MinidumpWriter \<Rightarrow> nat \<Rightarrow> 'k \<Rightarrow> ((unit, StopProcessError) result \<times> 'k) option" where
  "stop_process K self timeout k =
     (case kill K (process_id self) SIGSTOP k of
        (Inl e, k1) \<Rightarrow> Some (Err (Stop e), k1)
      | (Inr _, k1) \<Rightarrow>
          (let proc_file = ''/proc/'' @ int_string (process_id self) @ ''/stat'' in
           case now K k1 of
             (t, k2) \<Rightarrow>
               (case Instant_add t timeout of
                  Ok stop \<Rightarrow> stop_poll K proc_file stop k2
                | Err e \<Rightarrow> Some (Err e, k2)
                | Panic \<Rightarrow> Some (Panic, k2))))"

definition continue_process :: "'k proc_sys \<Rightarrow> MinidumpWriter \<Rightarrow> 'k \<Rightarrow> (ContinueProcessError + unit) \<times> 'k" where
  "continue_process K self k =
     (case kill K (process_id self) SIGCONT k of
        (Inl e, k1) \<Rightarrow> (Inl (Continue e), k1)
      | (Inr _, k1) \<Rightarrow> (Inr (), k1))"

text \<open>\<open>Drop\<close>: both best effort.\<close>

definition drop_writer :: "'k proc_sys \<Rightarrow> MinidumpWriter \<Rightarrow> 'k \<Rightarrow> 'k" where
  "drop_writer K self k =
     (case resume_threads K self k of (_, self', k') \<Rightarrow> snd (continue_process K self' k'))"

section \<open>Enumeration\<close>

text \<open>A subwriter passes its errors on, as one, if there are any.\<close>

definition subwriter :: "('e list \<Rightarrow> 'f) \<Rightarrow> 'e list \<Rightarrow> 'f list" where
  "subwriter f errs = (if errs = [] then [] else [f errs])"

text \<open>The services do not panic themselves; that case of their result is only there to make the function total.\<close>

fun thread_entries ::
    "env \<Rightarrow> Pid \<Rightarrow> (OsString, io_error) result list \<Rightarrow> Thread list \<times> InitError list" where
  "thread_entries E pid [] = ([], [])"
| "thread_entries E pid (entry # entries) =
     (case thread_entries E pid entries of (ts, errs) \<Rightarrow>
        (case entry of
           Ok f \<Rightarrow>
             (case Option.bind (from_utf8 f) parse_i32 of
                None \<Rightarrow> (ts, ProcessTaskEntryNotTid f # errs)
              | Some t \<Rightarrow>
                  (case read_to_string E (''/proc/'' @ int_string pid @ ''/task/'' @ int_string t @ ''/comm'') of
                     Ok nm \<Rightarrow> (\<lparr>tid = t, thread_name = Some (trim_end nm)\<rparr> # ts, errs)
                   | Err e \<Rightarrow> (\<lparr>tid = t, thread_name = None\<rparr> # ts, ReadThreadNameFailed e # errs)
                   | Panic \<Rightarrow> (ts, errs)))
         | Err e \<Rightarrow> (ts, ReadProcessThreadEntryFailed e # errs)
         | Panic \<Rightarrow> (ts, errs)))"

definition enumerate_threads :: "env \<Rightarrow> (MinidumpWriter \<times> InitError list, unit, InitError) comp" where
  "enumerate_threads E = (\<lambda>(self, errs).
     let pid = process_id self; filename = ''/proc/'' @ int_string pid @ ''/task'' in
     if \<not> is_dir E filename then (Err (ProcPidTaskNotDirectory filename), self, errs)
     else case read_dir E filename of
       Err e \<Rightarrow> (Err (InitError_IOError filename e), self, errs)
     | Panic \<Rightarrow> (Panic, self, errs)
     | Ok entries \<Rightarrow>
         (case thread_entries E pid entries of
            (ts, es') \<Rightarrow> (Ok (), self\<lparr>threads := threads self @ ts\<rparr>, errs @ es')))"

text \<open>\<open>position\<close> with a predicate that computes an end address, and \<open>Vec::swap\<close>.\<close>

fun position_containing :: "usize \<Rightarrow> MappingInfo list \<Rightarrow> nat \<Rightarrow> (nat option, 'e) result" where
  "position_containing a [] i = Ok None"
| "position_containing a (m # ms) i =
     bindR (end_address m) (\<lambda>e.
       if start_address m \<le> a \<and> a < e then Ok (Some i) else position_containing a ms (Suc i))"

definition swap_front :: "nat \<Rightarrow> 'a list \<Rightarrow> 'a list" where
  "swap_front i xs = xs[0 := xs ! i, i := xs ! 0]"

definition enumerate_mappings :: "env \<Rightarrow> (MinidumpWriter, unit, InitError) comp" where
  "enumerate_mappings E self =
     (let maps_path = ''/proc/'' @ int_string (process_id self) @ ''/maps'' in
      case bindR (map_err (InitError_IOError maps_path) (open_maps E maps_path)) (map_err ReadProcessMapFileFailed) of
        Err e \<Rightarrow> (Err e, self)
      | Panic \<Rightarrow> (Panic, self)
      | Ok maps \<Rightarrow>
          (case map_err AggregateMappingsFailed (aggregate maps (linux_gate_address (auxv self))) of
             Err e \<Rightarrow> (Err e, self)
           | Panic \<Rightarrow> (Panic, self)
           | Ok ms \<Rightarrow>
               (case entry_address (auxv self) of
                  None \<Rightarrow> (Ok (), self\<lparr>mappings := ms\<rparr>)
                | Some entry_point_loc \<Rightarrow>
                    (case position_containing entry_point_loc ms 0 of
                       Ok (Some i) \<Rightarrow> (Ok (), self\<lparr>mappings := swap_front i ms\<rparr>)
                     | Ok None \<Rightarrow> (Ok (), self\<lparr>mappings := ms\<rparr>)
                     | Err e \<Rightarrow> (Err e, self\<lparr>mappings := ms\<rparr>)
                     | Panic \<Rightarrow> (Panic, self\<lparr>mappings := ms\<rparr>)))))"

section \<open>Initialization\<close>

definition push_error :: "'e \<Rightarrow> ('s \<times> 'e list, unit, 'f) comp" where
  "push_error e = modifyM (\<lambda>(s, errs). (s, errs @ [e]))"

definition fill_auxv :: "env \<Rightarrow> (MinidumpWriter \<times> InitError list, unit, InitError) comp" where
  "fill_auxv E = (\<lambda>(self, errs).
     case try_filling_missing_info (open_auxv E) (process_id self) (auxv self, []) of
       (r, aux, es') \<Rightarrow>
         handleM (\<lambda>s. (r, s)) ret (\<lambda>e. push_error (FillMissingAuxvInfoFailed e))
           (self\<lparr>auxv := aux\<rparr>, errs @ subwriter FillMissingAuxvInfoErrors es'))"

definition init_threads :: "env \<Rightarrow> (MinidumpWriter \<times> InitError list, unit, InitError) comp" where
  "init_threads E = (\<lambda>(self, errs).
     case enumerate_threads E (self, []) of
       (r, self', es') \<Rightarrow>
         handleM (\<lambda>s. (r, s)) ret (\<lambda>e. push_error (EnumerateThreadsFailed e))
           (self', errs @ subwriter EnumerateThreadsErrors es'))"

definition init_mappings :: "env \<Rightarrow> (MinidumpWriter \<times> InitError list, unit, InitError) comp" where
  "init_mappings E = handleM (on_fst (enumerate_mappings E)) ret (\<lambda>e. push_error (EnumerateMappingsFailed e))"

definition init_page_size :: "env \<Rightarrow> (MinidumpWriter \<times> InitError list, unit, InitError) comp" where
  "init_page_size E =
     bindM (lift_result (map_err PageSizeError (sysconf_page_size E))) (\<lambda>p.
       case p of None \<Rightarrow> panic | Some n \<Rightarrow> modifyM (\<lambda>(self, errs). (self\<lparr>page_size := n\<rparr>, errs)))"

text \<open>The part of \<open>init\<close> between stopping the process and suspending the threads.\<close>

definition init_gather :: "env \<Rightarrow> (MinidumpWriter \<times> InitError list, unit, InitError) comp" where
  "init_gather E =
     bindM (fill_auxv E) (\<lambda>_. bindM (init_threads E) (\<lambda>_. bindM (init_mappings E) (\<lambda>_. init_page_size E)))"

definition init_principal :: "env \<Rightarrow> (MinidumpWriter \<times> InitError list, unit, InitError) comp" where
  "init_principal E =
     bindM (getM fst) (\<lambda>self.
       if \<not> skip_stacks_if_mapping_unreferenced self then ret ()
       else
         let self' = (case principal_mapping_address self of
               Some a \<Rightarrow> self\<lparr>principal_mapping := find_mapping_no_bias self a\<rparr> | None \<Rightarrow> self) in
         bindM (modifyM (\<lambda>(_, errs). (self', errs))) (\<lambda>_.
         case crash_thread_references_principal_mapping E self' of
           Ok True \<Rightarrow> ret ()
         | Ok False \<Rightarrow> push_error PrincipalMappingNotReferenced
         | Err _ \<Rightarrow> ret ()
         | Panic \<Rightarrow> panic))"

definition init ::
    "'k proc_sys \<Rightarrow> env \<Rightarrow> MinidumpWriter \<Rightarrow> 'k \<Rightarrow> ((unit, InitError) result \<times> (MinidumpWriter \<times> InitError list) \<times> 'k) option" where
  "init K E self k =
     (if process_id self = sint (own_pid E) then Some (Err CannotPtraceSameProcess, (self, []), k)
      else
        Option.bind (stop_process K self (stop_timeout self) k) (\<lambda>(r, k1).
          if r = Panic then Some (Panic, (self, []), k1)
          else case init_gather E (self, (case r of Err e \<Rightarrow> [StopProcessFailed e] | _ \<Rightarrow> [])) of
            (Err e, s) \<Rightarrow> Some (Err e, s, k1)
          | (Panic, s) \<Rightarrow> Some (Panic, s, k1)
          | (Ok _, (self1, errs)) \<Rightarrow>
              (let threads_count = length (threads self1) in
               Option.bind (suspend_threads K E self1 k1) (\<lambda>(serrs, self2, k2).
                 let errs' = errs @ subwriter SuspendThreadsErrors serrs @
                       (if threads self2 = [] then [SuspendNoThreadsLeft threads_count] else []) in
                 case init_principal E (self2, errs') of (r', s') \<Rightarrow> Some (r', s', k2)))))"

section \<open>The executable comes first\<close>

definition mapping_holds :: "usize \<Rightarrow> MappingInfo \<Rightarrow> bool" where
  "mapping_holds a m \<longleftrightarrow> unat (start_address m) \<le> unat a \<and> unat a < unat (start_address m) + unat (map_size m)"

lemma position_containing_Ok:
  "position_containing a ms i = (Ok r :: (nat option, 'e) result) \<Longrightarrow>
   case r of None \<Rightarrow> \<not> list_ex (mapping_holds a) ms
   | Some j \<Rightarrow> i \<le> j \<and> j - i < length ms \<and> mapping_holds a (ms ! (j - i))"
proof (induction a ms i rule: position_containing.induct)
  case (2 a m ms i)
  obtain e where e: "(add_w (start_address m) (map_size m) :: (usize, 'e) result) = Ok e"
    using 2(2) by (auto simp: end_address_def bindR_Ok_iff)
  then have ue: "unat e = unat (start_address m) + unat (map_size m)" by (simp add: add_w_Ok_iff)
  show ?case
  proof (cases "start_address m \<le> a \<and> a < e")
    case True
    then have "r = Some i" using 2(2) e by (simp add: end_address_def)
    then show ?thesis using True ue by (simp add: mapping_holds_def word_le_nat_alt word_less_nat_alt)
  next
    case False
    then have "\<not> mapping_holds a m" using ue by (auto simp: mapping_holds_def word_le_nat_alt word_less_nat_alt)
    moreover have "position_containing a ms (Suc i) = (Ok r :: (nat option, 'e) result)" using 2(2) e False by (auto simp: end_address_def)
    ultimately show ?thesis using 2(1) [of e] e False
      by (auto simp: end_address_def nth_Cons' split: option.splits)
  qed
qed auto

lemma swap_front_keeps: "i < length xs \<Longrightarrow> mset (swap_front i xs) = mset xs \<and> hd (swap_front i xs) = xs ! i"
proof -
  assume i: "i < length xs"
  then have "mset (swap_front i xs) = mset xs"
    unfolding swap_front_def by (intro mset_swap) auto
  moreover have "hd (swap_front i xs) = xs ! i"
    using i unfolding swap_front_def by (cases xs) (auto simp: nth_Cons' split: nat.splits)
  ultimately show ?thesis by simp
qed

text \<open>
  C33. The list of mappings that \<open>enumerate_mappings\<close> leaves is a permutation of the aggregated maps file, so no mapping is lost or
  doubled, and if it succeeds and the entry point of the process lies in one of them then the first one of the
  list is a mapping that contains the entry point, as readers of a minidump expect of the first module.
\<close>

theorem entry_mapping_first:
  assumes "open_maps E (''/proc/'' @ int_string (process_id self) @ ''/maps'') = Ok (Ok lines)"
    and "aggregate lines (linux_gate_address (auxv self)) = Ok ms"
    and "enumerate_mappings E self = (r, self')"
  shows "mset (mappings self') = mset ms \<and>
    (r = Ok () \<longrightarrow> entry_address (auxv self) = Some a \<longrightarrow> list_ex (mapping_holds a) ms \<longrightarrow> mapping_holds a (hd (mappings self')))"
proof -
  have pos: "\<And>b e. position_containing b ms 0 = Ok (Some e) \<Longrightarrow> e < length ms \<and> mapping_holds b (ms ! e)"
    using position_containing_Ok by fastforce
  have nopos: "\<And>b. position_containing b ms 0 = Ok None \<Longrightarrow> \<not> list_ex (mapping_holds b) ms"
    using position_containing_Ok by fastforce
  show ?thesis
    using assms swap_front_keeps [of _ ms]
    by (auto simp: enumerate_mappings_def Let_def dest!: pos nopos split: option.splits result.splits)
qed

text \<open>A library in front of the executable.\<close>

definition ex_maps :: "MemoryMap list" where
  "ex_maps = [ex_lib 0x1000 0x2000 {READ, EXECUTE, PRIVATE} (Path ''/l.so''), ex_lib 0x3000 0x4000 {READ, EXECUTE, PRIVATE} (Path ''/a'')]"

lemma ex_maps_aggregate: "\<exists>l m. aggregate ex_maps None = Ok [l, m] \<and> start_address l = 0x1000 \<and> map_size l = 0x1000 \<and>
    start_address m = 0x3000 \<and> map_size m = 0x1000"
proof -
  have "(case aggregate ex_maps None of Ok [l, m] \<Rightarrow> (start_address l, map_size l, start_address m, map_size m) = (0x1000, 0x1000, 0x3000, 0x1000)
    | _ \<Rightarrow> False)" by code_simp
  then show ?thesis by (auto split: result.splits list.splits)
qed

theorem entry_mapping_first_witness:
  "\<exists>self'. enumerate_mappings (ex_env\<lparr>open_maps := \<lambda>_. Ok (Ok ex_maps)\<rparr>)
      (ex_writer\<lparr>auxv := AuxvDumpInfo_default\<lparr>entry_address := Some 0x3100\<rparr>\<rparr>) = (Ok (), self') \<and>
    mapping_holds 0x3100 (hd (mappings self'))"
proof -
  let ?E = "ex_env\<lparr>open_maps := \<lambda>_. Ok (Ok ex_maps)\<rparr>" and ?self = "ex_writer\<lparr>auxv := AuxvDumpInfo_default\<lparr>entry_address := Some 0x3100\<rparr>\<rparr>"
  obtain l m where agg: "aggregate ex_maps None = Ok [l, m]"
    and lm: "start_address l = 0x1000" "map_size l = 0x1000" "start_address m = 0x3000" "map_size m = 0x1000"
    using ex_maps_aggregate by blast
  have aux: "auxv ?self = AuxvDumpInfo_default\<lparr>entry_address := Some 0x3100\<rparr>" by simp
  have "position_containing 0x3100 [l, m] 0 = (Ok (Some 1) :: (nat option, InitError) result)"
    by (simp add: end_address_def add_w_def lm)
  then have run: "enumerate_mappings ?E ?self = (Ok (), ?self\<lparr>mappings := swap_front 1 [l, m]\<rparr>)"
    using agg by (simp add: enumerate_mappings_def Let_def AuxvDumpInfo_default_def)
  have "mapping_holds 0x3100 m" using lm by (simp add: mapping_holds_def)
  then show ?thesis
    using entry_mapping_first [where lines = ex_maps and ms = "[l, m]" and a = "0x3100", OF _ _ run] agg run by (simp add: AuxvDumpInfo_default_def)
qed

end
