(* ===== verification/Emits.thy ===== *)
theory Emits
  imports Contract
begin

text \<open>
  Stream writers under a directory section, for the dumps of every platform. While a dump is written the state is the
  directory section (with the output), the buffer, and what the platform's writer keeps beside them. \<open>emits\<close> is what the
  composition of streams is proved with: which entries a successful computation adds to the directory.
\<close>

type_synonym ('w, 'r) dir_state = "('w DirSection \<times> Buffer) \<times> 'r"

definition on_dir :: "('w DirSection \<times> Buffer, 'a, 'e) comp \<Rightarrow> (('w, 'r) dir_state, 'a, 'e) comp" where
  "on_dir m = (\<lambda>(p, rest). case m p of (r, p') \<Rightarrow> (r, (p', rest)))"

definition on_buffer :: "(Buffer, 'a, 'e) comp \<Rightarrow> (('w, 'r) dir_state, 'a, 'e) comp" where
  "on_buffer m = (\<lambda>((d, b), rest). case m b of (r, b') \<Rightarrow> (r, ((d, b'), rest)))"

definition on_writer :: "('v \<times> Buffer, 'a, 'e) comp \<Rightarrow> (('w, 'v \<times> 'r) dir_state, 'a, 'e) comp" where
  "on_writer m = (\<lambda>((d, b), (self, errs)). case m (self, b) of (r, (self', b')) \<Rightarrow> (r, ((d, b'), (self', errs))))"

section \<open>The kind of a stream's entry\<close>

definition returns :: "('s, 'a, 'e) comp \<Rightarrow> ('a \<Rightarrow> bool) \<Rightarrow> bool" where
  "returns m Q \<longleftrightarrow> (\<forall>s x s'. m s = (Ok x, s') \<longrightarrow> Q x)"

lemma returns_any: "returns m (\<lambda>_. True)"
  by (simp add: returns_def)

lemma returns_ret: "Q x \<Longrightarrow> returns (ret x) Q"
  by (simp add: returns_def comp_simps)

lemma returns_bindM: "returns m Q \<Longrightarrow> (\<And>x. Q x \<Longrightarrow> returns (f x) R) \<Longrightarrow> returns (bindM m f) R"
  unfolding returns_def by (blast elim: bindM_OkE)

lemma returns_map_errM: "returns m Q \<Longrightarrow> returns (map_errM g m) Q"
  unfolding returns_def by (blast elim: map_errM_OkE)

lemma returns_if: "returns a Q \<Longrightarrow> returns b Q \<Longrightarrow> returns (if c then a else b) Q"
  by simp

lemma returns_Let: "returns (f x) Q \<Longrightarrow> returns (Let x f) Q"
  by simp

lemma returns_case_prod: "(\<And>x y. returns (f x y) Q) \<Longrightarrow> returns (case_prod f v) Q"
  by (cases v) auto

lemma returns_panic: "returns panic Q"
  by (simp add: returns_def comp_simps)

lemma returns_add_data_size: "stream_type d = c \<Longrightarrow> returns (add_data_size d n) (\<lambda>d'. stream_type d' = c)"
  unfolding add_data_size_def
  by (rule returns_bindM [where Q = "\<lambda>_. True"]) (simp_all add: returns_def comp_simps)

lemmas kind_rules = returns_add_data_size returns_if returns_Let returns_case_prod returns_panic returns_map_errM

lemma returns_then: "(\<And>x. returns (f x) R) \<Longrightarrow> returns (bindM m f) R"
  by (rule returns_bindM [OF returns_any])

lemma returns_dirent:
  "stream_type d = c \<Longrightarrow> (\<And>d'. stream_type d' = c \<Longrightarrow> returns (f d') Q) \<Longrightarrow> returns (bindM (add_data_size d n) f) Q"
  by (rule returns_bindM [OF returns_add_data_size])

section \<open>Entries of the directory\<close>

abbreviation dump_buffer :: "('w, 'r) dir_state \<Rightarrow> Buffer" where
  "dump_buffer s \<equiv> snd (fst s)"

abbreviation flushed :: "('w, 'r) dir_state \<Rightarrow> nat" where
  "flushed s \<equiv> unat (last_position_written_to_file (fst (fst s)))"

text \<open>What lies before the directory: the header.\<close>

abbreviation dir_start :: "('w, 'r) dir_state \<Rightarrow> nat" where
  "dir_start s \<equiv> unat (maw_position (dir_array (fst (fst s))))"

definition front_kept :: "('w, 'r) dir_state \<Rightarrow> ('w, 'r) dir_state \<Rightarrow> bool" where
  "front_kept s s' \<longleftrightarrow> (dir_start s \<le> length (inner (dump_buffer s)) \<longrightarrow>
     dir_array (fst (fst s')) = dir_array (fst (fst s)) \<and> dir_start s \<le> length (inner (dump_buffer s')) \<and>
     take (dir_start s) (inner (dump_buffer s')) = take (dir_start s) (inner (dump_buffer s)))"

lemma front_kept_trans: "front_kept s s1 \<Longrightarrow> front_kept s1 s2 \<Longrightarrow> front_kept s s2"
  unfolding front_kept_def by auto

text \<open>
  \<open>emits ks m Q\<close>: a successful \<open>m\<close> continues every run of the directory section, adding one entry for each set in
  \<open>ks\<close>, whose type is in that set; it leaves the header alone, and its result satisfies \<open>Q\<close>.
\<close>

definition emits ::
    "'w write_seek \<Rightarrow> formats \<Rightarrow> u32 set list \<Rightarrow> (('w, 'r) dir_state, 'a, 'e) comp \<Rightarrow> ('a \<Rightarrow> bool) \<Rightarrow> bool" where
  "emits W F ks m Q \<longleftrightarrow> (\<forall>s x s'. m s = (Ok x, s') \<longrightarrow> length (inner (dump_buffer s')) < 2 ^ 32 \<longrightarrow>
     flushed s \<le> length (inner (dump_buffer s)) \<longrightarrow>
     flushed s' \<le> length (inner (dump_buffer s')) \<and> Q x \<and> front_kept s s' \<and>
     (\<forall>s0 es0. dir_run W (f_directory F) s0 es0 (fst s) \<longrightarrow>
        (\<exists>es1. list_all2 (\<lambda>k e. stream_type e \<in> k) ks es1 \<and> dir_run W (f_directory F) s0 (es0 @ es1) (fst s'))))"

lemma emitsD:
  assumes "emits W F ks m Q" and "m s = (Ok x, s')" and "length (inner (dump_buffer s')) < 2 ^ 32"
    and "flushed s \<le> length (inner (dump_buffer s))"
  shows "flushed s' \<le> length (inner (dump_buffer s'))" and "Q x" and "front_kept s s'"
    and "dir_run W (f_directory F) s0 es0 (fst s) \<Longrightarrow>
      \<exists>es1. list_all2 (\<lambda>k e. stream_type e \<in> k) ks es1 \<and> dir_run W (f_directory F) s0 (es0 @ es1) (fst s')"
  using assms unfolding emits_def by blast+

lemma emits_bindM:
  assumes m: "emits W F ks m Q" and g: "\<And>x. grows dump_buffer (f x)" and f: "\<And>x. Q x \<Longrightarrow> emits W F ls (f x) R"
  shows "emits W F (ks @ ls) (bindM m f) R"
  unfolding emits_def
proof (intro allI impI)
  fix s y s'
  assume run: "bindM m f s = (Ok y, s')" and len: "length (inner (dump_buffer s')) < 2 ^ 32"
    and fl: "flushed s \<le> length (inner (dump_buffer s))"
  obtain x s1 where 1: "m s = (Ok x, s1)" and 2: "f x s1 = (Ok y, s')" using run by (rule bindM_OkE)
  have len1: "length (inner (dump_buffer s1)) < 2 ^ 32" using growsD [OF g 2] len by simp
  note d1 = emitsD [OF m 1 len1 fl]
  note d2 = emitsD [OF f [OF d1(2)] 2 len d1(1)]
  have "\<exists>es1. list_all2 (\<lambda>k e. stream_type e \<in> k) (ks @ ls) es1 \<and> dir_run W (f_directory F) s0 (es0 @ es1) (fst s')"
    if start: "dir_run W (f_directory F) s0 es0 (fst s)" for s0 es0
  proof -
    obtain es1 where e1: "list_all2 (\<lambda>k e. stream_type e \<in> k) ks es1" "dir_run W (f_directory F) s0 (es0 @ es1) (fst s1)"
      using d1(4) [OF start] by blast
    obtain es2 where e2: "list_all2 (\<lambda>k e. stream_type e \<in> k) ls es2" "dir_run W (f_directory F) s0 ((es0 @ es1) @ es2) (fst s')"
      using d2(4) [OF e1(2)] by blast
    show ?thesis using e1(1) e2 by (intro exI [of _ "es1 @ es2"]) (simp add: list_all2_appendI)
  qed
  with d2 front_kept_trans [OF d1(3) d2(3)]
  show "flushed s' \<le> length (inner (dump_buffer s')) \<and> R y \<and> front_kept s s' \<and> (\<forall>s0 es0. dir_run W (f_directory F) s0 es0 (fst s) \<longrightarrow>
      (\<exists>es1. list_all2 (\<lambda>k e. stream_type e \<in> k) (ks @ ls) es1 \<and> dir_run W (f_directory F) s0 (es0 @ es1) (fst s')))"
    by blast
qed

lemma emits_silent:
  assumes g: "grows dump_buffer m" and k: "\<And>k. keeps k dump_buffer m (\<lambda>_. True)" and q: "returns m Q"
    and d: "\<And>s r s'. m s = (r, s') \<Longrightarrow> fst (fst s') = fst (fst s)"
  shows "emits W F [] m Q"
  unfolding emits_def
proof (intro allI impI)
  fix s x s'
  assume run: "m s = (Ok x, s')" and len: "length (inner (dump_buffer s')) < 2 ^ 32"
    and fl: "flushed s \<le> length (inner (dump_buffer s))"
  obtain d0 b rest where s: "s = ((d0, b), rest)" by (metis prod.exhaust)
  obtain b' rest' where s': "s' = ((d0, b'), rest')" using d [OF run] s by (metis prod.exhaust fst_conv)
  have mono: "length (inner b) \<le> length (inner b')" using growsD [OF g run] by (simp add: s s')
  have tk: "take (flushed s) (inner b') = take (flushed s) (inner b)"
    using keepsD(1) [OF k run fl len] by (simp add: s s')
  have "Q x" using q run unfolding returns_def by blast
  moreover have "front_kept s s'"
    using mono keepsD(1) [OF k run _ len] by (auto simp: front_kept_def s s')
  moreover have "dir_run W (f_directory F) s0 es0 (d0, b')" if "dir_run W (f_directory F) s0 es0 (d0, b)" for s0 es0
    using run_append [OF that mono] tk by (simp add: s)
  ultimately show "flushed s' \<le> length (inner (dump_buffer s')) \<and> Q x \<and> front_kept s s' \<and> (\<forall>s0 es0. dir_run W (f_directory F) s0 es0 (fst s) \<longrightarrow>
      (\<exists>es1. list_all2 (\<lambda>k e. stream_type e \<in> k) [] es1 \<and> dir_run W (f_directory F) s0 (es0 @ es1) (fst s')))"
    using fl mono by (auto simp: s s')
qed

lemma emits_map_errM: "emits W F ks m Q \<Longrightarrow> emits W F ks (map_errM g m) Q"
  unfolding emits_def
proof (intro allI impI, goal_cases)
  case (1 s x s')
  then have "m s = (Ok x, s')" by (auto elim: map_errM_OkE)
  with 1 show ?case by blast
qed

lemma emits_weaken: "emits W F ks m Q \<Longrightarrow> (\<And>x. Q x \<Longrightarrow> R x) \<Longrightarrow> emits W F ks m R"
  unfolding emits_def by blast

lemma grows_on_buffer: "grows id m \<Longrightarrow> grows dump_buffer (on_buffer m)"
  by (auto simp: grows_def on_buffer_def split: prod.splits) (metis snd_conv)

lemma keeps_on_buffer: "keeps k id m Q \<Longrightarrow> keeps k dump_buffer (on_buffer m) Q"
  by (auto simp: keeps_def on_buffer_def split: prod.splits)

lemma grows_on_writer: "grows snd m \<Longrightarrow> grows dump_buffer (on_writer m)"
  by (auto simp: grows_def on_writer_def split: prod.splits) (metis snd_conv)

lemma keeps_on_writer: "keeps k snd m Q \<Longrightarrow> keeps k dump_buffer (on_writer m) Q"
  by (fastforce simp: keeps_def on_writer_def split: prod.splits)

lemma returns_on_buffer: "returns m Q \<Longrightarrow> returns (on_buffer m) Q"
  by (auto simp: returns_def on_buffer_def split: prod.splits)

lemma returns_on_writer: "returns m Q \<Longrightarrow> returns (on_writer m) Q"
  by (fastforce simp: returns_def on_writer_def split: prod.splits)

lemma emits_on_buffer: "appends id m \<Longrightarrow> returns m Q \<Longrightarrow> emits W F [] (on_buffer m) Q"
  by (rule emits_silent) (auto simp: appends_def grows_on_buffer keeps_on_buffer returns_on_buffer,
      auto simp: on_buffer_def split: prod.splits)

lemma emits_on_writer: "appends snd m \<Longrightarrow> returns m Q \<Longrightarrow> emits W F [] (on_writer m) Q"
  by (rule emits_silent) (auto simp: appends_def grows_on_writer keeps_on_writer returns_on_writer,
      auto simp: on_writer_def split: prod.splits)

lemma emits_same:
  assumes "\<And>s. fst (snd (m s)) = fst s" and "returns m Q"
  shows "emits W F [] m Q"
proof (rule emits_silent [OF _ _ assms(2)])
  show "grows dump_buffer m" by (rule grows_same) (simp add: assms(1))
  show "keeps k dump_buffer m (\<lambda>_. True)" for k by (rule keeps_same) (simp add: assms(1))
  show "fst (fst s') = fst (fst s)" if "m s = (r, s')" for s r s' using assms(1) [of s] that by simp
qed

lemma write_to_file_last:
  "DirSection_write_to_file W D dirent p = (Ok (), (d', b')) \<Longrightarrow> last_position_written_to_file d' = Buffer_position b'"
  unfolding DirSection_write_to_file_def
  by (auto simp: modifyM_def elim!: bindM_OkE split: prod.splits)

lemma grows_on_destination: "grows snd (on_destination m)"
  by (rule grows_same) (simp add: on_destination_def split: prod.splits)

lemma grows_write_to_file:
  assumes "pod_codec D"
  shows "grows snd (DirSection_write_to_file W D dirent)"
proof -
  have "grows snd (DirSection_dump_dir_entry W D e)" for e
    unfolding DirSection_dump_dir_entry_def
    by (rule grows_intros grows_on_destination pod_codec.grows_setters [OF assms] | simp split: prod.splits)+
  then show ?thesis unfolding DirSection_write_to_file_def
    by (cases dirent) (auto intro!: grows_intros grows_on_destination split: prod.splits)
qed

lemma grows_on_dir: "grows snd m \<Longrightarrow> grows dump_buffer (on_dir m)"
  by (auto simp: grows_def on_dir_def split: prod.splits) (metis snd_conv)

lemma le_length_put_slice: "n \<le> length xs \<Longrightarrow> n \<le> length (put_slice xs i ys)"
  by (simp add: put_slice_def)

lemma emits_write_to_file:
  assumes out: "dir_output W content cursor (f_directory F)" and "\<And>e. dirent = Some e \<Longrightarrow> stream_type e \<in> K"
  shows "emits W F (case dirent of None \<Rightarrow> [] | Some _ \<Rightarrow> [K]) (on_dir (DirSection_write_to_file W (f_directory F) dirent)) (\<lambda>_. True)"
  unfolding emits_def
proof (intro allI impI)
  fix s and x :: unit and s' :: "('a, 'b) dir_state"
  assume run: "on_dir (DirSection_write_to_file W (f_directory F) dirent) s = (Ok x, s')"
    and len: "length (inner (dump_buffer s')) < 2 ^ 32"
  obtain d b rest where s: "s = ((d, b), rest)" by (metis prod.exhaust)
  obtain d' b' where s': "s' = ((d', b'), rest)"
    and wr: "DirSection_write_to_file W (f_directory F) dirent (d, b) = (Ok (), (d', b'))"
    using run by (auto simp: on_dir_def s split: prod.splits)
  have "flushed s' = length (inner b')"
    using write_to_file_last [OF wr] len by (simp add: s' Buffer_position_def unat_of_nat_less)
  moreover have "list_all2 (\<lambda>k e. stream_type e \<in> k) (case dirent of None \<Rightarrow> [] | Some _ \<Rightarrow> [K])
      (case dirent of None \<Rightarrow> [] | Some e \<Rightarrow> [e])"
    using assms(2) by (cases dirent) auto
  moreover have "front_kept s s'"
    using dir_output.write_to_file_buffer(1,2,3) [OF out wr] len
    by (cases dirent) (auto simp: front_kept_def s s' entry_offset_def take_put_slice le_length_put_slice)
  ultimately show "flushed s' \<le> length (inner (dump_buffer s')) \<and> True \<and> front_kept s s' \<and> (\<forall>s0 es0. dir_run W (f_directory F) s0 es0 (fst s) \<longrightarrow>
      (\<exists>es1. list_all2 (\<lambda>k e. stream_type e \<in> k) (case dirent of None \<Rightarrow> [] | Some _ \<Rightarrow> [K]) es1 \<and>
        dir_run W (f_directory F) s0 (es0 @ es1) (fst s')))"
    using run_write [OF _ wr] by (auto simp: s s')
qed

section \<open>A dump as a run of the directory section\<close>

text \<open>An output with lawful layouts.\<close>

locale dump_output = md_formats F + write_seek_laws W content cursor
  for F :: formats and W :: "'w write_seek" and content :: "'w \<Rightarrow> bytes" and cursor :: "'w \<Rightarrow> nat"
begin

lemma out: "dir_output W content cursor (f_directory F)"
  unfolding dir_output_def by (intro conjI directory write_seek_laws_axioms)

lemma new_eq:
  assumes "DirSection_new W (f_directory F) n (w, b) = (Ok d, (w', b'))"
  shows "b' = b\<lparr>inner := inner b @ replicate (unat n * size_with (f_directory F)) 0\<rparr>" and
    "dir_array d = \<lparr>maw_position = word_of_nat (length (inner b)), array_size = unat n\<rparr>" and "curr_idx d = 0"
  using assms unfolding DirSection_new_def
  by (auto simp: getM_def ret_def on_fst_def on_snd_def pod_codec.alloc_array_eq [OF directory]
      split: prod.splits elim!: bindM_OkE map_errM_OkE)

text \<open>A computation that emits entries, run behind a header and a fresh directory, and flushed at its end.\<close>

lemma emits_dump:
  assumes em: "emits W F ks m Q" and g: "grows dump_buffer m"
    and new: "DirSection_new W (f_directory F) n (w, \<lparr>inner = replicate h 0\<rparr>) = (Ok d0, (w0, b0))"
    and b1: "inner b1 = hdr @ replicate (unat n * size_with (f_directory F)) 0" and h: "length hdr = h"
    and st: "m ((d0, b1), rest) = (Ok x, ((d, b), rest'))"
    and flushed: "last_position_written_to_file d = Buffer_position b" and len: "length (inner b) < 2 ^ 32"
  shows "\<exists>es0. list_all2 (\<lambda>k e. stream_type e \<in> k) ks es0 \<and> dir_run W (f_directory F) (d0, b0) es0 (d, b) \<and>
    unat (last_position_written_to_file d) = length (inner b) \<and> unat (maw_position (dir_array d0)) = h \<and> take h (inner b) = hdr"
proof -
  from growsD [OF g st] b1 h len have small: "h < 2 ^ 32" by simp
  have ln: "last_position_written_to_file d0 = 0" using new_mirrors(4) [OF write_seek_laws_axioms new] .
  have start: "unat (maw_position (dir_array d0)) = h" using new_eq(2) [OF new] small by simp
  have "length (inner b0) = length (inner b1)" using new_eq(1) [OF new] b1 h by simp
  then have r0: "dir_run W (f_directory F) (d0, b0) [] (d0, b1)"
    by (intro run_append [OF run_start]) (simp_all add: ln)
  note res = emitsD [OF em st]
  have "unat (last_position_written_to_file d) = length (inner b)"
    using flushed len by (simp add: Buffer_position_def unat_of_nat_less)
  moreover obtain es0 where "list_all2 (\<lambda>k e. stream_type e \<in> k) ks es0" "dir_run W (f_directory F) (d0, b0) es0 (d, b)"
    using res(4) [of "(d0, b0)" "[]"] r0 len ln by auto
  moreover have "take h (inner b) = take h (inner b1)" using res(3) len ln start b1 h by (simp add: front_kept_def)
  ultimately show ?thesis using start b1 h by auto
qed

text \<open>What the output holds then.\<close>

lemma finished_dump:
  assumes new: "DirSection_new W (f_directory F) n (w, \<lparr>inner = replicate h 0\<rparr>) = (Ok d0, (w0, b0))"
    and start: "unat (maw_position (dir_array d0)) = h"
    and run: "dir_run W (f_directory F) (d0, b0) es0 (d, b)"
    and fl: "unat (last_position_written_to_file d) = length (inner b)"
    and len: "length (inner b) < 2 ^ 32" and cur: "cursor w \<le> length (content w)"
  shows "take (cursor w) (content (destination d)) = take (cursor w) (content w)"
    and "take (length (inner b)) (drop (cursor w) (content (destination d))) = inner b"
    and "i < length es0 \<Longrightarrow>
      take (size_with (f_directory F)) (drop (h + size_with (f_directory F) * i) (inner b)) = pod_bytes (f_directory F) (es0 ! i)"
proof -
  note nm = new_mirrors [OF write_seek_laws_axioms new]
  have mir: "mirrors content cursor (d, b)" "destination_start_offset d = destination_start_offset d0"
    using dir_output.run_mirrors [OF out run nm(1)] len by auto
  show "take (cursor w) (content (destination d)) = take (cursor w) (content w)"
    using dir_output.run_before [OF out run nm(1)] len cur nm by simp
  show "take (length (inner b)) (drop (cursor w) (content (destination d))) = inner b"
    using mir fl nm by (simp add: mirrors_def Let_def)
  show "i < length es0 \<Longrightarrow>
      take (size_with (f_directory F)) (drop (h + size_with (f_directory F) * i) (inner b)) = pod_bytes (f_directory F) (es0 ! i)"
    using dir_output.run_slots [OF out run nm(1), of i] start len new_eq(3) [OF new] by (simp add: dir_slot_def)
qed

end

interpretation dumpf: dump_output le_formats out_file_ops file_bytes file_pos
  unfolding dump_output_def by (intro conjI lef.md_formats_axioms outf.write_seek_laws_axioms)

end
