(* ===== verification/Write_Dump.thy ===== *)
theory Write_Dump
  imports Thread_List Modules Dso_Debug Process Emits
begin

text \<open>
  The dump as a whole: \<open>write_dump\<close> and \<open>MinidumpWriterConfig::write\<close> of \<open>src/src/linux/minidump_writer/mod.rs\<close>.

  While the dump is written the state is the directory section (with the output), the buffer, the dumper and the list of
  soft errors. Each stream writer runs on its part of that state.
\<close>

type_synonym 'w dump_state = "('w, MinidumpWriter \<times> WriterError list) dir_state"

definition the_writer :: "'w dump_state \<Rightarrow> MinidumpWriter" where
  "the_writer = (\<lambda>(_, self, _). self)"

definition push_soft :: "WriterError list \<Rightarrow> ('w dump_state, unit, 'e) comp" where
  "push_soft es' = modifyM (\<lambda>(p, self, errs). (p, self, errs @ es'))"

text \<open>\<open>dir_section.write_to_file(buffer, ..)?\<close>\<close>

definition flush_entry ::
    "'w write_seek \<Rightarrow> formats \<Rightarrow> MDRawDirectory option \<Rightarrow> ('w dump_state, unit, WriterError) comp" where
  "flush_entry W F dirent = map_errM WriterError_FileWriterError (on_dir (DirSection_write_to_file W (f_directory F) dirent))"

text \<open>A stream whose failure ends the dump, and one whose failure is a soft error with an empty entry.\<close>

definition hard_stream ::
    "'w write_seek \<Rightarrow> formats \<Rightarrow> ('w dump_state, MDRawDirectory, WriterError) comp \<Rightarrow> ('w dump_state, unit, WriterError) comp" where
  "hard_stream W F m = bindM m (\<lambda>dirent. flush_entry W F (Some dirent))"

definition soft_stream ::
    "'w write_seek \<Rightarrow> formats \<Rightarrow> ('e \<Rightarrow> WriterError) \<Rightarrow> (Buffer, MDRawDirectory, 'e) comp \<Rightarrow> ('w dump_state, unit, WriterError) comp" where
  "soft_stream W F err m =
     bindM (handleM (on_buffer m) ret (\<lambda>e. bindM (push_soft [err e]) (\<lambda>_. ret MDRawDirectory_default)))
       (\<lambda>dirent. flush_entry W F (Some dirent))"

text \<open>The macro \<open>file_entry\<close>.\<close>

definition file_entry ::
    "'w write_seek \<Rightarrow> formats \<Rightarrow> (Buffer, MDLocationDescriptor, MemoryWriterError) comp \<Rightarrow> MDStreamType \<Rightarrow>
     (MemoryWriterError \<Rightarrow> WriterError) \<Rightarrow> ('w dump_state, unit, WriterError) comp" where
  "file_entry W F m kind err =
     soft_stream W F err (bindM m (\<lambda>loc. ret \<lparr>stream_type = stream_code F kind, location = loc\<rparr>))"

definition proc_file_entry ::
    "'w write_seek \<Rightarrow> formats \<Rightarrow> env \<Rightarrow> string \<Rightarrow> MDStreamType \<Rightarrow> (MemoryWriterError \<Rightarrow> WriterError) \<Rightarrow>
     ('w dump_state, unit, WriterError) comp" where
  "proc_file_entry W F E fname kind err =
     bindM (getM the_writer) (\<lambda>self.
       file_entry W F (write_file E (''/proc/'' @ int_string (blamed_thread self) @ ''/'' @ fname)) kind err)"

definition system_info_stream ::
    "formats \<Rightarrow> env \<Rightarrow> ('w dump_state, MDRawDirectory, WriterError) comp" where
  "system_info_stream F E =
     bindM (map_errM WriterError_SectionSystemInfoError (on_buffer (write_systeminfo F E))) (\<lambda>(dirent, errs).
     bindM (push_soft (subwriter WriteSystemInfoErrors errs)) (\<lambda>_. ret dirent))"

definition soft_errors_stream :: "formats \<Rightarrow> env \<Rightarrow> ('w dump_state, MDRawDirectory, WriterError) comp" where
  "soft_errors_stream F E =
     bindM (getM (\<lambda>(_, _, errs). errs)) (\<lambda>errs.
     handleM (on_buffer (write_soft_errors E errs))
       (\<lambda>loc. ret \<lparr>stream_type = stream_code F MozSoftErrors, location = loc\<rparr>)
       (\<lambda>_. ret MDRawDirectory_default))"

definition num_writers :: u32 where "num_writers = 18"

text \<open>The streams in the order of the source, after the header; \<open>dso\<close> is the writer of the DSO debug stream.\<close>

definition write_core_streams ::
    "'w write_seek \<Rightarrow> formats \<Rightarrow> env \<Rightarrow> ('w dump_state, unit, WriterError) comp" where
  "write_core_streams W F E =
     bindM (flush_entry W F None) (\<lambda>_.
     bindM (hard_stream W F (map_errM WriterError_SectionThreadListError (on_writer (write_thread_list_stream F E)))) (\<lambda>_.
     bindM (hard_stream W F (bindM (getM the_writer) (\<lambda>self.
              map_errM WriterError_SectionMappingsError (on_buffer (write_mappings F E self))))) (\<lambda>_.
     bindM (map_errM WriterError_SectionAppMemoryError (on_writer (write_app_memory E))) (\<lambda>_.
     bindM (flush_entry W F None) (\<lambda>_.
     bindM (hard_stream W F (bindM (getM the_writer) (\<lambda>self.
              map_errM WriterError_SectionMemListError (on_buffer (write_memory_list_stream F self))))) (\<lambda>_.
     bindM (hard_stream W F (bindM (getM the_writer) (\<lambda>self.
              map_errM WriterError_SectionExceptionStreamError (on_buffer (write_exception_stream F self))))) (\<lambda>_.
     bindM (hard_stream W F (system_info_stream F E)) (\<lambda>_.
       hard_stream W F (bindM (getM the_writer) (\<lambda>self.
              map_errM WriterError_SectionMemoryInfoListError (on_buffer (write_memory_info_list_stream F E self))))))))))))"

definition write_file_streams ::
    "'w write_seek \<Rightarrow> formats \<Rightarrow> env \<Rightarrow> ('w dump_state, unit, WriterError) comp" where
  "write_file_streams W F E =
     bindM (file_entry W F (write_file E ''/proc/cpuinfo'') LinuxCpuInfo WriteCpuInfoFailed) (\<lambda>_.
     bindM (proc_file_entry W F E ''status'' LinuxProcStatus WriteThreadProcStatusFailed) (\<lambda>_.
     bindM (file_entry W F (handleM (write_file E ''/etc/lsb-release'') ret (\<lambda>_. write_file E ''/etc/os-release''))
              LinuxLsbRelease WriteOsReleaseInfoFailed) (\<lambda>_.
     bindM (proc_file_entry W F E ''cmdline'' LinuxCmdLine WriteCommandLineFailed) (\<lambda>_.
     bindM (proc_file_entry W F E ''environ'' LinuxEnviron WriteEnvironmentFailed) (\<lambda>_.
     bindM (proc_file_entry W F E ''auxv'' LinuxAuxv WriteEnvironmentFailed) (\<lambda>_.
       proc_file_entry W F E ''maps'' LinuxMaps WriteMapsFailed))))))"

definition write_last_streams ::
    "'w write_seek \<Rightarrow> formats \<Rightarrow> env \<Rightarrow> (Buffer, MDRawDirectory, SectionDsoDebugError) comp \<Rightarrow> ('w dump_state, unit, WriterError) comp" where
  "write_last_streams W F E dso =
     bindM (soft_stream W F WriteDSODebugStreamFailed dso) (\<lambda>_.
     bindM (proc_file_entry W F E ''limits'' MozLinuxLimits WriteLimitsFailed) (\<lambda>_.
     bindM (hard_stream W F (bindM (getM the_writer) (\<lambda>self.
              map_errM WriterError_SectionThreadNamesError (on_buffer (write_thread_names_stream F self))))) (\<lambda>_.
     bindM (bindM (getM the_writer) (\<lambda>self. soft_stream W F WriteHandleDataStreamFailed (write_handle_data_stream F E self))) (\<lambda>_.
       hard_stream W F (soft_errors_stream F E)))))"

definition write_streams ::
    "'w write_seek \<Rightarrow> formats \<Rightarrow> env \<Rightarrow> (Buffer, MDRawDirectory, SectionDsoDebugError) comp \<Rightarrow> ('w dump_state, unit, WriterError) comp" where
  "write_streams W F E dso =
     bindM (write_core_streams W F E) (\<lambda>_. bindM (write_file_streams W F E) (\<lambda>_. write_last_streams W F E dso))"

definition dump_header :: "formats \<Rightarrow> u32 \<Rightarrow> u64 \<Rightarrow> MDRawHeader" where
  "dump_header F directory_rva secs =
     \<lparr>signature = header_signature F, hd_version = header_version F, stream_count = num_writers,
      stream_directory_rva = directory_rva, hd_checksum = 0, time_date_stamp = ucast secs, hd_flags = 0\<rparr>"

text \<open>The header and the directory, on the output and the buffer.\<close>

definition write_header ::
    "'w write_seek \<Rightarrow> formats \<Rightarrow> env \<Rightarrow> ('w \<times> Buffer, 'w DirSection, WriterError) comp" where
  "write_header W F E =
     bindM (map_errM WriterError_MemoryWriterError (on_snd (MemoryWriter_alloc (f_header F)))) (\<lambda>header_section.
     bindM (map_errM WriterError_FileWriterError (DirSection_new W (f_directory F) num_writers)) (\<lambda>dir_section.
     bindM (lift_result (map_err SystemTimeError (unix_time E))) (\<lambda>secs.
     bindM (map_errM WriterError_MemoryWriterError (on_snd (MemoryWriter_set_value (f_header F) header_section
              (dump_header F (DirSection_position dir_section) secs)))) (\<lambda>_.
       ret dir_section))))"

text \<open>The result, the dumper, the buffer and the output; no value if the walk over the link maps does not end.\<close>

definition write_dump ::
    "'w write_seek \<Rightarrow> formats \<Rightarrow> dso_sys \<Rightarrow> env \<Rightarrow> MinidumpWriter \<Rightarrow> WriterError list \<Rightarrow> 'w \<times> Buffer \<Rightarrow>
     ((unit, WriterError) result \<times> MinidumpWriter \<times> 'w \<times> Buffer) option" where
  "write_dump W F D E self soft_errors s =
     (case write_header W F E s of
        (Err e, (w, b)) \<Rightarrow> Some (Err e, self, w, b)
      | (Panic, (w, b)) \<Rightarrow> Some (Panic, self, w, b)
      | (Ok dir_section, (w, b)) \<Rightarrow>
          map_option (\<lambda>dso.
            case write_streams W F E dso ((dir_section, b), (self, soft_errors)) of
              (r, ((d, b'), (self', _))) \<Rightarrow> (r, self', destination d, b'))
            (write_dso_debug_stream F D E (process_id self) (auxv self)))"

section \<open>The entry point\<close>

text \<open>\<open>MinidumpWriterConfig::write\<close>. The dumper is dropped on every way out, which resumes the target.\<close>

definition MinidumpWriterConfig_write ::
    "'k proc_sys \<Rightarrow> 'w write_seek \<Rightarrow> formats \<Rightarrow> dso_sys \<Rightarrow> env \<Rightarrow> MinidumpWriterConfig \<Rightarrow> 'w \<times> 'k \<Rightarrow>
     ((bytes, WriterError) result \<times> 'w \<times> 'k) option" where
  "MinidumpWriterConfig_write K W F D E config = (\<lambda>(w, k).
     Option.bind (init K E (MinidumpWriterConfig_build config) k) (\<lambda>(r, (self, errs), k1).
       case r of
         Err e \<Rightarrow> Some (Err (WriterError_InitError e), w, drop_writer K self k1)
       | Panic \<Rightarrow> Some (Panic, w, drop_writer K self k1)
       | Ok _ \<Rightarrow>
           Option.bind (write_dump W F D E self (subwriter InitErrors errs) (w, Buffer_with_capacity 0)) (\<lambda>(r', self', w', b).
             Some (bindR r' (\<lambda>_. Ok (inner b)), w', drop_writer K self' k1))))"

section \<open>The kind of a stream's entry\<close>

lemma kind_memory_list: "returns (write_memory_list_stream F self) (\<lambda>d. stream_type d = stream_code F MemoryListStream)"
  unfolding write_memory_list_stream_def by (rule kind_rules returns_then | simp)+

lemma kind_memory_info: "returns (write_memory_info_list_stream F E self) (\<lambda>d. stream_type d = stream_code F MemoryInfoListStream)"
  unfolding write_memory_info_list_stream_def by (rule kind_rules returns_then | simp)+

lemma kind_exception: "returns (write_exception_stream F self) (\<lambda>d. stream_type d = stream_code F ExceptionStream)"
  unfolding write_exception_stream_def by (rule kind_rules returns_then returns_ret | simp)+

lemma kind_handle_data: "returns (write_handle_data_stream F E self) (\<lambda>d. stream_type d = stream_code F HandleDataStream)"
  unfolding write_handle_data_stream_def by (rule kind_rules returns_then | simp)+

lemma kind_mappings: "returns (write_mappings F E self) (\<lambda>d. stream_type d = stream_code F ModuleListStream)"
  unfolding write_mappings_def by (rule kind_rules returns_then returns_ret | simp)+

lemma kind_thread_names: "returns (write_thread_names_stream F self) (\<lambda>d. stream_type d = stream_code F ThreadNamesStream)"
  unfolding write_thread_names_stream_def
  by (rule returns_Let returns_dirent returns_then returns_ret | simp)+

lemma kind_thread_list: "returns (write_thread_list_stream F E) (\<lambda>d. stream_type d = stream_code F ThreadListStream)"
  unfolding write_thread_list_stream_def
  by (rule returns_Let returns_dirent returns_then returns_ret | simp)+

lemma kind_systeminfo: "returns (write_systeminfo F E) (\<lambda>(d, _). stream_type d = stream_code F SystemInfoStream)"
  unfolding write_systeminfo_def
  by (rule kind_rules returns_then returns_ret | simp)+

lemma kind_dso_info: "returns (write_dso_info F E pid i) (\<lambda>d. stream_type d = stream_code F LinuxDsoDebug)"
  unfolding write_dso_info_def by (rule returns_Let returns_dirent returns_then returns_ret | simp)+

lemma kind_dso_debug:
  "write_dso_debug_stream F D E pid aux = Some m \<Longrightarrow> returns m (\<lambda>d. stream_type d = stream_code F LinuxDsoDebug)"
  unfolding write_dso_debug_stream_def by (auto intro: returns_then kind_dso_info)

section \<open>The dump as a run of the directory section\<close>

lemma emits_flush:
  assumes "dir_output W content cursor (f_directory F)" and "\<And>e. dirent = Some e \<Longrightarrow> stream_type e \<in> K"
  shows "emits W F (case dirent of None \<Rightarrow> [] | Some _ \<Rightarrow> [K]) (flush_entry W F dirent) (\<lambda>_. True)"
  unfolding flush_entry_def by (intro emits_map_errM emits_write_to_file [OF assms(1)] assms(2))

text \<open>A soft stream always has an entry: its own, or the empty one.\<close>

definition soft_kind :: "formats \<Rightarrow> MDStreamType \<Rightarrow> u32 set" where
  "soft_kind F t = {stream_code F t, 0}"

context dump_output
begin

lemma grows_flush: "grows dump_buffer (flush_entry W F dirent)"
  unfolding flush_entry_def by (intro grows_map_errM grows_on_dir grows_write_to_file directory)

lemma emits_flush_some: "stream_type e \<in> K \<Longrightarrow> emits W F [K] (flush_entry W F (Some e)) (\<lambda>_. True)"
  using emits_flush [OF out, of "Some e" K] by simp

lemma emits_flush_none: "emits W F [] (flush_entry W F None) (\<lambda>_. True)"
  using emits_flush [OF out, of None UNIV] by simp

lemma emits_hard_stream:
  "emits W F [] m (\<lambda>d. stream_type d = c) \<Longrightarrow> emits W F [{c}] (hard_stream W F m) (\<lambda>_. True)"
  unfolding hard_stream_def
  using emits_bindM [where ls = "[{c}]" and R = "\<lambda>_. True", OF _ grows_flush emits_flush_some] by fastforce

lemma grows_hard_stream: "grows dump_buffer m \<Longrightarrow> grows dump_buffer (hard_stream W F m)"
  unfolding hard_stream_def by (intro grows_intros grows_flush)

lemma grows_push_soft: "grows dump_buffer (push_soft errs)"
  unfolding push_soft_def by (intro grows_intros) (simp split: prod.splits)

lemma keeps_push_soft: "keeps k dump_buffer (push_soft errs) (\<lambda>_. True)"
  unfolding push_soft_def by (intro keeps_intros) (simp split: prod.splits)

lemma grows_soft_stream: "appends id m \<Longrightarrow> grows dump_buffer (soft_stream W F err m)"
  unfolding soft_stream_def
  by (intro grows_intros grows_flush grows_on_buffer grows_push_soft appends_grows)

lemma emits_soft_stream:
  assumes "appends id m" and "returns m (\<lambda>d. stream_type d = stream_code F t)"
  shows "emits W F [soft_kind F t] (soft_stream W F err m) (\<lambda>_. True)"
proof -
  let ?h = "handleM (on_buffer m) ret (\<lambda>e. bindM (push_soft [err e]) (\<lambda>_. ret MDRawDirectory_default))"
  have "emits W F [] ?h (\<lambda>d. stream_type d \<in> soft_kind F t)"
  proof (rule emits_silent)
    show "grows dump_buffer ?h"
      by (intro grows_intros grows_on_buffer grows_push_soft appends_grows assms(1))
    show "keeps k dump_buffer ?h (\<lambda>_. True)" for k
      by (rule keeps_handleM [OF keeps_on_buffer [OF appends_keeps [OF assms(1)]]])
        (rule grows_intros keeps_intros grows_on_buffer grows_push_soft keeps_push_soft appends_grows assms(1))+
    show "returns ?h (\<lambda>d. stream_type d \<in> soft_kind F t)"
      using assms(2) by (auto simp: returns_def handleM_def on_buffer_def bindM_def push_soft_def comp_simps soft_kind_def
          MDRawDirectory_default_def split: prod.splits result.splits)
    show "fst (fst s') = fst (fst s)" if "?h s = (r, s')" for s r s'
      using that by (auto simp: handleM_def on_buffer_def bindM_def push_soft_def comp_simps split: prod.splits result.splits)
  qed
  from emits_bindM [OF this grows_flush emits_flush_some] show ?thesis
    unfolding soft_stream_def by fastforce
qed

lemma emits_then:
  "emits W F ks m Q \<Longrightarrow> (\<And>x. grows dump_buffer (f x)) \<Longrightarrow> (\<And>x. emits W F ls (f x) R) \<Longrightarrow>
   emits W F (ks @ ls) (bindM m f) R"
  by (rule emits_bindM)

lemma emits_with_writer:
  assumes "\<And>x. grows dump_buffer (f x)" and "\<And>x. emits W F ls (f x) R"
  shows "emits W F ls (bindM (getM the_writer) f) R"
proof -
  have "emits W F [] (getM the_writer) (\<lambda>_. True)" by (rule emits_same [OF _ returns_any]) (simp add: getM_def)
  from emits_then [OF this assms] show ?thesis by simp
qed

lemma appends_file_entry:
  assumes "appends id m"
  shows "appends id (bindM m (\<lambda>loc. ret \<lparr>stream_type = c, location = loc\<rparr>))"
  by (rule appendsI keeps_intros grows_intros appends_grows [OF assms] appends_keeps [OF assms])+

lemma kind_file_entry: "returns (bindM m (\<lambda>loc. ret \<lparr>stream_type = c, location = loc\<rparr>)) (\<lambda>d. stream_type d = c)"
  by (rule returns_then returns_ret | simp)+

lemma grows_file_entry: "appends id m \<Longrightarrow> grows dump_buffer (file_entry W F m t err)"
  unfolding file_entry_def by (intro grows_soft_stream appends_file_entry)

lemma emits_file_entry: "appends id m \<Longrightarrow> emits W F [soft_kind F t] (file_entry W F m t err) (\<lambda>_. True)"
  unfolding file_entry_def by (intro emits_soft_stream appends_file_entry kind_file_entry)

lemma grows_proc_file: "grows dump_buffer (proc_file_entry W F E f t err)"
  unfolding proc_file_entry_def by (intro grows_intros grows_file_entry appends_write_file)

lemma emits_proc_file: "emits W F [soft_kind F t] (proc_file_entry W F E f t err) (\<lambda>_. True)"
  unfolding proc_file_entry_def by (intro emits_with_writer emits_file_entry grows_file_entry appends_write_file)

lemma appends_os_release:
  "appends id (handleM (write_file E f) ret (\<lambda>_. write_file E g))"
  by (rule appendsI keeps_intros grows_intros appends_grows [OF appends_write_file] appends_keeps [OF appends_write_file])+

lemma grows_buffer_stream: "appends id (m self) \<Longrightarrow> grows dump_buffer (map_errM g (on_buffer (m self)))"
  by (intro grows_map_errM grows_on_buffer appends_grows)

lemma emits_buffer_stream:
  assumes "\<And>self. appends id (m self)" and "\<And>self. returns (m self) (\<lambda>d. stream_type d = c)"
  shows "emits W F [{c}] (hard_stream W F (bindM (getM the_writer) (\<lambda>self. map_errM g (on_buffer (m self))))) (\<lambda>_. True)"
  by (intro emits_hard_stream emits_with_writer emits_map_errM emits_on_buffer grows_buffer_stream assms)

lemma grows_buffer_streams:
  "(\<And>self. appends id (m self)) \<Longrightarrow>
   grows dump_buffer (hard_stream W F (bindM (getM the_writer) (\<lambda>self. map_errM g (on_buffer (m self)))))"
  by (intro grows_hard_stream grows_intros grows_on_buffer appends_grows)

lemma grows_system_info: "grows dump_buffer (system_info_stream F E)"
  unfolding system_info_stream_def
  by (intro grows_intros grows_on_buffer grows_push_soft appends_grows appends_systeminfo)

lemma emits_system_info: "emits W F [] (system_info_stream F E) (\<lambda>d. stream_type d = stream_code F SystemInfoStream)"
proof -
  have "emits W F [] (bindM (push_soft errs) (\<lambda>_. ret d)) (\<lambda>d. stream_type d = stream_code F SystemInfoStream)"
    if "stream_type d = stream_code F SystemInfoStream" for errs d
    by (rule emits_same) (simp add: bindM_def push_soft_def comp_simps split: prod.splits, intro returns_then returns_ret that)
  then have "emits W F ([] @ []) (system_info_stream F E) (\<lambda>d. stream_type d = stream_code F SystemInfoStream)"
    unfolding system_info_stream_def
    by (intro emits_bindM [OF emits_map_errM [OF emits_on_buffer [OF appends_systeminfo kind_systeminfo]]])
      (auto intro!: grows_intros grows_push_soft split: prod.splits)
  then show ?thesis by simp
qed

lemma grows_soft_errors: "grows dump_buffer (soft_errors_stream F E)"
  unfolding soft_errors_stream_def by (intro grows_intros grows_on_buffer appends_grows appends_write_soft_errors)

lemma emits_soft_errors: "emits W F [] (soft_errors_stream F E) (\<lambda>d. stream_type d \<in> soft_kind F MozSoftErrors)"
proof (rule emits_silent [OF grows_soft_errors])
  show "keeps k dump_buffer (soft_errors_stream F E) (\<lambda>_. True)" for k
    unfolding soft_errors_stream_def
    by (rule keeps_intros grows_intros keeps_on_buffer grows_on_buffer appends_keeps [OF appends_write_soft_errors]
        appends_grows [OF appends_write_soft_errors])+
  show "returns (soft_errors_stream F E) (\<lambda>d. stream_type d \<in> soft_kind F MozSoftErrors)"
    by (auto simp: soft_errors_stream_def returns_def bindM_def handleM_def comp_simps soft_kind_def MDRawDirectory_default_def
        split: prod.splits result.splits)
  show "fst (fst s') = fst (fst s)" if "soft_errors_stream F E s = (r, s')" for s r s'
    using that by (auto simp: soft_errors_stream_def on_buffer_def bindM_def handleM_def comp_simps split: prod.splits result.splits)
qed

lemmas dump_grows = grows_intros grows_flush grows_proc_file grows_file_entry grows_buffer_streams grows_hard_stream
  grows_soft_stream grows_system_info grows_soft_errors grows_on_writer grows_on_buffer
  appends_write_file appends_os_release appends_mappings appends_memory_list appends_exception appends_memory_info
  appends_thread_names appends_handle_data

lemma grows_core_streams: "grows dump_buffer (write_core_streams W F E)"
  unfolding write_core_streams_def
  by (rule dump_grows appends_grows [OF appends_thread_list] appends_grows [OF appends_app_memory]
      appends_grows [OF appends_mappings] appends_grows [OF appends_memory_list] appends_grows [OF appends_exception]
      appends_grows [OF appends_memory_info])+

lemma grows_file_streams: "grows dump_buffer (write_file_streams W F E)"
  unfolding write_file_streams_def by (rule dump_grows)+

lemma grows_last_streams: "appends id dso \<Longrightarrow> grows dump_buffer (write_last_streams W F E dso)"
  unfolding write_last_streams_def by (rule dump_grows appends_grows [OF appends_thread_names] | assumption)+

lemma emits_core:
  "emits W F ([] @ [{stream_code F ThreadListStream}] @ [{stream_code F ModuleListStream}] @ [] @ [] @
      [{stream_code F MemoryListStream}] @ [{stream_code F ExceptionStream}] @ [{stream_code F SystemInfoStream}] @
      [{stream_code F MemoryInfoListStream}]) (write_core_streams W F E) (\<lambda>_. True)"
  unfolding write_core_streams_def
  by (rule emits_then emits_flush_none emits_buffer_stream kind_mappings kind_memory_list kind_exception kind_memory_info
      emits_hard_stream emits_map_errM emits_on_writer appends_thread_list kind_thread_list appends_app_memory returns_any
      emits_system_info dump_grows appends_grows [OF appends_thread_list] appends_grows [OF appends_app_memory]
      appends_grows [OF appends_mappings] appends_grows [OF appends_memory_list] appends_grows [OF appends_exception]
      appends_grows [OF appends_memory_info])+

lemma emits_files:
  "emits W F ([soft_kind F LinuxCpuInfo] @ [soft_kind F LinuxProcStatus] @ [soft_kind F LinuxLsbRelease] @
      [soft_kind F LinuxCmdLine] @ [soft_kind F LinuxEnviron] @ [soft_kind F LinuxAuxv] @ [soft_kind F LinuxMaps])
    (write_file_streams W F E) (\<lambda>_. True)"
  unfolding write_file_streams_def
  by (rule emits_then emits_proc_file emits_file_entry dump_grows)+

lemma emits_last:
  assumes "appends id dso" and "returns dso (\<lambda>d. stream_type d = stream_code F LinuxDsoDebug)"
  shows "emits W F ([soft_kind F LinuxDsoDebug] @ [soft_kind F MozLinuxLimits] @ [{stream_code F ThreadNamesStream}] @
      [soft_kind F HandleDataStream] @ [soft_kind F MozSoftErrors]) (write_last_streams W F E dso) (\<lambda>_. True)"
proof -
  have "emits W F ([] @ [soft_kind F MozSoftErrors]) (hard_stream W F (soft_errors_stream F E)) (\<lambda>_. True)"
    unfolding hard_stream_def by (rule emits_bindM [OF emits_soft_errors grows_flush emits_flush_some])
  then have soft: "emits W F [soft_kind F MozSoftErrors] (hard_stream W F (soft_errors_stream F E)) (\<lambda>_. True)" by simp
  show ?thesis unfolding write_last_streams_def
    by (rule emits_then soft emits_proc_file emits_soft_stream assms emits_buffer_stream kind_thread_names emits_with_writer
        kind_handle_data dump_grows appends_grows [OF appends_thread_names])+
qed

lemma emits_streams:
  assumes "appends id dso" and "returns dso (\<lambda>d. stream_type d = stream_code F LinuxDsoDebug)"
  shows "emits W F
    ([{stream_code F ThreadListStream}, {stream_code F ModuleListStream}, {stream_code F MemoryListStream},
      {stream_code F ExceptionStream}, {stream_code F SystemInfoStream}, {stream_code F MemoryInfoListStream}] @
     map (soft_kind F) [LinuxCpuInfo, LinuxProcStatus, LinuxLsbRelease, LinuxCmdLine, LinuxEnviron, LinuxAuxv, LinuxMaps,
       LinuxDsoDebug, MozLinuxLimits] @
     [{stream_code F ThreadNamesStream}, soft_kind F HandleDataStream, soft_kind F MozSoftErrors])
    (write_streams W F E dso) (\<lambda>_. True)"
proof -
  have g: "grows dump_buffer (bindM (write_file_streams W F E) (\<lambda>_. write_last_streams W F E dso))"
    by (intro grows_bindM grows_file_streams grows_last_streams assms(1))
  from emits_then [OF emits_core g emits_then [OF emits_files grows_last_streams [OF assms(1)] emits_last [OF assms]]]
  show ?thesis unfolding write_streams_def by simp
qed

end

text \<open>The entries that the directory of a dump has, in their order.\<close>

definition dump_kinds :: "formats \<Rightarrow> u32 set list" where
  "dump_kinds F =
     [{stream_code F ThreadListStream}, {stream_code F ModuleListStream}, {stream_code F MemoryListStream},
      {stream_code F ExceptionStream}, {stream_code F SystemInfoStream}, {stream_code F MemoryInfoListStream}] @
     map (soft_kind F) [LinuxCpuInfo, LinuxProcStatus, LinuxLsbRelease, LinuxCmdLine, LinuxEnviron, LinuxAuxv, LinuxMaps,
       LinuxDsoDebug, MozLinuxLimits] @
     [{stream_code F ThreadNamesStream}, soft_kind F HandleDataStream, soft_kind F MozSoftErrors]"

context dump_output
begin

lemma write_header_Ok:
  assumes run: "write_header W F E (w, \<lparr>inner = []\<rparr>) = (Ok d, (w', b))"
  shows "\<exists>secs w0 b0. unix_time E = Ok secs \<and>
    DirSection_new W (f_directory F) num_writers (w, \<lparr>inner = replicate (size_with (f_header F)) 0\<rparr>) = (Ok d, (w0, b0)) \<and>
    inner b = pod_bytes (f_header F) (dump_header F (word_of_nat (size_with (f_header F))) secs) @
      replicate (unat num_writers * size_with (f_directory F)) 0"
proof -
  obtain b0 secs where
      new: "DirSection_new W (f_directory F) num_writers (w, \<lparr>inner = replicate (size_with (f_header F)) 0\<rparr>) = (Ok d, (w', b0))"
    and secs: "unix_time E = Ok secs"
    and set: "MemoryWriter_set_value (f_header F) \<lparr>mw_position = 0, mw_size = size_with (f_header F)\<rparr>
        (dump_header F (DirSection_position d) secs) b0 = (Ok (), b)"
    using run unfolding write_header_def
    by (auto simp: pod_codec.alloc_eq [OF header] on_snd_def ret_def lift_result_def split: prod.splits
        elim!: bindM_OkE map_errM_OkE)
  note eqs = new_eq [OF new]
  have "inner b = put_slice (inner b0) 0 (pod_bytes (f_header F) (dump_header F (DirSection_position d) secs))"
    using set pod_codec.set_value_eq [OF header, of "\<lparr>mw_position = 0, mw_size = size_with (f_header F)\<rparr>" b0] by auto
  with eqs new secs show ?thesis
    by (intro exI [of _ secs] exI [of _ w'] exI [of _ b0] conjI)
      (simp_all add: put_slice_def pod_codec.length_pod_bytes [OF header] DirSection_position_def)
qed

lemma streams_flushed:
  assumes "write_streams W F E dso s = (Ok x, s')"
  shows "last_position_written_to_file (fst (fst s')) = Buffer_position (dump_buffer s')"
proof -
  obtain e s1 where "flush_entry W F (Some e) s1 = (Ok x, s')"
    using assms unfolding write_streams_def write_last_streams_def hard_stream_def by (auto elim!: bindM_OkE)
  then show ?thesis
    by (auto simp: flush_entry_def on_dir_def elim!: map_errM_OkE split: prod.splits dest!: write_to_file_last)
qed

lemma dump_run:
  assumes run: "write_dump W F D E self errs (w, \<lparr>inner = []\<rparr>) = Some (Ok (), self', w', b)"
    and len: "length (inner b) < 2 ^ 32"
  shows "\<exists>d0 w0 b0 es0 d secs. DirSection_new W (f_directory F) num_writers (w, \<lparr>inner = replicate (size_with (f_header F)) 0\<rparr>) = (Ok d0, (w0, b0)) \<and>
    unat (maw_position (dir_array d0)) = size_with (f_header F) \<and>
    dir_run W (f_directory F) (d0, b0) es0 (d, b) \<and> destination d = w' \<and>
    unat (last_position_written_to_file d) = length (inner b) \<and>
    list_all2 (\<lambda>k e. stream_type e \<in> k) (dump_kinds F) es0 \<and> unix_time E = Ok secs \<and>
    take (size_with (f_header F)) (inner b) = pod_bytes (f_header F) (dump_header F (word_of_nat (size_with (f_header F))) secs)"
proof -
  obtain rh w1 b1 where h: "write_header W F E (w, \<lparr>inner = []\<rparr>) = (rh, (w1, b1))" by (metis prod.exhaust)
  with run obtain d0 where rh: "rh = Ok d0" by (cases rh) (auto simp: write_dump_def)
  with run h obtain dso where dso: "write_dso_debug_stream F D E (process_id self) (auxv self) = Some dso"
    by (cases "write_dso_debug_stream F D E (process_id self) (auxv self)") (auto simp: write_dump_def)
  obtain r d b' s' errs' where st0: "write_streams W F E dso ((d0, b1), (self, errs)) = (r, ((d, b'), (s', errs')))"
    by (metis prod.exhaust)
  with run h rh dso have st: "write_streams W F E dso ((d0, b1), (self, errs)) = (Ok (), ((d, b), (self', errs')))"
    and w': "w' = destination d" by (auto simp: write_dump_def)
  from write_header_Ok [OF h [unfolded rh]] obtain secs w0 b0 where secs: "unix_time E = Ok secs"
    and new: "DirSection_new W (f_directory F) num_writers (w, \<lparr>inner = replicate (size_with (f_header F)) 0\<rparr>) = (Ok d0, (w0, b0))"
    and b1: "inner b1 = pod_bytes (f_header F) (dump_header F (word_of_nat (size_with (f_header F))) secs) @
      replicate (unat num_writers * size_with (f_directory F)) 0" by blast
  note apd = appends_dso_debug [OF dso] and kd = kind_dso_debug [OF dso]
  have g: "grows dump_buffer (write_streams W F E dso)" unfolding write_streams_def
    by (intro grows_bindM grows_core_streams grows_file_streams grows_last_streams apd)
  from emits_dump [OF emits_streams [OF apd kd, folded dump_kinds_def] g new b1 _ st _ len] streams_flushed [OF st] w' secs new
  show ?thesis by (force simp: pod_codec.length_pod_bytes [OF header])
qed

end

end
