(* ===== verification/Live.thy ===== *)
theory Live
  imports Emits
begin

text \<open>
  Total correctness under a directory section: \<open>live_at\<close> is the counterpart of \<open>emits\<close> that says that a computation succeeds. From a
  state that is ready for entry \<open>i\<close> of a directory with \<open>N\<close> slots, on an output that does not fail, it succeeds and
  leaves the state ready for entry \<open>j\<close>, adding at most \<open>n\<close> bytes. \<open>P\<close> is what is known of the platform's writer.
\<close>

definition ready_at :: "nat \<Rightarrow> ('r \<Rightarrow> bool) \<Rightarrow> nat \<Rightarrow> (out_file, 'r) dir_state \<Rightarrow> bool" where
  "ready_at N P i s \<longleftrightarrow> (case s of ((d, b), rest) \<Rightarrow>
     P rest \<and> dir_array d = \<lparr>maw_position = 32, array_size = N\<rparr> \<and> curr_idx d = i \<and>
     unat (last_position_written_to_file d) \<le> length (inner b) \<and> 32 + 12 * N \<le> length (inner b) \<and>
     faults (destination d) = [] \<and> unat (destination_start_offset d) < 2 ^ 32 \<and>
     file_pos (destination d) = unat (destination_start_offset d) + unat (last_position_written_to_file d))"

definition live_at ::
    "nat \<Rightarrow> ('r \<Rightarrow> bool) \<Rightarrow> nat \<Rightarrow> nat \<Rightarrow> nat \<Rightarrow> ((out_file, 'r) dir_state, 'a, 'e) comp \<Rightarrow> bool" where
  "live_at N P i j n m \<longleftrightarrow> (\<forall>s. ready_at N P i s \<longrightarrow> length (inner (dump_buffer s)) + n < 2 ^ 32 \<longrightarrow>
     (\<exists>x s'. m s = (Ok x, s') \<and> ready_at N P j s' \<and> length (inner (dump_buffer s')) \<le> length (inner (dump_buffer s)) + n))"

lemma live_bindM:
  assumes "live_at N P i j n m" and "\<And>x. live_at N P j k n' (f x)"
  shows "live_at N P i k (n + n') (bindM m f)"
  unfolding live_at_def
proof (intro allI impI)
  fix s assume s: "ready_at N P i s" "length (inner (dump_buffer s)) + (n + n') < 2 ^ 32"
  then obtain x s1 where 1: "m s = (Ok x, s1)" "ready_at N P j s1" "length (inner (dump_buffer s1)) \<le> length (inner (dump_buffer s)) + n"
    using assms(1) unfolding live_at_def by fastforce
  moreover have "length (inner (dump_buffer s1)) + n' < 2 ^ 32" using s 1 by simp
  ultimately obtain y s2 where "f x s1 = (Ok y, s2)" "ready_at N P k s2"
      "length (inner (dump_buffer s2)) \<le> length (inner (dump_buffer s1)) + n'"
    using assms(2) [of x] unfolding live_at_def by blast
  with 1 show "\<exists>x s'. bindM m f s = (Ok x, s') \<and> ready_at N P k s' \<and>
      length (inner (dump_buffer s')) \<le> length (inner (dump_buffer s)) + (n + n')"
    by (intro exI [of _ y] exI [of _ s2]) (simp add: bindM_def)
qed

lemma live_map_errM: "live_at N P i j n m \<Longrightarrow> live_at N P i j n (map_errM g m)"
  unfolding live_at_def map_errM_def by fastforce

lemma live_ret: "live_at N P i i 0 (ret x)"
  by (simp add: live_at_def comp_simps)

lemma live_weaken: "live_at N P i j n m \<Longrightarrow> n \<le> n' \<Longrightarrow> live_at N P i j n' m"
  unfolding live_at_def by (meson add_le_mono le_refl le_trans order_le_less_trans)

text \<open>A stream that adds at most \<open>n\<close> bytes to a buffer that has room for them.\<close>

definition adds :: "nat \<Rightarrow> (Buffer, 'a, 'e) comp \<Rightarrow> bool" where
  "adds n m \<longleftrightarrow> (\<forall>b. length (inner b) + n < 2 ^ 32 \<longrightarrow>
     (\<exists>x b'. m b = (Ok x, b') \<and> length (inner b) \<le> length (inner b') \<and> length (inner b') \<le> length (inner b) + n))"

lemma live_on_buffer: "adds n m \<Longrightarrow> live_at N P i i n (on_buffer m)"
  unfolding live_at_def
proof (intro allI impI)
  fix s assume a: "adds n m" and s: "ready_at N P i s" "length (inner (dump_buffer s)) + n < 2 ^ 32"
  obtain d b rest where e: "s = ((d, b), rest)" by (metis prod.exhaust)
  obtain x b' where "m b = (Ok x, b')" "length (inner b) \<le> length (inner b')" "length (inner b') \<le> length (inner b) + n"
    using a s(2) unfolding adds_def e by auto
  then show "\<exists>x s'. on_buffer m s = (Ok x, s') \<and> ready_at N P i s' \<and>
      length (inner (dump_buffer s')) \<le> length (inner (dump_buffer s)) + n"
    using s(1) by (intro exI [of _ x] exI [of _ "((d, b'), rest)"]) (auto simp: on_buffer_def e ready_at_def split: prod.splits)
qed

text \<open>Flushing an entry.\<close>

lemma dump_dir_entry_ok:
  assumes i: "i < N" "N < 1000" and arr: "dir_array d = \<lparr>maw_position = 32, array_size = N\<rparr>" "curr_idx d = i"
    and len: "32 + 12 * N \<le> length (inner b)" and f: "faults (destination d) = []"
    and st: "unat (destination_start_offset d) < 2 ^ 32" and pos: "file_pos (destination d) < 2 ^ 33"
  shows "\<exists>w b'. DirSection_dump_dir_entry out_file_ops directory_pod e (d, b) =
      (Ok (), (d\<lparr>curr_idx := Suc i, destination := w\<rparr>, b')) \<and>
    length (inner b') = length (inner b) \<and> faults w = [] \<and> file_pos w = file_pos (destination d)"
proof -
  let ?o = "32 + 12 * i"
  define b1 where "b1 = b\<lparr>inner := put_slice (inner b) ?o (pod_bytes directory_pod e)\<rparr>"
  have o: "?o + 12 \<le> length (inner b)" using i len by simp
  have set: "MemoryArrayWriter_set_value_at directory_pod (dir_array d) e (curr_idx d) b = (Ok (), b1)"
    using dirf.set_value_at_eq [of "dir_array d" "curr_idx d" b e] o arr by (simp add: b1_def)
  have lb: "length (inner b1) = length (inner b)" using o by (simp add: b1_def length_put_slice dirf.length_pod_bytes)
  define r where "r = (word_of_nat ?o :: u32)"
  have ur: "unat r = ?o" using i by (simp add: r_def del: of_nat_add of_nat_mult of_nat_numeral)
  have idx: "MemoryArrayWriter_location_of_index directory_pod (dir_array d) (curr_idx d) =
      (Ok \<lparr>data_size = 12, rva = r\<rparr> :: (MDLocationDescriptor, FileWriterError) result)"
  proof -
    have "unat (word_of_nat (12 * i) :: u32) = 12 * i" using i by (intro unat_u32_of_nat) simp
    then have "add_w (32 :: u32) (word_of_nat (12 * i)) = (Ok r :: (u32, FileWriterError) result)"
      using i ur by (simp only: add_w_Ok_iff) simp
    then show ?thesis by (simp add: MemoryArrayWriter_location_of_index_def arr del: of_nat_mult)
  qed
  have t: "(add_w (destination_start_offset d) (ucast r) :: (u64, FileWriterError) result) = Ok (destination_start_offset d + ucast r)"
    using st i ur by (simp add: add_w_def unsigned_ucast_eq take_bit_nat_eq_self)
  have stop: "(add_w r 12 :: (u32, FileWriterError) result) = Ok (r + 12)" and us: "unat (r + 12) = ?o + 12"
    using i ur by (simp_all add: add_w_def unat_word_ariths)
  have sl: "\<exists>bs. (slice_range (unat r) (unat (r + 12)) (inner b1) :: (bytes, FileWriterError) result) = Ok bs"
    using o lb ur us by (simp add: slice_range_def)
  then obtain bs where bs: "(slice_range (unat r) (unat (r + 12)) (inner b1) :: (bytes, FileWriterError) result) = Ok bs" ..
  have pw: "unat (word_of_nat (file_pos (destination d)) :: u64) = file_pos (destination d)"
    using pos by (intro unat_of_nat_less) simp
  show ?thesis unfolding DirSection_dump_dir_entry_def
    using f pos lb pw by (simp add: comp_simps set idx t stop bs) (unfold arr(2), intro exI conjI, (rule refl | simp)+)
qed

lemma flush_ok:
  assumes "unat (last_position_written_to_file d) \<le> length (inner b)" and "faults (destination d) = []"
    and "length (inner b) < 2 ^ 32"
    and "file_pos (destination d) = unat (destination_start_offset d) + unat (last_position_written_to_file d)"
  shows "\<exists>w. DirSection_write_to_file out_file_ops directory_pod None (d, b) =
      (Ok (), (d\<lparr>destination := w, last_position_written_to_file := Buffer_position b\<rparr>, b)) \<and> faults w = [] \<and>
      file_pos w = unat (destination_start_offset d) + unat (Buffer_position b)"
  using assms unfolding DirSection_write_to_file_def
  by (simp add: comp_simps slice_from_def Buffer_position_def unat_of_nat_less) (intro exI conjI, rule refl, simp_all)

lemma write_some_split:
  "DirSection_dump_dir_entry W D e p = (Ok (), q) \<Longrightarrow>
   DirSection_write_to_file W D (Some e) p = DirSection_write_to_file W D None q"
  by (simp add: DirSection_write_to_file_def bindM_def comp_simps)

lemma write_live_none: "live_at N P i i 0 (on_dir (DirSection_write_to_file out_file_ops directory_pod None))"
  unfolding live_at_def
proof (intro allI impI)
  fix s assume r: "ready_at N P i s" and len: "length (inner (dump_buffer s)) + 0 < 2 ^ 32"
  obtain d b rest where s: "s = ((d, b), rest)"
    using r unfolding ready_at_def by (cases s) auto
  from flush_ok [of d b] r len obtain w where
      wr: "DirSection_write_to_file out_file_ops directory_pod None (d, b) =
      (Ok (), (d\<lparr>destination := w, last_position_written_to_file := Buffer_position b\<rparr>, b))" "faults w = []"
      "file_pos w = unat (destination_start_offset d) + unat (Buffer_position b)"
    by (auto simp: ready_at_def s)
  show "\<exists>x s'. on_dir (DirSection_write_to_file out_file_ops directory_pod None) s = (Ok x, s') \<and> ready_at N P i s' \<and>
      length (inner (dump_buffer s')) \<le> length (inner (dump_buffer s)) + 0"
    using wr r len
    by (simp add: on_dir_def s ready_at_def Buffer_position_def unat_of_nat_less)
qed

lemma write_live_some:
  assumes "i < N" "N < 1000"
  shows "live_at N P i (Suc i) 0 (on_dir (DirSection_write_to_file out_file_ops directory_pod (Some e)))"
  unfolding live_at_def
proof (intro allI impI)
  fix s assume r: "ready_at N P i s" and len: "length (inner (dump_buffer s)) + 0 < 2 ^ 32"
  obtain d b rest where s: "s = ((d, b), rest)"
    using r unfolding ready_at_def by (cases s) auto
  from r len assms have "\<exists>w b'. DirSection_dump_dir_entry out_file_ops directory_pod e (d, b) =
      (Ok (), (d\<lparr>curr_idx := Suc i, destination := w\<rparr>, b')) \<and>
    length (inner b') = length (inner b) \<and> faults w = [] \<and> file_pos w = file_pos (destination d)"
    by (intro dump_dir_entry_ok [where N = N]) (auto simp: ready_at_def s)
  then obtain w b' where 1: "DirSection_dump_dir_entry out_file_ops directory_pod e (d, b) =
      (Ok (), (d\<lparr>curr_idx := Suc i, destination := w\<rparr>, b'))" "length (inner b') = length (inner b)" "faults w = []"
      "file_pos w = file_pos (destination d)" by blast
  let ?s = "((d\<lparr>curr_idx := Suc i, destination := w\<rparr>, b'), rest)"
  have "ready_at N P (Suc i) ?s" using r 1 by (simp add: ready_at_def s)
  then obtain x s' where 2: "on_dir (DirSection_write_to_file out_file_ops directory_pod None) ?s = (Ok x, s')" "ready_at N P (Suc i) s'"
      "length (inner (dump_buffer s')) \<le> length (inner b')"
    using write_live_none [of N P "Suc i"] len 1(2) unfolding live_at_def by (fastforce simp: s)
  have "on_dir (DirSection_write_to_file out_file_ops directory_pod (Some e)) s = on_dir (DirSection_write_to_file out_file_ops directory_pod None) ?s"
    using write_some_split [OF 1(1)] by (simp add: on_dir_def s)
  with 2 1(2) show "\<exists>x s'. on_dir (DirSection_write_to_file out_file_ops directory_pod (Some e)) s = (Ok x, s') \<and> ready_at N P (Suc i) s' \<and>
      length (inner (dump_buffer s')) \<le> length (inner (dump_buffer s)) + 0"
    by (auto simp: s)
qed

end
