(* ===== verification/Dump_Success.thy ===== *)
theory Dump_Success
  imports Write_Dump Live
begin

text \<open>
  That a dump is produced at all: on an output that does not fail, the writer finishes although every optional
  source of information is missing. \<open>ready\<close> and \<open>live\<close> are total correctness under a directory of 18 slots for a given dumper.
\<close>

abbreviation ready :: "MinidumpWriter \<Rightarrow> nat \<Rightarrow> out_file dump_state \<Rightarrow> bool" where
  "ready self \<equiv> ready_at 18 (\<lambda>(self', _). self' = self)"

abbreviation live :: "MinidumpWriter \<Rightarrow> nat \<Rightarrow> nat \<Rightarrow> nat \<Rightarrow> (out_file dump_state, 'a, 'e) comp \<Rightarrow> bool" where
  "live self \<equiv> live_at 18 (\<lambda>(self', _). self' = self)"

lemma live_with_writer: "live self i j n (f self) \<Longrightarrow> live self i j n (bindM (getM the_writer) f)"
  unfolding live_at_def
  by (auto simp: bindM_def getM_def the_writer_def ready_at_def split: prod.splits)

lemma live_push_soft: "live self i i 0 (push_soft errs)"
  by (auto simp: live_at_def push_soft_def modifyM_def ready_at_def split: prod.splits)

lemma flush_live_none: "live self i i 0 (flush_entry out_file_ops le_formats None)"
  unfolding flush_entry_def by (rule live_map_errM) (simp add: le_formats_def write_live_none)

lemma flush_live_some: "i < 18 \<Longrightarrow> live self i (Suc i) 0 (flush_entry out_file_ops le_formats (Some e))"
  unfolding flush_entry_def by (rule live_map_errM) (simp add: le_formats_def write_live_some)

section \<open>Streams of an unreadable process\<close>

text \<open>No thread could be suspended and no mapping was found.\<close>

definition blank :: "MinidumpWriter \<Rightarrow> bool" where
  "blank self \<longleftrightarrow> threads self = [] \<and> mappings self = [] \<and> user_mapping_list self = [] \<and> app_memory self = [] \<and>
     memory_blocks self = [] \<and> program_header_count (auxv self) = None"

text \<open>
  Next to nothing can be read. The maps files of the process and its threads are there but empty, which is what the kernel
  shows of a process whose memory is gone, in all three ways in which the source reads them: when mappings are
  enumerated, for the memory information and as a copy. Any other file, and these too, is unreadable or
  of moderate size; the descriptors cannot be listed, and the system does not tell its name or its processors.
\<close>

definition maps_empty :: "env \<Rightarrow> Pid \<Rightarrow> bool" where
  "maps_empty E i \<longleftrightarrow> (let p = ''/proc/'' @ int_string i @ ''/maps'' in
     open_maps E p = Ok (Ok []) \<and> maps_from_file E p = Ok [] \<and> read_file E p = Ok [])"

definition unreadable :: "env \<Rightarrow> bool" where
  "unreadable E \<longleftrightarrow> (\<forall>i. maps_empty E i) \<and>
     (\<forall>p. (\<exists>e. read_file E p = Err e) \<or> (\<exists>bs. read_file E p = Ok bs \<and> length bs \<le> 2 ^ 20)) \<and>
     (\<forall>i. \<exists>e. read_dir E (''/proc/'' @ int_string i @ ''/fd'') = Err e) \<and>
     (\<exists>e. uname E = Err e) \<and> (\<exists>e. cpuinfo_lines E = Err e) \<and> (\<exists>t. unix_time E = Ok t) \<and>
     (\<forall>errs. \<exists>t. to_json E errs = Ok t \<and> length t \<le> 2 ^ 20)"

lemma unreadable_maps: "unreadable E \<Longrightarrow> maps_from_file E (''/proc/'' @ int_string i @ ''/maps'') = Ok []"
  by (simp add: unreadable_def maps_empty_def Let_def)

definition fails :: "(Buffer, 'a, 'e) comp \<Rightarrow> bool" where
  "fails m \<longleftrightarrow> (\<forall>b. \<exists>e. m b = (Err e, b))"

lemma live_hard: "i < 18 \<Longrightarrow> live self i i n m \<Longrightarrow> live self i (Suc i) n (hard_stream out_file_ops le_formats m)"
  unfolding hard_stream_def using live_bindM [OF _ flush_live_some] by fastforce

lemma live_soft_fail:
  assumes "i < 18" and "fails m"
  shows "live self i (Suc i) 0 (soft_stream out_file_ops le_formats err m)"
proof -
  have "live self i i 0 (handleM (on_buffer m) ret (\<lambda>e. bindM (push_soft [err e]) (\<lambda>_. ret MDRawDirectory_default)))"
    unfolding live_at_def
  proof (intro allI impI)
    fix s assume r: "ready self i s"
    obtain d b rest where s: "s = ((d, b), rest)" by (metis prod.exhaust)
    obtain e where "m b = (Err e, b)" using assms(2) unfolding fails_def by blast
    then show "\<exists>x s'. handleM (on_buffer m) ret (\<lambda>e. bindM (push_soft [err e]) (\<lambda>_. ret MDRawDirectory_default)) s = (Ok x, s') \<and>
        ready self i s' \<and> length (inner (dump_buffer s')) \<le> length (inner (dump_buffer s)) + 0"
      using r by (auto simp: handleM_def on_buffer_def s bindM_def push_soft_def comp_simps ready_at_def split: prod.splits)
  qed
  from live_bindM [OF this flush_live_some [OF assms(1)]] show ?thesis unfolding soft_stream_def by simp
qed

lemma fails_bindM:
  assumes "fails m"
  shows "fails (bindM m f)"
  unfolding fails_def
proof
  fix b
  obtain e where "m b = (Err e, b)" using assms unfolding fails_def by blast
  then show "\<exists>e. bindM m f b = (Err e, b)" by (simp add: bindM_def)
qed

lemma fails_lift: "r = Err e \<Longrightarrow> fails (lift_result r)"
  by (simp add: fails_def comp_simps)

text \<open>A stream that fails without a trace or adds at most \<open>n\<close> bytes.\<close>

definition harmless :: "nat \<Rightarrow> (Buffer, 'a, 'e) comp \<Rightarrow> bool" where
  "harmless n m \<longleftrightarrow> fails m \<or> adds n m"

lemma live_soft_adds:
  assumes "i < 18" and "adds n m"
  shows "live self i (Suc i) n (soft_stream out_file_ops le_formats err m)"
proof -
  have "live self i i n (handleM (on_buffer m) ret (\<lambda>e. bindM (push_soft [err e]) (\<lambda>_. ret MDRawDirectory_default)))"
    using live_on_buffer [OF assms(2), of 18 "\<lambda>(self', _). self' = self" i]
    unfolding live_at_def handleM_def ret_def by fastforce
  from live_bindM [OF this flush_live_some [OF assms(1)]] show ?thesis unfolding soft_stream_def by simp
qed

lemma live_soft:
  assumes "i < 18" and "harmless n m"
  shows "live self i (Suc i) n (soft_stream out_file_ops le_formats err m)"
  using assms(2) live_soft_adds [OF assms(1)] live_weaken [OF live_soft_fail [OF assms(1)]]
  unfolding harmless_def by blast

lemma adds_then_ret: "adds n m \<Longrightarrow> adds n (bindM m (\<lambda>x. ret (f x)))"
  unfolding adds_def bindM_def ret_def by fastforce

lemma harmless_then_ret: "harmless n m \<Longrightarrow> harmless n (bindM m (\<lambda>x. ret (f x)))"
  unfolding harmless_def using fails_bindM adds_then_ret by blast

lemma harmless_file:
  assumes "unreadable E"
  shows "harmless (2 ^ 20) (write_file E f)"
proof (cases "\<exists>e. read_file E f = Err e")
  case True
  then have "fails (write_file E f)"
    unfolding write_file_def by (intro fails_bindM) (metis fails_lift map_err.simps(2))
  then show ?thesis by (simp add: harmless_def)
next
  case False
  then obtain bs where "read_file E f = Ok bs" "length bs \<le> 2 ^ 20" using assms unfolding unreadable_def by blast
  then have "adds (2 ^ 20) (write_file E f)"
    by (auto simp: adds_def write_file_def comp_simps write_bytesM_def MemoryArrayWriter_write_bytes_def Let_def Buffer_write_all_def)
  then show ?thesis by (simp add: harmless_def)
qed

lemma harmless_or_else:
  assumes "harmless n m" and "harmless n m'"
  shows "harmless n (handleM m ret (\<lambda>_. m'))"
proof (cases "adds n m")
  case True
  then have "adds n (handleM m ret (\<lambda>_. m'))" unfolding adds_def handleM_def ret_def by fastforce
  then show ?thesis by (simp add: harmless_def)
next
  case False
  with assms(1) have f: "fails m" by (simp add: harmless_def)
  have "handleM m ret (\<lambda>_. m') b = m' b" for b
  proof -
    obtain e where "m b = (Err e, b)" using f unfolding fails_def by blast
    then show ?thesis by (simp add: handleM_def)
  qed
  then show ?thesis using assms(2) by (simp add: harmless_def fails_def adds_def)
qed

lemma live_file:
  "i < 18 \<Longrightarrow> harmless n m \<Longrightarrow> live self i (Suc i) n (file_entry out_file_ops le_formats m t err)"
  unfolding file_entry_def by (intro live_soft harmless_then_ret)

lemma live_proc_file:
  "i < 18 \<Longrightarrow> unreadable E \<Longrightarrow> live self i (Suc i) (2 ^ 20) (proc_file_entry out_file_ops le_formats E f t err)"
  unfolding proc_file_entry_def by (intro live_with_writer live_file harmless_file)

lemma adds_map_errM: "adds n m \<Longrightarrow> adds n (map_errM g m)"
  unfolding adds_def map_errM_def by fastforce

lemma adds_eq: "(\<And>b. length (inner b) + n < 2 ^ 32 \<Longrightarrow> \<exists>x bs. m b = (Ok x, b\<lparr>inner := inner b @ bs\<rparr>) \<and> length bs \<le> n) \<Longrightarrow> adds n m"
  unfolding adds_def by fastforce

lemma le_codec_sizes [simp]:
  "f_memory le_formats = memory_pod" "f_module le_formats = module_pod" "f_thread le_formats = thread_pod"
  "f_exception le_formats = exception_pod" "f_memory_info_list le_formats = memory_info_list_pod"
  "f_memory_info le_formats = memory_info_pod" "f_thread_name le_formats = thread_name_pod"
  "f_system_info le_formats = system_info_pod" "f_header le_formats = header_pod" "f_directory le_formats = directory_pod"
  "size_with exception_pod = 168" "size_with system_info_pod = 56" "size_with memory_info_list_pod = 16" "size_with header_pod = 32"
  by (simp_all add: le_formats_def exception_pod_def system_info_pod_def memory_info_list_pod_def header_pod_def)

lemmas le_eqs = le_formats_codecs [THEN pod_codec.alloc_with_val_eq] le_formats_codecs [THEN pod_codec.alloc_from_array_eq]
  le_formats_codecs [THEN pod_codec.alloc_from_iter_eq] le_formats_codecs [THEN pod_codec.alloc_array_eq]
  le_formats_codecs [THEN pod_codec.length_pod_bytes] le_formats_codecs [THEN pod_codec.alloc_eq]

lemma adds_memory_list: "blank self \<Longrightarrow> adds 4 (write_memory_list_stream le_formats self)"
  by (rule adds_eq)
    (auto simp: write_memory_list_stream_def blank_def comp_simps u32c.alloc_with_val_eq le_eqs add_data_size_def add_w_def
      MemoryWriter_location_def MemoryArrayWriter_location_def)

lemma adds_mappings: "blank self \<Longrightarrow> adds 4 (write_mappings le_formats E self)"
  by (rule adds_eq)
    (auto simp: write_mappings_def blank_def comp_simps u32c.alloc_with_val_eq MemoryWriter_location_def)

lemma adds_exception: "adds 168 (write_exception_stream le_formats self)"
  by (rule adds_eq) (auto simp: write_exception_stream_def comp_simps le_eqs)

lemma adds_memory_info: "unreadable E \<Longrightarrow> adds 16 (write_memory_info_list_stream le_formats E self)"
  by (rule adds_eq)
    (auto simp: write_memory_info_list_stream_def unreadable_maps [simplified] comp_simps le_eqs add_data_size_def add_w_def
      MemoryWriter_location_def MemoryArrayWriter_location_def)

lemma adds_thread_names: "blank self \<Longrightarrow> adds 4 (write_thread_names_stream le_formats self)"
  by (rule adds_eq)
    (auto simp: write_thread_names_stream_def blank_def comp_simps u32c.alloc_with_val_eq le_eqs add_data_size_def add_w_def
      MemoryWriter_location_def MemoryArrayWriter_location_def)

lemma adds_soft_errors: "unreadable E \<Longrightarrow> adds (2 ^ 20) (write_soft_errors E errs)"
proof (rule adds_eq)
  fix b :: Buffer assume "unreadable E"
  then obtain t where "to_json E errs = Ok t" "length t \<le> 2 ^ 20" unfolding unreadable_def by blast
  then show "\<exists>x bs. write_soft_errors E errs b = (Ok x, b\<lparr>inner := inner b @ bs\<rparr>) \<and> length bs \<le> 2 ^ 20"
    by (auto simp: write_soft_errors_def comp_simps write_bytesM_def MemoryArrayWriter_write_bytes_def Let_def Buffer_write_all_def)
qed

lemma adds_systeminfo: "unreadable E \<Longrightarrow> adds 130 (write_systeminfo le_formats E)"
  unfolding adds_def
proof (intro allI impI)
  fix b :: Buffer assume u: "unreadable E" and len: "length (inner b) + 130 < 2 ^ 32"
  obtain e e' where u1: "uname E = Err e" and u2: "cpuinfo_lines E = Err e'" using u unfolding unreadable_def by blast
  define t where "t = ''Linux <unknown> <unknown> x86_64''"
  have n: "length (encode_utf16 t) = 32" by (simp add: t_def encode_utf16_def str_chars_def str_bytes_def utf16_units_def of_char_def)
  let ?b = "b\<lparr>inner := inner b @ replicate 56 0\<rparr>"
  have str: "write_string_to_location t ?b =
      (Ok \<lparr>data_size = 68, rva = word_of_nat (length (inner b) + 56)\<rparr>, ?b\<lparr>inner := inner ?b @ string_bytes t\<rparr>)"
    using write_string_to_location_eq [of ?b t] len n by simp
  have l: "length (string_bytes t) = 68" by (simp add: length_string_bytes n)
  let ?w = "\<lparr>mw_position = word_of_nat (length (inner b)), mw_size = 56\<rparr>" and ?b2 = "?b\<lparr>inner := inner ?b @ string_bytes t\<rparr>"
  have set: "\<exists>bs. MemoryWriter_set_value system_info_pod ?w v ?b2 = (Ok (), ?b2\<lparr>inner := bs\<rparr>) \<and> length bs = length (inner b) + 124" for v
  proof (rule exI, rule conjI)
    show "MemoryWriter_set_value system_info_pod ?w v ?b2 =
        (Ok (), ?b2\<lparr>inner := put_slice (inner ?b2) (unat (mw_position ?w)) (pod_bytes system_info_pod v)\<rparr>)"
      by (rule pod_codec.set_value_eq [OF le_formats_codecs(7)]) (use len in simp)
    show "length (put_slice (inner ?b2) (unat (mw_position ?w)) (pod_bytes system_info_pod v)) = length (inner b) + 124"
      using len l by (simp add: length_put_slice pod_codec.length_pod_bytes [OF le_formats_codecs(7)])
  qed
  define info where "info = snd (write_cpu_information le_formats E
     (MDRawSystemInfo_zeroed\<lparr>platform_id := platform_linux le_formats, csd_version_rva := word_of_nat (length (inner b) + 56)\<rparr>))"
  obtain bs where bs: "MemoryWriter_set_value system_info_pod ?w info ?b2 = (Ok (), ?b2\<lparr>inner := bs\<rparr>)" "length bs = length (inner b) + 124"
    using set by blast
  have os: "os_information le_formats E = (platform_linux le_formats, t)" by (simp add: os_information_def u1 t_def)
  show "\<exists>x b'. write_systeminfo le_formats E b = (Ok x, b') \<and> length (inner b) \<le> length (inner b') \<and>
      length (inner b') \<le> length (inner b) + 130"
    using bs str l
    by (simp add: write_systeminfo_def comp_simps os Let_def le_eqs info_def write_cpu_information_def u2)
qed

lemma fails_handle_data:
  assumes "unreadable E"
  shows "fails (write_handle_data_stream le_formats E self)"
proof -
  obtain e where "read_dir E (''/proc/'' @ int_string (process_id self) @ ''/fd'') = Err e"
    using assms unfolding unreadable_def by blast
  then show ?thesis unfolding write_handle_data_stream_def Let_def by (intro fails_bindM fails_lift) simp
qed

lemma fails_dso:
  assumes "blank self" and "write_dso_debug_stream F D E pid (auxv self) = Some dso"
  shows "fails dso"
  using assms by (auto simp: write_dso_debug_stream_def gather_dso_def find_debug_def blank_def fails_def comp_simps)

lemma dso_returns:
  assumes "blank self"
  shows "\<exists>dso. write_dso_debug_stream F D E pid (auxv self) = Some dso"
  using assms by (auto simp: write_dso_debug_stream_def gather_dso_def find_debug_def blank_def)

lemma thread_list_eq:
  assumes "blank self" and "length (inner b) + 4 < 2 ^ 32"
  shows "\<exists>e. write_thread_list_stream le_formats E (self, b) = (Ok e, (self, b\<lparr>inner := inner b @ pod_bytes u32_pod 0\<rparr>))"
  using assms
  by (auto simp: write_thread_list_stream_def blank_def comp_simps u32c.alloc_with_val_eq le_eqs add_data_size_def add_w_def
      MemoryWriter_location_def MemoryArrayWriter_location_def extra_stack_len_def LIMIT_MINIDUMP_FUDGE_FACTOR_def
      split: option.splits)

lemma live_thread_list:
  assumes "blank self"
  shows "live self i i 4 (on_writer (write_thread_list_stream le_formats E))"
  unfolding live_at_def
proof (intro allI impI)
  fix s :: "out_file dump_state" assume s: "ready self i s" "length (inner (dump_buffer s)) + 4 < 2 ^ 32"
  obtain d b errs where e: "s = ((d, b), (self, errs))" using s(1) unfolding ready_at_def by (cases s) auto
  obtain x where "write_thread_list_stream le_formats E (self, b) = (Ok x, (self, b\<lparr>inner := inner b @ pod_bytes u32_pod 0\<rparr>))"
    using thread_list_eq [OF assms] s(2) unfolding e by auto
  then show "\<exists>x s'. on_writer (write_thread_list_stream le_formats E) s = (Ok x, s') \<and> ready self i s' \<and>
      length (inner (dump_buffer s')) \<le> length (inner (dump_buffer s)) + 4"
    using s(1) by (auto simp: on_writer_def e ready_at_def u32c.length_pod_bytes)
qed

lemma live_app_memory: "blank self \<Longrightarrow> live self i i 0 (on_writer (write_app_memory E))"
  by (auto simp: live_at_def on_writer_def write_app_memory_def comp_simps ready_at_def blank_def split: prod.splits)

lemma live_getM_stream:
  "i < 18 \<Longrightarrow> adds n (m self) \<Longrightarrow>
   live self i (Suc i) n (hard_stream out_file_ops le_formats (bindM (getM the_writer) (\<lambda>self. map_errM g (on_buffer (m self)))))"
  by (intro live_hard live_with_writer live_map_errM live_on_buffer)

lemma live_system_info:
  assumes "unreadable E"
  shows "live self i i 130 (system_info_stream le_formats E)"
proof -
  have tail: "live self i i 0 (bindM (push_soft errs) (\<lambda>_. ret x))" for errs and x :: MDRawDirectory
    using live_bindM [OF live_push_soft live_ret] by simp
  have "live self i i (130 + 0) (system_info_stream le_formats E)"
    unfolding system_info_stream_def
  proof (rule live_bindM [OF live_map_errM [OF live_on_buffer [OF adds_systeminfo [OF assms]]]])
    fix x :: "MDRawDirectory \<times> SectionSystemInfoError list"
    show "live self i i 0 (case x of (dirent, errs) \<Rightarrow> bindM (push_soft (subwriter WriteSystemInfoErrors errs)) (\<lambda>_. ret dirent))"
      by (cases x) (simp add: tail)
  qed
  then show ?thesis by simp
qed

lemma live_soft_errors:
  assumes "unreadable E"
  shows "live self i i (2 ^ 20) (soft_errors_stream le_formats E)"
  unfolding live_at_def
proof (intro allI impI)
  fix s :: "out_file dump_state" assume s: "ready self i s" "length (inner (dump_buffer s)) + 2 ^ 20 < 2 ^ 32"
  obtain errs where e: "snd (snd s) = errs" by blast
  obtain x s' where "on_buffer (write_soft_errors E errs) s = (Ok x, s')" "ready self i s'"
      "length (inner (dump_buffer s')) \<le> length (inner (dump_buffer s)) + 2 ^ 20"
    using live_on_buffer [OF adds_soft_errors [OF assms], of 18 "\<lambda>(self', _). self' = self" i errs] s unfolding live_at_def by blast
  then show "\<exists>x s'. soft_errors_stream le_formats E s = (Ok x, s') \<and> ready self i s' \<and>
      length (inner (dump_buffer s')) \<le> length (inner (dump_buffer s)) + 2 ^ 20"
    using e by (auto simp: soft_errors_stream_def comp_simps handleM_def split: prod.splits)
qed

lemma live_core:
  assumes "blank self" and "unreadable E"
  shows "live self 0 6 326 (write_core_streams out_file_ops le_formats E)"
proof -
  have "live self 0 (Suc (Suc (Suc (Suc (Suc (Suc 0)))))) (0 + (4 + (4 + (0 + (0 + (4 + (168 + (130 + 16)))))))) (write_core_streams out_file_ops le_formats E)"
    unfolding write_core_streams_def
    by (rule live_bindM [OF flush_live_none] live_bindM [OF live_map_errM [OF live_app_memory [OF assms(1)]]]
        live_bindM [OF live_getM_stream] live_bindM [OF live_hard] live_hard live_map_errM live_thread_list live_getM_stream live_system_info
        adds_mappings adds_memory_list adds_exception adds_memory_info assms | simp)+
  moreover have "Suc (Suc (Suc (Suc (Suc (Suc 0))))) = 6" by simp
  ultimately show ?thesis by simp
qed

lemma live_files:
  assumes "unreadable E"
  shows "live self 6 13 (2 ^ 23) (write_file_streams out_file_ops le_formats E)"
proof -
  let ?n = "2 ^ 20 :: nat"
  have "live self 6 (Suc (Suc (Suc (Suc (Suc (Suc (Suc 6))))))) (?n + (?n + (?n + (?n + (?n + (?n + ?n))))))
      (write_file_streams out_file_ops le_formats E)"
    unfolding write_file_streams_def
    by (rule live_bindM [OF live_proc_file] live_bindM [OF live_file] live_proc_file harmless_or_else harmless_file assms | simp)+
  then have "live self 6 13 (?n + (?n + (?n + (?n + (?n + (?n + ?n)))))) (write_file_streams out_file_ops le_formats E)" by simp
  then show ?thesis by (rule live_weaken) simp
qed

lemma live_last:
  assumes "blank self" and "unreadable E" and "fails dso"
  shows "live self 13 18 (2 ^ 22) (write_last_streams out_file_ops le_formats E dso)"
proof -
  have "live self 13 (Suc (Suc (Suc (Suc (Suc 13))))) (0 + (2 ^ 20 + (4 + (0 + 2 ^ 20))))
      (write_last_streams out_file_ops le_formats E dso)"
    unfolding write_last_streams_def
    by (rule live_bindM [OF live_soft_fail] live_bindM [OF live_proc_file] live_bindM [OF live_getM_stream]
        live_bindM [OF live_with_writer [OF live_soft_fail]] live_hard live_soft_errors adds_thread_names fails_handle_data assms | simp)+
  then have "live self 13 18 (0 + (2 ^ 20 + (4 + (0 + 2 ^ 20)))) (write_last_streams out_file_ops le_formats E dso)" by simp
  then show ?thesis by (rule live_weaken) simp
qed

lemma live_streams:
  assumes "blank self" and "unreadable E" and "fails dso"
  shows "live self 0 18 (326 + (2 ^ 23 + 2 ^ 22)) (write_streams out_file_ops le_formats E dso)"
  unfolding write_streams_def by (rule live_bindM live_core live_files live_last assms)+

section \<open>The header\<close>

lemma write_header_ready:
  assumes "faults w = []" and "file_pos w < 2 ^ 32" and "unix_time E = Ok secs"
  shows "\<exists>d w' b. write_header out_file_ops le_formats E (w, \<lparr>inner = []\<rparr>) = (Ok d, (w', b)) \<and>
    ready self 0 ((d, b), (self, errs)) \<and> length (inner b) = 248"
proof -
  have set: "MemoryWriter_set_value header_pod \<lparr>mw_position = 0, mw_size = 32\<rparr> v \<lparr>inner = replicate 248 0\<rparr> =
      (Ok (), \<lparr>inner = put_slice (replicate 248 0) 0 (pod_bytes header_pod v)\<rparr>)" for v
    using lef.header pod_codec.set_value_eq [of header_pod "\<lparr>mw_position = 0, mw_size = 32\<rparr>" "\<lparr>inner = replicate 248 0\<rparr>" v] by simp
  have len: "length (put_slice (replicate 248 0) 0 (pod_bytes header_pod v)) = 248" for v
    using pod_codec.length_pod_bytes [OF lef.header] by (simp add: length_put_slice)
  have pos: "unat (word_of_nat (file_pos w) :: u64) = file_pos w" using assms(2) by (intro unat_of_nat_less) simp
  show ?thesis
    using assms pos len
    by (simp add: write_header_def DirSection_new_def comp_simps le_eqs num_writers_def out_file_ops_def next_fault_def set ready_at_def
        replicate_add [symmetric])
qed

text \<open>Both together: the dump of an unreadable process.\<close>

lemma unreadable_dump:
  assumes "blank self" and "unreadable E" and "faults w = []" and "file_pos w < 2 ^ 32"
  shows "\<exists>w' b. write_dump out_file_ops le_formats D E self errs (w, \<lparr>inner = []\<rparr>) = Some (Ok (), self, w', b) \<and>
    length (inner b) < 2 ^ 32"
proof -
  obtain secs where "unix_time E = Ok secs" using assms(2) unfolding unreadable_def by blast
  from write_header_ready [OF assms(3,4) this] obtain d w1 b where
      h: "write_header out_file_ops le_formats E (w, \<lparr>inner = []\<rparr>) = (Ok d, (w1, b))"
    and r: "ready self 0 ((d, b), (self, errs))" "length (inner b) = 248" by blast
  obtain dso where dso: "write_dso_debug_stream le_formats D E (process_id self) (auxv self) = Some dso"
    using dso_returns [OF assms(1)] by blast
  from live_streams [OF assms(1,2) fails_dso [OF assms(1) dso]] r obtain x s' where
      st: "write_streams out_file_ops le_formats E dso ((d, b), (self, errs)) = (Ok x, s')" "ready self 18 s'"
      "length (inner (dump_buffer s')) \<le> 248 + (326 + (2 ^ 23 + 2 ^ 22))"
    unfolding live_at_def by fastforce
  obtain d' b' errs' where s': "s' = ((d', b'), (self, errs'))" using st(2) unfolding ready_at_def by (cases s') auto
  show ?thesis using st h dso by (simp add: write_dump_def s')
qed

section \<open>A target that can hardly be read\<close>

definition ex_dso :: dso_sys where
  "ex_dso = \<lparr>phdrs_from_bytes = (\<lambda>bs n. if length bs < SIZEOF_PHDR * n then None else Some (map (\<lambda>i. ph_le64 bs (SIZEOF_PHDR * i)) [0..<n])),
     dyn_of_bytes = (\<lambda>bs. \<lparr>d_tag = word_at 8 0 bs, d_val = word_at 8 8 bs\<rparr>)\<rparr>"

definition ex_dumper :: MinidumpWriter where
  "ex_dumper = MinidumpWriterConfig_build (MinidumpWriterConfig_new 42 42)"

definition ex_output :: out_file where
  "ex_output = \<lparr>file_bytes = [1, 2, 3], file_pos = 3, faults = []\<rparr>"

lemma unreadable_ex_env: "unreadable ex_env"
  by (simp add: unreadable_def maps_empty_def ex_env_def)

lemma blank_ex_dumper: "blank ex_dumper"
  by (simp add: blank_def ex_dumper_def MinidumpWriterConfig_build_def MinidumpWriterConfig_new_def AuxvDumpInfo_default_def)

section \<open>The finished dump\<close>

text \<open>
  C1. A dump that succeeds is complete and well formed. If \<open>write_dump\<close> returns \<open>Ok\<close> and the dump is below 4 GiB, the output
  holds from its starting position on exactly the bytes of the buffer and nothing before it has changed; the dump starts with
  the header, which names 18 streams and the directory right behind it; and the 18 slots of the directory hold
  entries of the streams in their fixed order, where a stream that may fail without ending the dump has its own type or
  the empty entry.
\<close>

theorem dump_complete:
  assumes "dump_output F W content cursor"
    and "write_dump W F D E self errs (w, \<lparr>inner = []\<rparr>) = Some (Ok (), self', w', b)"
    and "length (inner b) < 2 ^ 32" and "cursor w \<le> length (content w)"
  shows "take (cursor w) (content w') = take (cursor w) (content w) \<and>
    take (length (inner b)) (drop (cursor w) (content w')) = inner b \<and>
    (\<exists>secs. unix_time E = Ok secs \<and> take (size_with (f_header F)) (inner b) =
      pod_bytes (f_header F) (dump_header F (word_of_nat (size_with (f_header F))) secs)) \<and>
    (\<exists>es0. length es0 = 18 \<and> list_all2 (\<lambda>k e. stream_type e \<in> k) (dump_kinds F) es0 \<and>
      (\<forall>i < 18. take (size_with (f_directory F)) (drop (size_with (f_header F) + size_with (f_directory F) * i) (inner b)) =
        pod_bytes (f_directory F) (es0 ! i)))"
proof -
  obtain d0 w0 b0 es0 d secs where
      new: "DirSection_new W (f_directory F) num_writers (w, \<lparr>inner = replicate (size_with (f_header F)) 0\<rparr>) = (Ok d0, (w0, b0))"
    and start: "unat (maw_position (dir_array d0)) = size_with (f_header F)"
    and run: "dir_run W (f_directory F) (d0, b0) es0 (d, b)" and w': "destination d = w'"
    and fl: "unat (last_position_written_to_file d) = length (inner b)"
    and kinds: "list_all2 (\<lambda>k e. stream_type e \<in> k) (dump_kinds F) es0"
    and hdr: "unix_time E = Ok secs"
      "take (size_with (f_header F)) (inner b) = pod_bytes (f_header F) (dump_header F (word_of_nat (size_with (f_header F))) secs)"
    using dump_output.dump_run [OF assms(1,2,3)] by blast
  have n: "length es0 = 18" using list_all2_lengthD [OF kinds] by (simp add: dump_kinds_def)
  note fin = dump_output.finished_dump [OF assms(1) new start run fl assms(3,4)]
  show ?thesis unfolding w' [symmetric]
    using fin(1,2) hdr kinds n fin(3) by (intro conjI exI [of _ secs] exI [of _ es0] allI impI) simp_all
qed

theorem dump_complete_witness:
  "\<exists>w' b. write_dump out_file_ops le_formats ex_dso ex_env ex_dumper [] (ex_output, \<lparr>inner = []\<rparr>) = Some (Ok (), ex_dumper, w', b) \<and>
    take 3 (file_bytes w') = [1, 2, 3] \<and> take (length (inner b)) (drop 3 (file_bytes w')) = inner b"
proof -
  obtain w' b where run: "write_dump out_file_ops le_formats ex_dso ex_env ex_dumper [] (ex_output, \<lparr>inner = []\<rparr>) =
      Some (Ok (), ex_dumper, w', b)" "length (inner b) < 2 ^ 32"
    using unreadable_dump [OF blank_ex_dumper unreadable_ex_env, of ex_output ex_dso "[]"] by (auto simp: ex_output_def)
  show ?thesis
    using dump_complete [OF dumpf.dump_output_axioms run] run(1) by (auto simp: ex_output_def)
qed

section \<open>Best effort\<close>

text \<open>
  The auxiliary vector cannot be opened; the task directory is whatever it is. (A service does not panic.) Whatever threads are
  listed, none can be attached to.
\<close>

definition sealed :: "env \<Rightarrow> bool" where
  "sealed E \<longleftrightarrow> (\<forall>p. \<exists>e. open_auxv E p = Err e) \<and> (\<forall>p. read_dir E p \<noteq> Panic) \<and> (\<exists>n. sysconf_page_size E = Ok (Some n))"

definition attaches_none :: "'k proc_sys \<Rightarrow> bool" where
  "attaches_none K \<longleftrightarrow> (\<forall>t k. \<exists>e. fst (attach K t k) = Inl e)"

lemma init_threads_any:
  assumes "\<forall>p. read_dir E p \<noteq> Panic"
  shows "\<exists>ts errs'. init_threads E (self, errs) = (Ok (), (self\<lparr>threads := ts\<rparr>, errs'))"
proof -
  let ?p = "''/proc/'' @ int_string (process_id self) @ ''/task''"
  obtain ts errs0 r where e: "enumerate_threads E (self, []) = (r, (self\<lparr>threads := ts\<rparr>, errs0))" and r: "r \<noteq> Panic"
  proof (cases "is_dir E ?p \<and> (\<exists>l. read_dir E ?p = Ok l)")
    case True
    then obtain l where l: "is_dir E ?p" "read_dir E ?p = Ok l" by blast
    obtain ts errs0 where "thread_entries E (process_id self) l = (ts, errs0)" by (metis prod.exhaust)
    with l show thesis by (intro that [of "Ok ()" "threads self @ ts" errs0]) (simp_all add: enumerate_threads_def Let_def)
  next
    case False
    then have "\<exists>e. enumerate_threads E (self, []) = (Err e, (self, []))"
      using assms by (cases "read_dir E ?p") (auto simp: enumerate_threads_def Let_def)
    then show thesis using that [of "Err _" "threads self" "[]"] by auto
  qed
  then show ?thesis by (cases r) (auto simp: init_threads_def handleM_def comp_simps push_error_def)
qed

lemma init_gather_sealed:
  assumes "sealed E" and "maps_empty E (process_id self)" and "blank self"
  shows "\<exists>n ts errs'. init_gather E (self, errs) = (Ok (), (self\<lparr>threads := ts, page_size := n\<rparr>, errs'))"
proof -
  have c: "\<not> is_complete (auxv self)" and ms: "mappings self = []" using assms(3) by (simp_all add: blank_def is_complete_def)
  obtain e1 where a: "open_auxv E (''/proc/'' @ int_string (process_id self) @ ''/auxv'') = Err e1"
    using assms(1) unfolding sealed_def by blast
  obtain n where n: "sysconf_page_size E = Ok (Some n)" using assms(1) unfolding sealed_def by blast
  obtain errs1 where 1: "fill_auxv E (self, errs) = (Ok (), (self, errs1))"
    using a c by (simp add: fill_auxv_def try_filling_missing_info_def push_error_def comp_simps handleM_def subwriter_def)
  obtain ts errs2 where 2: "init_threads E (self, errs1) = (Ok (), (self\<lparr>threads := ts\<rparr>, errs2))"
    using init_threads_any assms(1) unfolding sealed_def by blast
  have 3: "init_mappings E (self\<lparr>threads := ts\<rparr>, errs2) = (Ok (), (self\<lparr>threads := ts\<rparr>, errs2))"
    using assms(2) ms
    by (auto simp: init_mappings_def enumerate_mappings_def maps_empty_def Let_def aggregate_def comp_simps handleM_def on_fst_def
        split: option.splits)
  show ?thesis using n by (auto simp: init_gather_def comp_simps 1 2 3 init_page_size_def)
qed

lemma retain_none: "attaches_none K \<Longrightarrow> \<exists>errs k'. retain_suspended K E ts k = Some ([], errs, k')"
proof (induction ts arbitrary: k)
  case (Cons t ts)
  obtain e k1 where "attach K (tid t) k = (Inl e, k1)" using Cons.prems unfolding attaches_none_def by (metis prod.collapse)
  with Cons.IH [OF Cons.prems, of k1] show ?case by (auto simp: suspend_thread_def)
qed simp

lemma init_sealed:
  assumes "sealed E" and "maps_empty E (process_id self)" and "blank self" and "attaches_none K" and "process_id self \<noteq> sint (own_pid E)"
    and "stop_process K self (stop_timeout self) k = Some (r, k1)" and "r \<noteq> Panic" and "\<not> skip_stacks_if_mapping_unreferenced self"
  shows "\<exists>n errs k2. init K E self k = Some (Ok (), (self\<lparr>threads := [], page_size := n, threads_suspended := True\<rparr>, errs), k2)"
proof -
  obtain n ts errs where g: "init_gather E (self, (case r of Err e \<Rightarrow> [StopProcessFailed e] | _ \<Rightarrow> [])) =
      (Ok (), (self\<lparr>threads := ts, page_size := n\<rparr>, errs))"
    using init_gather_sealed [OF assms(1,2,3)] by blast
  obtain serrs k2 where "retain_suspended K E ts k1 = Some ([], serrs, k2)" using retain_none [OF assms(4)] by blast
  then show ?thesis using assms(5-8) g
    by (intro exI [of _ n]) (simp add: init_def suspend_threads_def Let_def init_principal_def comp_simps)
qed

text \<open>
  C2. A dump is produced even if next to nothing can be learned about the target: when its maps file can be read but is
  empty, its other files are unreadable or of moderate size, its descriptors and auxiliary vector cannot be read, no thread
  that the task directory may list can be attached to, the system does not tell its name, and the signal that stops the
  process fails or not, \<open>MinidumpWriterConfig::write\<close> with a fresh configuration still succeeds on an output that does not
  fail, and returns a dump below 4 GiB. (The maps file is the one source that must be readable, see below; that
  stopping the process does not panic depends on the clock only.)
\<close>

theorem best_effort_dump:
  assumes "unreadable E" and "sealed E" and "attaches_none K" and "pid \<noteq> sint (own_pid E)"
    and "stop_process K (MinidumpWriterConfig_build (MinidumpWriterConfig_new pid blamed)) STOP_TIMEOUT k = Some (r, k1)" and "r \<noteq> Panic"
    and "faults w = []" and "file_pos w < 2 ^ 32"
  shows "\<exists>image w' k'. MinidumpWriterConfig_write K out_file_ops le_formats D E (MinidumpWriterConfig_new pid blamed) (w, k) =
    Some (Ok image, w', k') \<and> length image < 2 ^ 32"
proof -
  let ?self = "MinidumpWriterConfig_build (MinidumpWriterConfig_new pid blamed)"
  have b: "blank ?self" and id: "process_id ?self = pid" "stop_timeout ?self = STOP_TIMEOUT" "\<not> skip_stacks_if_mapping_unreferenced ?self"
    by (simp_all add: blank_def MinidumpWriterConfig_build_def MinidumpWriterConfig_new_def AuxvDumpInfo_default_def)
  have m: "maps_empty E (process_id ?self)" using assms(1) by (simp add: unreadable_def)
  obtain n errs k2 where i: "init K E ?self k = Some (Ok (), (?self\<lparr>threads := [], page_size := n, threads_suspended := True\<rparr>, errs), k2)"
    using init_sealed [OF assms(2) m b assms(3), of k r k1] assms(4,5,6) id by auto
  let ?self2 = "?self\<lparr>threads := [], page_size := n, threads_suspended := True\<rparr>"
  have "blank ?self2" using b by (simp add: blank_def)
  then obtain w' bf where "write_dump out_file_ops le_formats D E ?self2 (subwriter InitErrors errs) (w, \<lparr>inner = []\<rparr>) =
      Some (Ok (), ?self2, w', bf)" "length (inner bf) < 2 ^ 32"
    using unreadable_dump [OF _ assms(1,7,8)] by blast
  with i show ?thesis by (simp add: MinidumpWriterConfig_write_def Buffer_with_capacity_def)
qed

text \<open>A kernel that refuses everything, and a process without memory whose only thread is still listed.\<close>

definition ex_refusing :: "unit proc_sys" where
  "ex_refusing = \<lparr>attach = (\<lambda>_ k. (Inl 1, k)), waitpid = (\<lambda>_ k. (Inl 10, k)), cont = (\<lambda>_ _ k. (Inl 3, k)),
     detach = (\<lambda>_ k. (Inl 3, k)), kill = (\<lambda>_ _ k. (Inl 1, k)), stat_stopped = (\<lambda>_ k. (Inr False, k)),
     now = (\<lambda>k. (0, k)), sleep = (\<lambda>_ k. k)\<rparr>"

definition ex_zombie_env :: env where
  "ex_zombie_env = ex_env\<lparr>is_dir := \<lambda>_. True,
     read_dir := \<lambda>p. if take 5 (rev p) = rev ''/task'' then Ok [Ok ''42''] else Err (OsError 13)\<rparr>"

theorem best_effort_dump_witness:
  "\<exists>image w' k'. MinidumpWriterConfig_write ex_refusing out_file_ops le_formats ex_dso ex_zombie_env (MinidumpWriterConfig_new 42 42) (ex_output, ()) =
    Some (Ok image, w', k') \<and> length image < 2 ^ 32"
proof (rule best_effort_dump)
  show "unreadable ex_zombie_env" using unreadable_ex_env by (simp add: unreadable_def maps_empty_def ex_zombie_env_def)
  show "sealed ex_zombie_env" by (simp add: sealed_def ex_zombie_env_def ex_env_def)
  show "stop_process ex_refusing (MinidumpWriterConfig_build (MinidumpWriterConfig_new 42 42)) STOP_TIMEOUT () = Some (Err (Stop 1), ())"
    by (simp add: stop_process_def ex_refusing_def)
qed (simp_all add: ex_zombie_env_def ex_env_def ex_refusing_def ex_output_def attaches_none_def)

section \<open>Without maps there is no dump\<close>

definition never_Ok :: "('s, 'a, 'e) comp \<Rightarrow> bool" where
  "never_Ok m \<longleftrightarrow> (\<forall>s x s'. m s \<noteq> (Ok x, s'))"

lemma never_Ok_first: "never_Ok m \<Longrightarrow> never_Ok (bindM m f)"
  by (auto simp: never_Ok_def bindM_def split: prod.splits result.splits)

lemma never_Ok_then: "(\<And>x. never_Ok (f x)) \<Longrightarrow> never_Ok (bindM m f)"
  by (auto simp: never_Ok_def bindM_def split: prod.splits result.splits)

lemma never_Ok_on_buffer: "never_Ok m \<Longrightarrow> never_Ok (map_errM g (on_buffer m))"
  by (auto simp: never_Ok_def map_errM_def on_buffer_def split: prod.splits)

lemma memory_info_needs_maps:
  assumes "\<forall>p. \<exists>e. maps_from_file E p = Err e"
  shows "never_Ok (write_memory_info_list_stream F E self)"
proof -
  obtain e where "maps_from_file E (''/proc/'' @ int_string (blamed_thread self) @ ''/maps'') = Err e" using assms by blast
  then show ?thesis unfolding write_memory_info_list_stream_def
    by (intro never_Ok_first) (simp add: never_Ok_def comp_simps)
qed

lemma streams_need_maps:
  assumes "\<forall>p. \<exists>e. maps_from_file E p = Err e"
  shows "never_Ok (write_streams W F E dso)"
proof -
  have "never_Ok (hard_stream W F (bindM (getM the_writer) (\<lambda>self.
      map_errM WriterError_SectionMemoryInfoListError (on_buffer (write_memory_info_list_stream F E self)))))"
    unfolding hard_stream_def by (intro never_Ok_first never_Ok_then never_Ok_on_buffer memory_info_needs_maps assms)
  then have "never_Ok (write_core_streams W F E)" unfolding write_core_streams_def by (intro never_Ok_then)
  then show ?thesis unfolding write_streams_def by (rule never_Ok_first)
qed

text \<open>
  The maps file is the exception to the best effort: while \<open>init\<close> goes on when the mappings cannot be enumerated, the memory
  information stream reads the same file again and its failure ends the dump. So no call of \<open>MinidumpWriterConfig::write\<close>
  succeeds, with any configuration, if no maps file can be read.
\<close>

theorem no_dump_without_maps:
  assumes "\<forall>p. \<exists>e. maps_from_file E p = Err e"
  shows "MinidumpWriterConfig_write K W F D E config s \<noteq> Some (Ok dump, rest)"
proof
  assume run: "MinidumpWriterConfig_write K W F D E config s = Some (Ok dump, rest)"
  have none: "write_dump W F D E self errs s \<noteq> Some (Ok u, self', w', b')" for self errs s u self' w' b'
    using streams_need_maps [OF assms, of W F]
    by (auto simp: write_dump_def never_Ok_def split: prod.splits result.splits)
  from run show False
    by (auto simp: MinidumpWriterConfig_write_def bind_eq_Some_conv bindR_Ok_iff none split: prod.splits result.splits)
      (metis old.unit.exhaust result.exhaust)
qed

theorem no_dump_without_maps_witness:
  "MinidumpWriterConfig_write ex_refusing out_file_ops le_formats ex_dso (ex_env\<lparr>maps_from_file := \<lambda>_. Err ''EACCES''\<rparr>)
     (MinidumpWriterConfig_new 42 42) (ex_output, ()) \<noteq> Some (Ok [], (ex_output, ()))"
  by (rule no_dump_without_maps) simp

end
