(* ===== verification/Release.thy ===== *)
theory Release
  imports Dump_Success
begin

text \<open>
  What the writer does to the target process: that every thread it attached to is detached again and the process continued on
  every way out of \<open>MinidumpWriterConfig::write\<close>, and that waiting for the process to stop ends.

  The kernel is seen through two laws. \<open>ptrace_laws\<close> follows \<open>ptrace(2)\<close> and \<open>waitpid(2)\<close>: \<open>traced\<close> are the threads
  attached to, \<open>running\<close> those of them that are not known to be stopped. A thread may disappear at any time. A wait that is not
  interrupted reports a stop, or that the thread has ended (the only other statuses without \<open>WNOHANG\<close>, \<open>WCONTINUED\<close> and
  ptrace options), or it fails: there is no such tracee, or the thread has been stopped by a signal that nix has no name for,
  such as a real-time signal, and is still traced. To continue a stopped thread with the signal that was reported fails only
  if the thread is gone (\<open>ESRCH\<close>). \<open>clock_laws\<close> is about the monotonic clock.
\<close>

section \<open>Tracing\<close>

locale ptrace_laws =
  fixes K :: "'k proc_sys" and traced running :: "'k \<Rightarrow> Pid set"
  assumes running_traced: "running k \<subseteq> traced k"
    and attached: "attach K t k = (Inr u, k') \<Longrightarrow> traced k' \<subseteq> insert t (traced k) \<and> running k' \<subseteq> insert t (running k)"
    and not_attached: "attach K t k = (Inl e, k') \<Longrightarrow> traced k' \<subseteq> traced k \<and> running k' \<subseteq> running k"
    and waits: "waitpid K t k = (r, k') \<Longrightarrow> traced k' \<subseteq> traced k \<and> running k' \<subseteq> running k"
    and wait_stopped: "waitpid K t k = (Inr (Stopped sig), k') \<Longrightarrow> t \<notin> running k'"
    and wait_ended: "waitpid K t k = (Inr OtherStatus, k') \<Longrightarrow> t \<notin> traced k'"
    and wait_failed: "waitpid K t k = (Inl e, k') \<Longrightarrow> e \<noteq> EINTR \<Longrightarrow> t \<notin> running k'"
    and continues: "cont K t sig k = (r2, k') \<Longrightarrow> traced k' \<subseteq> traced k \<and> running k' \<subseteq> insert t (running k)"
    and cont_failed: "cont K t sig k = (Inl e, k') \<Longrightarrow> t \<notin> running k \<Longrightarrow> t \<notin> traced k'"
    and detaches: "detach K t k = (r2, k') \<Longrightarrow> traced k' \<subseteq> traced k \<and> running k' \<subseteq> running k"
    and detached: "detach K t k = (r2, k') \<Longrightarrow> t \<notin> running k \<Longrightarrow> t \<notin> traced k'"
    and kills: "kill K p sig k = (r2, k') \<Longrightarrow> traced k' \<subseteq> traced k \<and> running k' \<subseteq> running k"
    and stats: "stat_stopped K path k = (r', k') \<Longrightarrow> traced k' \<subseteq> traced k \<and> running k' \<subseteq> running k"
    and clocks: "now K k = (m, k') \<Longrightarrow> traced k' \<subseteq> traced k \<and> running k' \<subseteq> running k"
    and sleeps: "traced (sleep K d k) \<subseteq> traced k \<and> running (sleep K d k) \<subseteq> running k"
begin

lemma detach_once:
  assumes "ptrace_detach K t k = (r, k')"
  shows "traced k' \<subseteq> traced k" and "running k' \<subseteq> running k" and "t \<notin> running k \<Longrightarrow> t \<notin> traced k'"
  using assms detaches [of t k] detached [of t k]
  by (auto simp: ptrace_detach_def split: prod.splits sum.splits if_splits)

lemma detach_then_traced:
  assumes "detach_then K t e k = (r, k')"
  shows "r \<noteq> Inr ()" and "traced k' \<subseteq> traced k" and "running k' \<subseteq> running k" and "t \<notin> running k \<or> t \<notin> traced k \<Longrightarrow> t \<notin> traced k'"
  using assms detach_once [of t k] by (auto simp: detach_then_def split: prod.splits sum.splits)

text \<open>Waiting: the thread is stopped afterwards, or it is not traced any more.\<close>

definition waited :: "Pid \<Rightarrow> 'k \<Rightarrow> (WriterError + unit) \<times> 'k \<Rightarrow> bool" where
  "waited t k y \<longleftrightarrow> traced (snd y) \<subseteq> traced k \<and> running (snd y) - {t} \<subseteq> running k \<and>
     (case fst y of Inr _ \<Rightarrow> t \<notin> running (snd y) | Inl _ \<Rightarrow> t \<notin> traced (snd y))"

lemma waited_later:
  assumes "waited t k1 y" and "traced k1 \<subseteq> traced k" and "running k1 \<subseteq> insert t (running k)"
  shows "waited t k y"
  using assms by (auto simp: waited_def split: sum.splits)

lemma waited_detach:
  assumes "waitpid K t k = (Inl e, k1)" and "e \<noteq> EINTR"
  shows "waited t k (detach_then K t (WaitPidError t e) k1)"
proof -
  obtain r k' where d: "detach_then K t (WaitPidError t e) k1 = (r, k')" by (metis prod.exhaust)
  show ?thesis
    using detach_then_traced [OF d] waits [OF assms(1)] wait_failed [OF assms]
    by (cases r) (auto simp: waited_def d)
qed

lemma suspend_wait_waited:
  assumes "suspend_wait K t k = Some y"
  shows "waited t k y"
proof -
  have "K = K \<longrightarrow> waited t k y"
  proof (rule suspend_wait.raw_induct [where P = "\<lambda>K' t k y. K' = K \<longrightarrow> waited t k y", OF _ assms], rule impI)
    fix w K' t k y
    assume IH: "\<And>K' t k y. w K' t k = Some y \<Longrightarrow> K' = K \<longrightarrow> waited t k y" and "K' = K"
      and run: "(case waitpid K' t k of
        (Inl e, k1) \<Rightarrow> if e = EINTR then w K' t k1 else Some (detach_then K' t (WaitPidError t e) k1)
      | (Inr (Stopped sig), k1) \<Rightarrow>
          if sig = SIGSTOP then Some (Inr (), k1)
          else case cont K' t sig k1 of (Inl e, k2) \<Rightarrow> Some (Inl (WaitPidError t e), k2) | (Inr x, k2) \<Rightarrow> w K' t k2
      | (Inr OtherStatus, k1) \<Rightarrow> Some (Inl (WaitPidError t UnknownErrno), k1)) = Some y"
    obtain s k1 where wp: "waitpid K t k = (s, k1)" by (metis prod.exhaust)
    note w = waits [OF wp]
    note run = run [unfolded \<open>K' = K\<close> wp]
    consider (err) e where "s = Inl e" | (stop) sig where "s = Inr (Stopped sig)" | (other) "s = Inr OtherStatus"
      by (metis WaitStatus.exhaust sum.exhaust)
    then show "waited t k y"
    proof cases
      case err
      show ?thesis
      proof (cases "e = EINTR")
        case True
        then have "waited t k1 y" using IH [of K t k1 y] run err by simp
        then show ?thesis by (rule waited_later) (use w in auto)
      qed (use run err waited_detach [of t k e k1] wp in auto)
    next
      case stop
      have st: "t \<notin> running k1" using wait_stopped wp stop by blast
      obtain c k2 where c: "cont K t sig k1 = (c, k2)" by (metis prod.exhaust)
      show ?thesis
      proof (cases "sig = SIGSTOP")
        case True
        then show ?thesis using run stop st w by (auto simp: waited_def)
      next
        case False
        show ?thesis
        proof (cases c)
          case (Inl e)
          then have "t \<notin> traced k2" using cont_failed c st by blast
          then show ?thesis using run stop False Inl c w continues [OF c] by (auto simp: waited_def)
        next
          case (Inr u)
          then have "waited t k2 y" using IH [of K t k2 y] run stop False c by simp
          then show ?thesis by (rule waited_later) (use w continues [OF c] in auto)
        qed
      qed
    next
      case other
      then show ?thesis using run w wait_ended wp by (auto simp: waited_def)
    qed
  qed
  then show ?thesis by simp
qed

lemma suspend_thread_traced:
  assumes "suspend_thread K E t k = Some (r, k')"
  shows "running k' \<subseteq> running k" and "traced k' \<subseteq> (case r of Inr _ \<Rightarrow> insert t (traced k) | Inl _ \<Rightarrow> traced k)"
proof -
  obtain a k1 where a: "attach K t k = (a, k1)" by (metis prod.exhaust)
  have "running k' \<subseteq> running k \<and> traced k' \<subseteq> (case r of Inr _ \<Rightarrow> insert t (traced k) | Inl _ \<Rightarrow> traced k)"
  proof (cases a)
    case (Inl e)
    then show ?thesis using assms a not_attached [of t k e k1] by (auto simp: suspend_thread_def)
  next
    case (Inr u)
    note at = attached [OF a [unfolded Inr]]
    obtain q k2 where w: "suspend_wait K t k1 = Some (q, k2)"
      and rest: "(r, k') = (case q of Inl e \<Rightarrow> (Inl e, k2)
        | Inr _ \<Rightarrow> if skip_thread E t then detach_then K t (DetachSkippedThread t) k2 else (Inr (), k2))"
      using assms a Inr by (auto simp: suspend_thread_def bind_eq_Some_conv)
    have wt: "waited t k1 (q, k2)" by (rule suspend_wait_waited [OF w])
    have run2: "t \<notin> running k2" using wt running_traced [of k2] by (auto simp: waited_def split: sum.splits)
    have sub: "running k2 \<subseteq> running k" "traced k2 \<subseteq> insert t (traced k)"
      using wt at run2 unfolding waited_def by auto
    show ?thesis
    proof (cases "\<exists>v. q = Inr v \<and> skip_thread E t")
      case True
      then have d: "detach_then K t (DetachSkippedThread t) k2 = (r, k')" using rest by (auto split: sum.splits)
      show ?thesis using detach_then_traced [OF d] run2 sub by (cases r) auto
    next
      case False
      then show ?thesis using rest wt sub by (auto simp: waited_def split: sum.splits)
    qed
  qed
  then show "running k' \<subseteq> running k" and "traced k' \<subseteq> (case r of Inr _ \<Rightarrow> insert t (traced k) | Inl _ \<Rightarrow> traced k)" by auto
qed

lemma retain_traced:
  "retain_suspended K E ts k = Some (kept, errs, k') \<Longrightarrow>
   running k' \<subseteq> running k \<and> traced k' \<subseteq> traced k \<union> tid ` set kept"
proof (induction ts arbitrary: k kept errs)
  case (Cons t ts)
  from Cons.prems obtain r k1 where s: "suspend_thread K E (tid t) k = Some (r, k1)"
    by (cases "suspend_thread K E (tid t) k") auto
  from Cons.prems obtain kept1 errs1 where rest: "retain_suspended K E ts k1 = Some (kept1, errs1, k')"
    and kept: "kept = (case r of Inr _ \<Rightarrow> t # kept1 | Inl _ \<Rightarrow> kept1)"
    by (cases r; cases "retain_suspended K E ts k1") (auto simp: s)
  show ?case using Cons.IH [OF rest] suspend_thread_traced [OF s] kept by (cases r) auto
qed simp

lemma resume_all_traced:
  "resume_all K ts k = (errs, k') \<Longrightarrow> running k = {} \<Longrightarrow> running k' = {} \<and> traced k' \<subseteq> traced k - tid ` set ts"
proof (induction ts arbitrary: k errs)
  case (Cons t ts)
  obtain r k1 errs1 where d: "ptrace_detach K (tid t) k = (r, k1)" and rest: "resume_all K ts k1 = (errs1, k')"
    using Cons.prems(1) by (auto simp: resume_thread_def split: prod.splits sum.splits)
  note dt = detach_once [OF d]
  show ?case using Cons.IH [OF rest] dt Cons.prems(2) by auto
qed simp

lemma drop_traced:
  assumes "running k = {}" and "traced k \<subseteq> (if threads_suspended self then tid ` set (threads self) else {})"
  shows "\<exists>k2. traced k2 = {} \<and> drop_writer K self k = snd (kill K (process_id self) SIGCONT k2)"
proof -
  obtain errs k2 where r: "(if threads_suspended self then resume_all K (threads self) k else ([], k)) = (errs, k2)"
    by (metis prod.exhaust)
  have "traced k2 = {}"
    using r assms resume_all_traced [of "threads self" k errs k2] by (auto split: if_splits)
  moreover have "drop_writer K self k = snd (kill K (process_id self) SIGCONT k2)"
    using r by (auto simp: drop_writer_def resume_threads_def continue_process_def split: prod.splits sum.splits)
  ultimately show ?thesis by blast
qed

lemma stop_poll_traced:
  assumes "stop_poll K path stop k = Some y"
  shows "traced (snd y) \<subseteq> traced k \<and> running (snd y) \<subseteq> running k"
proof -
  let ?P = "\<lambda>K' path stop k y. K' = K \<longrightarrow> traced (snd y) \<subseteq> traced k \<and> running (snd y) \<subseteq> running k"
  have "?P K path stop k y"
  proof (rule stop_poll.raw_induct [where P = ?P, OF _ assms], rule impI)
    fix w K' path stop k y
    assume IH: "\<And>K' path stop k y. w K' path stop k = Some y \<Longrightarrow> ?P K' path stop k y" and "K' = K"
      and run: "(case stat_stopped K' path k of
        (Inl e, k1) \<Rightarrow> Some (Err (State e), k1)
      | (Inr stopped, k1) \<Rightarrow>
          if stopped then Some (Ok (), k1)
          else case now K' (sleep K' POLL_INTERVAL k1) of
            (t, k2) \<Rightarrow> if stop < t then Some (Err Timeout, k2) else w K' path stop k2) = Some y"
    obtain q k1 where q: "stat_stopped K path k = (q, k1)" by (metis prod.exhaust)
    obtain t k2 where n: "now K (sleep K POLL_INTERVAL k1) = (t, k2)" by (metis prod.exhaust)
    have laws: "traced k1 \<subseteq> traced k" "running k1 \<subseteq> running k" "traced k2 \<subseteq> traced k" "running k2 \<subseteq> running k"
      using stats [OF q] clocks [OF n] sleeps [of POLL_INTERVAL k1] by blast+
    show "traced (snd y) \<subseteq> traced k \<and> running (snd y) \<subseteq> running k"
      using run IH [of K path stop k2 y] laws unfolding \<open>K' = K\<close> q
      by (auto simp: n split: sum.splits if_splits)
  qed
  then show ?thesis by simp
qed

lemma stop_process_traced:
  assumes "stop_process K self timeout k = Some (r, k')"
  shows "traced k' \<subseteq> traced k \<and> running k' \<subseteq> running k"
proof -
  obtain q k1 where q: "kill K (process_id self) SIGSTOP k = (q, k1)" by (metis prod.exhaust)
  obtain t k2 where n: "now K k1 = (t, k2)" by (metis prod.exhaust)
  show ?thesis
  proof (cases q)
    case (Inr u)
    show ?thesis
    proof (cases "t + timeout < INSTANT_LIMIT")
      case True
      then have "stop_poll K (''/proc/'' @ int_string (process_id self) @ ''/stat'') (t + timeout) k2 = Some (r, k')"
        using assms q n Inr by (simp add: stop_process_def Instant_add_def)
      from stop_poll_traced [OF this] kills [OF q] clocks [OF n] show ?thesis by auto
    next
      case False
      then have "k' = k2" using assms q n Inr by (simp add: stop_process_def Instant_add_def)
      then show ?thesis using kills [OF q] clocks [OF n] by auto
    qed
  qed (use assms q kills [OF q] in \<open>auto simp: stop_process_def\<close>)
qed

end

section \<open>What a computation leaves alone\<close>

definition leaves :: "('s \<Rightarrow> 'b) \<Rightarrow> ('s, 'a, 'e) comp \<Rightarrow> bool" where
  "leaves g m \<longleftrightarrow> (\<forall>s. g (snd (m s)) = g s)"

named_theorems leaves_intros \<open>computations that leave a part of the state alone\<close>

lemma leavesD: "leaves g m \<Longrightarrow> m s = (r, s') \<Longrightarrow> g s' = g s"
  by (metis leaves_def snd_conv)

lemma leaves_basic [leaves_intros]:
  "leaves g (ret x)" "leaves g (throw e)" "leaves g panic" "leaves g (lift_result r)" "leaves g (getM f)"
  by (simp_all add: leaves_def comp_simps)

lemma leaves_modifyM [leaves_intros]: "(\<And>s. g (h s) = g s) \<Longrightarrow> leaves g (modifyM h)"
  by (simp add: leaves_def comp_simps)

lemma leaves_bindM [leaves_intros]: "leaves g m \<Longrightarrow> (\<And>x. leaves g (f x)) \<Longrightarrow> leaves g (bindM m f)"
  unfolding leaves_def bindM_def by (auto split: prod.splits result.splits) (metis snd_conv)+

lemma leaves_handleM [leaves_intros]:
  "leaves g m \<Longrightarrow> (\<And>x. leaves g (f x)) \<Longrightarrow> (\<And>e. leaves g (h e)) \<Longrightarrow> leaves g (handleM m f h)"
  unfolding leaves_def handleM_def by (auto split: prod.splits result.splits) (metis snd_conv)+

lemma leaves_map_errM [leaves_intros]: "leaves g m \<Longrightarrow> leaves g (map_errM h m)"
  unfolding leaves_def map_errM_def by (auto split: prod.splits) (metis snd_conv)

lemma leaves_cases [leaves_intros]:
  "leaves g a \<Longrightarrow> leaves g b \<Longrightarrow> leaves g (if c then a else b)"
  "leaves g a \<Longrightarrow> (\<And>x. leaves g (f x)) \<Longrightarrow> leaves g (case_option a f v)"
  "(\<And>x y. leaves g (h x y)) \<Longrightarrow> leaves g (case_prod h p)"
  "(\<And>x. leaves g (f x)) \<Longrightarrow> (\<And>e. leaves g (j e)) \<Longrightarrow> leaves g a \<Longrightarrow> leaves g (case_result f j a q)"
  "leaves g (f x) \<Longrightarrow> leaves g (Let x f)"
  by (auto split: option.splits prod.splits result.splits)

lemma leaves_on_snd [leaves_intros]: "leaves (g \<circ> fst) (on_snd m)"
  by (simp add: leaves_def on_snd_def split: prod.splits)

text \<open>The threads, and whether they are suspended, are settled once the dump is written.\<close>

definition held_threads :: "MinidumpWriter \<Rightarrow> Thread list \<times> bool \<times> Pid" where
  "held_threads self = (threads self, threads_suspended self, process_id self)"

lemma held_threads_update [simp]:
  "held_threads (self\<lparr>memory_blocks := x\<rparr>) = held_threads self"
  "held_threads (self\<lparr>crashing_thread_context := c\<rparr>) = held_threads self"
  by (simp_all add: held_threads_def)

lemma leaves_fill_stack: "leaves (held_threads \<circ> fst) (fill_thread_stack E th ip sp m)"
  unfolding fill_thread_stack_def by (rule leaves_intros | auto)+

lemma leaves_ip_memory: "leaves (held_threads \<circ> fst) (write_ip_memory E t ip ms)"
proof (induction ms)
  case (Cons m ms)
  show ?case unfolding write_ip_memory.simps by (rule leaves_intros Cons.IH | auto)+
qed (simp add: leaves_basic)

lemma leaves_thread: "leaves (held_threads \<circ> fst) (write_thread F E m i item)"
  unfolding write_thread_def write_crashing_thread_def write_live_thread_def write_context_def
  by (rule leaves_intros leaves_fill_stack leaves_ip_memory | auto)+

lemma leaves_threads: "leaves (held_threads \<circ> fst) (write_threads F E m a i items)"
  by (induction items arbitrary: i) (simp_all, (rule leaves_intros leaves_thread | simp)+)

lemma leaves_thread_list: "leaves (held_threads \<circ> fst) (write_thread_list_stream F E)"
  unfolding write_thread_list_stream_def add_data_size_def by (rule leaves_intros leaves_threads)+

lemma leaves_app_regions: "leaves (held_threads \<circ> fst) (write_app_regions E as)"
proof (induction "as")
  case (Cons a "as")
  show ?case unfolding write_app_regions.simps by (rule leaves_intros Cons.IH | simp split: prod.splits)+
qed (simp add: leaves_basic)

lemma leaves_app_memory: "leaves (held_threads \<circ> fst) (write_app_memory E)"
  unfolding write_app_memory_def by (rule leaves_intros leaves_app_regions)+

lemma leaves_dump_state:
  "leaves (held_threads \<circ> the_writer) (on_buffer m')" "leaves (held_threads \<circ> the_writer) (on_dir m'')"
  "leaves (held_threads \<circ> the_writer) (push_soft errs)"
  "leaves (held_threads \<circ> fst) m \<Longrightarrow> leaves (held_threads \<circ> the_writer) (on_writer m)"
  by (auto simp: leaves_def on_buffer_def on_dir_def on_writer_def push_soft_def modifyM_def the_writer_def split: prod.splits)
    (metis fst_conv snd_conv)

lemmas dump_leaves = leaves_intros leaves_dump_state leaves_thread_list leaves_app_memory

lemma leaves_streams: "leaves (held_threads \<circ> the_writer) (write_streams W F E dso)"
  unfolding write_streams_def write_core_streams_def write_file_streams_def write_last_streams_def
    proc_file_entry_def file_entry_def soft_stream_def hard_stream_def flush_entry_def system_info_stream_def soft_errors_stream_def
  by (rule dump_leaves)+

lemma write_dump_leaves:
  assumes "write_dump W F D E self errs s = Some (r, self', rest)"
  shows "held_threads self' = held_threads self"
proof -
  obtain h w b where h: "write_header W F E s = (h, (w, b))" by (metis prod.exhaust)
  show ?thesis
  proof (cases h)
    case (Ok d)
    then obtain dso where dso: "write_dso_debug_stream F D E (process_id self) (auxv self) = Some dso"
      using assms h by (cases "write_dso_debug_stream F D E (process_id self) (auxv self)") (auto simp: write_dump_def)
    obtain q d' b' s' errs' where st: "write_streams W F E dso ((d, b), (self, errs)) = (q, ((d', b'), (s', errs')))"
      by (metis prod.exhaust)
    from leavesD [OF leaves_streams st] assms h Ok dso st show ?thesis by (simp add: write_dump_def the_writer_def)
  qed (use assms h in \<open>auto simp: write_dump_def\<close>)
qed

section \<open>Initialization\<close>

lemma leaves_push_error: "leaves (g \<circ> fst) (push_error e)"
  by (auto simp: leaves_def push_error_def modifyM_def)

text \<open>Before the threads are suspended only the enumeration changes the list.\<close>

definition settled :: "MinidumpWriter \<Rightarrow> bool \<times> Pid" where
  "settled self = (threads_suspended self, process_id self)"

lemma leaves_gather: "leaves (settled \<circ> fst) (init_gather E)"
proof -
  have 1: "leaves (settled \<circ> fst) (fill_auxv E)"
    by (auto simp: leaves_def fill_auxv_def handleM_def push_error_def comp_simps settled_def split: prod.splits result.splits)
  have 2: "leaves (settled \<circ> fst) (init_threads E)"
    by (auto simp: leaves_def init_threads_def enumerate_threads_def handleM_def push_error_def comp_simps settled_def Let_def
        split: prod.splits result.splits if_splits)
  have "settled (snd (enumerate_mappings E self)) = settled self" for self
    by (simp add: enumerate_mappings_def Let_def settled_def split: prod.splits result.splits option.splits)
  then have 3: "leaves (settled \<circ> fst) (init_mappings E)"
    unfolding init_mappings_def
    by (intro leaves_intros leaves_push_error) (simp add: leaves_def on_fst_def split: prod.splits, metis snd_conv)
  have 4: "leaves (settled \<circ> fst) (init_page_size E)"
    unfolding init_page_size_def by (rule leaves_intros | auto simp: settled_def)+
  show ?thesis unfolding init_gather_def by (intro leaves_bindM 1 2 3 4)
qed

lemma leaves_principal: "leaves (held_threads \<circ> fst) (init_principal E)"
proof -
  have "held_threads (fst (snd (init_principal E (self, errs)))) = held_threads self" for self errs
    by (auto simp: init_principal_def comp_simps push_error_def Let_def held_threads_def split: option.splits result.splits bool.splits)
  then show ?thesis by (auto simp: leaves_def)
qed

context ptrace_laws
begin

text \<open>After initialization, whatever its result, exactly the suspended threads may be traced.\<close>

definition holds :: "MinidumpWriter \<Rightarrow> 'k \<Rightarrow> bool" where
  "holds self k \<longleftrightarrow> running k = {} \<and> traced k \<subseteq> (if threads_suspended self then tid ` set (threads self) else {})"

lemma holds_cong: "held_threads self = held_threads self' \<Longrightarrow> holds self k = holds self' k"
  by (simp add: holds_def held_threads_def)

lemma init_holds:
  assumes run: "init K E self k = Some (r, (self', errs), k')" and k: "traced k = {}" and s: "\<not> threads_suspended self"
  shows "holds self' k' \<and> process_id self' = process_id self"
proof (cases "process_id self = sint (own_pid E)")
  case True
  then show ?thesis using run k s running_traced [of k] by (auto simp: init_def holds_def)
next
  case False
  then obtain q k1 where st: "stop_process K self (stop_timeout self) k = Some (q, k1)"
    using run by (cases "stop_process K self (stop_timeout self) k") (auto simp: init_def)
  have k1: "traced k1 = {}" "running k1 = {}" using stop_process_traced [OF st] running_traced [of k1] k by auto
  define errs0 where "errs0 = (case q of Err e \<Rightarrow> [StopProcessFailed e] | _ \<Rightarrow> [])"
  obtain g self1 errs1 where g: "init_gather E (self, errs0) = (g, (self1, errs1))" by (metis prod.exhaust)
  have s1: "\<not> threads_suspended self1" "process_id self1 = process_id self"
    using leavesD [OF leaves_gather g] s by (simp_all add: settled_def)
  show ?thesis
  proof (cases "q = Panic")
    case True
    then show ?thesis using run False st k1 s by (auto simp: init_def holds_def)
  next
    case running: False
    show ?thesis
    proof (cases g)
      case (Ok u)
      then obtain serrs self2 k2 where su: "suspend_threads K E self1 k1 = Some (serrs, self2, k2)"
        and rest: "\<exists>e2. init_principal E (self2, e2) = (r, (self', errs)) \<and> k' = k2"
        using run False st g running
        by (cases "suspend_threads K E self1 k1") (auto simp: init_def errs0_def [symmetric] Let_def split: prod.splits)
      obtain kept kerrs where "retain_suspended K E (threads self1) k1 = Some (kept, kerrs, k2)"
        and self2: "self2 = self1\<lparr>threads := kept, threads_suspended := True\<rparr>"
        using su by (cases "retain_suspended K E (threads self1) k1") (auto simp: suspend_threads_def)
      from retain_traced [OF this(1)] k1 have "holds self2 k2" by (auto simp: holds_def self2)
      moreover from rest have "held_threads self' = held_threads self2" by (auto dest!: leavesD [OF leaves_principal])
      ultimately show ?thesis using rest s1(2) self2 by (auto simp: holds_def held_threads_def)
    qed (use run False st g k1 s1 running in \<open>auto simp: init_def errs0_def [symmetric] holds_def\<close>)
  qed
qed

lemma write_releases:
  assumes run: "MinidumpWriterConfig_write K W F D E config (w, k) = Some (r, w', k')" and k: "traced k = {}"
  shows "\<exists>k2. traced k2 = {} \<and> k' = snd (kill K (cf_process_id config) SIGCONT k2)"
proof -
  let ?self = "MinidumpWriterConfig_build config"
  have id: "process_id ?self = cf_process_id config" and ns: "\<not> threads_suspended ?self"
    by (simp_all add: MinidumpWriterConfig_build_def)
  obtain q self errs k1 where i: "init K E ?self k = Some (q, (self, errs), k1)"
    using run by (cases "init K E ?self k") (auto simp: MinidumpWriterConfig_write_def)
  note h = init_holds [OF i k ns]
  have "\<exists>self'. held_threads self' = held_threads self \<and> k' = drop_writer K self' k1"
  proof (cases q)
    case (Ok u)
    then obtain r2 self' rest where "write_dump W F D E self (subwriter InitErrors errs) (w, Buffer_with_capacity 0) = Some (r2, self', rest)"
      using run i by (auto simp: MinidumpWriterConfig_write_def bind_eq_Some_conv)
    with run i Ok write_dump_leaves [OF this] show ?thesis
      by (intro exI [of _ self']) (auto simp: MinidumpWriterConfig_write_def split: prod.splits)
  qed (use run i in \<open>auto simp: MinidumpWriterConfig_write_def\<close>)
  then obtain self' where d: "held_threads self' = held_threads self" "k' = drop_writer K self' k1" by blast
  have "holds self' k1" using h holds_cong [OF d(1)] by simp
  moreover have "process_id self' = cf_process_id config" using h id d(1) by (simp add: held_threads_def)
  ultimately show ?thesis using drop_traced [of k1 self'] d(2) by (auto simp: holds_def)
qed

end

section \<open>Waiting for the stop\<close>

locale clock_laws =
  fixes K :: "'k proc_sys" and clock :: "'k \<Rightarrow> nat"
  assumes now_clock: "now K k = (t, k') \<Longrightarrow> t = clock k \<and> clock k \<le> clock k'"
    and sleep_clock: "clock k + d \<le> clock (sleep K d k)"
    and stat_clock: "stat_stopped K path k = (r, k') \<Longrightarrow> clock k \<le> clock k'"
    and kill_clock: "kill K p sig k = (q, k') \<Longrightarrow> clock k \<le> clock k'"
begin

lemma stop_poll_returns:
  "\<exists>r k'. stop_poll K path stop k = Some (r, k') \<and> r \<noteq> Panic \<and> (r = Err Timeout \<longrightarrow> stop < clock k')"
proof (induction "Suc stop - clock k" arbitrary: k rule: less_induct)
  case less
  obtain q k1 where q: "stat_stopped K path k = (q, k1)" by (metis prod.exhaust)
  obtain t k2 where n: "now K (sleep K POLL_INTERVAL k1) = (t, k2)" by (metis prod.exhaust)
  have c: "clock k + 1 \<le> t" "t \<le> clock k2"
    using stat_clock [OF q] now_clock [OF n] sleep_clock [of k1 POLL_INTERVAL] by (auto simp: POLL_INTERVAL_def)
  show ?case
  proof (cases "q = Inr False \<and> t \<le> stop")
    case True
    with c have "Suc stop - clock k2 < Suc stop - clock k" by (intro diff_less_mono2) auto
    from less [OF this] show ?thesis using True q n by (subst stop_poll.simps) simp
  next
    case False
    then show ?thesis using q n c by (subst stop_poll.simps) (auto split: sum.splits)
  qed
qed

lemma stop_process_ends:
  "\<exists>r k'. stop_process K self timeout k = Some (r, k') \<and> (r = Err Timeout \<longrightarrow> clock k + timeout < clock k') \<and>
     (r = Panic \<longrightarrow> INSTANT_LIMIT \<le> clock k' + timeout) \<and>
     (INSTANT_LIMIT \<le> clock k + timeout \<longrightarrow> r = Panic \<or> (\<exists>e. r = Err (Stop e)))"
proof -
  obtain q k1 where q: "kill K (process_id self) SIGSTOP k = (q, k1)" by (metis prod.exhaust)
  obtain t k2 where n: "now K k1 = (t, k2)" by (metis prod.exhaust)
  have t: "clock k \<le> t" "t \<le> clock k2" using kill_clock [OF q] now_clock [OF n] by auto
  obtain r k' where p: "stop_poll K (''/proc/'' @ int_string (process_id self) @ ''/stat'') (t + timeout) k2 = Some (r, k')"
    "r \<noteq> Panic" "r = Err Timeout \<longrightarrow> t + timeout < clock k'"
    using stop_poll_returns by blast
  show ?thesis
  proof (cases q)
    case (Inr u)
    show ?thesis
    proof (cases "t + timeout < INSTANT_LIMIT")
      case True
      then have "stop_process K self timeout k = Some (r, k')" using q n p Inr by (simp add: stop_process_def Instant_add_def)
      then show ?thesis using p t True by (intro exI [of _ r] exI [of _ k']) auto
    next
      case False
      then show ?thesis using q n Inr t by (auto simp: stop_process_def Instant_add_def)
    qed
  qed (use q in \<open>auto simp: stop_process_def\<close>)
qed

end

section \<open>A kernel\<close>

text \<open>
  Threads with the results of waiting for each that are still to come, the threads traced, the signals sent and the time. A wait
  that fails, unless it was interrupted, is for a stop that could not be translated.
\<close>

record sim_kernel =
  alive :: "Pid set"
  events :: "Pid \<Rightarrow> (nix_error + WaitStatus) list"
  tracees :: "Pid list"
  unstopped :: "Pid list"
  signals :: "(Pid \<times> int) list"
  sim_time :: nat

definition sim_sys :: "sim_kernel proc_sys" where
  "sim_sys = \<lparr>
     attach = (\<lambda>t k. if t \<in> alive k \<and> t \<notin> set (tracees k)
        then (Inr (), k\<lparr>tracees := t # tracees k, unstopped := t # unstopped k\<rparr>) else (Inl 1, k)),
     waitpid = (\<lambda>t k. case events k t of
          [] \<Rightarrow> (Inl 10, k\<lparr>tracees := removeAll t (tracees k), unstopped := removeAll t (unstopped k)\<rparr>)
        | Inl e # rest \<Rightarrow> (Inl e, k\<lparr>events := (events k)(t := rest),
            unstopped := (if e = EINTR then unstopped k else removeAll t (unstopped k))\<rparr>)
        | Inr OtherStatus # rest \<Rightarrow> (Inr OtherStatus, k\<lparr>events := (events k)(t := rest), alive := alive k - {t},
            tracees := removeAll t (tracees k), unstopped := removeAll t (unstopped k)\<rparr>)
        | Inr (Stopped s) # rest \<Rightarrow> (Inr (Stopped s), k\<lparr>events := (events k)(t := rest), unstopped := removeAll t (unstopped k)\<rparr>)),
     cont = (\<lambda>t s k. if t \<in> set (tracees k) \<and> t \<notin> set (unstopped k) then (Inr (), k\<lparr>unstopped := t # unstopped k\<rparr>) else (Inl ESRCH, k)),
     detach = (\<lambda>t k. if t \<in> set (tracees k) \<and> t \<notin> set (unstopped k)
        then (Inr (), k\<lparr>tracees := removeAll t (tracees k)\<rparr>) else (Inl ESRCH, k)),
     kill = (\<lambda>p s k. (Inr (), k\<lparr>signals := signals k @ [(p, s)]\<rparr>)),
     stat_stopped = (\<lambda>_ k. (Inr (signals k \<noteq> [] \<and> snd (last (signals k)) = SIGSTOP), k)),
     now = (\<lambda>k. (sim_time k, k)),
     sleep = (\<lambda>d k. k\<lparr>sim_time := sim_time k + d\<rparr>)\<rparr>"

interpretation simk: ptrace_laws sim_sys "\<lambda>k. set (tracees k)" "\<lambda>k. set (unstopped k) \<inter> set (tracees k)"
  by unfold_locales
    (auto simp: sim_sys_def EINTR_def split: if_splits list.splits sum.splits WaitStatus.splits)

interpretation simc: clock_laws sim_sys sim_time
  by unfold_locales (auto simp: sim_sys_def)

section \<open>The properties\<close>

text \<open>
  C3. The target is released on every way out. However \<open>MinidumpWriterConfig::write\<close> ends, with a dump, an error or a panic in
  any stream, all threads that it attached to have been detached before the last thing it does, which is to
  send \<open>SIGCONT\<close> to the process: none of them is traced then or afterwards.
\<close>

theorem target_released:
  assumes "ptrace_laws K traced running" and "traced k = {}"
    and "MinidumpWriterConfig_write K W F D E config (w, k) = Some (r, w', k')"
  shows "traced k' = {} \<and> (\<exists>k2. traced k2 = {} \<and> k' = snd (kill K (cf_process_id config) SIGCONT k2))"
proof -
  obtain k2 where k2: "traced k2 = {}" "k' = snd (kill K (cf_process_id config) SIGCONT k2)"
    using ptrace_laws.write_releases [OF assms(1,3,2)] by blast
  then show ?thesis using ptrace_laws.kills [OF assms(1) surjective_pairing, of "cf_process_id config" SIGCONT k2] by auto
qed

text \<open>
  Two threads, and an output that fails at once. The first thread is interrupted by another signal before it stops; the second
  one is stopped by a real-time signal, which makes the wait fail, so that it is given up and has to be detached at once.
\<close>

definition ex_kernel :: sim_kernel where
  "ex_kernel = \<lparr>alive = {42, 43}, events = (\<lambda>_. [])(42 := [Inr (Stopped 11), Inr (Stopped SIGSTOP)], 43 := [Inl EINTR, Inl EINVAL]),
     tracees = [], unstopped = [], signals = [], sim_time = 0\<rparr>"

definition ex_regs :: user_regs_struct where
  "ex_regs = \<lparr>ur_r15 = 0, ur_r14 = 0, ur_r13 = 0, ur_r12 = 0, ur_rbp = 0, ur_rbx = 0, ur_r11 = 0, ur_r10 = 0, ur_r9 = 0,
     ur_r8 = 0, ur_rax = 0, ur_rcx = 0, ur_rdx = 0, ur_rsi = 0, ur_rdi = 0, ur_rip = 0, ur_cs = 0, ur_eflags = 0,
     ur_rsp = 4096, ur_ss = 0, ur_ds = 0, ur_es = 0, ur_fs = 0, ur_gs = 0\<rparr>"

definition ex_task_env :: env where
  "ex_task_env = ex_env\<lparr>is_dir := \<lambda>_. True, read_dir := \<lambda>_. Ok [Ok ''42'', Ok ''43''], read_to_string := \<lambda>_. Ok ''main'',
     env_threads := (env_threads ex_env)\<lparr>getregs := \<lambda>_. Ok ex_regs\<rparr>\<rparr>"

definition ex_full_disk :: out_file where
  "ex_full_disk = \<lparr>file_bytes = [], file_pos = 0, faults = [Some (OsError 28, 0)]\<rparr>"

lemma ex_suspend: "suspend_thread sim_sys ex_task_env 42 (ex_kernel\<lparr>signals := sg\<rparr>) =
    Some (Inr (), ex_kernel\<lparr>signals := sg, events := (\<lambda>_. [])(43 := [Inl EINTR, Inl EINVAL]), tracees := [42]\<rparr>)"
  by (simp add: suspend_thread_def ex_kernel_def sim_sys_def suspend_wait.simps SIGSTOP_def skip_thread_def ex_task_env_def
     ex_regs_def fun_eq_iff)

lemma ex_give_up: "suspend_thread sim_sys ex_task_env 43
      (ex_kernel\<lparr>signals := sg, events := (\<lambda>_. [])(43 := [Inl EINTR, Inl EINVAL]), tracees := [42]\<rparr>) =
    Some (Inl (WaitPidError 43 EINVAL), ex_kernel\<lparr>signals := sg, events := \<lambda>_. [], tracees := [42]\<rparr>)"
  by (simp add: suspend_thread_def ex_kernel_def sim_sys_def suspend_wait.simps detach_then_def ptrace_detach_def
     EINTR_def EINVAL_def fun_eq_iff)

lemma ex_task_env_sel:
  "is_dir ex_task_env p" "read_dir ex_task_env p = Ok [Ok ''42'', Ok ''43'']" "read_to_string ex_task_env p = Ok ''main''"
  "open_auxv ex_task_env p = Err (OsError 13)" "open_maps ex_task_env p = Ok (Ok [])"
  "sysconf_page_size ex_task_env = Ok (Some 4096)" "own_pid ex_task_env = 7"
  by (simp_all add: ex_task_env_def ex_env_def)

lemma ex_dumper_sel:
  "process_id ex_dumper = 42" "threads ex_dumper = []" "auxv ex_dumper = AuxvDumpInfo_default" "stop_timeout ex_dumper = STOP_TIMEOUT"
  "mappings ex_dumper = []" "\<not> skip_stacks_if_mapping_unreferenced ex_dumper"
  by (simp_all add: ex_dumper_def MinidumpWriterConfig_build_def MinidumpWriterConfig_new_def)

definition ex_thread :: "Pid \<Rightarrow> Thread" where
  "ex_thread t = \<lparr>tid = t, thread_name = Some ''main''\<rparr>"

lemma ex_threads: "thread_entries ex_task_env 42 [Ok ''42'', Ok ''43''] = ([ex_thread 42, ex_thread 43], [])"
proof -
  have "valid_str ''42''" "valid_str ''43''" by (rule valid_str_ascii, simp add: of_char_def)+
  moreover have "digits_val 10 ''42'' 0 = Some 42" "digits_val 10 ''43'' 0 = Some 43" by code_simp+
  ultimately have "Option.bind (from_utf8 ''42'') parse_i32 = Some 42" "Option.bind (from_utf8 ''43'') parse_i32 = Some 43"
    by (simp_all add: from_utf8_def parse_i32_def)
  moreover have "trim_end ''main'' = ''main''" by code_simp
  ultimately show ?thesis by (simp add: ex_task_env_sel ex_thread_def)
qed

lemma ex_gather: "\<exists>errs. init_gather ex_task_env (ex_dumper, []) =
    (Ok (), (ex_dumper\<lparr>threads := [ex_thread 42, ex_thread 43], page_size := 4096\<rparr>, errs))"
  using ex_threads
  by (simp add: init_gather_def fill_auxv_def try_filling_missing_info_def init_threads_def enumerate_threads_def
      init_mappings_def enumerate_mappings_def init_page_size_def push_error_def comp_simps handleM_def on_fst_def Let_def
      subwriter_def ex_task_env_sel ex_dumper_sel is_complete_def AuxvDumpInfo_default_def aggregate_def del: thread_entries.simps)

lemma ex_init: "\<exists>errs. init sim_sys ex_task_env ex_dumper ex_kernel =
    Some (Ok (), (ex_dumper\<lparr>threads := [ex_thread 42], page_size := 4096, threads_suspended := True\<rparr>, errs),
      ex_kernel\<lparr>signals := [(42, SIGSTOP)], events := \<lambda>_. [], tracees := [42]\<rparr>)"
proof -
  have stop: "stop_process sim_sys ex_dumper STOP_TIMEOUT ex_kernel = Some (Ok (), ex_kernel\<lparr>signals := [(42, SIGSTOP)]\<rparr>)"
    by (simp add: stop_process_def Instant_add_def INSTANT_LIMIT_def STOP_TIMEOUT_def stop_poll.simps sim_sys_def ex_kernel_def)
      (simp add: ex_dumper_sel)
  obtain errs where g: "init_gather ex_task_env (ex_dumper, []) =
      (Ok (), (ex_dumper\<lparr>threads := [ex_thread 42, ex_thread 43], page_size := 4096\<rparr>, errs))"
    using ex_gather by blast
  have "tid (ex_thread t) = t" for t by (simp add: ex_thread_def)
  then show ?thesis
    using stop g ex_suspend [of "[(42, SIGSTOP)]"] ex_give_up [of "[(42, SIGSTOP)]"]
    by (simp add: init_def suspend_threads_def Let_def init_principal_def comp_simps ex_dumper_sel ex_task_env_sel)
qed

lemma ex_full_disk_dump: "\<exists>e w b. write_dump out_file_ops le_formats D ex_task_env self errs (ex_full_disk, Buffer_with_capacity 0) =
    Some (Err e, self, w, b)"
  by (simp add: write_dump_def write_header_def DirSection_new_def Buffer_with_capacity_def comp_simps le_eqs num_writers_def
      out_file_ops_def next_fault_def ex_full_disk_def)

theorem target_released_witness:
  "\<exists>e w' k'. MinidumpWriterConfig_write sim_sys out_file_ops le_formats ex_dso ex_task_env (MinidumpWriterConfig_new 42 42)
      (ex_full_disk, ex_kernel) = Some (Err e, w', k') \<and> tracees k' = [] \<and> last (signals k') = (42, SIGCONT)"
proof -
  obtain errs where i: "init sim_sys ex_task_env ex_dumper ex_kernel =
    Some (Ok (), (ex_dumper\<lparr>threads := [ex_thread 42], page_size := 4096, threads_suspended := True\<rparr>, errs),
      ex_kernel\<lparr>signals := [(42, SIGSTOP)], events := \<lambda>_. [], tracees := [42]\<rparr>)" (is "_ = Some (_, (?self, _), ?k)")
    using ex_init by blast
  obtain e w b where d: "write_dump out_file_ops le_formats ex_dso ex_task_env ?self (subwriter InitErrors errs)
      (ex_full_disk, Buffer_with_capacity 0) = Some (Err e, ?self, w, b)"
    using ex_full_disk_dump by blast
  have run: "MinidumpWriterConfig_write sim_sys out_file_ops le_formats ex_dso ex_task_env (MinidumpWriterConfig_new 42 42)
      (ex_full_disk, ex_kernel) = Some (Err e, w, drop_writer sim_sys ?self ?k)"
    using i d by (simp add: MinidumpWriterConfig_write_def ex_dumper_def)
  have "set (tracees ex_kernel) = {}" by (simp add: ex_kernel_def)
  from target_released [OF simk.ptrace_laws_axioms this run] obtain k2 where "set (tracees (drop_writer sim_sys ?self ?k)) = {}"
      "drop_writer sim_sys ?self ?k = snd (kill sim_sys 42 SIGCONT k2)"
    by (auto simp: MinidumpWriterConfig_new_def)
  with run show ?thesis by (simp add: sim_sys_def)
qed

text \<open>
  C34. Waiting for the target to stop ends: on a clock that advances by at least the time slept, \<open>stop_process\<close> always returns,
  reports a timeout only after the timeout has passed, and panics only if the end of the timeout is not representable as an
  instant (about 292 billion years after the start of the clock), which a caller can choose. In that case it does
  panic, unless the signal cannot be sent.
\<close>

theorem stop_process_returns:
  assumes "clock_laws K clock"
  shows "\<exists>r k'. stop_process K self timeout k = Some (r, k') \<and> (r = Err Timeout \<longrightarrow> clock k + timeout < clock k') \<and>
    (r = Panic \<longrightarrow> INSTANT_LIMIT \<le> clock k' + timeout) \<and>
    (INSTANT_LIMIT \<le> clock k + timeout \<longrightarrow> r = Panic \<or> (\<exists>e. r = Err (Stop e)))"
  by (rule clock_laws.stop_process_ends [OF assms])

text \<open>With \<open>Duration::MAX\<close>, the signal being sent, it panics.\<close>

theorem stop_process_returns_witness:
  "\<exists>r k'. stop_process sim_sys ex_dumper (2 ^ 64 * 10 ^ 9 - 1) ex_kernel = Some (r, k') \<and> (r = Panic \<or> (\<exists>e. r = Err (Stop e)))"
proof -
  have "INSTANT_LIMIT \<le> sim_time ex_kernel + (2 ^ 64 * 10 ^ 9 - 1)" by (simp add: INSTANT_LIMIT_def ex_kernel_def)
  with stop_process_returns [OF simc.clock_laws_axioms, of ex_dumper "2 ^ 64 * 10 ^ 9 - 1" ex_kernel] show ?thesis by blast
qed

end
