(* ===== verification/Thread_Slots.thy ===== *)
theory Thread_Slots
  imports Dump_Success
begin

text \<open>
  What the thread list holds (\<open>src/src/linux/minidump_writer/thread_list_stream.rs\<close>): the entry of a thread stands in its slot and
  carries its id, and the stack that it refers to is also a block of the memory list.
\<close>

definition recorded :: "MDRawThread \<Rightarrow> MinidumpWriter \<Rightarrow> bool" where
  "recorded th self \<longleftrightarrow> data_size (md_memory (stack th)) = 0 \<or> stack th \<in> set (memory_blocks self)"

lemma fill_stack_recorded:
  assumes "fill_thread_stack E thread ip sp m (self, b) = (Ok th, (self', b'))"
  shows "thread_id th = thread_id thread \<and> set (memory_blocks self) \<subseteq> set (memory_blocks self') \<and> recorded th self'"
  using assms unfolding fill_thread_stack_def recorded_def
  by (auto simp: comp_simps on_snd_def Let_def split: result.splits prod.splits if_splits elim!: bindM_OkE map_errM_OkE)

lemma ip_memory_blocks:
  "write_ip_memory E t ip ms (self, b) = (Ok (), (self', b')) \<Longrightarrow> set (memory_blocks self) \<subseteq> set (memory_blocks self')"
proof (induction ms)
  case (Cons m ms)
  then show ?case
    by (auto simp: comp_simps on_snd_def split: prod.splits if_splits elim!: bindM_OkE map_errM_OkE; blast)
qed (simp add: comp_simps)

lemma write_context_blocks:
  "write_context F cpu (self, b) = (Ok loc, (self', b')) \<Longrightarrow> self' = self"
  by (auto simp: write_context_def comp_simps on_snd_def split: prod.splits elim!: bindM_OkE map_errM_OkE)

lemma recorded_mono:
  "recorded th self \<Longrightarrow> set (memory_blocks self) \<subseteq> set (memory_blocks self') \<Longrightarrow> recorded th self'"
  by (auto simp: recorded_def)

lemma recorded_context [simp]: "recorded (th\<lparr>thread_context := c\<rparr>) self = recorded th self"
  by (simp add: recorded_def)

lemma recorded_crash [simp]: "recorded th (self\<lparr>crashing_thread_context := c\<rparr>) = recorded th self"
  by (simp add: recorded_def)

text \<open>A computation on the dumper that turns one entry into the next.\<close>

definition files :: "u32 \<Rightarrow> MinidumpWriter \<Rightarrow> MDRawThread \<Rightarrow> MinidumpWriter \<Rightarrow> bool" where
  "files t self th self' \<longleftrightarrow> thread_id th = t \<and> set (memory_blocks self) \<subseteq> set (memory_blocks self') \<and> recorded th self'"

lemma crashing_thread_files:
  assumes "write_crashing_thread F E cc thread (self, b) = (Ok th, (self', b'))"
  shows "files (thread_id thread) self th self'"
proof -
  obtain th1 s1 b1 s2 b2 loc s3 b3 where
      f: "fill_thread_stack E thread (CrashContext_get_instruction_pointer cc) (CrashContext_get_stack_pointer cc) NoMax (self, b) = (Ok th1, (s1, b1))"
    and i: "write_ip_memory E (thread_id th1) (CrashContext_get_instruction_pointer cc) (mappings s1) (s1, b1) = (Ok (), (s2, b2))"
    and c: "write_context F (CrashContext_fill_cpu_context (f_float F) cc RawContextCPU_default) (s2, b2) = (Ok loc, (s3, b3))"
    and r: "th = th1\<lparr>thread_context := loc\<rparr>" "self' = s3\<lparr>crashing_thread_context := CrashContextOnly loc\<rparr>"
    using assms unfolding write_crashing_thread_def Let_def by (auto simp: comp_simps elim!: bindM_OkE)
  from fill_stack_recorded [OF f] ip_memory_blocks [OF i] write_context_blocks [OF c] r show ?thesis
    by (auto simp: files_def intro: recorded_mono)
qed

lemma live_thread_files:
  assumes "write_live_thread F E m idx t thread (self, b) = (Ok th, (self', b'))"
  shows "files (thread_id thread) self th self'"
proof -
  obtain info ip sp m' th1 s1 b1 loc s2 b2 where
      f: "fill_thread_stack E thread ip sp m' (self, b) = (Ok th1, (s1, b1))"
    and c: "write_context F (ThreadInfo_fill_cpu_context (f_float F) info RawContextCPU_default) (s1, b1) = (Ok loc, (s2, b2))"
    and r: "th = th1\<lparr>thread_context := loc\<rparr>" "memory_blocks self' = memory_blocks s2"
    using assms unfolding write_live_thread_def Let_def by (auto simp: comp_simps split: if_splits elim!: bindM_OkE)
  from fill_stack_recorded [OF f] write_context_blocks [OF c] r show ?thesis by (auto simp: files_def recorded_def)
qed

lemma thread_files:
  assumes "write_thread F E m idx item (self, b) = (Ok th, (self', b'))"
  shows "files (word_of_int (tid item)) self th self'"
proof -
  have t: "thread_id (blank_thread x) = x" for x by (simp add: blank_thread_def)
  obtain x where "try_u32 SectionThreadListError_TryFromIntError (tid item) = Ok x"
    and run: "write_crashing_thread F E (the (crash_context self)) (blank_thread x) (self, b) = (Ok th, (self', b')) \<or>
      write_live_thread F E m idx (tid item) (blank_thread x) (self, b) = (Ok th, (self', b'))"
    using assms unfolding write_thread_def by (auto simp: comp_simps split: option.splits if_splits elim!: bindM_OkE)
  then have "x = word_of_int (tid item)" by (simp add: try_u32_def split: if_splits)
  with run show ?thesis using crashing_thread_files live_thread_files t by metis
qed

section \<open>Slots\<close>

text \<open>A slice of the buffer.\<close>

abbreviation slice :: "nat \<Rightarrow> nat \<Rightarrow> bytes \<Rightarrow> bytes" where
  "slice i n bs \<equiv> take n (drop i bs)"

lemma slice_of_prefix: "take (i + n) xs = take (i + n) ys \<Longrightarrow> slice i n xs = slice i n ys"
  by (metis add.commute take_drop)

context md_formats
begin

lemma write_threads_slots:
  "write_threads F E m w idx items (self, b) = (Ok (), (self', b')) \<Longrightarrow>
   unat (maw_position w) + size_with (f_thread F) * (idx + length items) \<le> length (inner b) \<Longrightarrow>
   length (inner b') < 2 ^ 32 \<Longrightarrow>
   \<exists>raws. list_all2 (\<lambda>item raw. thread_id raw = word_of_int (tid item) \<and> recorded raw self') items raws \<and>
     set (memory_blocks self) \<subseteq> set (memory_blocks self') \<and>
     slice (unat (maw_position w) + size_with (f_thread F) * idx) (size_with (f_thread F) * length items) (inner b') =
       concat (map (pod_bytes (f_thread F)) raws) \<and>
     take (unat (maw_position w) + size_with (f_thread F) * idx) (inner b') =
       take (unat (maw_position w) + size_with (f_thread F) * idx) (inner b)"
proof (induction items arbitrary: idx self b)
  case Nil
  then show ?case by (simp add: comp_simps)
next
  case (Cons item items)
  let ?C = "f_thread F"
  let ?o = "unat (maw_position w) + size_with ?C * idx"
  obtain raw s1 b1 b2 where wr: "write_thread F E m idx item (self, b) = (Ok raw, (s1, b1))"
    and set: "MemoryArrayWriter_set_value_at ?C w raw idx b1 = (Ok (), b2)"
    and rest: "write_threads F E m w (Suc idx) items (s1, b2) = (Ok (), (self', b'))"
    using Cons.prems(1) by (auto simp: on_snd_def split: prod.splits elim!: bindM_OkE map_errM_OkE)
  have l1: "length (inner b) \<le> length (inner b1)" using growsD [OF appends_grows [OF appends_thread] wr] by simp
  have fit: "?o + size_with ?C \<le> length (inner b)" using Cons.prems(2) by (simp add: algebra_simps)
  have b2: "inner b2 = put_slice (inner b1) ?o (pod_bytes ?C raw)"
    using pod_codec.set_value_at_eq [OF thread, of w idx b1 raw] set fit l1 by auto
  have l2: "length (inner b2) = length (inner b1)"
    using fit l1 b2 by (simp add: length_put_slice pod_codec.length_pod_bytes [OF thread])
  have l3: "length (inner b2) \<le> length (inner b')" using growsD [OF grows_threads rest] by simp
  have pre: "take ?o (inner b1) = take ?o (inner b)"
    using keepsD(1) [OF appends_keeps [OF appends_thread] wr, of ?o] fit l2 l3 Cons.prems(3) by simp
  have "unat (maw_position w) + size_with ?C * (Suc idx + length items) \<le> length (inner b2)" using Cons.prems(2) l1 l2 by simp
  from Cons.IH [OF rest this Cons.prems(3)] obtain raws where
      ids: "list_all2 (\<lambda>item raw. thread_id raw = word_of_int (tid item) \<and> recorded raw self') items raws"
    and bl: "set (memory_blocks s1) \<subseteq> set (memory_blocks self')"
    and sl: "slice (?o + size_with ?C) (size_with ?C * length items) (inner b') = concat (map (pod_bytes ?C) raws)"
    and tk: "take (?o + size_with ?C) (inner b') = take (?o + size_with ?C) (inner b2)"
    by (auto simp: algebra_simps)
  have "slice ?o (size_with ?C) (inner b') = slice ?o (size_with ?C) (inner b2)" by (rule slice_of_prefix [OF tk])
  also have "\<dots> = pod_bytes ?C raw"
    using fit l1 b2 by (simp add: put_slice_def pod_codec.length_pod_bytes [OF thread])
  finally have here: "slice ?o (size_with ?C) (inner b') = pod_bytes ?C raw" .
  have "slice ?o (size_with ?C * length (item # items)) (inner b') =
      slice ?o (size_with ?C) (inner b') @ slice (?o + size_with ?C) (size_with ?C * length items) (inner b')"
    by (simp add: take_add add.commute)
  then have slots: "slice ?o (size_with ?C * length (item # items)) (inner b') = concat (map (pod_bytes ?C) (raw # raws))"
    by (simp add: here sl)
  have "take ?o (inner b') = take ?o (inner b2)" using arg_cong [OF tk, of "take ?o"] by (simp add: min_def)
  then have "take ?o (inner b') = take ?o (inner b)" using pre b2 fit l1 by (simp add: take_put_slice)
  moreover have "files (word_of_int (tid item)) self raw s1" by (rule thread_files [OF wr])
  then have "thread_id raw = word_of_int (tid item)" "recorded raw self'" "set (memory_blocks self) \<subseteq> set (memory_blocks self')"
    using bl recorded_mono [OF _ bl] unfolding files_def by auto
  ultimately show ?case
    using ids slots by (intro exI [of _ "raw # raws"]) simp
qed

end

text \<open>
  C4. The thread list is complete and in order: if the stream is written, then behind the number of threads stands one entry for
  each thread, in the order of the threads, with the thread's id; every stack that an entry refers to is a block that
  the memory list will hold; and nothing that was in the buffer before has changed.
\<close>

theorem thread_list_slots:
  assumes "md_formats F" and "write_thread_list_stream F E (self, b) = (Ok dirent, (self', b'))" and "length (inner b') < 2 ^ 32"
  shows "prefix (inner b) (inner b') \<and> unat (rva (location dirent)) = length (inner b) \<and>
    (\<exists>raws. list_all2 (\<lambda>item raw. thread_id raw = word_of_int (tid item) \<and> recorded raw self') (threads self) raws \<and>
      slice (length (inner b)) (4 + size_with (f_thread F) * length (threads self)) (inner b') =
        le_bytes 4 (word_of_nat (length (threads self)) :: u32) @ concat (map (pod_bytes (f_thread F)) raws))"
proof -
  let ?n = "length (threads self)" and ?C = "f_thread F"
  let ?h = "le_bytes 4 (word_of_nat ?n :: u32)"
  let ?w = "\<lparr>maw_position = word_of_nat (length (inner b) + 4), array_size = ?n\<rparr>"
  let ?b2 = "b\<lparr>inner := inner b @ ?h @ replicate (?n * size_with ?C) 0\<rparr>"
  have C: "pod_codec ?C" by (rule md_formats.thread [OF assms(1)])
  obtain m where run: "write_threads F E m ?w 0 (threads self) (self, ?b2) = (Ok (), (self', b'))"
    and d: "rva (location dirent) = word_of_nat (length (inner b))"
    using assms(2) unfolding write_thread_list_stream_def Let_def
    by (auto simp: comp_simps u32c.alloc_with_val_eq pod_codec.alloc_array_eq [OF C] on_snd_def add_data_size_def MemoryWriter_location_def
        simp del: of_nat_add elim!: bindM_OkE map_errM_OkE)
  have len: "length (inner b) + 4 + ?n * size_with ?C \<le> length (inner b')"
    using growsD [OF md_formats.grows_threads [OF assms(1)] run] by simp
  have pos: "unat (maw_position ?w) = length (inner b) + 4" using len assms(3) by (simp del: of_nat_add)
  obtain raws where
      ids: "list_all2 (\<lambda>item raw. thread_id raw = word_of_int (tid item) \<and> recorded raw self') (threads self) raws"
    and sl: "slice (length (inner b) + 4) (size_with ?C * ?n) (inner b') = concat (map (pod_bytes ?C) raws)"
    and tk: "take (length (inner b) + 4) (inner b') = inner b @ ?h"
    using md_formats.write_threads_slots [OF assms(1) run _ assms(3)] pos by (auto simp: mult.commute)
  have "slice (length (inner b)) 4 (inner b') = ?h" using slice_of_prefix [of "length (inner b)" 4 "inner b'" "inner b @ ?h"] tk by simp
  then have "slice (length (inner b)) (4 + size_with ?C * ?n) (inner b') = ?h @ concat (map (pod_bytes ?C) raws)"
    using sl by (simp add: take_add add.commute)
  moreover have "prefix (inner b) (inner b')"
    using appends_result [OF md_formats.appends_thread_list [OF assms(1)] assms(2)] assms(3) by simp
  ultimately show ?thesis using ids d len assms(3) by auto
qed

text \<open>A crashing thread whose stack pointer lies in no mapping.\<close>

definition ex_crash :: CrashContext where
  "ex_crash = \<lparr>cc_siginfo = \<lparr>ssi_signo = 11, ssi_code = 1, ssi_addr = 0\<rparr>, gregs = replicate 23 0,
     cc_float_state = \<lparr>cwd = 0, swd = 0, ftw = 0, fop = 0, fp_rip = 0, fp_rdp = 0, mxcsr = 0, mxcr_mask = 0,
       st_space = replicate 32 0, xmm_space = replicate 64 0\<rparr>\<rparr>"

definition ex_crashed :: MinidumpWriter where
  "ex_crashed = ex_writer\<lparr>mappings := [], page_size := 0x200000, threads := [\<lparr>tid = 42, thread_name = None\<rparr>],
     crash_context := Some ex_crash\<rparr>"

lemma ex_crashed_sel:
  "mappings ex_crashed = []" "page_size ex_crashed = 0x200000" "threads ex_crashed = [\<lparr>tid = 42, thread_name = None\<rparr>]"
  "crash_context ex_crashed = Some ex_crash" "blamed_thread ex_crashed = 42" "minidump_size_limit ex_crashed = None"
  by (simp_all add: ex_crashed_def ex_writer_def MinidumpWriterConfig_build_def MinidumpWriterConfig_new_def)

lemma ex_crashed_no_stack: "get_stack_info ex_crashed 0 = Err NoStackPointerMapping"
proof -
  have f: "find_mapping ex_crashed a = None" for a by (simp add: find_mapping_def ex_crashed_sel)
  have 1: "stack_loop ex_crashed 0x100000 0x200000 None = Ok (0x200000, None)"
    by (subst stack_loop.simps) simp
  have "stack_loop ex_crashed 0x100000 0 None = Ok (0x200000, None)"
    by (subst stack_loop.simps) (simp add: may_be_stack_def ex_crashed_sel add_w_def f 1)
  then show ?thesis
    by (simp add: get_stack_info_def ex_crashed_sel sub_w_def f saturating_add_def)
qed

lemma ex_context: "\<exists>c. CrashContext_fill_cpu_context (f_float le_formats) ex_crash RawContextCPU_default = (Ok c :: (RawContextCPU, 'e) result)"
proof -
  have "length (float_save RawContextCPU_default) = size_with (f_float le_formats)"
    by (simp add: lef.float_size RawContextCPU_default_def)
  from pod_codec.into_ctx [OF lef.float this] show ?thesis
    by (simp add: CrashContext_fill_cpu_context_def put_float_state_def Let_def)
qed

lemma ex_write_thread:
  "\<exists>c th self'. write_thread le_formats ex_env m 0 \<lparr>tid = 42, thread_name = None\<rparr> (ex_crashed, b) =
    (Ok th, (self', b\<lparr>inner := inner b @ pod_bytes context_pod c\<rparr>))"
proof -
  obtain c where c: "CrashContext_fill_cpu_context (f_float le_formats) ex_crash RawContextCPU_default = (Ok c :: (RawContextCPU, SectionThreadListError) result)"
    using ex_context by blast
  have z: "CrashContext_get_instruction_pointer ex_crash = 0" "CrashContext_get_stack_pointer ex_crash = 0"
    by (simp_all add: CrashContext_get_instruction_pointer_def CrashContext_get_stack_pointer_def ex_crash_def REG_RIP_def REG_RSP_def)
  have cs: "f_context le_formats = context_pod" by (simp add: le_formats_def)
  show ?thesis
    using c
    by (intro exI [of _ c]) (simp add: write_thread_def try_u32_def comp_simps ex_crashed_sel write_crashing_thread_def z fill_thread_stack_def
        ex_crashed_no_stack write_context_def cs le_eqs Let_def)
qed

lemma ex_thread_list:
  "\<exists>dirent self' b'. write_thread_list_stream le_formats ex_env (ex_crashed, \<lparr>inner = []\<rparr>) = (Ok dirent, (self', b')) \<and>
    length (inner b') < 2 ^ 32"
proof -
  have cs: "f_thread le_formats = thread_pod" "size_with thread_pod = 48" by (simp_all add: le_formats_def thread_pod_def)
  let ?b = "\<lparr>inner = pod_bytes u32_pod 1 @ replicate 48 0\<rparr>"
  obtain c th self' where t: "write_thread le_formats ex_env NoMax 0 \<lparr>tid = 42, thread_name = None\<rparr> (ex_crashed, ?b) =
      (Ok th, (self', ?b\<lparr>inner := inner ?b @ pod_bytes context_pod c\<rparr>))"
    using ex_write_thread by blast
  have c: "size_with context_pod = 1232" by (simp add: context_pod_def)
  show ?thesis
    using t c
    by (simp add: write_thread_list_stream_def ex_crashed_sel comp_simps u32c.alloc_with_val_eq le_eqs cs Let_def add_data_size_def
        add_w_def extra_stack_len_def MemoryWriter_location_def MemoryArrayWriter_location_def
        pod_codec.set_value_at_eq [OF le_formats_codecs(3)] length_put_slice)
qed

theorem thread_list_slots_witness:
  "\<exists>dirent self' b' raw. write_thread_list_stream le_formats ex_env (ex_crashed, \<lparr>inner = []\<rparr>) = (Ok dirent, (self', b')) \<and>
    thread_id raw = 42 \<and> slice 0 52 (inner b') = le_bytes 4 (1 :: u32) @ pod_bytes thread_pod raw"
proof -
  have cs: "f_thread le_formats = thread_pod" "size_with thread_pod = 48" by (simp_all add: le_formats_def thread_pod_def)
  obtain dirent self' b' where run: "write_thread_list_stream le_formats ex_env (ex_crashed, \<lparr>inner = []\<rparr>) = (Ok dirent, (self', b'))"
      "length (inner b') < 2 ^ 32" using ex_thread_list by blast
  from thread_list_slots [OF lef.md_formats_axioms run] run(1) show ?thesis
    by (auto simp: ex_crashed_sel cs list_all2_Cons1)
qed

end
