(* ===== verification/Thread_Names.thy ===== *)
theory Thread_Names
  imports Streams
begin

text \<open>
  What the stream of thread names holds (\<open>src/src/linux/minidump_writer/thread_names_stream.rs\<close>). The array has a slot for each
  thread with a name, but is filled at the index among all threads. The two agree if every thread has a
  name; otherwise entries land outside the array.
\<close>

text \<open>The entries and the strings behind them, for threads that all have a name; the first string starts at \<open>p\<close>.\<close>

fun name_entries :: "nat \<Rightarrow> Thread list \<Rightarrow> MDRawThreadName list" where
  "name_entries p [] = []"
| "name_entries p (t # ts) =
     \<lparr>tn_thread_id = word_of_int (tid t), thread_name_rva = word_of_nat p\<rparr> #
     name_entries (p + length (string_bytes (the (thread_name t)))) ts"

definition name_strings :: "Thread list \<Rightarrow> bytes" where
  "name_strings ts = concat (map (\<lambda>t. string_bytes (the (thread_name t))) ts)"

definition named :: "Thread \<Rightarrow> bool" where
  "named t \<longleftrightarrow> thread_name t \<noteq> None \<and> 0 \<le> tid t \<and> tid t < 2 ^ 31"

lemma length_name_entries [simp]: "length (name_entries p ts) = length ts"
  by (induction p ts rule: name_entries.induct) auto

lemma ucast_u64_of_small: "n < 2 ^ 32 \<Longrightarrow> (ucast (word_of_nat n :: u32) :: u64) = word_of_nat n"
  by (simp add: unsigned_of_nat take_bit_nat_eq_self)

lemma string_written:
  assumes "length (inner b) + length (string_bytes nm) < 2 ^ 32"
  shows "\<exists>pos. write_string_to_location nm b = (Ok pos, b\<lparr>inner := inner b @ string_bytes nm\<rparr>) \<and>
    (ucast (rva pos) :: u64) = word_of_nat (length (inner b))"
  using assms write_string_to_location_eq [of b nm] by (simp add: length_string_bytes ucast_u64_of_small)

lemma try_u32_tid: "0 \<le> i \<Longrightarrow> i < 2 ^ 31 \<Longrightarrow> try_u32 e i = Ok (word_of_int i)"
  by (simp add: try_u32_def)

lemma write_thread_names_all:
  assumes "pod_codec (f_thread_name F)" and "unat (maw_position w) = length pre"
  defines "C \<equiv> f_thread_name F"
  shows "list_all named ts \<Longrightarrow>
    length pre + (length acc + length ts) * size_with C + length post + length (name_strings ts) < 2 ^ 32 \<Longrightarrow>
    write_thread_names F w (length acc) ts
      (b\<lparr>inner := pre @ concat (map (pod_bytes C) acc) @ replicate (length ts * size_with C) 0 @ post\<rparr>) =
    (Ok (), b\<lparr>inner := pre @
      concat (map (pod_bytes C) (acc @ name_entries (length pre + (length acc + length ts) * size_with C + length post) ts)) @
      post @ name_strings ts\<rparr>)"
proof (induction ts arbitrary: acc post)
  case Nil
  then show ?case by (simp add: comp_simps name_strings_def)
next
  case (Cons t ts)
  obtain nm where nm: "thread_name t = Some nm" and t: "0 \<le> tid t" "tid t < 2 ^ 31"
    using Cons.prems(1) by (auto simp: named_def)
  have ts: "list_all named ts" using Cons.prems(1) by simp
  let ?S = "string_bytes nm" and ?d = "concat (map (pod_bytes C) acc)"
  define B where "B = pre @ ?d @ replicate (length (t # ts) * size_with C) 0 @ post"
  define L where "L = length pre + (length acc + length (t # ts)) * size_with C + length post"
  have C: "pod_codec C" unfolding C_def by (rule assms(1))
  have d: "length ?d = length acc * size_with C" by (rule pod_codec.length_concat_bytes [OF C])
  have L: "length B = L" by (simp add: B_def d L_def algebra_simps)
  have ns: "name_strings (t # ts) = ?S @ name_strings ts" by (simp add: name_strings_def nm)
  let ?e = "\<lparr>tn_thread_id = word_of_int (tid t), thread_name_rva = word_of_nat L\<rparr>"
  obtain pos where pos: "write_string_to_location nm (b\<lparr>inner := B\<rparr>) = (Ok pos, b\<lparr>inner := B @ ?S\<rparr>)"
      "(ucast (rva pos) :: u64) = word_of_nat L"
    using string_written [of "b\<lparr>inner := B\<rparr>" nm] Cons.prems(2) L ns by (auto simp: L_def)
  have split: "B @ ?S = (pre @ ?d) @ replicate (size_with C) 0 @ (replicate (length ts * size_with C) 0 @ post @ ?S)"
    by (simp add: B_def replicate_add)
  have off: "length pre + size_with C * length acc = length (pre @ ?d)" by (simp add: d)
  have set: "MemoryArrayWriter_set_value_at C w ?e (length acc) (b\<lparr>inner := B @ ?S\<rparr>) =
      (Ok (), b\<lparr>inner := pre @ concat (map (pod_bytes C) (acc @ [?e])) @ replicate (length ts * size_with C) 0 @ (post @ ?S)\<rparr>)"
    unfolding split using pod_codec.set_value_at_eq [OF C, of w "length acc"] assms(2)
    by (simp add: off put_slice_def pod_codec.length_pod_bytes [OF C] d)
  have "write_thread_names F w (length acc) (t # ts) (b\<lparr>inner := B\<rparr>) =
      write_thread_names F w (length (acc @ [?e])) ts
        (b\<lparr>inner := pre @ concat (map (pod_bytes C) (acc @ [?e])) @ replicate (length ts * size_with C) 0 @ (post @ ?S)\<rparr>)"
    using pos set t by (simp add: nm comp_simps try_u32_tid C_def)
  also have "\<dots> = (Ok (), b\<lparr>inner := pre @ concat (map (pod_bytes C) (acc @ name_entries L (t # ts))) @ post @ name_strings (t # ts)\<rparr>)"
    using Cons.IH [OF ts, of "acc @ [?e]" "post @ ?S"] Cons.prems(2) by (simp add: L_def ns nm algebra_simps)
  finally show ?case by (simp add: L_def B_def)
qed

lemma thread_names_stream_eq:
  assumes C: "pod_codec (f_thread_name F)" and n: "length (filter (\<lambda>t. thread_name t \<noteq> None) (threads self)) = n"
    and len: "length (inner b) + 4 + n * size_with (f_thread_name F) < 2 ^ 32"
    and run: "write_thread_names F \<lparr>maw_position = word_of_nat (length (inner b) + 4), array_size = n\<rparr> 0 (threads self)
      (b\<lparr>inner := inner b @ le_bytes 4 (word_of_nat n :: u32) @ replicate (n * size_with (f_thread_name F)) 0\<rparr>) = (Ok (), b')"
  shows "\<exists>dirent. write_thread_names_stream F self b = (Ok dirent, b') \<and>
    location dirent = \<lparr>data_size = word_of_nat (4 + n * size_with (f_thread_name F)), rva = word_of_nat (length (inner b))\<rparr>"
proof -
  have size: "(add_w 4 (word_of_nat (n * size_with (f_thread_name F))) :: (u32, SectionThreadNamesError) result) =
      Ok (word_of_nat (4 + n * size_with (f_thread_name F)))"
    using len by (simp add: add_w_Ok_iff del: of_nat_add of_nat_mult)
  show ?thesis using run size
    by (simp add: write_thread_names_stream_def n u32c.alloc_with_val_eq pod_codec.alloc_array_eq [OF C] comp_simps
      add_data_size_def MemoryWriter_location_def MemoryArrayWriter_location_def Let_def del: of_nat_add of_nat_mult not_None_eq)
qed

text \<open>
  C36. If every thread has a name, the stream is exact: behind the number of threads stand, in the order of the threads, entries
  with the id of the thread and the position of its name, and behind them the names in the same order.
\<close>

theorem thread_names_exact:
  assumes "pod_codec (f_thread_name F)" and "list_all named (threads self)"
    and "length (inner b) + 4 + length (threads self) * size_with (f_thread_name F) + length (name_strings (threads self)) < 2 ^ 32"
  shows "\<exists>dirent. write_thread_names_stream F self b = (Ok dirent, b\<lparr>inner := inner b @
    le_bytes 4 (word_of_nat (length (threads self)) :: u32) @
    concat (map (pod_bytes (f_thread_name F))
      (name_entries (length (inner b) + 4 + length (threads self) * size_with (f_thread_name F)) (threads self))) @
    name_strings (threads self)\<rparr>) \<and>
    location dirent = \<lparr>data_size = word_of_nat (4 + length (threads self) * size_with (f_thread_name F)),
      rva = word_of_nat (length (inner b))\<rparr>"
proof -
  let ?ts = "threads self" and ?C = "f_thread_name F"
  have all: "filter (\<lambda>t. thread_name t \<noteq> None) ?ts = ?ts" using assms(2) by (auto simp: named_def list_all_iff)
  let ?h = "le_bytes 4 (word_of_nat (length ?ts) :: u32)"
  let ?w = "\<lparr>maw_position = word_of_nat (length (inner b) + 4), array_size = length ?ts\<rparr>"
  have "unat (maw_position ?w) = length (inner b @ ?h)" using assms(3) by (simp del: of_nat_add)
  note run = write_thread_names_all [OF assms(1) this assms(2), of "[]" "[]" b]
  show ?thesis
    by (rule thread_names_stream_eq [OF assms(1)]) (use run assms(3) all in \<open>simp_all del: of_nat_add\<close>)
qed

definition ex_named :: "Thread list" where
  "ex_named = [\<lparr>tid = 42, thread_name = Some ''main''\<rparr>, \<lparr>tid = 43, thread_name = Some ''io''\<rparr>]"

lemma ex_string_bytes:
  "string_bytes ''main'' = [8, 0, 0, 0, 109, 0, 97, 0, 105, 0, 110, 0]" "string_bytes ''io'' = [4, 0, 0, 0, 105, 0, 111, 0]"
proof -
  have u: "encode_utf16 ''main'' = [109, 97, 105, 110]" "encode_utf16 ''io'' = [105, 111]"
    by (simp_all add: encode_utf16_def str_chars_def str_bytes_def utf16_units_def of_char_def)
  have 4: "le_bytes 4 (8 :: u32) = [8, 0, 0, 0]" "le_bytes 4 (4 :: u32) = [4, 0, 0, 0]" by code_simp+
  have 2: "le_bytes 2 (109 :: u16) = [109, 0]" "le_bytes 2 (97 :: u16) = [97, 0]" "le_bytes 2 (105 :: u16) = [105, 0]"
    "le_bytes 2 (110 :: u16) = [110, 0]" "le_bytes 2 (111 :: u16) = [111, 0]" by code_simp+
  show "string_bytes ''main'' = [8, 0, 0, 0, 109, 0, 97, 0, 105, 0, 110, 0]" "string_bytes ''io'' = [4, 0, 0, 0, 105, 0, 111, 0]"
    by (simp_all add: string_bytes_def u 2 4)
qed

theorem thread_names_exact_witness:
  "\<exists>dirent. write_thread_names_stream le_formats (ex_writer\<lparr>threads := ex_named\<rparr>) \<lparr>inner = []\<rparr> = (Ok dirent, \<lparr>inner =
    [2, 0, 0, 0] @ [42, 0, 0, 0, 28, 0, 0, 0, 0, 0, 0, 0] @ [43, 0, 0, 0, 40, 0, 0, 0, 0, 0, 0, 0] @
    [8, 0, 0, 0, 109, 0, 97, 0, 105, 0, 110, 0] @ [4, 0, 0, 0, 105, 0, 111, 0]\<rparr>)"
proof -
  have e: "map (pod_bytes thread_name_pod) (name_entries 28 ex_named) =
      [[42, 0, 0, 0, 28, 0, 0, 0, 0, 0, 0, 0], [43, 0, 0, 0, 40, 0, 0, 0, 0, 0, 0, 0]]"
    by (simp add: ex_named_def ex_string_bytes thread_name_pod_def) code_simp
  have l: "le_bytes 4 (2 :: u32) = [2, 0, 0, 0]" by code_simp
  have n: "name_strings ex_named = [8, 0, 0, 0, 109, 0, 97, 0, 105, 0, 110, 0] @ [4, 0, 0, 0, 105, 0, 111, 0]" "length ex_named = 2"
    "list_all named ex_named"
    by (simp_all add: ex_named_def name_strings_def ex_string_bytes named_def)
  have f: "f_thread_name le_formats = thread_name_pod" "size_with thread_name_pod = 12"
    by (simp_all add: le_formats_def thread_name_pod_def)
  show ?thesis
    using thread_names_exact [OF lef.thread_name, of "ex_writer\<lparr>threads := ex_named\<rparr>" "\<lparr>inner = []\<rparr>"] e l n by (auto simp: f)
qed

text \<open>
  C37. One thread without a name is enough to lose the names behind it: for a nameless thread followed by a named one the array has
  a single slot, which stays zero, and the entry overwrites the beginning of the name that it points to.
\<close>

theorem thread_names_misplaced:
  assumes "pod_codec (f_thread_name F)" and "threads self = [t0, t]" and "thread_name t0 = None" and "thread_name t = Some nm"
    and "0 \<le> tid t" and "tid t < 2 ^ 31"
    and "length (inner b) + 4 + size_with (f_thread_name F) + length (string_bytes nm) < 2 ^ 32"
  shows "\<exists>dirent. write_thread_names_stream F self b = (Ok dirent, b\<lparr>inner := inner b @ le_bytes 4 (1 :: u32) @
    replicate (size_with (f_thread_name F)) 0 @
    put_slice (string_bytes nm) 0 (pod_bytes (f_thread_name F) \<lparr>tn_thread_id = word_of_int (tid t),
      thread_name_rva = word_of_nat (length (inner b) + 4 + size_with (f_thread_name F))\<rparr>)\<rparr>)"
proof -
  let ?C = "f_thread_name F"
  let ?pre = "inner b @ le_bytes 4 (1 :: u32) @ replicate (size_with ?C) 0"
  let ?w = "\<lparr>maw_position = word_of_nat (length (inner b) + 4), array_size = 1\<rparr>"
  let ?e = "\<lparr>tn_thread_id = word_of_int (tid t), thread_name_rva = word_of_nat (length ?pre)\<rparr>"
  obtain pos where pos: "write_string_to_location nm (b\<lparr>inner := ?pre\<rparr>) = (Ok pos, b\<lparr>inner := ?pre @ string_bytes nm\<rparr>)"
      "(ucast (rva pos) :: u64) = word_of_nat (length ?pre)"
    using string_written [of "b\<lparr>inner := ?pre\<rparr>" nm] assms(7) by auto
  have "unat (maw_position ?w) = length (inner b) + 4" using assms(7) by (simp del: of_nat_add)
  then have set: "MemoryArrayWriter_set_value_at ?C ?w ?e 1 (b\<lparr>inner := ?pre @ string_bytes nm\<rparr>) =
      (Ok (), b\<lparr>inner := ?pre @ put_slice (string_bytes nm) 0 (pod_bytes ?C ?e)\<rparr>)"
    using pod_codec.set_value_at_eq [OF assms(1), of ?w 1 "b\<lparr>inner := ?pre @ string_bytes nm\<rparr>" ?e] by (simp add: put_slice_def)
  have "write_thread_names F ?w 0 (threads self) (b\<lparr>inner := ?pre\<rparr>) =
      (Ok (), b\<lparr>inner := ?pre @ put_slice (string_bytes nm) 0 (pod_bytes ?C ?e)\<rparr>)"
    using pos set assms(3-6) by (simp add: assms(2) comp_simps try_u32_tid del: of_nat_add append_assoc)
  then have run: "write_thread_names F ?w 0 (threads self) (b\<lparr>inner := inner b @ le_bytes 4 (word_of_nat 1 :: u32) @
      replicate (1 * size_with ?C) 0\<rparr>) = (Ok (), b\<lparr>inner := ?pre @ put_slice (string_bytes nm) 0 (pod_bytes ?C ?e)\<rparr>)"
    by simp
  have "length (filter (\<lambda>t. thread_name t \<noteq> None) (threads self)) = 1" using assms(2-4) by simp
  moreover have "length (inner b) + 4 + 1 * size_with ?C < 2 ^ 32" using assms(7) by simp
  moreover have "length ?pre = length (inner b) + 4 + size_with ?C" by simp
  ultimately show ?thesis using thread_names_stream_eq [OF assms(1) _ _ run] by (metis append_assoc)
qed

theorem thread_names_misplaced_witness:
  "\<exists>dirent. write_thread_names_stream le_formats (ex_writer\<lparr>threads := [\<lparr>tid = 42, thread_name = None\<rparr>, \<lparr>tid = 43, thread_name = Some ''io''\<rparr>]\<rparr>)
    \<lparr>inner = []\<rparr> = (Ok dirent, \<lparr>inner = [1, 0, 0, 0] @ replicate 12 0 @ [43, 0, 0, 0, 16, 0, 0, 0, 0, 0, 0, 0]\<rparr>)"
proof -
  have f: "f_thread_name le_formats = thread_name_pod" "size_with thread_name_pod = 12"
    by (simp_all add: le_formats_def thread_name_pod_def)
  have e: "pod_bytes thread_name_pod \<lparr>tn_thread_id = 43, thread_name_rva = 16\<rparr> = [43, 0, 0, 0, 16, 0, 0, 0, 0, 0, 0, 0]"
    by (simp add: thread_name_pod_def) code_simp
  have l: "le_bytes 4 (1 :: u32) = [1, 0, 0, 0]" by code_simp
  show ?thesis
    using thread_names_misplaced [OF lef.thread_name, of "ex_writer\<lparr>threads := [\<lparr>tid = 42, thread_name = None\<rparr>, \<lparr>tid = 43, thread_name = Some ''io''\<rparr>]\<rparr>"
        "\<lparr>tid = 42, thread_name = None\<rparr>" "\<lparr>tid = 43, thread_name = Some ''io''\<rparr>" "''io''" "\<lparr>inner = []\<rparr>"]
    by (simp add: f e l ex_string_bytes put_slice_def)
qed

end
