(* ===== verification/Mach.thy ===== *)
theory Mach
  imports Streams
begin

text \<open>
  \<open>src/src/mac/mach.rs\<close>: the errors of the Mach kernel, the headers and load commands of a Mach image, the state of a thread and
  \<open>sysctl\<close>. The services of the system are the record \<open>mach_sys\<close>; a failing call has its return code. The layout of the
  thread state is defined by the crate mach2 and is a field of the record.

  The source reads structures from raw bytes with a pointer cast. Where the bytes are too few the behaviour of the source is
  undefined; the model has \<open>Panic\<close> there.
\<close>

section \<open>Kernel errors\<close>

datatype KernelError =
    InvalidAddress | ProtectionFailure | NoSpace | InvalidArgument | Failure | ResourceShortage | NotReceiver | NoAccess
  | MemoryFailure | MemoryError | AlreadyInSet | NotInSet | NameExists | Aborted | InvalidName | InvalidTask
  | InvalidRight | InvalidValue | UserRefsOverflow | InvalidCapability | RightExists | InvalidHost | MemoryPresent
  | InvalidProcessorSet | PolicyLimit | InvalidPolicy | InvalidObject | AlreadyWaiting | DefaultSet | ExceptionProtected
  | InvalidLedger | InvalidMemoryControl | InvalidSecurity | NotDepressed | Terminated | LockSetDestroyed | LockUnstable
  | LockOwned | LockOwnedSelf | SemaphoreDestroyed | RpcServerTerminated | RpcTerminateOrphan | RpcContinueOrphan
  | NotSupported | NodeDown | NotWaiting | OperationTimedOut | CodesignError | PoicyStatic | InsufficientBufferSize
  | Denied | MissingKC | InvalidKC | NotFound

text \<open>The discriminants of the enumeration, which are the codes of the kernel.\<close>

primrec kern_code :: "KernelError \<Rightarrow> int" where
  "kern_code InvalidAddress = 1"
| "kern_code ProtectionFailure = 2"
| "kern_code NoSpace = 3"
| "kern_code InvalidArgument = 4"
| "kern_code Failure = 5"
| "kern_code ResourceShortage = 6"
| "kern_code NotReceiver = 7"
| "kern_code NoAccess = 8"
| "kern_code MemoryFailure = 9"
| "kern_code MemoryError = 10"
| "kern_code AlreadyInSet = 11"
| "kern_code NotInSet = 12"
| "kern_code NameExists = 13"
| "kern_code Aborted = 14"
| "kern_code InvalidName = 15"
| "kern_code InvalidTask = 16"
| "kern_code InvalidRight = 17"
| "kern_code InvalidValue = 18"
| "kern_code UserRefsOverflow = 19"
| "kern_code InvalidCapability = 20"
| "kern_code RightExists = 21"
| "kern_code InvalidHost = 22"
| "kern_code MemoryPresent = 23"
| "kern_code InvalidProcessorSet = 26"
| "kern_code PolicyLimit = 27"
| "kern_code InvalidPolicy = 28"
| "kern_code InvalidObject = 29"
| "kern_code AlreadyWaiting = 30"
| "kern_code DefaultSet = 31"
| "kern_code ExceptionProtected = 32"
| "kern_code InvalidLedger = 33"
| "kern_code InvalidMemoryControl = 34"
| "kern_code InvalidSecurity = 35"
| "kern_code NotDepressed = 36"
| "kern_code Terminated = 37"
| "kern_code LockSetDestroyed = 38"
| "kern_code LockUnstable = 39"
| "kern_code LockOwned = 40"
| "kern_code LockOwnedSelf = 41"
| "kern_code SemaphoreDestroyed = 42"
| "kern_code RpcServerTerminated = 43"
| "kern_code RpcTerminateOrphan = 44"
| "kern_code RpcContinueOrphan = 45"
| "kern_code NotSupported = 46"
| "kern_code NodeDown = 47"
| "kern_code NotWaiting = 48"
| "kern_code OperationTimedOut = 49"
| "kern_code CodesignError = 50"
| "kern_code PoicyStatic = 51"
| "kern_code InsufficientBufferSize = 52"
| "kern_code Denied = 53"
| "kern_code MissingKC = 54"
| "kern_code InvalidKC = 55"
| "kern_code NotFound = 56"

text \<open>The match on the return code; what it does not list is \<open>Failure\<close>.\<close>

definition kern_table :: "(int \<times> KernelError) list" where
  "kern_table =
    [(1, InvalidAddress), (2, ProtectionFailure), (3, NoSpace), (4, InvalidArgument), (5, Failure),
     (6, ResourceShortage), (7, NotReceiver), (8, NoAccess), (9, MemoryFailure), (10, MemoryError),
     (11, AlreadyInSet), (13, NameExists), (15, InvalidName), (16, InvalidTask), (17, InvalidRight),
     (18, InvalidValue), (19, UserRefsOverflow), (20, InvalidCapability), (21, RightExists), (22, InvalidHost),
     (23, MemoryPresent), (26, InvalidProcessorSet), (27, PolicyLimit), (28, InvalidPolicy), (29, InvalidObject),
     (30, AlreadyWaiting), (31, DefaultSet), (32, ExceptionProtected), (33, InvalidLedger), (34, InvalidMemoryControl),
     (35, InvalidSecurity), (36, NotDepressed), (37, Terminated), (38, LockSetDestroyed), (39, LockUnstable),
     (40, LockOwned), (41, LockOwnedSelf), (42, SemaphoreDestroyed), (43, RpcServerTerminated), (44, RpcTerminateOrphan),
     (45, RpcContinueOrphan), (46, NotSupported), (47, NodeDown), (48, NotWaiting), (49, OperationTimedOut),
     (50, CodesignError), (51, PoicyStatic), (52, InsufficientBufferSize), (53, Denied), (54, MissingKC),
     (55, InvalidKC), (56, NotFound)]"

definition KernelError_from :: "int \<Rightarrow> KernelError" where
  "KernelError_from kr = (case map_of kern_table kr of Some e \<Rightarrow> e | None \<Rightarrow> Failure)"

section \<open>Load commands\<close>

datatype LoadCommandKind = Segment | IdDylib | Uuid | LoadDylinker | IdDylinker

fun LoadCommandKind_code :: "LoadCommandKind \<Rightarrow> u32" where
  "LoadCommandKind_code Segment = 0x19"
| "LoadCommandKind_code IdDylib = 0xd"
| "LoadCommandKind_code Uuid = 0x1b"
| "LoadCommandKind_code LoadDylinker = 0xe"
| "LoadCommandKind_code IdDylinker = 0xf"

definition LoadCommandKind_from_u32 :: "u32 \<Rightarrow> LoadCommandKind option" where
  "LoadCommandKind_from_u32 kind =
     (if kind = LoadCommandKind_code Segment then Some Segment
      else if kind = LoadCommandKind_code IdDylib then Some IdDylib
      else if kind = LoadCommandKind_code Uuid then Some Uuid
      else if kind = LoadCommandKind_code LoadDylinker then Some LoadDylinker
      else if kind = LoadCommandKind_code IdDylinker then Some IdDylinker
      else None)"

definition MH_EXECUTE :: u32 where "MH_EXECUTE = 0x2"
definition MH_DYLINKER :: u32 where "MH_DYLINKER = 0x7"
definition MH_MAGIC_64 :: u32 where "MH_MAGIC_64 = 0xfeedfacf"

record MachHeader =
  magic :: u32
  cpu_type :: u32
  cpu_sub_type :: u32
  file_type :: u32
  num_commands :: u32
  size_commands :: u32
  mh_flags :: u32

record SegmentCommand64 =
  seg_cmd_size :: u32
  segment_name :: bytes
  vm_addr :: u64
  vm_size :: u64
  file_off :: u64
  file_size :: u64
  max_prot :: u32
  init_prot :: u32
  num_sections :: u32
  seg_flags :: u32

record Dylib =
  dylib_name :: u32
  timestamp :: u32
  current_version :: u32
  compatibility_version :: u32

record DylinkerCommand =
  dl_cmd :: u32
  dl_cmd_size :: u32
  name_offset :: u32
  dl_name :: str

datatype LoadCommand =
    SegmentCmd SegmentCommand64
  | DylibCmd Dylib
  | UuidCmd bytes
  | DylinkerCmd DylinkerCommand

text \<open>The structures with the C layout that the source declares.\<close>

definition cast :: "nat \<Rightarrow> (bytes \<Rightarrow> 'a) \<Rightarrow> bytes \<Rightarrow> ('a, 'e) result" where
  "cast n f bs = (if length bs < n then Panic else Ok (f bs))"

definition mach_header_of :: "bytes \<Rightarrow> MachHeader" where
  "mach_header_of bs = \<lparr>magic = word_at 4 0 bs, cpu_type = word_at 4 4 bs, cpu_sub_type = word_at 4 8 bs,
     file_type = word_at 4 12 bs, num_commands = word_at 4 16 bs, size_commands = word_at 4 20 bs, mh_flags = word_at 4 24 bs\<rparr>"

definition segment_of :: "bytes \<Rightarrow> SegmentCommand64" where
  "segment_of bs = \<lparr>seg_cmd_size = word_at 4 4 bs, segment_name = take 16 (drop 8 bs), vm_addr = word_at 8 24 bs,
     vm_size = word_at 8 32 bs, file_off = word_at 8 40 bs, file_size = word_at 8 48 bs, max_prot = word_at 4 56 bs,
     init_prot = word_at 4 60 bs, num_sections = word_at 4 64 bs, seg_flags = word_at 4 68 bs\<rparr>"

definition dylib_of :: "bytes \<Rightarrow> Dylib" where
  "dylib_of bs = \<lparr>dylib_name = word_at 4 8 bs, timestamp = word_at 4 12 bs, current_version = word_at 4 16 bs,
     compatibility_version = word_at 4 20 bs\<rparr>"

definition uuid_of :: "bytes \<Rightarrow> bytes" where
  "uuid_of bs = take 16 (drop 8 bs)"

text \<open>The path of a dynamic linker; the slice panics if the offset lies behind the command.\<close>

definition dylinker_command :: "u32 \<Rightarrow> bytes \<Rightarrow> (LoadCommand option, 'e) result" where
  "dylinker_command cmd_size buffer =
     bindR (cast 12 (\<lambda>bs. (word_at 4 0 bs, word_at 4 4 bs, word_at 4 8 bs)) buffer) (\<lambda>(c, sz, off).
     bindR (slice_range (unat off) (unat cmd_size) buffer) (\<lambda>path.
       if 0 \<notin> set path then Ok None
       else
         let nul = length (takeWhile (\<lambda>b. b \<noteq> 0) path) in
         bindR (slice_range (unat off) (unat off + nul) buffer) (\<lambda>bs.
           Ok (map_option (\<lambda>t. DylinkerCmd \<lparr>dl_cmd = c, dl_cmd_size = sz, name_offset = off, dl_name = t\<rparr>)
                 (from_utf8 (bytes_name bs))))))"

definition decode_command :: "u32 \<Rightarrow> u32 \<Rightarrow> bytes \<Rightarrow> (LoadCommand option, 'e) result" where
  "decode_command cmd cmd_size buffer =
     (case LoadCommandKind_from_u32 cmd of
        None \<Rightarrow> Ok None
      | Some Segment \<Rightarrow> cast 72 (\<lambda>bs. Some (SegmentCmd (segment_of bs))) buffer
      | Some IdDylib \<Rightarrow> cast 24 (\<lambda>bs. Some (DylibCmd (dylib_of bs))) buffer
      | Some Uuid \<Rightarrow> cast 24 (\<lambda>bs. Some (UuidCmd (uuid_of bs))) buffer
      | Some LoadDylinker \<Rightarrow> dylinker_command cmd_size buffer
      | Some IdDylinker \<Rightarrow> dylinker_command cmd_size buffer)"

record LoadCommands =
  lc_buffer :: bytes
  lc_count :: nat

text \<open>\<open>next\<close>: the command, and the rest of the iterator.\<close>

function LoadCommandsIter_next :: "LoadCommands \<Rightarrow> (LoadCommand option \<times> LoadCommands, 'e) result" where
  "LoadCommandsIter_next self =
     (if lc_count self = 0 \<or> length (lc_buffer self) < 8 then Ok (None, self)
      else
        let cmd = word_at 4 0 (lc_buffer self); cmd_size = word_at 4 4 (lc_buffer self) in
        if length (lc_buffer self) < unat cmd_size then Ok (None, self)
        else case decode_command cmd cmd_size (lc_buffer self) of
          Err e \<Rightarrow> Err e
        | Panic \<Rightarrow> Panic
        | Ok decoded \<Rightarrow>
            let rest = \<lparr>lc_buffer = drop (unat cmd_size) (lc_buffer self), lc_count = lc_count self - 1\<rparr> in
            case decoded of Some c \<Rightarrow> Ok (Some c, rest) | None \<Rightarrow> LoadCommandsIter_next rest)"
  by pat_completeness auto
termination
  by (relation "measure lc_count") auto

declare LoadCommandsIter_next.simps [simp del]

section \<open>The system\<close>

record ArchThreadState =
  x_rax :: u64
  x_rbx :: u64
  x_rcx :: u64
  x_rdx :: u64
  x_rdi :: u64
  x_rsi :: u64
  x_rbp :: u64
  x_rsp :: u64
  x_r8 :: u64
  x_r9 :: u64
  x_r10 :: u64
  x_r11 :: u64
  x_r12 :: u64
  x_r13 :: u64
  x_r14 :: u64
  x_r15 :: u64
  x_rip :: u64
  x_rflags :: u64
  x_cs :: u64
  x_fs :: u64
  x_gs :: u64

record vm_region_info =
  user_tag :: u32
  vm_protection :: u32

text \<open>Seconds and microseconds are \<open>i32\<close>.\<close>

record TimeValue =
  seconds :: i32
  microseconds :: i32

record mach_sys =
  mach_vm_read :: "u32 \<Rightarrow> u64 \<Rightarrow> u64 \<Rightarrow> (bytes, int) result"
  mach_vm_region_recurse :: "u32 \<Rightarrow> u64 \<Rightarrow> (u64 \<times> u64 \<times> vm_region_info, int) result"
  thread_get_state :: "u32 \<Rightarrow> u32 list \<Rightarrow> (u32 list, int) result"
  arch_of :: "u32 list \<Rightarrow> ArchThreadState"
  task_dyld_info :: "u32 \<Rightarrow> (u64, int) result"
  task_basic_times :: "u32 \<Rightarrow> (TimeValue \<times> TimeValue, int) result"
  task_thread_times :: "u32 \<Rightarrow> (TimeValue \<times> TimeValue, int) result"
  thread_pth_name :: "u32 \<Rightarrow> (bytes, int) result"
  task_threads :: "u32 \<Rightarrow> (u32 list, int) result"
  pid_of_task :: "u32 \<Rightarrow> (i32, int) result"
  proc_start_tvsec :: "i32 \<Rightarrow> u64 option"
  sysctl_size :: "string \<Rightarrow> nat option"
  sysctlbyname :: "string \<Rightarrow> nat \<Rightarrow> bytes option"
  sysconf_pagesize :: int
  mach_task_self :: u32
  mach_thread_self :: u32
  system_time :: "u64 option"

definition THREAD_STATE_MAX :: nat where "THREAD_STATE_MAX = 1296"

record ThreadState =
  ts_state :: "u32 list"

definition ThreadState_default :: ThreadState where
  "ThreadState_default = \<lparr>ts_state = replicate THREAD_STATE_MAX 0\<rparr>"

definition arch_state :: "mach_sys \<Rightarrow> ThreadState \<Rightarrow> ArchThreadState" where
  "arch_state S self = arch_of S (ts_state self)"

definition ThreadState_pc :: "mach_sys \<Rightarrow> ThreadState \<Rightarrow> u64" where
  "ThreadState_pc S self = x_rip (arch_state S self)"

definition ThreadState_sp :: "mach_sys \<Rightarrow> ThreadState \<Rightarrow> u64" where
  "ThreadState_sp S self = x_rsp (arch_state S self)"

text \<open>\<open>sysctlbyname\<close> fills at most the given number of bytes of a zeroed value.\<close>

definition sysctl_by_name :: "mach_sys \<Rightarrow> nat \<Rightarrow> string \<Rightarrow> 'w::len word" where
  "sysctl_by_name S n nm =
     (case sysctlbyname S nm n of
        None \<Rightarrow> 0
      | Some bs \<Rightarrow> word_of_nat (le_nat (put_slice (replicate n 0) 0 (take n bs))))"

text \<open>\<open>T::try_from(i32)\<close> for an unsigned type of the given width.\<close>

definition int_sysctl_by_name :: "mach_sys \<Rightarrow> string \<Rightarrow> 'w::len word" where
  "int_sysctl_by_name S nm =
     (let v = sint (sysctl_by_name S 4 nm :: u32) in
      if 0 \<le> v \<and> v < 2 ^ LENGTH('w) then word_of_int v else 0)"

definition sysctl_string :: "mach_sys \<Rightarrow> string \<Rightarrow> str" where
  "sysctl_string S nm =
     (case sysctl_size S nm of
        None \<Rightarrow> []
      | Some n \<Rightarrow>
          (if n \<le> 1 then []
           else case sysctlbyname S nm n of
             None \<Rightarrow> []
           | Some bs \<Rightarrow>
               (case from_utf8 (bytes_name (butlast (put_slice (replicate n 0) 0 (take n bs)))) of
                  Some t \<Rightarrow> t | None \<Rightarrow> [])))"

section \<open>The iteration over the commands\<close>

lemma next_shrinks:
  "LoadCommandsIter_next self = (Ok (c, rest) :: (LoadCommand option \<times> LoadCommands, 'e) result) \<Longrightarrow>
   lc_count rest \<le> lc_count self \<and> length (lc_buffer rest) \<le> length (lc_buffer self) \<and> (c \<noteq> None \<longrightarrow> lc_count rest < lc_count self)"
proof (induction "lc_count self" arbitrary: self rule: less_induct)
  case less
  show ?case
  proof (cases "lc_count self = 0 \<or> length (lc_buffer self) < 8 \<or> length (lc_buffer self) < unat (word_at 4 4 (lc_buffer self) :: u32)")
    case True
    then show ?thesis using less(2) by (subst (asm) LoadCommandsIter_next.simps) (auto simp: Let_def split: if_splits)
  next
    case False
    let ?rest = "\<lparr>lc_buffer = drop (unat (word_at 4 4 (lc_buffer self) :: u32)) (lc_buffer self), lc_count = lc_count self - 1\<rparr>"
    have "(c \<noteq> None \<and> rest = ?rest) \<or> 
        LoadCommandsIter_next ?rest = (Ok (c, rest) :: (LoadCommand option \<times> LoadCommands, 'e) result)"
      using less(2) False by (subst (asm) LoadCommandsIter_next.simps) (auto simp: Let_def split: result.splits option.splits if_splits)
    then show ?thesis using less(1) [of ?rest] False by fastforce
  qed
qed

text \<open>
  The conversion of a return code of the kernel recovers every error from its code, except that \<open>NotInSet\<close> and \<open>Aborted\<close> are
  missing in the match and come out as \<open>Failure\<close>.
\<close>

theorem kernel_error_codes: "KernelError_from (kern_code e) = (if e = NotInSet \<or> e = Aborted then Failure else e)"
  by (cases e) (simp_all add: KernelError_from_def kern_table_def)

end
