(* ===== verification/Task_Dumper.thy ===== *)
theory Task_Dumper
  imports Mach
begin

text \<open>
  \<open>src/src/mac/task_dumper.rs\<close>: access to another task on macOS, its memory, regions, threads and images. The page size of the
  system is an \<open>i64\<close>, an integer here.
\<close>

section \<open>State and errors\<close>

datatype TaskDumpError =
    Kernel string KernelError
  | InvalidMachHeader
  | NonUtf8String
  | NoExecutableImage
  | MissingLoadCommand string LoadCommandKind

text \<open>The macro \<open>mach_call\<close>.\<close>

definition mach_call :: "string \<Rightarrow> ('a, int) result \<Rightarrow> ('a, TaskDumpError) result" where
  "mach_call syscall r = map_err (\<lambda>kr. Kernel syscall (KernelError_from kr)) r"

record AllImagesInfo =
  info_array_count :: u32
  info_array_addr :: u64
  dyld_image_load_address :: u64

record ImageInfo =
  load_address :: u64
  file_path :: u64
  file_mod_date :: u64

record VMRegionInfo =
  vr_info :: vm_region_info
  vr_start :: u64
  vr_end :: u64

record TaskDumper =
  td_task :: u32
  td_page_size :: int

definition TaskDumper_new :: "mach_sys \<Rightarrow> u32 \<Rightarrow> TaskDumper" where
  "TaskDumper_new S t = \<lparr>td_task = t, td_page_size = sysconf_pagesize S\<rparr>"

section \<open>Memory\<close>

text \<open>
  \<open>read_task_memory\<close> for \<open>count\<close> values of \<open>size\<close> bytes. The kernel is asked for whole pages; what is cut out of its answer must
  lie inside it.
\<close>

definition page_range :: "TaskDumper \<Rightarrow> u64 \<Rightarrow> nat \<Rightarrow> (u64 \<times> u64, TaskDumpError) result" where
  "page_range self address n =
     (if 2 ^ 64 \<le> n then Panic
      else
        let page_mask = word_of_int (- td_page_size self) in
        bindR (add_w address (word_of_nat n)) (\<lambda>a.
        bindR (add_w a (word_of_int (td_page_size self - 1))) (\<lambda>b.
          Ok (and address page_mask, and b page_mask))))"

definition read_task_memory :: "mach_sys \<Rightarrow> TaskDumper \<Rightarrow> u64 \<Rightarrow> nat \<Rightarrow> nat \<Rightarrow> (bytes, TaskDumpError) result" where
  "read_task_memory S self address count sz =
     bindR (page_range self address (count * sz)) (\<lambda>(page_address, last_page_address).
     bindR (sub_w last_page_address page_address) (\<lambda>pages.
     bindR (mach_call ''mach::mach_vm_read'' (mach_vm_read S (td_task self) page_address pages)) (\<lambda>task_buffer.
     bindR (sub_w address page_address) (\<lambda>off.
       slice_range (unat off) (unat off + count * sz) task_buffer))))"

definition get_vm_region :: "mach_sys \<Rightarrow> TaskDumper \<Rightarrow> u64 \<Rightarrow> (VMRegionInfo, TaskDumpError) result" where
  "get_vm_region S self addr =
     bindR (mach_call ''mach::mach_vm_region_recurse'' (mach_vm_region_recurse S (td_task self) addr)) (\<lambda>(region_base, region_size, info).
     bindR (add_w region_base region_size) (\<lambda>region_end.
       Ok \<lparr>vr_info = info, vr_start = region_base, vr_end = region_end\<rparr>))"

text \<open>\<open>get_region_size\<close> of \<open>read_string\<close>.\<close>

definition get_region_size :: "mach_sys \<Rightarrow> TaskDumper \<Rightarrow> u64 \<Rightarrow> (u64, TaskDumpError) result" where
  "get_region_size S self addr =
     bindR (get_vm_region S self addr) (\<lambda>region.
     bindR (sub_w (vr_end region) addr) (\<lambda>size_to_end.
       if unat size_to_end < 4 * 1024 then
         bindR (get_vm_region S self (vr_end region)) (\<lambda>maybe_adjacent.
           if vr_start maybe_adjacent = vr_end region then
             bindR (sub_w (vr_end maybe_adjacent) (vr_start maybe_adjacent)) (\<lambda>d. add_w size_to_end d)
           else Ok size_to_end)
       else Ok size_to_end))"

definition read_string_at ::
    "mach_sys \<Rightarrow> TaskDumper \<Rightarrow> u64 \<Rightarrow> nat option \<Rightarrow> (str option, TaskDumpError) result" where
  "read_string_at S self addr expected_size =
     (case get_region_size S self addr of
        Panic \<Rightarrow> Panic
      | Err _ \<Rightarrow> Ok None
      | Ok size_to_end \<Rightarrow>
          bindR (read_task_memory S self addr
                   (min (unat size_to_end) (case expected_size of Some n \<Rightarrow> n | None \<Rightarrow> 8 * 1024)) 1) (\<lambda>bs.
            case from_utf8 (bytes_name (takeWhile (\<lambda>b. b \<noteq> 0) bs)) of
              Some t \<Rightarrow> Ok (Some t)
            | None \<Rightarrow> Err NonUtf8String))"

section \<open>Threads and task information\<close>

definition read_thread_state :: "mach_sys \<Rightarrow> TaskDumper \<Rightarrow> u32 \<Rightarrow> (ThreadState, TaskDumpError) result" where
  "read_thread_state S self t =
     bindR (mach_call ''mach::thread_get_state'' (thread_get_state S t (ts_state ThreadState_default)))
       (\<lambda>words. Ok \<lparr>ts_state = words\<rparr>)"

text \<open>\<open>task_info\<close> and \<open>thread_info\<close> with the service of their flavour.\<close>

definition task_info :: "TaskDumper \<Rightarrow> (u32 \<Rightarrow> ('a, int) result) \<Rightarrow> ('a, TaskDumpError) result" where
  "task_info self flavor = mach_call ''mach::task::task_info'' (flavor (td_task self))"

definition thread_info :: "(u32 \<Rightarrow> ('a, int) result) \<Rightarrow> u32 \<Rightarrow> ('a, TaskDumpError) result" where
  "thread_info flavor t = mach_call ''mach::thread_info'' (flavor t)"

definition read_threads :: "mach_sys \<Rightarrow> TaskDumper \<Rightarrow> (u32 list, TaskDumpError) result" where
  "read_threads S self = mach_call ''mach::task_threads'' (task_threads S (td_task self))"

definition pid_for_task :: "mach_sys \<Rightarrow> TaskDumper \<Rightarrow> (i32, TaskDumpError) result" where
  "pid_for_task S self = mach_call ''mach::pid_for_task'' (pid_of_task S (td_task self))"

section \<open>Images\<close>

definition all_images_of :: "bytes \<Rightarrow> AllImagesInfo" where
  "all_images_of bs = \<lparr>info_array_count = word_at 4 4 bs, info_array_addr = word_at 8 8 bs,
     dyld_image_load_address = word_at 8 32 bs\<rparr>"

definition image_of :: "bytes \<Rightarrow> ImageInfo" where
  "image_of bs = \<lparr>load_address = word_at 8 0 bs, file_path = word_at 8 8 bs, file_mod_date = word_at 8 16 bs\<rparr>"

definition images_of :: "nat \<Rightarrow> bytes \<Rightarrow> ImageInfo list" where
  "images_of n bs = map (\<lambda>i. image_of (drop (24 * i) bs)) [0..<n]"

definition read_images :: "mach_sys \<Rightarrow> TaskDumper \<Rightarrow> (AllImagesInfo \<times> ImageInfo list, TaskDumpError) result" where
  "read_images S self =
     bindR (task_info self (task_dyld_info S)) (\<lambda>all_images_addr.
     bindR (read_task_memory S self all_images_addr 40 1) (\<lambda>dyld_all_info_buf.
       let all_images_info = all_images_of dyld_all_info_buf in
     bindR (read_task_memory S self (info_array_addr all_images_info) (unat (info_array_count all_images_info)) 24) (\<lambda>bs.
       Ok (all_images_info, images_of (unat (info_array_count all_images_info)) bs))))"

definition read_mach_header :: "mach_sys \<Rightarrow> TaskDumper \<Rightarrow> ImageInfo \<Rightarrow> (MachHeader, TaskDumpError) result" where
  "read_mach_header S self img =
     bindR (read_task_memory S self (load_address img) 1 32) (\<lambda>bs.
       let header = mach_header_of bs in
       if magic header \<noteq> MH_MAGIC_64 then Err InvalidMachHeader else Ok header)"

fun find_executable :: "mach_sys \<Rightarrow> TaskDumper \<Rightarrow> ImageInfo list \<Rightarrow> (ImageInfo, TaskDumpError) result" where
  "find_executable S self [] = Err NoExecutableImage"
| "find_executable S self (img # images) =
     bindR (read_mach_header S self img) (\<lambda>header.
       if file_type header = MH_EXECUTE then Ok img else find_executable S self images)"

definition read_executable_image :: "mach_sys \<Rightarrow> TaskDumper \<Rightarrow> (ImageInfo, TaskDumpError) result" where
  "read_executable_image S self = bindR (read_images S self) (\<lambda>(_, images). find_executable S self images)"

definition read_load_commands :: "mach_sys \<Rightarrow> TaskDumper \<Rightarrow> ImageInfo \<Rightarrow> (LoadCommands, TaskDumpError) result" where
  "read_load_commands S self img =
     bindR (read_mach_header S self img) (\<lambda>header.
     bindR (add_w (load_address img) 32) (\<lambda>a.
     bindR (read_task_memory S self a (unat (size_commands header)) 1) (\<lambda>buffer.
       Ok \<lparr>lc_buffer = buffer, lc_count = unat (num_commands header)\<rparr>)))"

section \<open>What is read is the memory of the task\<close>

text \<open>What \<open>mach_vm_read\<close> promises: the bytes asked for, all of them; and pages have a size that is a power of two.\<close>

locale task_memory =
  fixes S :: mach_sys and t :: u32 and mem :: "u64 \<Rightarrow> u8 option" and bits :: nat
  assumes no_panic: "mach_vm_read S t a n \<noteq> Panic"
    and vm_read: "mach_vm_read S t a n = Ok bs \<Longrightarrow> length bs = unat n \<and> reads mem a bs"
    and page_size: "sysconf_pagesize S = 2 ^ bits" and bits: "bits < 32"
begin

lemma reads_slice:
  assumes "reads mem a bs"
  shows "reads mem (a + word_of_nat k) (take n (drop k bs))"
  using assms by (auto simp: reads_iff add.assoc simp flip: of_nat_add)

text \<open>The sum of the source does not overflow when the value fits below the last page.\<close>

lemma page_sum:
  fixes address :: u64
  assumes "unat address + n + 2 ^ bits \<le> 2 ^ 64"
  shows "n < 2 ^ 64"
    and "(add_w address (word_of_nat n) :: (u64, TaskDumpError) result) = Ok (address + word_of_nat n)"
    and "(add_w (address + word_of_nat n) (word_of_int (2 ^ bits - 1)) :: (u64, TaskDumpError) result) =
      Ok (address + word_of_nat n + word_of_int (2 ^ bits - 1))"
    and "unat (address + word_of_nat n + word_of_int (2 ^ bits - 1)) = unat address + n + (2 ^ bits - 1)"
proof -
  define p :: nat where "p = 2 ^ bits"
  have p: "0 < p" "p < 2 ^ 32" using bits power_strict_increasing [of bits 32 "2 :: nat"] by (auto simp: p_def)
  have sum: "unat address + n + p \<le> 2 ^ 64" using assms by (simp add: p_def)
  then show lt: "n < 2 ^ 64" using p(1) by linarith
  then have n: "unat (word_of_nat n :: u64) = n" by (intro unat_of_nat_less) simp
  have w: "(word_of_int (2 ^ bits - 1) :: u64) = word_of_nat (p - 1)" by (simp add: p_def of_nat_diff)
  have q: "unat (word_of_nat (p - 1) :: u64) = p - 1" using p(2) by (intro unat_of_nat_less) simp
  have u: "unat (address + word_of_nat n) = unat address + n"
    using sum p(1) n by (subst unat_word_ariths) simp
  have e: "unat (address + word_of_nat n + word_of_nat (p - 1)) = unat address + n + (p - 1)"
    using sum p(1) u q by (subst unat_word_ariths) simp
  show "(add_w address (word_of_nat n) :: (u64, TaskDumpError) result) = Ok (address + word_of_nat n)"
    using sum p(1) n by (simp add: add_w_def)
  show "(add_w (address + word_of_nat n) (word_of_int (2 ^ bits - 1)) :: (u64, TaskDumpError) result) =
      Ok (address + word_of_nat n + word_of_int (2 ^ bits - 1))"
    using sum p(1) u q unfolding w by (simp add: add_w_def)
  show "unat (address + word_of_nat n + word_of_int (2 ^ bits - 1)) = unat address + n + (2 ^ bits - 1)"
    using e unfolding w by (simp add: p_def)
qed

lemma page_range_covers:
  assumes "td_page_size self = 2 ^ bits" and "unat address + n + 2 ^ bits \<le> 2 ^ 64"
  obtains lo hi where "page_range self address n = Ok (lo, hi)" and "unat lo \<le> unat address" and "unat address + n \<le> unat hi"
proof -
  let ?e = "address + word_of_nat n + word_of_int (2 ^ bits - 1)" and ?p = "2 ^ bits :: nat"
  let ?lo = "and address (word_of_int (- (2 ^ bits)))" and ?hi = "and ?e (word_of_int (- (2 ^ bits)))"
  have p: "0 < ?p" by simp
  have "unat ?hi = ?p * ((unat address + n + (?p - 1)) div ?p)" by (simp only: page_mask page_sum(4) [OF assms(2)])
  moreover have "unat address + n + (?p - 1) < ?p * ((unat address + n + (?p - 1)) div ?p) + ?p"
    using p by (metis dividend_less_div_times add.commute mult.commute)
  ultimately have "unat address + n \<le> unat ?hi" using p by linarith
  moreover have "unat ?lo \<le> unat address" by (simp only: page_mask) simp
  moreover have "page_range self address n = Ok (?lo, ?hi)"
    using page_sum [OF assms(2)] by (simp add: page_range_def assms(1) Let_def)
  ultimately show ?thesis by (intro that)
qed

lemma read_memory:
  assumes "td_task self = t" and "td_page_size self = 2 ^ bits" and "unat address + count * sz + 2 ^ bits \<le> 2 ^ 64"
  shows "case read_task_memory S self address count sz of
      Ok bs \<Rightarrow> length bs = count * sz \<and> reads mem address bs
    | Err e \<Rightarrow> \<exists>kr. e = Kernel ''mach::mach_vm_read'' (KernelError_from kr)
    | Panic \<Rightarrow> False"
proof -
  obtain lo hi where range: "page_range self address (count * sz) = Ok (lo, hi)" and le: "unat lo \<le> unat address"
    and up: "unat address + count * sz \<le> unat hi" by (rule page_range_covers [OF assms(2,3)])
  have d: "(sub_w hi lo :: (u64, TaskDumpError) result) = Ok (hi - lo)" "unat (hi - lo) = unat hi - unat lo"
    using le up by (auto simp: sub_w_def word_le_nat_alt unat_sub)
  have o: "(sub_w address lo :: (u64, TaskDumpError) result) = Ok (address - lo)" "unat (address - lo) = unat address - unat lo"
    using le by (auto simp: sub_w_def word_le_nat_alt unat_sub)
  show ?thesis
  proof (cases "mach_vm_read S t lo (hi - lo)")
    case (Ok bs)
    note law = vm_read [OF Ok]
    have "lo + word_of_nat (unat (address - lo)) = address" by simp
    then have "reads mem address (take (count * sz) (drop (unat (address - lo)) bs))"
      using reads_slice [OF conjunct2 [OF law], of "unat (address - lo)" "count * sz"] by simp
    then show ?thesis using Ok range d o law le up assms(1)
      by (auto simp: read_task_memory_def mach_call_def slice_range_def)
  next
    case (Err kr)
    then show ?thesis using range d assms(1) by (auto simp: read_task_memory_def mach_call_def)
  next
    case Panic
    then show ?thesis using no_panic by simp
  qed
qed

end

text \<open>
  A Mach system for examples: a memory, a list of threads with their words of state, and regions. A read outside of the memory
  fails with \<open>KERN_INVALID_ADDRESS\<close>.
\<close>

definition sim_read :: "(u64 \<Rightarrow> u8 option) \<Rightarrow> u64 \<Rightarrow> u64 \<Rightarrow> (bytes, int) result" where
  "sim_read mem a n =
     (let bs = map (\<lambda>i. mem (a + word_of_nat i)) [0..<unat n] in if None \<in> set bs then Err 1 else Ok (map the bs))"

definition sim_mach :: "(u64 \<Rightarrow> u8 option) \<Rightarrow> u32 list \<Rightarrow> (u64 \<Rightarrow> (u64 \<times> u64 \<times> vm_region_info, int) result) \<Rightarrow> mach_sys" where
  "sim_mach mem ths regions =
     \<lparr>mach_vm_read = (\<lambda>_. sim_read mem), mach_vm_region_recurse = (\<lambda>_. regions),
      thread_get_state = (\<lambda>t ws. if t \<in> set ths then Ok ws else Err 4),
      arch_of = (\<lambda>ws. \<lparr>x_rax = 0, x_rbx = 0, x_rcx = 0, x_rdx = 0, x_rdi = 0, x_rsi = 0, x_rbp = 0, x_rsp = 0, x_r8 = 0, x_r9 = 0,
        x_r10 = 0, x_r11 = 0, x_r12 = 0, x_r13 = 0, x_r14 = 0, x_r15 = 0, x_rip = 0, x_rflags = 0, x_cs = 0, x_fs = 0, x_gs = 0\<rparr>),
      task_dyld_info = (\<lambda>_. Err 5), task_basic_times = (\<lambda>_. Err 5), task_thread_times = (\<lambda>_. Err 5),
      thread_pth_name = (\<lambda>_. Err 5), task_threads = (\<lambda>_. Ok ths), pid_of_task = (\<lambda>_. Ok 77), proc_start_tvsec = (\<lambda>_. None),
      sysctl_size = (\<lambda>_. None), sysctlbyname = (\<lambda>_ _. None), sysconf_pagesize = 4096, mach_task_self = 1, mach_thread_self = 2,
      system_time = Some 7\<rparr>"

lemma sim_read_reads:
  assumes "sim_read mem a n = Ok bs"
  shows "length bs = unat n \<and> reads mem a bs"
proof -
  let ?os = "map (\<lambda>i. mem (a + word_of_nat i)) [0..<unat n]"
  have 1: "None \<notin> set ?os" "bs = map the ?os" using assms by (simp_all add: sim_read_def Let_def split: if_splits)
  have "mem (a + word_of_nat i) = Some (bs ! i)" if "i < unat n" for i
  proof -
    have "?os ! i \<in> set ?os" using that by (intro nth_mem) simp
    with 1 that show ?thesis by (cases "mem (a + word_of_nat i)") auto
  qed
  then show ?thesis using 1(2) by (simp add: reads_iff)
qed

interpretation simm: task_memory "sim_mach mem ths regions" t mem 12 for mem ths regions t
proof (unfold_locales, goal_cases)
  case (1 a n)
  show ?case by (simp add: sim_mach_def sim_read_def Let_def)
next
  case (2 a n bs)
  then show ?case by (intro sim_read_reads) (simp add: sim_mach_def)
qed (simp_all add: sim_mach_def)

text \<open>
  C26. What \<open>read_task_memory\<close> returns is the memory of the task. On a kernel that keeps the contract of \<open>mach_vm_read\<close>, with pages of
  a power of two, reading \<open>count\<close> values of \<open>sz\<close> bytes that end at least a page below the top of the address space never
  panics: the rounding to whole pages and the cut out of the kernel's answer stay in range. A successful read has exactly the
  bytes of the task's memory from the address on, as many as were asked for; a failure is the error of the kernel.
\<close>

theorem task_memory_read:
  assumes "task_memory S t mem bits" and "self = TaskDumper_new S t" and "unat address + count * sz + 2 ^ bits \<le> 2 ^ 64"
  shows "case read_task_memory S self address count sz of
      Ok bs \<Rightarrow> length bs = count * sz \<and> reads mem address bs
    | Err e \<Rightarrow> \<exists>kr. e = Kernel ''mach::mach_vm_read'' (KernelError_from kr)
    | Panic \<Rightarrow> False"
  using task_memory.read_memory [OF assms(1) _ _ assms(3), of self] task_memory.page_size [OF assms(1)]
  by (simp add: assms(2) TaskDumper_new_def)

definition ex_memory :: "u64 \<Rightarrow> u8 option" where
  "ex_memory a = Some (ucast a)"

lemma map_err_Err_iff: "map_err g r = Err e \<longleftrightarrow> (\<exists>e'. r = Err e' \<and> e = g e')"
  by (cases r) auto

theorem task_memory_read_witness:
  "\<exists>bs. read_task_memory (sim_mach ex_memory [] (\<lambda>_. Err 1)) \<lparr>td_task = 9, td_page_size = 4096\<rparr> 0x1FFE 2 2 = Ok bs \<and>
     length bs = 4 \<and> reads ex_memory 0x1FFE bs"
proof -
  let ?S = "sim_mach ex_memory [] (\<lambda>_. Err 1)" and ?self = "\<lparr>td_task = 9, td_page_size = 4096\<rparr>"
  have "sim_read ex_memory a n \<noteq> Err e" for a n e by (auto simp: sim_read_def ex_memory_def Let_def)
  then have "mach_vm_read ?S 9 a n \<noteq> Err e" for a n e by (simp add: sim_mach_def)
  then have no_err: "read_task_memory ?S ?self 0x1FFE 2 2 \<noteq> Err e" for e
    by (auto simp: read_task_memory_def mach_call_def page_range_def add_w_def sub_w_def slice_range_def Let_def
        bindR_Err_iff map_err_Err_iff split: prod.splits if_splits)
  have "?self = TaskDumper_new ?S 9" by (simp add: TaskDumper_new_def sim_mach_def)
  from task_memory_read [OF simm.task_memory_axioms this, where address = "0x1FFE" and count = 2 and sz = 2] no_err
  show ?thesis by (cases "read_task_memory ?S ?self 0x1FFE 2 2") auto
qed

end
