(* ===== verification/Mac_Formats.thy ===== *)
theory Mac_Formats
  imports Task_Dumper
begin

text \<open>
  The structures that only the macOS writer sets, from the crates minidump\_common and crash-context, with their layouts and codes
  (\<open>mac_formats\<close>, an argument of the stream writers like \<open>formats\<close> on Linux), the state of the writer and its error type
  (\<open>src/src/mac/errors.rs\<close>, \<open>src/src/mac/minidump_writer.rs\<close>) and its iterator over the threads.
\<close>

section \<open>Structures\<close>

record MacException = MDException +
  number_parameters :: u32
  exception_information :: "u64 list"

record MacExceptionStream =
  mx_thread_id :: u32
  mx_exception_record :: MacException
  mx_thread_context :: MDLocationDescriptor

record MacSystemInfo = MDRawSystemInfo +
  product_type :: u8
  major_version :: u32
  minor_version :: u32
  build_number :: u32

record MDRawMiscInfo =
  size_of_info :: u32
  flags1 :: u32
  ms_process_id :: u32
  process_create_time :: u32
  process_user_time :: u32
  process_kernel_time :: u32
  processor_max_mhz :: u32
  processor_current_mhz :: u32
  processor_mhz_limit :: u32
  processor_max_idle_state :: u32
  processor_current_idle_state :: u32

record BreakpadInfo =
  validity :: u32
  dump_thread_id :: u32
  requesting_thread_id :: u32

text \<open>The record with the identifier of an image; the layout makes a GUID of the 16 bytes.\<close>

record CvInfoPdb =
  cv_signature :: u32
  cv_uuid :: bytes
  cv_age :: u32

record mac_formats =
  mf_base :: formats
  f_mac_exception :: "MacExceptionStream pod"
  f_mac_system_info :: "MacSystemInfo pod"
  f_misc_info :: "MDRawMiscInfo pod"
  f_breakpad_info :: "BreakpadInfo pod"
  f_cv_pdb :: "CvInfoPdb pod"
  misc_info_stream :: u32
  breakpad_info_stream :: u32
  misc1_process_id :: u32
  misc1_process_times :: u32
  misc1_processor_power_info :: u32
  dump_thread_id_valid :: u32
  requesting_thread_id_valid :: u32
  cv_signature_pdb70 :: u32
  platform_macos :: u32
  size_of_misc_info :: nat

section \<open>State of the writer\<close>

record exception_info =
  ei_kind :: u32
  ei_code :: u64
  ei_subcode :: "u64 option"

record mac_crash_context =
  cc_task :: u32
  cc_thread :: u32
  cc_handler_thread :: u32
  cc_exception :: "exception_info option"

record MacWriter =
  mac_crash :: "mac_crash_context option"
  mac_blocks :: "MDMemoryDescriptor list"
  mac_task :: u32
  mac_handler :: u32

datatype MacWriterError =
    MacTaskDumpError TaskDumpError
  | MacMemoryWriterError MemoryWriterError
  | MacFileWriterError FileWriterError
  | NoCrashContext

type_synonym 'a mac_comp = "(MacWriter \<times> Buffer, 'a, MacWriterError) comp"

definition MacWriter_new :: "mach_sys \<Rightarrow> u32 option \<Rightarrow> u32 option \<Rightarrow> MacWriter" where
  "MacWriter_new S task handler_thread =
     \<lparr>mac_crash = None, mac_blocks = [],
      mac_task = (case task of Some t \<Rightarrow> t | None \<Rightarrow> mach_task_self S),
      mac_handler = (case handler_thread of Some t \<Rightarrow> t | None \<Rightarrow> mach_thread_self S)\<rparr>"

definition MacWriter_with_crash_context :: "mac_crash_context \<Rightarrow> MacWriter" where
  "MacWriter_with_crash_context cc =
     \<lparr>mac_crash = Some cc, mac_blocks = [], mac_task = cc_task cc, mac_handler = cc_handler_thread cc\<rparr>"

section \<open>Active threads\<close>

record ActiveThreads =
  at_threads :: "u32 list"
  at_handler :: u32
  at_i :: nat

definition MACH_PORT_NULL :: u32 where "MACH_PORT_NULL = 0"

definition ActiveThreads_len :: "ActiveThreads \<Rightarrow> (nat, 'e) result" where
  "ActiveThreads_len self =
     (let len = length (at_threads self) in
      if at_handler self \<noteq> MACH_PORT_NULL then (if len = 0 then Panic else Ok (len - 1)) else Ok len)"

function ActiveThreads_next :: "ActiveThreads \<Rightarrow> u32 option \<times> ActiveThreads" where
  "ActiveThreads_next self =
     (if at_i self < length (at_threads self) then
        let i = at_i self; self' = self\<lparr>at_i := at_i self + 1\<rparr> in
        if at_threads self ! i \<noteq> at_handler self then (Some (at_threads self ! i), self')
        else ActiveThreads_next self'
      else (None, self))"
  by pat_completeness auto
termination
  by (relation "measure (\<lambda>self. length (at_threads self) - at_i self)") auto

declare ActiveThreads_next.simps [simp del]

lemma next_end: "\<not> at_i self < length (at_threads self) \<Longrightarrow> ActiveThreads_next self = (None, self)"
  by (subst ActiveThreads_next.simps) (simp add: Let_def)

lemma next_yield:
  "at_i self < length (at_threads self) \<Longrightarrow> at_threads self ! at_i self \<noteq> at_handler self \<Longrightarrow>
   ActiveThreads_next self = (Some (at_threads self ! at_i self), self\<lparr>at_i := Suc (at_i self)\<rparr>)"
  by (subst ActiveThreads_next.simps) (simp add: Let_def)

lemma next_skip:
  "at_i self < length (at_threads self) \<Longrightarrow> at_threads self ! at_i self = at_handler self \<Longrightarrow>
   ActiveThreads_next self = ActiveThreads_next (self\<lparr>at_i := Suc (at_i self)\<rparr>)"
  by (subst ActiveThreads_next.simps) (simp add: Let_def)

lemma next_advances:
  "ActiveThreads_next self = (Some t, self') \<Longrightarrow>
   length (at_threads self') - at_i self' < length (at_threads self) - at_i self"
proof (induction self rule: ActiveThreads_next.induct)
  case (1 self)
  consider "\<not> at_i self < length (at_threads self)"
    | "at_i self < length (at_threads self)" "at_threads self ! at_i self \<noteq> at_handler self"
    | "at_i self < length (at_threads self)" "at_threads self ! at_i self = at_handler self" by blast
  then show ?case
  proof cases
    case 3
    then have "ActiveThreads_next (self\<lparr>at_i := Suc (at_i self)\<rparr>) = (Some t, self')" using 1(2) next_skip by metis
    with 1(1) [OF 3(1) refl refl] 3 show ?thesis by simp
  qed (use 1(2) in \<open>auto simp: next_end next_yield\<close>)
qed

text \<open>What a loop over the iterator sees.\<close>

function active_list :: "ActiveThreads \<Rightarrow> u32 list" where
  "active_list self = (case ActiveThreads_next self of (None, _) \<Rightarrow> [] | (Some t, self') \<Rightarrow> t # active_list self')"
  by pat_completeness auto
termination
  by (relation "measure (\<lambda>self. length (at_threads self) - at_i self)") (auto simp: next_advances [OF sym])

declare active_list.simps [simp del]

lemma active_list_eq: "active_list self = filter (\<lambda>t. t \<noteq> at_handler self) (drop (at_i self) (at_threads self))"
proof (induction "length (at_threads self) - at_i self" arbitrary: self)
  case 0
  then show ?case by (subst active_list.simps) (simp add: next_end)
next
  case (Suc n)
  then have i: "at_i self < length (at_threads self)" by simp
  note step = Cons_nth_drop_Suc [OF i, symmetric]
  have IH: "active_list (self\<lparr>at_i := Suc (at_i self)\<rparr>) = filter (\<lambda>t. t \<noteq> at_handler self) (drop (Suc (at_i self)) (at_threads self))"
    using Suc(1) [of "self\<lparr>at_i := Suc (at_i self)\<rparr>"] Suc(2) by simp
  show ?case
  proof (cases "at_threads self ! at_i self = at_handler self")
    case True
    have "active_list self = active_list (self\<lparr>at_i := Suc (at_i self)\<rparr>)"
      by (subst (1 2) active_list.simps) (simp add: next_skip [OF i True])
    with IH True step show ?thesis by simp
  next
    case False
    with IH step show ?thesis by (subst active_list.simps) (simp add: next_yield [OF i])
  qed
qed

definition threads_of :: "mach_sys \<Rightarrow> TaskDumper \<Rightarrow> MacWriter \<Rightarrow> (ActiveThreads, 'e) result" where
  "threads_of S dumper self =
     (case read_threads S dumper of
        Panic \<Rightarrow> Panic
      | Err _ \<Rightarrow> Ok \<lparr>at_threads = [], at_handler = mac_handler self, at_i = 0\<rparr>
      | Ok ts \<Rightarrow> Ok \<lparr>at_threads = ts, at_handler = mac_handler self, at_i = 0\<rparr>)"

section \<open>Lawful layouts\<close>

locale mac_layouts =
  fixes F :: mac_formats
  assumes base: "md_formats (mf_base F)"
    and mac_exception: "pod_codec (f_mac_exception F)"
    and mac_system_info: "pod_codec (f_mac_system_info F)"
    and misc_info: "pod_codec (f_misc_info F)"
    and breakpad_info: "pod_codec (f_breakpad_info F)"
    and cv_pdb: "pod_codec (f_cv_pdb F)"
begin

lemmas mac_codecs = md_formats.codecs [OF base] mac_exception mac_system_info misc_info breakpad_info cv_pdb

end

text \<open>The packed little-endian layouts of the format; a GUID has its first three parts in the order of the machine.\<close>

definition mac_exception_pod :: "MacExceptionStream pod" where
  "mac_exception_pod = fixed_pod 168 (\<lambda>x. le_bytes 4 (mx_thread_id x) @ replicate 4 0 @
     le_bytes 4 (exception_code (mx_exception_record x)) @ le_bytes 4 (exception_flags (mx_exception_record x)) @ replicate 8 0 @
     le_bytes 8 (exception_address (mx_exception_record x)) @ le_bytes 4 (number_parameters (mx_exception_record x)) @ replicate 4 0 @
     resize (concat (map (le_bytes 8) (exception_information (mx_exception_record x)))) 120 0 @ loc_bytes (mx_thread_context x))"

definition mac_system_info_pod :: "MacSystemInfo pod" where
  "mac_system_info_pod = fixed_pod 56 (\<lambda>i. le_bytes 2 (processor_architecture i) @ le_bytes 2 (processor_level i) @
     le_bytes 2 (processor_revision i) @ [number_of_processors i, product_type i] @ le_bytes 4 (major_version i) @
     le_bytes 4 (minor_version i) @ le_bytes 4 (build_number i) @ le_bytes 4 (platform_id i) @
     le_bytes 4 (csd_version_rva i) @ replicate 4 0 @ resize (cpu_data i) 24 0)"

definition misc_info_pod :: "MDRawMiscInfo pod" where
  "misc_info_pod = fixed_pod 44 (\<lambda>m. le_bytes 4 (size_of_info m) @ le_bytes 4 (flags1 m) @ le_bytes 4 (ms_process_id m) @
     le_bytes 4 (process_create_time m) @ le_bytes 4 (process_user_time m) @ le_bytes 4 (process_kernel_time m) @
     le_bytes 4 (processor_max_mhz m) @ le_bytes 4 (processor_current_mhz m) @ le_bytes 4 (processor_mhz_limit m) @
     le_bytes 4 (processor_max_idle_state m) @ le_bytes 4 (processor_current_idle_state m))"

definition breakpad_info_pod :: "BreakpadInfo pod" where
  "breakpad_info_pod = fixed_pod 12 (\<lambda>b. le_bytes 4 (validity b) @ le_bytes 4 (dump_thread_id b) @ le_bytes 4 (requesting_thread_id b))"

definition cv_pdb_pod :: "CvInfoPdb pod" where
  "cv_pdb_pod = fixed_pod 24 (\<lambda>c. le_bytes 4 (cv_signature c) @
     (let u = resize (cv_uuid c) 16 0 in rev (take 4 u) @ rev (take 2 (drop 4 u)) @ rev (take 2 (drop 6 u)) @ drop 8 u) @ le_bytes 4 (cv_age c))"

definition le_mac_formats :: mac_formats where
  "le_mac_formats = \<lparr>mf_base = le_formats, f_mac_exception = mac_exception_pod, f_mac_system_info = mac_system_info_pod,
     f_misc_info = misc_info_pod, f_breakpad_info = breakpad_info_pod, f_cv_pdb = cv_pdb_pod, misc_info_stream = 15,
     breakpad_info_stream = 0x47670001, misc1_process_id = 1, misc1_process_times = 2, misc1_processor_power_info = 4,
     dump_thread_id_valid = 1, requesting_thread_id_valid = 2, cv_signature_pdb70 = 0x53445352, platform_macos = 0x8101,
     size_of_misc_info = 44\<rparr>"

lemma le_mac_codecs:
  "pod_codec mac_exception_pod" "pod_codec mac_system_info_pod" "pod_codec misc_info_pod" "pod_codec breakpad_info_pod"
  "pod_codec cv_pdb_pod"
  unfolding mac_exception_pod_def mac_system_info_pod_def misc_info_pod_def breakpad_info_pod_def cv_pdb_pod_def
  by (rule pod_codec_fixed, simp add: Let_def)+

interpretation lem: mac_layouts le_mac_formats
  by (rule mac_layouts.intro) (simp_all add: le_mac_formats_def le_mac_codecs lef.md_formats_axioms)

section \<open>The number of active threads\<close>

lemma active_count: "length (active_list \<lparr>at_threads = ts, at_handler = h, at_i = 0\<rparr>) + count_list ts h = length ts"
  by (simp add: active_list_eq) (induction ts, auto)

text \<open>
  C29. The number of threads that the thread list and the thread names announce is the number that the iterator yields
  exactly if the handler thread is listed once, or is the null port and is not listed.
\<close>

theorem active_threads_len:
  "(ActiveThreads_len \<lparr>at_threads = ts, at_handler = h, at_i = 0\<rparr> =
      (Ok (length (active_list \<lparr>at_threads = ts, at_handler = h, at_i = 0\<rparr>)) :: (nat, 'e) result)) \<longleftrightarrow>
   count_list ts h = (if h = MACH_PORT_NULL then 0 else 1)"
  using active_count [of ts h] by (cases ts) (auto simp: ActiveThreads_len_def Let_def)

end
