(* ===== verification/Mac_Threads.thy ===== *)
theory Mac_Threads
  imports Mac_Formats
begin

text \<open>
  The thread list, memory list, thread names, breakpad info and exception streams of the macOS writer
  (\<open>thread_list.rs\<close>, \<open>memory_list.rs\<close>, \<open>thread_names.rs\<close>, \<open>breakpad_info.rs\<close> and \<open>exception.rs\<close> under
  \<open>src/src/mac/streams/\<close>), on the state of the writer with the buffer.

  The walk over the regions of a stack has no bound of its own: it is a partial function, and a walk that does not end is
  \<open>Panic\<close> for the stream, since neither returns. \<open>stack_size_covers\<close> shows that it ends on regions that are not empty.
\<close>

section \<open>Stacks\<close>

definition VM_MEMORY_STACK :: u32 where "VM_MEMORY_STACK = 30"
definition VM_PROT_READ :: u32 where "VM_PROT_READ = 1"

partial_function (option) stack_walk :: "mach_sys \<Rightarrow> TaskDumper \<Rightarrow> VMRegionInfo \<Rightarrow> u64 \<Rightarrow> (u64, 'e) result option" where
  "stack_walk S dumper region stack_size =
     (case get_vm_region S dumper (vr_end region) of
        Panic \<Rightarrow> Some Panic
      | Err _ \<Rightarrow> Some (Ok stack_size)
      | Ok reg \<Rightarrow>
          (if vr_start reg \<noteq> vr_end region \<or> user_tag (vr_info reg) \<noteq> VM_MEMORY_STACK \<or>
              and (vm_protection (vr_info reg)) VM_PROT_READ = 0
           then Some (Ok stack_size)
           else case bindR (sub_w (vr_end reg) (vr_start reg)) (add_w stack_size) of
             Ok n \<Rightarrow> stack_walk S dumper reg n
           | Err e \<Rightarrow> Some (Err e)
           | Panic \<Rightarrow> Some Panic))"

definition calculate_stack_size :: "mach_sys \<Rightarrow> TaskDumper \<Rightarrow> u64 \<Rightarrow> (u64, 'e) result option" where
  "calculate_stack_size S dumper start_addr =
     (if start_addr = 0 then Some (Ok 0)
      else case get_vm_region S dumper start_addr of
        Panic \<Rightarrow> Some Panic
      | Err _ \<Rightarrow> Some (Ok 0)
      | Ok region \<Rightarrow>
          (if start_addr < vr_start region then Some (Ok 0)
           else case sub_w (vr_end region) (vr_start region) of
             Panic \<Rightarrow> Some Panic
           | Err e \<Rightarrow> Some (Err e)
           | Ok size0 \<Rightarrow>
               map_option (\<lambda>r. bindR r (\<lambda>stack_size. bindR (add_w (vr_start region) stack_size) (\<lambda>stop. sub_w stop start_addr)))
                 (if user_tag (vr_info region) = VM_MEMORY_STACK then stack_walk S dumper region size0
                  else Some (Ok size0))))"

definition or_panic :: "('a, 'e) result option \<Rightarrow> ('s, 'a, 'e) comp" where
  "or_panic r = (case r of None \<Rightarrow> panic | Some v \<Rightarrow> lift_result v)"

definition append_bytes :: "bytes \<Rightarrow> ('s \<times> Buffer, unit, 'e) comp" where
  "append_bytes bs = modifyM (\<lambda>(self, b). (self, Buffer_write_all bs b))"

definition push_block :: "MDMemoryDescriptor \<Rightarrow> unit mac_comp" where
  "push_block m = modifyM (\<lambda>(self, b). (self\<lparr>mac_blocks := mac_blocks self @ [m]\<rparr>, b))"

definition write_stack_from_start_address ::
    "mach_sys \<Rightarrow> TaskDumper \<Rightarrow> u64 \<Rightarrow> MDRawThread \<Rightarrow> MDRawThread mac_comp" where
  "write_stack_from_start_address S dumper start thread =
     bindM (or_panic (calculate_stack_size S dumper start)) (\<lambda>stack_size.
     bindM (getM (\<lambda>(_, b). ucast (Buffer_position b))) (\<lambda>pos.
     bindM (if stack_size \<noteq> 0 then
              (case read_task_memory S dumper start (unat stack_size) 1 of
                 Panic \<Rightarrow> panic
               | Err _ \<Rightarrow> ret None
               | Ok stack_buffer \<Rightarrow>
                   bindM (append_bytes stack_buffer) (\<lambda>_.
                     ret (Some \<lparr>data_size = word_of_nat (length stack_buffer), rva = pos\<rparr>)))
            else ret None) (\<lambda>stack_location.
     bindM (case stack_location of
              Some loc \<Rightarrow> ret \<lparr>start_of_memory_range = start, md_memory = loc\<rparr>
            | None \<Rightarrow>
                let borked = (if stack_size = 0 then 0xdeadbeef else 0xdeaddead :: u64) in
                bindM (append_bytes (le_bytes 8 borked)) (\<lambda>_.
                bindM (append_bytes (le_bytes 8 borked)) (\<lambda>_.
                  ret \<lparr>start_of_memory_range = borked, md_memory = \<lparr>data_size = 16, rva = pos\<rparr>\<rparr>))) (\<lambda>block.
     bindM (push_block block) (\<lambda>_.
       ret (thread\<lparr>stack := block\<rparr>))))))"

section \<open>The thread list\<close>

definition CONTEXT_AMD64 :: u32 where "CONTEXT_AMD64 = 0x100000"

definition mac_fill_cpu_context :: "mach_sys \<Rightarrow> ThreadState \<Rightarrow> RawContextCPU \<Rightarrow> RawContextCPU" where
  "mac_fill_cpu_context S thread_state out =
     (let ts = arch_state S thread_state in
      out\<lparr>context_flags := CONTEXT_AMD64,
        rax := x_rax ts, rbx := x_rbx ts, rcx := x_rcx ts, rdx := x_rdx ts, rdi := x_rdi ts, rsi := x_rsi ts,
        rbp := x_rbp ts, rsp := x_rsp ts, r8 := x_r8 ts, r9 := x_r9 ts, r10 := x_r10 ts, r11 := x_r11 ts,
        r12 := x_r12 ts, r13 := x_r13 ts, r14 := x_r14 ts, r15 := x_r15 ts, rip := x_rip ts,
        eflags := ucast (x_rflags ts), cs := ucast (x_cs ts), fs := ucast (x_fs ts), gs := ucast (x_gs ts)\<rparr>)"

definition mac_blank_thread :: "u32 \<Rightarrow> MDRawThread" where
  "mac_blank_thread t = \<lparr>thread_id = t, suspend_count = 0, priority_class = 0, priority = 0, teb = 0,
     stack = MDMemoryDescriptor_default, thread_context = MDLocationDescriptor_default\<rparr>"

definition mac_write_thread :: "mac_formats \<Rightarrow> mach_sys \<Rightarrow> TaskDumper \<Rightarrow> u32 \<Rightarrow> MDRawThread mac_comp" where
  "mac_write_thread F S dumper t =
     bindM (lift_result (map_err MacTaskDumpError (read_thread_state S dumper t))) (\<lambda>thread_state.
     bindM (write_stack_from_start_address S dumper (ThreadState_sp S thread_state) (mac_blank_thread t)) (\<lambda>thread.
     bindM (map_errM MacMemoryWriterError (on_snd (MemoryWriter_alloc_with_val (f_context (mf_base F))
              (mac_fill_cpu_context S thread_state RawContextCPU_default)))) (\<lambda>cpu_section.
       ret (thread\<lparr>thread_context := MemoryWriter_location (f_context (mf_base F)) cpu_section\<rparr>))))"

fun mac_write_threads ::
    "mac_formats \<Rightarrow> mach_sys \<Rightarrow> TaskDumper \<Rightarrow> MemoryArrayWriter \<Rightarrow> nat \<Rightarrow> u32 list \<Rightarrow> unit mac_comp" where
  "mac_write_threads F S dumper thread_list i [] = ret ()"
| "mac_write_threads F S dumper thread_list i (t # ts) =
     bindM (mac_write_thread F S dumper t) (\<lambda>thread.
     bindM (map_errM MacMemoryWriterError
              (on_snd (MemoryArrayWriter_set_value_at (f_thread (mf_base F)) thread_list thread i))) (\<lambda>_.
       mac_write_threads F S dumper thread_list (Suc i) ts))"

text \<open>A stream that is a count and an array: the entry, and the array to be filled.\<close>

definition count_and_array ::
    "'a pod \<Rightarrow> u32 \<Rightarrow> nat \<Rightarrow> (MDRawDirectory \<times> MemoryArrayWriter) mac_comp" where
  "count_and_array C kind n =
     bindM (map_errM MacMemoryWriterError (on_snd (MemoryWriter_alloc_with_val u32_pod (word_of_nat n)))) (\<lambda>list_header.
       let dirent = \<lparr>stream_type = kind, location = MemoryWriter_location u32_pod list_header\<rparr> in
     bindM (map_errM MacMemoryWriterError (on_snd (MemoryArrayWriter_alloc_array C n))) (\<lambda>arr.
     bindM (add_data_size dirent (data_size (MemoryArrayWriter_location C arr))) (\<lambda>dirent.
       ret (dirent, arr))))"

definition mac_write_thread_list :: "mac_formats \<Rightarrow> mach_sys \<Rightarrow> TaskDumper \<Rightarrow> MDRawDirectory mac_comp" where
  "mac_write_thread_list F S dumper =
     bindM (getM fst) (\<lambda>self.
     bindM (lift_result (threads_of S dumper self)) (\<lambda>ths.
     bindM (lift_result (ActiveThreads_len ths)) (\<lambda>n.
     bindM (count_and_array (f_thread (mf_base F)) (stream_code (mf_base F) ThreadListStream) n) (\<lambda>(dirent, thread_list).
     bindM (mac_write_threads F S dumper thread_list 0 (active_list ths)) (\<lambda>_.
       ret dirent)))))"

section \<open>The memory list\<close>

definition IP_MEM_SIZE :: u64 where "IP_MEM_SIZE = 256"

definition get_ip_block :: "mach_sys \<Rightarrow> TaskDumper \<Rightarrow> u32 \<Rightarrow> ((u64 \<times> u64) option, 'e) result" where
  "get_ip_block S dumper t =
     (case read_thread_state S dumper t of
        Panic \<Rightarrow> Panic
      | Err _ \<Rightarrow> Ok None
      | Ok thread_state \<Rightarrow>
          (let ip = ThreadState_pc S thread_state in
           case get_vm_region S dumper ip of
             Panic \<Rightarrow> Panic
           | Err _ \<Rightarrow> Ok None
           | Ok region \<Rightarrow>
               (if ip < vr_start region \<or> vr_end region < ip then Ok None
                else
                  bindR (sub_w ip (IP_MEM_SIZE div 2)) (\<lambda>low.
                  bindR (add_w ip (IP_MEM_SIZE div 2)) (\<lambda>high.
                    Ok (Some (max (vr_start region) low, min high (vr_end region))))))))"

definition write_ip_block :: "mach_sys \<Rightarrow> TaskDumper \<Rightarrow> u32 \<Rightarrow> unit mac_comp" where
  "write_ip_block S dumper t =
     bindM (lift_result (get_ip_block S dumper t)) (\<lambda>ip_range.
       case ip_range of
         None \<Rightarrow> ret ()
       | Some (start, stop) \<Rightarrow>
           bindM (lift_result (sub_w stop start)) (\<lambda>n.
           bindM (lift_result (map_err MacTaskDumpError (read_task_memory S dumper start (unat n) 1))) (\<lambda>stack_buffer.
           bindM (getM (\<lambda>(_, b). ucast (Buffer_position b))) (\<lambda>pos.
           bindM (append_bytes stack_buffer) (\<lambda>_.
             push_block \<lparr>start_of_memory_range = start, md_memory = \<lparr>data_size = ucast n, rva = pos\<rparr>\<rparr>)))))"

definition mac_write_memory_list :: "mac_formats \<Rightarrow> mach_sys \<Rightarrow> TaskDumper \<Rightarrow> MDRawDirectory mac_comp" where
  "mac_write_memory_list F S dumper =
     bindM (getM (mac_crash \<circ> fst)) (\<lambda>crash.
     bindM (case crash of
              Some cc \<Rightarrow> if cc_exception cc \<noteq> None then write_ip_block S dumper (cc_thread cc) else ret ()
            | None \<Rightarrow> ret ()) (\<lambda>_.
     bindM (getM (mac_blocks \<circ> fst)) (\<lambda>blocks.
     bindM (map_errM MacMemoryWriterError (on_snd (MemoryWriter_alloc_with_val u32_pod (word_of_nat (length blocks))))) (\<lambda>list_header.
       let dirent = \<lparr>stream_type = stream_code (mf_base F) MemoryListStream, location = MemoryWriter_location u32_pod list_header\<rparr> in
     bindM (map_errM MacMemoryWriterError
              (on_snd (MemoryArrayWriter_alloc_from_array (f_memory (mf_base F)) blocks))) (\<lambda>block_list.
       add_data_size dirent (data_size (MemoryArrayWriter_location (f_memory (mf_base F)) block_list)))))))"

section \<open>Thread names and breakpad info\<close>

definition mac_write_thread_name :: "mach_sys \<Rightarrow> u32 \<Rightarrow> (Buffer, MDLocationDescriptor, MacWriterError) comp" where
  "mac_write_thread_name S t =
     bindM (lift_result (map_err MacTaskDumpError (thread_info (thread_pth_name S) t))) (\<lambda>pth_name.
       let nm = (case from_utf8 (bytes_name pth_name) of Some v \<Rightarrow> v | None \<Rightarrow> []);
           tname = takeWhile (\<lambda>c. c \<noteq> char_of (0 :: nat)) nm in
     map_errM MacMemoryWriterError (write_string_to_location tname))"

fun mac_write_names :: "mac_formats \<Rightarrow> mach_sys \<Rightarrow> MemoryArrayWriter \<Rightarrow> nat \<Rightarrow> u32 list \<Rightarrow> unit mac_comp" where
  "mac_write_names F S names i [] = ret ()"
| "mac_write_names F S names i (t # ts) =
     bindM (handleM (on_snd (mac_write_thread_name S t)) ret
              (\<lambda>_. map_errM MacMemoryWriterError (on_snd (write_string_to_location [])))) (\<lambda>name_loc.
     bindM (map_errM MacMemoryWriterError (on_snd (MemoryArrayWriter_set_value_at (f_thread_name (mf_base F)) names
              \<lparr>tn_thread_id = t, thread_name_rva = ucast (rva name_loc)\<rparr> i))) (\<lambda>_.
       mac_write_names F S names (Suc i) ts))"

definition mac_write_thread_names :: "mac_formats \<Rightarrow> mach_sys \<Rightarrow> TaskDumper \<Rightarrow> MDRawDirectory mac_comp" where
  "mac_write_thread_names F S dumper =
     bindM (getM fst) (\<lambda>self.
     bindM (lift_result (threads_of S dumper self)) (\<lambda>ths.
     bindM (lift_result (ActiveThreads_len ths)) (\<lambda>n.
     bindM (count_and_array (f_thread_name (mf_base F)) (stream_code (mf_base F) ThreadNamesStream) n) (\<lambda>(dirent, names).
     bindM (mac_write_names F S names 0 (active_list ths)) (\<lambda>_.
       ret dirent)))))"

definition write_breakpad_info :: "mac_formats \<Rightarrow> MDRawDirectory mac_comp" where
  "write_breakpad_info F =
     bindM (getM fst) (\<lambda>self.
     bindM (map_errM MacMemoryWriterError (on_snd (MemoryWriter_alloc_with_val (f_breakpad_info F)
              \<lparr>validity = or (dump_thread_id_valid F) (requesting_thread_id_valid F), dump_thread_id = mac_handler self,
               requesting_thread_id = (case mac_crash self of Some cc \<Rightarrow> cc_thread cc | None \<Rightarrow> 0)\<rparr>))) (\<lambda>bp_section.
       ret \<lparr>stream_type = breakpad_info_stream F, location = MemoryWriter_location (f_breakpad_info F) bp_section\<rparr>))"

section \<open>The exception\<close>

definition EXC_BAD_ACCESS :: u32 where "EXC_BAD_ACCESS = 1"
definition EXC_CRASH :: u32 where "EXC_CRASH = 10"
definition EXC_RESOURCE :: u32 where "EXC_RESOURCE = 11"
definition EXC_GUARD :: u32 where "EXC_GUARD = 12"
definition EXC_CORPSE_NOTIFY :: u32 where "EXC_CORPSE_NOTIFY = 13"

definition is_valid_exc_crash :: "u64 \<Rightarrow> bool" where
  "is_valid_exc_crash exc_code =
     (let wrapped = (ucast (and (drop_bit 20 exc_code) 0xf) :: u32) in
      \<not> (wrapped = EXC_CRASH \<or> wrapped = EXC_RESOURCE \<or> wrapped = EXC_GUARD \<or> wrapped = EXC_CORPSE_NOTIFY))"

record WrappedException =
  we_kind :: u32
  we_code :: u32
  we_signal :: u8

definition recover_exc_crash_wrapped_exception :: "u64 \<Rightarrow> WrappedException option" where
  "recover_exc_crash_wrapped_exception code =
     (if is_valid_exc_crash code
      then Some \<lparr>we_kind = ucast (and (drop_bit 20 code) 0xf), we_code = ucast (and code 0xfffff),
                 we_signal = ucast (and (drop_bit 24 code) 0xff)\<rparr>
      else None)"

text \<open>The exception record; \<open>pc\<close> is the instruction pointer of the crashing thread, if it could be read.\<close>

definition mac_exception_of :: "exception_info \<Rightarrow> u64 option \<Rightarrow> MacException" where
  "mac_exception_of exc pc =
     (let code = ei_code exc;
          wrapped_exc = (if ei_kind exc = EXC_CRASH then recover_exc_crash_wrapped_exception code else None);
          exc_code = (if ei_kind exc = EXC_RESOURCE \<or> ei_kind exc = EXC_GUARD then ucast (drop_bit 32 code)
             else case wrapped_exc of Some wrapped \<Rightarrow> we_code wrapped | None \<Rightarrow> ucast code);
          exception_kind = (case wrapped_exc of Some wrapped \<Rightarrow> we_kind wrapped | None \<Rightarrow> ei_kind exc);
          addr = (case ei_subcode exc of
             Some subcode \<Rightarrow> if exception_kind = EXC_BAD_ACCESS then subcode else (case pc of Some p \<Rightarrow> p | None \<Rightarrow> 0)
           | None \<Rightarrow> (case pc of Some p \<Rightarrow> p | None \<Rightarrow> 0))
      in \<lparr>exception_code = exception_kind, exception_flags = exc_code, exception_address = addr,
          number_parameters = (case ei_subcode exc of Some _ \<Rightarrow> 3 | None \<Rightarrow> 2),
          exception_information = [ucast exception_kind, code, (case ei_subcode exc of Some subcode \<Rightarrow> subcode | None \<Rightarrow> 0)] @
            replicate 12 0\<rparr>)"

definition MacException_default :: MacException where
  "MacException_default = \<lparr>exception_code = 0, exception_flags = 0, exception_address = 0, number_parameters = 0,
     exception_information = replicate 15 0\<rparr>"

definition mac_write_exception :: "mac_formats \<Rightarrow> mach_sys \<Rightarrow> TaskDumper \<Rightarrow> MDRawDirectory mac_comp" where
  "mac_write_exception F S dumper =
     bindM (getM (mac_crash \<circ> fst)) (\<lambda>crash.
     bindM (lift_result (ok_or NoCrashContext crash)) (\<lambda>cc.
     bindM (case read_thread_state S dumper (cc_thread cc) of
              Panic \<Rightarrow> panic
            | Err _ \<Rightarrow> ret None
            | Ok ts \<Rightarrow> ret (Some ts)) (\<lambda>thread_state.
     bindM (case thread_state of
              None \<Rightarrow> ret None
            | Some ts \<Rightarrow>
                handleM (on_snd (MemoryWriter_alloc_with_val (f_context (mf_base F)) (mac_fill_cpu_context S ts RawContextCPU_default)))
                  (\<lambda>mw. ret (Some (MemoryWriter_location (f_context (mf_base F)) mw))) (\<lambda>_. ret None)) (\<lambda>context_loc.
       let record_of = (case cc_exception cc of
             Some exc \<Rightarrow> mac_exception_of exc (map_option (ThreadState_pc S) thread_state) | None \<Rightarrow> MacException_default) in
     bindM (map_errM MacMemoryWriterError (on_snd (MemoryWriter_alloc_with_val (f_mac_exception F)
              \<lparr>mx_thread_id = cc_thread cc, mx_exception_record = record_of,
               mx_thread_context = (case context_loc of Some l \<Rightarrow> l | None \<Rightarrow> MDLocationDescriptor_default)\<rparr>))) (\<lambda>exc_section.
       ret \<lparr>stream_type = stream_code (mf_base F) ExceptionStream,
            location = MemoryWriter_location (f_mac_exception F) exc_section\<rparr>)))))"

section \<open>The stack of a thread\<close>

text \<open>\<open>reg'\<close> continues the stack of \<open>reg\<close>; the end of the last region of a chain of such regions.\<close>

definition continues :: "mach_sys \<Rightarrow> TaskDumper \<Rightarrow> VMRegionInfo \<Rightarrow> VMRegionInfo \<Rightarrow> bool" where
  "continues S dumper reg reg' \<longleftrightarrow> get_vm_region S dumper (vr_end reg) = Ok reg' \<and> vr_start reg' = vr_end reg \<and>
     user_tag (vr_info reg') = VM_MEMORY_STACK \<and> and (vm_protection (vr_info reg')) VM_PROT_READ \<noteq> 0"

inductive stack_end :: "mach_sys \<Rightarrow> TaskDumper \<Rightarrow> VMRegionInfo \<Rightarrow> u64 \<Rightarrow> bool" for S dumper where
  end_here: "(\<And>reg'. \<not> continues S dumper reg reg') \<Longrightarrow> stack_end S dumper reg (vr_end reg)"
| end_later: "continues S dumper reg reg' \<Longrightarrow> stack_end S dumper reg' e \<Longrightarrow> stack_end S dumper reg e"

text \<open>What \<open>mach_vm_region_recurse\<close> promises: a region that is not empty, does not reach the top and does not end below the address.\<close>

locale vm_regions =
  fixes S :: mach_sys and t :: u32
  assumes region_no_panic: "mach_vm_region_recurse S t a \<noteq> Panic"
    and region_law: "mach_vm_region_recurse S t a = Ok (b, n, i) \<Longrightarrow> 0 < unat n \<and> unat b + unat n < 2 ^ 64 \<and> unat a < unat b + unat n"
begin

lemma get_region:
  assumes "td_task dumper = t"
  shows "get_vm_region S dumper a \<noteq> Panic"
    and "get_vm_region S dumper a = Ok reg \<Longrightarrow> unat (vr_start reg) < unat (vr_end reg) \<and> unat a < unat (vr_end reg)"
proof -
  have sum: "(add_w b n :: (u64, TaskDumpError) result) = Ok (b + n) \<and> unat (b + n) = unat b + unat n"
    if "mach_vm_region_recurse S t a = Ok (b, n, i)" for b n i
    using region_law [OF that] by (simp add: add_w_def unat_word_ariths)
  show "get_vm_region S dumper a \<noteq> Panic"
    using region_no_panic [of a] sum assms
    by (cases "mach_vm_region_recurse S t a") (auto simp: get_vm_region_def mach_call_def)
  show "unat (vr_start reg) < unat (vr_end reg) \<and> unat a < unat (vr_end reg)" if "get_vm_region S dumper a = Ok reg"
    using that region_law sum assms
    by (cases "mach_vm_region_recurse S t a") (fastforce simp: get_vm_region_def mach_call_def)+
qed

lemma region_size:
  assumes "td_task dumper = t" and "get_vm_region S dumper a = Ok reg"
  shows "(sub_w (vr_end reg) (vr_start reg) :: (u64, 'e) result) = Ok (vr_end reg - vr_start reg)"
    and "unat (vr_end reg - vr_start reg) = unat (vr_end reg) - unat (vr_start reg)"
  using get_region(2) [OF assms] by (auto simp: sub_w_def word_le_nat_alt unat_sub)

lemma walk_ends:
  assumes "td_task dumper = t" and "unat root + unat n = unat (vr_end region)"
  shows "\<exists>n' e. stack_walk S dumper region n = (Some (Ok n') :: (u64, 'e) result option) \<and> stack_end S dumper region e \<and>
    unat root + unat n' = unat e \<and> vr_end region \<le> e"
  using assms(2)
proof (induction "2 ^ 64 - unat (vr_end region)" arbitrary: region n rule: less_induct)
  case less
  consider (more) reg where "continues S dumper region reg"
    | (stop) "\<And>reg. \<not> continues S dumper region reg" by blast
  then show ?case
  proof cases
    case more
    then have get: "get_vm_region S dumper (vr_end region) = Ok reg" and cont: "vr_start reg = vr_end region"
      by (simp_all add: continues_def)
    note law = get_region(2) [OF assms(1) get] and size = region_size(1) [OF assms(1) get, where 'e = 'e] region_size(2) [OF assms(1) get]
    let ?n = "n + (vr_end reg - vr_start reg)"
    have "unat (vr_end reg) < 2 ^ 64" using unsigned_less [of "vr_end reg", where 'a = nat] by simp
    then have sum: "unat n + unat (vr_end reg - vr_start reg) < 2 ^ 64" "unat root + (unat n + unat (vr_end reg - vr_start reg)) = unat (vr_end reg)"
      using less(2) law size(2) cont by auto
    then have un: "unat ?n = unat n + unat (vr_end reg - vr_start reg)" by (simp add: unat_word_ariths)
    have "2 ^ 64 - unat (vr_end reg) < 2 ^ 64 - unat (vr_end region)"
      using law cont \<open>unat (vr_end reg) < 2 ^ 64\<close> by simp
    from less(1) [OF this, of ?n] obtain n' e where
        *: "stack_walk S dumper reg ?n = (Some (Ok n') :: (u64, 'e) result option)" "stack_end S dumper reg e"
          "unat root + unat n' = unat e" "vr_end reg \<le> e"
      using un sum by auto
    have "stack_walk S dumper region n = (stack_walk S dumper reg ?n :: (u64, 'e) result option)"
      using more size(1) sum(1) by (subst stack_walk.simps) (simp add: continues_def add_w_def)
    moreover have "vr_end region \<le> e" using *(4) law cont by (simp add: word_le_nat_alt)
    ultimately show ?thesis using * end_later [OF more *(2)] by metis
  next
    case stop
    then have "stack_walk S dumper region n = (Some (Ok n) :: (u64, 'e) result option)"
      using get_region(1) [OF assms(1), of "vr_end region"]
      by (subst stack_walk.simps) (cases "get_vm_region S dumper (vr_end region)", auto simp: continues_def)
    then show ?thesis using end_here [OF stop] less(2) by blast
  qed
qed

lemma size_covers:
  assumes "td_task dumper = t"
  shows "\<exists>n. calculate_stack_size S dumper start = (Some (Ok n) :: (u64, 'e) result option) \<and>
    (if start = 0 \<or> \<not> (\<exists>r. get_vm_region S dumper start = Ok r \<and> vr_start r \<le> start) then n = 0
     else \<exists>r e. get_vm_region S dumper start = Ok r \<and> start < e \<and> unat start + unat n = unat e \<and>
       (if user_tag (vr_info r) = VM_MEMORY_STACK then stack_end S dumper r e else e = vr_end r))"
proof (cases "start = 0 \<or> \<not> (\<exists>r. get_vm_region S dumper start = Ok r \<and> vr_start r \<le> start)")
  case True
  then have "calculate_stack_size S dumper start = (Some (Ok 0) :: (u64, 'e) result option)"
    using get_region(1) [OF assms, of start]
    by (cases "get_vm_region S dumper start") (auto simp: calculate_stack_size_def)
  then show ?thesis using True by auto
next
  case False
  then obtain r where r: "get_vm_region S dumper start = Ok r" "vr_start r \<le> start" "start \<noteq> 0" by blast
  note law = get_region(2) [OF assms r(1)] and size = region_size(1) [OF assms r(1), where 'e = 'e] region_size(2) [OF assms r(1)]
  have root: "unat (vr_start r) + unat (vr_end r - vr_start r) = unat (vr_end r)" using law size(2) by simp
  let ?walk = "if user_tag (vr_info r) = VM_MEMORY_STACK then stack_walk S dumper r (vr_end r - vr_start r)
    else (Some (Ok (vr_end r - vr_start r)) :: (u64, 'e) result option)"
  obtain n' e where w: "?walk = Some (Ok n')" "unat (vr_start r) + unat n' = unat e" "vr_end r \<le> e"
      "if user_tag (vr_info r) = VM_MEMORY_STACK then stack_end S dumper r e else e = vr_end r"
    using walk_ends [OF assms root, where 'e = 'e] root by (cases "user_tag (vr_info r) = VM_MEMORY_STACK") auto
  have e: "vr_start r + n' = e" using w(2) unsigned_less [of e, where 'a = nat] by (simp add: word_unat_eq_iff unat_word_ariths)
  have lt: "start < e" using law w(3) by (simp add: word_less_nat_alt word_le_nat_alt)
  have "unat (vr_start r) + unat n' < 2 ^ 64" using w(2) unsigned_less [of e, where 'a = nat] by simp
  then have "calculate_stack_size S dumper start = (Some (Ok (e - start)) :: (u64, 'e) result option)"
    using r size(1) w(1) e lt leD [OF r(2)] less_imp_le [OF lt] by (simp add: calculate_stack_size_def add_w_def sub_w_def)
  moreover have "unat start + unat (e - start) = unat e" using lt by (simp add: unat_sub word_less_nat_alt word_le_nat_alt)
  ultimately show ?thesis using False r(1) lt w(4) by auto
qed

end

text \<open>A system with two abutting regions of a stack, the first of them from \<open>0x1000\<close> on, and nothing above.\<close>

definition ex_regions :: "u64 \<Rightarrow> (u64 \<times> u64 \<times> vm_region_info, int) result" where
  "ex_regions a =
     (if a < 0x2000 then Ok (0x1000, 0x1000, \<lparr>user_tag = VM_MEMORY_STACK, vm_protection = 3\<rparr>)
      else if a < 0x5000 then Ok (0x2000, 0x3000, \<lparr>user_tag = VM_MEMORY_STACK, vm_protection = 1\<rparr>)
      else Err 1)"

interpretation simr: vm_regions "sim_mach mem ths ex_regions" t for mem ths t
  by unfold_locales (auto simp: sim_mach_def ex_regions_def word_less_nat_alt split: if_splits)

text \<open>
  C28. The size of a stack is computed by a walk that ends, and it reaches to the end of the stack. On a kernel whose regions are
  not empty, do not reach the top of the address space and end above the address asked for, \<open>calculate_stack_size\<close>
  returns without a panic: zero if the stack pointer is null or lies in no region, and otherwise exactly the
  distance to the end of the region it lies in, for a stack extended by all readable stack regions that abut on it.
\<close>

theorem stack_size_covers:
  assumes "vm_regions S t" and "td_task dumper = t"
  shows "\<exists>n. calculate_stack_size S dumper start = (Some (Ok n) :: (u64, 'e) result option) \<and>
    (if start = 0 \<or> \<not> (\<exists>r. get_vm_region S dumper start = Ok r \<and> vr_start r \<le> start) then n = 0
     else \<exists>r e. get_vm_region S dumper start = Ok r \<and> start < e \<and> unat start + unat n = unat e \<and>
       (if user_tag (vr_info r) = VM_MEMORY_STACK then stack_end S dumper r e else e = vr_end r))"
  by (rule vm_regions.size_covers [OF assms])

theorem stack_size_covers_witness:
  "\<exists>n e. calculate_stack_size (sim_mach ex_memory [] ex_regions) \<lparr>td_task = 9, td_page_size = 4096\<rparr> 0x1800 =
      (Some (Ok n) :: (u64, unit) result option) \<and> 0x1800 + unat n = unat e \<and>
     stack_end (sim_mach ex_memory [] ex_regions) \<lparr>td_task = 9, td_page_size = 4096\<rparr>
       \<lparr>vr_info = \<lparr>user_tag = VM_MEMORY_STACK, vm_protection = 3\<rparr>, vr_start = 0x1000, vr_end = 0x2000\<rparr> e"
proof -
  let ?S = "sim_mach ex_memory [] ex_regions" and ?d = "\<lparr>td_task = 9, td_page_size = 4096\<rparr>"
  have "get_vm_region ?S ?d 0x1800 = Ok \<lparr>vr_info = \<lparr>user_tag = VM_MEMORY_STACK, vm_protection = 3\<rparr>, vr_start = 0x1000, vr_end = 0x2000\<rparr>"
    by (simp add: get_vm_region_def mach_call_def sim_mach_def ex_regions_def add_w_def)
  with stack_size_covers [OF simr.vm_regions_axioms, of ?d 9 ex_memory "[]" "0x1800", where 'e = unit] show ?thesis
    by auto
qed

section \<open>Wrapped exceptions\<close>

text \<open>
  C30. The exception that an \<open>EXC_CRASH\<close> wraps is recovered from its code. For every kind of exception that can be wrapped, every
  code of at most 20 bits and every signal of at most 8, packed the way the kernel packs them, the three parts come back.
\<close>

theorem exc_crash_roundtrip:
  assumes "kind < 10" and "c < 0x100000"
  shows "recover_exc_crash_wrapped_exception (or (push_bit 24 (ucast sig)) (or (push_bit 20 kind) c)) =
    Some \<lparr>we_kind = ucast kind, we_code = ucast c, we_signal = sig\<rparr>"
proof -
  let ?code = "or (push_bit 24 (ucast sig)) (or (push_bit 20 kind) c) :: u64"
  have k: "take_bit 4 kind = kind" and c: "take_bit 20 c = c"
    using assms by (simp_all add: word_unat_eq_iff unsigned_take_bit_eq take_bit_nat_eq_self_iff word_less_nat_alt)
  have bk: "n < 4" if "bit kind n" for n using that by (subst (asm) k [symmetric]) (simp add: bit_simps)
  have bc: "n < 20" if "bit c n" for n using that by (subst (asm) c [symmetric]) (simp add: bit_simps)
  have masks: "(0xf :: u64) = mask 4" "(0xfffff :: u64) = mask 20" "(0xff :: u64) = mask 8" by (simp_all add: mask_eq_exp_minus_1)
  have 1: "and (drop_bit 20 ?code) 0xf = kind"
    unfolding masks by (rule bit_eqI) (auto simp: bit_simps dest: bk bc)
  have 2: "and ?code 0xfffff = c"
    unfolding masks by (rule bit_eqI) (auto simp: bit_simps dest: bk bc)
  have 3: "ucast (and (drop_bit 24 ?code) 0xff) = sig"
    unfolding masks by (rule bit_eqI) (auto simp: bit_simps dest: bk bc)
  have "(ucast kind :: u32) \<noteq> 10 \<and> (ucast kind :: u32) \<noteq> 11 \<and> (ucast kind :: u32) \<noteq> 12 \<and> (ucast kind :: u32) \<noteq> 13"
    using assms(1) by (auto simp: word_unat_eq_iff word_less_nat_alt unsigned_ucast_eq take_bit_nat_eq_self)
  then have "is_valid_exc_crash ?code"
    unfolding is_valid_exc_crash_def Let_def 1 EXC_CRASH_def EXC_RESOURCE_def EXC_GUARD_def EXC_CORPSE_NOTIFY_def by simp
  then show ?thesis unfolding recover_exc_crash_wrapped_exception_def 1 2 3 by simp
qed

theorem exc_crash_roundtrip_witness:
  "recover_exc_crash_wrapped_exception (or (push_bit 24 (ucast (11 :: u8))) (or (push_bit 20 1) 2)) =
    Some \<lparr>we_kind = 1, we_code = 2, we_signal = 11\<rparr>"
  using exc_crash_roundtrip [of 1 2 11] by simp

end
