(* ===== verification/Mac_Info.thy ===== *)
theory Mac_Info
  imports Mac_Formats
begin

text \<open>
  The system info, misc info and module list streams of the macOS writer (\<open>system_info.rs\<close>, \<open>misc_info.rs\<close> and
  \<open>module_list.rs\<close> under \<open>src/src/mac/streams/\<close>). An \<open>isize\<close> is an integer whose range is checked.
\<close>

section \<open>System info\<close>

definition os_version :: "mach_sys \<Rightarrow> u32 \<times> u32 \<times> u32" where
  "os_version S =
     (case split_on (CHR ''.'') (sysctl_string S ''kern.osproductversion'') of
        maj # mnr # rest \<Rightarrow>
          (case (parse_u32 maj, parse_u32 mnr) of
             (Some mj, Some mn) \<Rightarrow>
               (mj, mn, case rest of [] \<Rightarrow> 0 | p # _ \<Rightarrow> (case parse_u32 p of Some pt \<Rightarrow> pt | None \<Rightarrow> 0))
           | _ \<Rightarrow> (0, 0, 0))
      | _ \<Rightarrow> (0, 0, 0))"

definition build_version :: "mach_sys \<Rightarrow> str" where
  "build_version S = sysctl_string S ''kern.osversion''"

definition map_feature :: "'w::len word \<Rightarrow> nat \<Rightarrow> nat \<Rightarrow> u64 \<Rightarrow> u64" where
  "map_feature features cpuid_bit md_bit md_feats =
     (if and features (push_bit cpuid_bit 1) \<noteq> 0 then or md_feats (push_bit md_bit 1) else md_feats)"

definition md_features :: "u64 \<Rightarrow> u64 \<Rightarrow> u32 \<Rightarrow> u64" where
  "md_features features ext_features leaf_features =
     (let f = push_bit 2 1;
          f = map_feature features 4 8 f;
          f = map_feature features 6 9 f;
          f = map_feature features 23 3 f;
          f = map_feature features 25 6 f;
          f = map_feature features 26 10 f;
          f = map_feature features 32 13 f;
          f = map_feature features 45 14 f;
          f = map_feature features 58 17 f;
          f = map_feature features 62 28 f;
          f = map_feature ext_features 27 32 f;
          f = map_feature ext_features 31 7 f;
          f = map_feature leaf_features 0 22 f
      in or (or f (push_bit 12 1)) (push_bit 11 1))"

definition mac_read_cpu_info :: "mach_sys \<Rightarrow> bytes \<Rightarrow> bytes" where
  "mac_read_cpu_info S cpu =
     put_slice cpu 0 (le_bytes 8 (md_features (sysctl_by_name S 8 ''machdep.cpu.feature_bits'')
       (sysctl_by_name S 8 ''machdep.cpu.extfeature_bits'') (sysctl_by_name S 4 ''machdep.cpu.leaf7_feature_bits'')))"

definition write_system_info :: "mac_formats \<Rightarrow> mach_sys \<Rightarrow> MDRawDirectory mac_comp" where
  "write_system_info F S =
     bindM (map_errM MacMemoryWriterError (on_snd (MemoryWriter_alloc (f_mac_system_info F)))) (\<lambda>info_section.
       let cpu = mac_read_cpu_info S (replicate 24 0);
           model = (int_sysctl_by_name S ''machdep.cpu.model'' :: u8);
           stepping = (int_sysctl_by_name S ''machdep.cpu.stepping'' :: u8);
           (mj, mn, build) = os_version S in
     bindM (map_errM MacMemoryWriterError (on_snd (write_string_to_location (build_version S)))) (\<lambda>os_version_loc.
     bindM (map_errM MacMemoryWriterError (on_snd (MemoryWriter_set_value (f_mac_system_info F) info_section
              \<lparr>processor_architecture = architecture_amd64 (mf_base F),
               processor_level = int_sysctl_by_name S ''machdep.cpu.family'',
               processor_revision = or (push_bit 8 (ucast model)) (ucast stepping),
               number_of_processors = int_sysctl_by_name S ''hw.ncpu'',
               platform_id = platform_macos F, csd_version_rva = rva os_version_loc, cpu_data = cpu,
               product_type = 1, major_version = mj, minor_version = mn, build_number = build\<rparr>))) (\<lambda>_.
       ret \<lparr>stream_type = stream_code (mf_base F) SystemInfoStream,
            location = MemoryWriter_location (f_mac_system_info F) info_section\<rparr>)))"

section \<open>Misc info\<close>

record Duration =
  dur_secs :: u64
  dur_nanos :: u32

definition Duration_default :: Duration where
  "Duration_default = \<lparr>dur_secs = 0, dur_nanos = 0\<rparr>"

text \<open>\<open>Duration::new\<close> and \<open>+\<close> of the standard library: nanoseconds are carried into seconds.\<close>

definition Duration_new :: "u64 \<Rightarrow> nat \<Rightarrow> (Duration, 'e) result" where
  "Duration_new secs nanos =
     bindR (add_w secs (word_of_nat (nanos div 1000000000))) (\<lambda>s.
       Ok \<lparr>dur_secs = s, dur_nanos = word_of_nat (nanos mod 1000000000)\<rparr>)"

definition Duration_add :: "Duration \<Rightarrow> Duration \<Rightarrow> (Duration, 'e) result" where
  "Duration_add a b =
     bindR (add_w (dur_secs a) (dur_secs b)) (\<lambda>s. Duration_new s (unat (dur_nanos a) + unat (dur_nanos b)))"

definition Duration_from :: "TimeValue \<Rightarrow> (Duration, 'e) result" where
  "Duration_from tv =
     (let secs = word_of_int (seconds tv) :: u64; us = word_of_int (microseconds tv) :: u32 in
      bindR (if 1000000 \<le> microseconds tv
             then bindR (add_w secs 1) (\<lambda>s. bindR (sub_w us 1000000) (\<lambda>u. Ok (s, u)))
             else Ok (secs, us)) (\<lambda>(s, u).
        if unat u * 1000 < 2 ^ 32 then Duration_new s (unat u * 1000) else Panic))"

text \<open>The time spent by terminated threads and by living ones, each if it is known.\<close>

definition duration_of :: "TimeValue option \<Rightarrow> (Duration, 'e) result" where
  "duration_of tv = (case tv of Some v \<Rightarrow> Duration_from v | None \<Rightarrow> Ok Duration_default)"

definition process_time :: "TimeValue option \<Rightarrow> TimeValue option \<Rightarrow> (Duration, 'e) result" where
  "process_time terminated living =
     bindR (duration_of terminated) (\<lambda>a. bindR (duration_of living) (Duration_add a))"

text \<open>\<open>.ok()\<close>, where a panic stays one.\<close>

definition ok_result :: "('a, 'f) result \<Rightarrow> ('a option, 'e) result" where
  "ok_result r = (case r of Ok v \<Rightarrow> Ok (Some v) | Err _ \<Rightarrow> Ok None | Panic \<Rightarrow> Panic)"

definition write_misc_info :: "mac_formats \<Rightarrow> mach_sys \<Rightarrow> TaskDumper \<Rightarrow> MDRawDirectory mac_comp" where
  "write_misc_info F S dumper =
     bindM (map_errM MacMemoryWriterError (on_snd (MemoryWriter_alloc (f_misc_info F)))) (\<lambda>info_section.
     bindM (lift_result (map_err MacTaskDumpError (pid_for_task S dumper))) (\<lambda>pid.
     bindM (lift_result (ok_result (task_info dumper (task_basic_times S)))) (\<lambda>basic_info.
     bindM (lift_result (ok_result (task_info dumper (task_thread_times S)))) (\<lambda>thread_times_info.
     bindM (lift_result (process_time (map_option fst basic_info) (map_option fst thread_times_info))) (\<lambda>user_time.
     bindM (lift_result (process_time (map_option snd basic_info) (map_option snd thread_times_info))) (\<lambda>kernel_time.
       let max_freq = ucast (sysctl_by_name S 8 ''hw.cpufrequency_max'' div 1000 * 1000 :: u64);
           current = ucast (sysctl_by_name S 8 ''hw.cpufrequency'' div 1000 * 1000 :: u64) in
     bindM (map_errM MacMemoryWriterError (on_snd (MemoryWriter_set_value (f_misc_info F) info_section
              \<lparr>size_of_info = word_of_nat (size_of_misc_info F),
               flags1 = or (or (misc1_process_id F) (misc1_process_times F)) (misc1_processor_power_info F),
               ms_process_id = word_of_int pid,
               process_create_time = (case proc_start_tvsec S pid of Some s \<Rightarrow> ucast s | None \<Rightarrow> 0),
               process_user_time = ucast (dur_secs user_time), process_kernel_time = ucast (dur_secs kernel_time),
               processor_max_mhz = max_freq, processor_current_mhz = current, processor_mhz_limit = max_freq,
               processor_max_idle_state = 0, processor_current_idle_state = 0\<rparr>))) (\<lambda>_.
       ret \<lparr>stream_type = misc_info_stream F, location = MemoryWriter_location (f_misc_info F) info_section\<rparr>)))))))"

section \<open>Images\<close>

record ImageLoadInfo =
  li_vm_addr :: u64
  li_vm_size :: u64
  slide :: int

record ImageDetails =
  id_uuid :: bytes
  load_info :: ImageLoadInfo
  id_file_path :: "str option"
  id_version :: "u32 option"

definition isize_result :: "int \<Rightarrow> (int, 'e) result" where
  "isize_result v = (if - (2 ^ 63) \<le> v \<and> v < 2 ^ 63 then Ok v else Panic)"

text \<open>What the loops over the load commands have found so far.\<close>

record found_commands =
  fc_load_info :: "ImageLoadInfo option"
  fc_version :: "u32 option"
  fc_uuid :: "bytes option"
  fc_path :: "str option"

definition nothing_found :: found_commands where
  "nothing_found = \<lparr>fc_load_info = None, fc_version = None, fc_uuid = None, fc_path = None\<rparr>"

definition image_command :: "u64 \<Rightarrow> LoadCommand \<Rightarrow> found_commands \<Rightarrow> (found_commands, 'e) result" where
  "image_command addr lc acc =
     (case lc of
        SegmentCmd seg \<Rightarrow>
          (if fc_load_info acc = None \<and> take 7 (segment_name seg) = name_bytes ''__TEXT'' @ [0] then
             bindR (isize_result (sint addr - sint (vm_addr seg))) (\<lambda>sl.
               Ok (acc\<lparr>fc_load_info := Some \<lparr>li_vm_addr = vm_addr seg, li_vm_size = vm_size seg, slide = sl\<rparr>\<rparr>))
           else Ok acc)
      | DylibCmd dylib \<Rightarrow> Ok (if fc_version acc = None then acc\<lparr>fc_version := Some (current_version dylib)\<rparr> else acc)
      | UuidCmd img_id \<Rightarrow> Ok (if fc_uuid acc = None then acc\<lparr>fc_uuid := Some img_id\<rparr> else acc)
      | DylinkerCmd _ \<Rightarrow> Ok acc)"

definition image_complete :: "found_commands \<Rightarrow> bool" where
  "image_complete acc \<longleftrightarrow> fc_load_info acc \<noteq> None \<and> fc_version acc \<noteq> None \<and> fc_uuid acc \<noteq> None"

definition dyld_command :: "u64 \<Rightarrow> LoadCommand \<Rightarrow> found_commands \<Rightarrow> (found_commands, 'e) result" where
  "dyld_command addr lc acc =
     (case lc of
        DylinkerCmd dy_cmd \<Rightarrow> Ok (if fc_path acc = None then acc\<lparr>fc_path := Some (dl_name dy_cmd)\<rparr> else acc)
      | _ \<Rightarrow> image_command addr lc acc)"

definition dyld_complete :: "found_commands \<Rightarrow> bool" where
  "dyld_complete acc \<longleftrightarrow> image_complete acc \<and> fc_path acc \<noteq> None"

text \<open>The loop over the commands, with the step and the test for the end.\<close>

function scan_commands ::
    "(LoadCommand \<Rightarrow> found_commands \<Rightarrow> (found_commands, 'e) result) \<Rightarrow> (found_commands \<Rightarrow> bool) \<Rightarrow> LoadCommands \<Rightarrow> found_commands \<Rightarrow>
     (found_commands, 'e) result" where
  "scan_commands step complete it acc =
     (case LoadCommandsIter_next it of
        Panic \<Rightarrow> Panic
      | Err e \<Rightarrow> Err e
      | Ok (None, _) \<Rightarrow> Ok acc
      | Ok (Some lc, it') \<Rightarrow>
          (case step lc acc of
             Panic \<Rightarrow> Panic
           | Err e \<Rightarrow> Err e
           | Ok acc' \<Rightarrow> if complete acc' then Ok acc' else scan_commands step complete it' acc'))"
  by pat_completeness auto
termination
  by (relation "measure (\<lambda>(_, _, it, _). lc_count it)") (auto dest!: next_shrinks)

declare scan_commands.simps [simp del]

definition required :: "found_commands \<Rightarrow> (ImageLoadInfo \<times> bytes, TaskDumpError) result" where
  "required acc =
     bindR (ok_or (MissingLoadCommand ''LC_SEGMENT_64'' Segment) (fc_load_info acc)) (\<lambda>li.
     bindR (ok_or (MissingLoadCommand ''LC_UUID'' Uuid) (fc_uuid acc)) (\<lambda>uuid.
       Ok (li, uuid)))"

definition read_image :: "mach_sys \<Rightarrow> TaskDumper \<Rightarrow> ImageInfo \<Rightarrow> (ImageDetails, TaskDumpError) result" where
  "read_image S dumper img =
     bindR (read_load_commands S dumper img) (\<lambda>load_commands.
     bindR (scan_commands (image_command (load_address img)) image_complete load_commands nothing_found) (\<lambda>acc.
     bindR (required acc) (\<lambda>(li, uuid).
     bindR (if file_path img \<noteq> 0 then
              (case read_string_at S dumper (file_path img) None of Panic \<Rightarrow> Panic | Err _ \<Rightarrow> Ok None | Ok p \<Rightarrow> Ok p)
            else Ok None) (\<lambda>path.
       Ok \<lparr>id_uuid = uuid, load_info = li, id_file_path = path, id_version = fc_version acc\<rparr>))))"

definition read_dyld :: "mach_sys \<Rightarrow> TaskDumper \<Rightarrow> AllImagesInfo \<Rightarrow> (ImageDetails, TaskDumpError) result" where
  "read_dyld S dumper all_images =
     (let img = \<lparr>load_address = dyld_image_load_address all_images, file_path = 0, file_mod_date = 0\<rparr> in
      bindR (read_load_commands S dumper img) (\<lambda>load_commands.
      bindR (scan_commands (dyld_command (load_address img)) dyld_complete load_commands nothing_found) (\<lambda>acc.
      bindR (required acc) (\<lambda>(li, uuid).
        Ok \<lparr>id_uuid = uuid, load_info = li, id_file_path = fc_path acc, id_version = fc_version acc\<rparr>))))"

section \<open>The module list\<close>

text \<open>The name of a module: what follows the last slash of its path.\<close>

definition mac_module_name :: "str \<Rightarrow> str" where
  "mac_module_name path =
     (if CHR ''/'' \<in> set path then rev (takeWhile (\<lambda>c. c \<noteq> CHR ''/'') (rev path))
      else if path = [] then ''<Unknown>'' else path)"

definition mac_version_of :: "formats \<Rightarrow> u32 option \<Rightarrow> VS_FIXEDFILEINFO" where
  "mac_version_of F version =
     (case version of
        None \<Rightarrow> \<lparr>vs_signature = 0, struct_version = 0, file_version_hi = 0, file_version_lo = 0, product_version_hi = 0,
          product_version_lo = 0\<rparr>
      | Some v \<Rightarrow> \<lparr>vs_signature = vs_ffi_signature F, struct_version = vs_ffi_strucversion F, file_version_hi = drop_bit 16 v,
          file_version_lo = or (push_bit 8 (and v 0xff00)) (and v 0xff), product_version_hi = 0, product_version_lo = 0\<rparr>)"

definition mac_write_module :: "mac_formats \<Rightarrow> ImageDetails \<Rightarrow> (Buffer, MDRawModule, MacWriterError) comp" where
  "mac_write_module F img =
     (let path = (case id_file_path img of Some p \<Rightarrow> p | None \<Rightarrow> []) in
      bindM (map_errM MacMemoryWriterError (write_string_to_location path)) (\<lambda>name_loc.
      bindM (lift_result (isize_result (sint (li_vm_addr (load_info img)) + slide (load_info img)))) (\<lambda>base.
        let module_name = mac_module_name path in
      bindM (map_errM MacMemoryWriterError (MemoryWriter_alloc_with_val (f_cv_pdb F)
               \<lparr>cv_signature = cv_signature_pdb70 F, cv_uuid = id_uuid img, cv_age = 0\<rparr>)) (\<lambda>cv.
      bindM (modifyM (Buffer_write_all (name_bytes module_name))) (\<lambda>_.
      bindM (modifyM (Buffer_write_all [0])) (\<lambda>_.
        let loc = MemoryWriter_location (f_cv_pdb F) cv in
      bindM (lift_result (bindR (add_w (word_of_nat (length module_name)) 1) (add_w (data_size loc)))) (\<lambda>n.
        ret \<lparr>base_of_image = word_of_int base, size_of_image = ucast (li_vm_size (load_info img)), module_name_rva = rva name_loc,
             version_info = mac_version_of (mf_base F) (id_version img), cv_record = loc\<lparr>data_size := n\<rparr>\<rparr>)))))))"

fun dedup_images :: "ImageInfo list \<Rightarrow> ImageInfo list" where
  "dedup_images (a # b # is) = (if load_address b = load_address a then dedup_images (a # is) else a # dedup_images (b # is))"
| "dedup_images is = is"

text \<open>\<open>if let Ok(..)\<close> around a writer.\<close>

definition tryM :: "('s, 'a, 'e) comp \<Rightarrow> ('s, 'a option, 'f) comp" where
  "tryM m = handleM m (\<lambda>x. ret (Some x)) (\<lambda>_. ret None)"

fun mac_write_modules ::
    "mac_formats \<Rightarrow> mach_sys \<Rightarrow> TaskDumper \<Rightarrow> ImageInfo list \<Rightarrow> MDRawModule list \<Rightarrow> (Buffer, MDRawModule list, MacWriterError) comp" where
  "mac_write_modules F S dumper [] modules = ret modules"
| "mac_write_modules F S dumper (img # images) modules =
     bindM (lift_result (ok_result (read_image S dumper img))) (\<lambda>details.
       case details of
         None \<Rightarrow> mac_write_modules F S dumper images modules
       | Some image_details \<Rightarrow>
           bindM (tryM (mac_write_module F image_details)) (\<lambda>m.
             mac_write_modules F S dumper images
               (case m of None \<Rightarrow> modules
                | Some module \<Rightarrow> if id_version image_details = None then module # modules else modules @ [module])))"

definition write_loaded_modules ::
    "mac_formats \<Rightarrow> mach_sys \<Rightarrow> TaskDumper \<Rightarrow> (Buffer, MDRawModule list, MacWriterError) comp" where
  "write_loaded_modules F S dumper =
     bindM (lift_result (map_err MacTaskDumpError (read_images S dumper))) (\<lambda>(all_images_info, images).
     bindM (mac_write_modules F S dumper (dedup_images (sort_key load_address images)) []) (\<lambda>modules.
       if modules = [] \<or> vs_signature (version_info (hd modules)) = vs_ffi_signature (mf_base F)
       then throw (MacTaskDumpError NoExecutableImage)
       else
         bindM (lift_result (ok_result (read_dyld S dumper all_images_info))) (\<lambda>dyld_image.
           case dyld_image of
             None \<Rightarrow> ret modules
           | Some details \<Rightarrow>
               bindM (tryM (mac_write_module F details)) (\<lambda>m.
                 ret (case m of None \<Rightarrow> modules | Some module \<Rightarrow> modules @ [module])))))"

definition write_module_list :: "mac_formats \<Rightarrow> mach_sys \<Rightarrow> TaskDumper \<Rightarrow> MDRawDirectory mac_comp" where
  "write_module_list F S dumper =
     bindM (handleM (on_snd (write_loaded_modules F S dumper)) ret (\<lambda>_. ret [])) (\<lambda>modules.
     bindM (map_errM MacMemoryWriterError (on_snd (MemoryWriter_alloc_with_val u32_pod (word_of_nat (length modules))))) (\<lambda>list_header.
       let dirent = \<lparr>stream_type = stream_code (mf_base F) ModuleListStream, location = MemoryWriter_location u32_pod list_header\<rparr> in
       if modules \<noteq> [] then
         bindM (map_errM MacMemoryWriterError
                  (on_snd (MemoryArrayWriter_alloc_from_iter (f_module (mf_base F)) modules))) (\<lambda>mapping_list.
           add_data_size dirent (data_size (MemoryArrayWriter_location (f_module (mf_base F)) mapping_list)))
       else ret dirent))"

section \<open>The images\<close>

lemma dedup_addresses: "map load_address (dedup_images is) = remdups_adj (map load_address is)"
  by (induction "is" rule: dedup_images.induct) auto

lemma distinct_remdups_adj_sorted: "sorted xs \<Longrightarrow> distinct (remdups_adj xs)" for xs :: "'a::linorder list"
  by (induction xs rule: remdups_adj.induct) (auto simp: antisym)

text \<open>
  The images that modules are made of are the loaded images with each load address once, in ascending order, however often and
  in whatever order the dynamic linker lists them.
\<close>

theorem images_in_order:
  "map load_address (dedup_images (sort_key load_address is)) = sorted_list_of_set (load_address ` set is)"
proof (rule sorted_distinct_set_unique)
  show "sorted (map load_address (dedup_images (sort_key load_address is)))"
    by (simp add: dedup_addresses sorted_remdups_adj)
  show "distinct (map load_address (dedup_images (sort_key load_address is)))"
    by (simp add: dedup_addresses distinct_remdups_adj_sorted)
qed (simp_all add: dedup_addresses)

text \<open>The slide that is found leads from the preferred address to the load address.\<close>

definition slide_ok :: "u64 \<Rightarrow> found_commands \<Rightarrow> bool" where
  "slide_ok addr acc \<longleftrightarrow> (\<forall>li. fc_load_info acc = Some li \<longrightarrow> sint (li_vm_addr li) + slide li = sint addr)"

lemma image_command_slide: "image_command addr lc acc = Ok acc' \<Longrightarrow> slide_ok addr acc \<Longrightarrow> slide_ok addr acc'"
  by (auto simp: image_command_def slide_ok_def bindR_Ok_iff isize_result_def split: LoadCommand.splits if_splits)

lemma dyld_command_slide: "dyld_command addr lc acc = Ok acc' \<Longrightarrow> slide_ok addr acc \<Longrightarrow> slide_ok addr acc'"
  by (auto simp: dyld_command_def image_command_slide slide_ok_def split: LoadCommand.splits if_splits
      dest: image_command_slide [unfolded slide_ok_def])

lemma scan_keeps:
  assumes "\<And>lc acc acc'. step lc acc = Ok acc' \<Longrightarrow> P acc \<Longrightarrow> P acc'"
  shows "scan_commands step complete it acc = Ok acc' \<Longrightarrow> P acc \<Longrightarrow> P acc'"
proof (induction "lc_count it" arbitrary: it acc rule: less_induct)
  case less
  show ?case using less(2,3) assms less(1) next_shrinks [of it]
    by (subst (asm) scan_commands.simps) (fastforce split: result.splits option.splits prod.splits if_splits)
qed

lemma read_image_slide:
  assumes "read_image S dumper img = Ok details"
  shows "sint (li_vm_addr (load_info details)) + slide (load_info details) = sint (load_address img)"
proof -
  obtain lcs acc li uuid where
      "scan_commands (image_command (load_address img)) image_complete lcs nothing_found = (Ok acc :: (found_commands, TaskDumpError) result)"
    and req: "required acc = Ok (li, uuid)" and li: "load_info details = li"
    using assms by (auto simp: read_image_def bindR_Ok_iff split: if_splits)
  then have "slide_ok (load_address img) acc"
    using scan_keeps [of "image_command (load_address img)" "slide_ok (load_address img)"] image_command_slide
    by (fastforce simp: slide_ok_def nothing_found_def)
  moreover have "fc_load_info acc = Some li" using req by (cases "fc_load_info acc"; cases "fc_uuid acc") (auto simp: required_def)
  ultimately show ?thesis using li by (simp add: slide_ok_def)
qed

lemma add_w_of_nat: "a + b < 2 ^ 32 \<Longrightarrow> add_w (word_of_nat a :: u32) (word_of_nat b) = (Ok (word_of_nat (a + b)) :: (u32, 'e) result)"
  by (simp add: add_w_def)

text \<open>
  C27. The module that is written for an image is the image. For an image that could be read, if the dump stays below 4 GiB, writing
  its module succeeds; the module starts at the address where the image is loaded (the sum of preferred address and slide never
  overflows); the bytes added are the path as a string, the record with the image's identifier and the name behind the last slash
  of the path with its terminating zero, and the module refers to the path and to exactly that record and name.
\<close>

theorem module_of_image:
  assumes "mac_layouts F" and "read_image S dumper img = Ok details"
    and "path = (case id_file_path details of Some p \<Rightarrow> p | None \<Rightarrow> [])"
    and "cv = pod_bytes (f_cv_pdb F) \<lparr>cv_signature = cv_signature_pdb70 F, cv_uuid = id_uuid details, cv_age = 0\<rparr>"
    and "length (inner b) + length (string_bytes path) + length cv + length (mac_module_name path) + 1 < 2 ^ 32"
  shows "\<exists>m b'. mac_write_module F details b = (Ok m, b') \<and> base_of_image m = load_address img \<and>
    inner b' = inner b @ string_bytes path @ cv @ name_bytes (mac_module_name path) @ [0] \<and>
    unat (module_name_rva m) = length (inner b) \<and>
    unat (rva (cv_record m)) = length (inner b) + length (string_bytes path) \<and>
    unat (data_size (cv_record m)) = length cv + length (mac_module_name path) + 1"
proof -
  have cv: "length cv = size_with (f_cv_pdb F)"
    unfolding assms(4) by (rule pod_codec.length_pod_bytes [OF mac_layouts.cv_pdb [OF assms(1)]])
  have str: "write_string_to_location path b = (Ok \<lparr>data_size = word_of_nat (length (string_bytes path)),
      rva = word_of_nat (length (inner b))\<rparr>, b\<lparr>inner := inner b @ string_bytes path\<rparr>)"
    using write_string_to_location_eq [of b path] assms(5) by (simp add: length_string_bytes)
  have base: "(isize_result (sint (li_vm_addr (load_info details)) + slide (load_info details)) :: (int, MacWriterError) result) =
      Ok (sint (load_address img))"
    unfolding read_image_slide [OF assms(2)] isize_result_def
    using sint_range_size [of "load_address img"] by (simp add: word_size)
  have sum: "(bindR (add_w (word_of_nat (length (mac_module_name path))) 1) (add_w (word_of_nat (size_with (f_cv_pdb F)))) :: (u32, MacWriterError) result) =
      Ok (word_of_nat (length cv + length (mac_module_name path) + 1))"
    using add_w_of_nat [of "length (mac_module_name path)" 1, where 'e = MacWriterError]
      add_w_of_nat [of "size_with (f_cv_pdb F)" "length (mac_module_name path) + 1", where 'e = MacWriterError] assms(5) cv by (simp add: add.assoc del: of_nat_add)
  show ?thesis
    using assms(5) cv
    by (simp add: mac_write_module_def Let_def assms(3) [symmetric] comp_simps bindM_def map_errM_def str base sum
        pod_codec.alloc_with_val_eq [OF mac_layouts.cv_pdb [OF assms(1)]] assms(4) [symmetric]
        Buffer_write_all_def MemoryWriter_location_def del: of_nat_add of_nat_Suc)
qed

text \<open>A dylib without a path in the memory of a task: its header, its text segment and its identifier.\<close>

definition ex_header :: bytes where
  "ex_header = [207, 250, 237, 254, 0, 0, 0, 0, 0, 0, 0, 0, 6, 0, 0, 0, 2, 0, 0, 0, 96, 0, 0, 0, 0, 0, 0, 0, 0, 0, 0, 0]"

definition ex_segment :: bytes where
  "ex_segment = [25, 0, 0, 0, 72, 0, 0, 0, 95, 95, 84, 69, 88, 84, 0, 0, 0, 0, 0, 0, 0, 0, 0, 0, 0, 5, 0, 0, 0, 0, 0, 0, 0, 1, 0, 0, 0, 0, 0, 0, 0, 0, 0, 0, 0, 0, 0, 0, 0, 0, 0, 0, 0, 0, 0, 0, 0, 0, 0, 0, 0, 0, 0, 0, 0, 0, 0, 0, 0, 0, 0, 0]"

definition ex_uuid :: bytes where
  "ex_uuid = [27, 0, 0, 0, 24, 0, 0, 0, 1, 2, 3, 4, 5, 6, 7, 8, 9, 10, 11, 12, 13, 14, 15, 16]"

definition ex_image_sys :: mach_sys where
  "ex_image_sys = (sim_mach (\<lambda>_. None) [] (\<lambda>_. Err 1))
     \<lparr>mach_vm_read := (\<lambda>_ a n. Ok (take (unat n) (drop (unat a - 0x1000) (ex_header @ ex_segment @ ex_uuid))))\<rparr>"

lemma ex_lengths: "length ex_header = 32" "length ex_segment = 72" "length ex_uuid = 24"
  by (simp_all add: ex_header_def ex_segment_def ex_uuid_def)

lemma ex_words:
  "(word_at 4 0 (ex_segment @ xs) :: u32) = 0x19" "(word_at 4 4 (ex_segment @ xs) :: u32) = 72"
  "(word_at 4 0 ex_uuid :: u32) = 0x1b" "(word_at 4 4 ex_uuid :: u32) = 24"
  by (simp_all add: word_at_def ex_segment_def ex_uuid_def)

lemma ex_text:
  "vm_addr (segment_of (ex_segment @ xs)) = 0x500" "vm_size (segment_of (ex_segment @ xs)) = 0x100"
  "take 7 (segment_name (segment_of (ex_segment @ xs))) = name_bytes ''__TEXT'' @ [0]"
  by (simp_all add: segment_of_def word_at_def ex_segment_def name_bytes_def)

lemma ex_next:
  "LoadCommandsIter_next \<lparr>lc_buffer = ex_segment @ ex_uuid, lc_count = 2\<rparr> =
    (Ok (Some (SegmentCmd (segment_of (ex_segment @ ex_uuid))), \<lparr>lc_buffer = ex_uuid, lc_count = 1\<rparr>) :: (LoadCommand option \<times> LoadCommands, 'e) result)"
  "LoadCommandsIter_next \<lparr>lc_buffer = ex_uuid, lc_count = Suc 0\<rparr> =
    (Ok (Some (UuidCmd (uuid_of ex_uuid)), \<lparr>lc_buffer = [], lc_count = 0\<rparr>) :: (LoadCommand option \<times> LoadCommands, 'e) result)"
  "LoadCommandsIter_next \<lparr>lc_buffer = [], lc_count = 0\<rparr> =
    (Ok (None, \<lparr>lc_buffer = [], lc_count = 0\<rparr>) :: (LoadCommand option \<times> LoadCommands, 'e) result)"
  by (subst LoadCommandsIter_next.simps, simp add: ex_words ex_lengths decode_command_def LoadCommandKind_from_u32_def cast_def)+

theorem module_of_image_witness:
  "\<exists>details m b'. read_image ex_image_sys \<lparr>td_task = 9, td_page_size = 1\<rparr> \<lparr>load_address = 0x1000, file_path = 0, file_mod_date = 0\<rparr> =
      Ok details \<and> mac_write_module le_mac_formats details \<lparr>inner = []\<rparr> = (Ok m, b') \<and> base_of_image m = 0x1000"
proof -
  let ?img = "\<lparr>load_address = 0x1000, file_path = 0, file_mod_date = 0\<rparr>"
  let ?details = "\<lparr>id_uuid = uuid_of ex_uuid,
    load_info = \<lparr>li_vm_addr = 0x500, li_vm_size = 0x100, slide = 0xb00\<rparr>, id_file_path = None, id_version = None\<rparr>"
  let ?dumper = "\<lparr>td_task = 9, td_page_size = 1\<rparr>"
  have r1: "read_task_memory ex_image_sys ?dumper 0x1000 1 32 = Ok ex_header"
    and r2: "read_task_memory ex_image_sys ?dumper 0x1020 96 1 = Ok (ex_segment @ ex_uuid)"
    by (simp_all add: ex_lengths read_task_memory_def page_range_def add_w_def sub_w_def ex_image_sys_def sim_mach_def slice_range_def
        mach_call_def Let_def)
  have hdr: "magic (mach_header_of ex_header) = MH_MAGIC_64" "size_commands (mach_header_of ex_header) = 96"
      "num_commands (mach_header_of ex_header) = 2" by (simp_all add: mach_header_of_def ex_header_def word_at_def MH_MAGIC_64_def)
  have lcs: "read_load_commands ex_image_sys ?dumper ?img = Ok \<lparr>lc_buffer = ex_segment @ ex_uuid, lc_count = 2\<rparr>"
    using r1 r2 hdr by (simp add: read_load_commands_def read_mach_header_def Let_def add_w_def)
  have "scan_commands (image_command 0x1000) image_complete \<lparr>lc_buffer = ex_segment @ ex_uuid, lc_count = 2\<rparr> nothing_found =
      (Ok \<lparr>fc_load_info = Some \<lparr>li_vm_addr = 0x500, li_vm_size = 0x100, slide = 0xb00\<rparr>, fc_version = None,
        fc_uuid = Some (uuid_of ex_uuid), fc_path = None\<rparr> :: (found_commands, TaskDumpError) result)"
    by (simp add: scan_commands.simps [of _ _ "LoadCommands_ext a b c" for a b c] ex_next ex_text image_command_def isize_result_def
        image_complete_def nothing_found_def)
  with lcs have "read_image ex_image_sys ?dumper ?img = Ok ?details" by (simp add: read_image_def required_def)
  moreover have "length (pod_bytes (f_cv_pdb le_mac_formats) c) = 24" for c
    unfolding pod_codec.length_pod_bytes [OF lem.cv_pdb] by (simp add: le_mac_formats_def cv_pdb_pod_def fixed_pod_def)
  moreover have "length (string_bytes []) = 4" by (simp add: length_string_bytes encode_utf16_def str_chars_def str_bytes_def)
  ultimately show ?thesis
    using module_of_image [OF lem.mac_layouts_axioms _ refl refl, of ex_image_sys ?dumper ?img ?details "\<lparr>inner = []\<rparr>"]
    by (auto simp: mac_module_name_def)
qed

end
