(* ===== verification/Mac_Writer.thy ===== *)
theory Mac_Writer
  imports Mac_Threads Mac_Info Emits
begin

text \<open>
  The dump of the macOS writer, \<open>src/src/mac/minidump_writer.rs\<close>: the streams in their order under a directory section, the
  contract of each of them, and the finished dump.
\<close>

section \<open>The dump\<close>

type_synonym 'w mac_state = "('w, MacWriter \<times> unit) dir_state"

text \<open>The list of writers; the exception comes last and only if there is one.\<close>

definition mac_writers :: "mac_formats \<Rightarrow> mach_sys \<Rightarrow> TaskDumper \<Rightarrow> MacWriter \<Rightarrow> MDRawDirectory mac_comp list" where
  "mac_writers F S dumper self =
     [mac_write_thread_list F S dumper, mac_write_memory_list F S dumper, write_system_info F S, write_module_list F S dumper,
      write_misc_info F S dumper, write_breakpad_info F, mac_write_thread_names F S dumper] @
     (case Option.bind (mac_crash self) cc_exception of Some _ \<Rightarrow> [mac_write_exception F S dumper] | None \<Rightarrow> [])"

definition mac_flush ::
    "'w write_seek \<Rightarrow> mac_formats \<Rightarrow> MDRawDirectory option \<Rightarrow> ('w mac_state, unit, MacWriterError) comp" where
  "mac_flush W F dirent = map_errM MacFileWriterError (on_dir (DirSection_write_to_file W (f_directory (mf_base F)) dirent))"

fun run_writers ::
    "'w write_seek \<Rightarrow> mac_formats \<Rightarrow> MDRawDirectory mac_comp list \<Rightarrow> ('w mac_state, unit, MacWriterError) comp" where
  "run_writers W F [] = ret ()"
| "run_writers W F (writer # writers) =
     bindM (on_writer writer) (\<lambda>dirent. bindM (mac_flush W F (Some dirent)) (\<lambda>_. run_writers W F writers))"

definition mac_header_of :: "mac_formats \<Rightarrow> u32 \<Rightarrow> u32 \<Rightarrow> u64 \<Rightarrow> MDRawHeader" where
  "mac_header_of F n directory_rva secs =
     \<lparr>signature = header_signature (mf_base F), hd_version = header_version (mf_base F), stream_count = n,
      stream_directory_rva = directory_rva, hd_checksum = 0, time_date_stamp = ucast secs, hd_flags = 0\<rparr>"

definition mac_write_header ::
    "'w write_seek \<Rightarrow> mac_formats \<Rightarrow> mach_sys \<Rightarrow> u32 \<Rightarrow> ('w \<times> Buffer, 'w DirSection, MacWriterError) comp" where
  "mac_write_header W F S n =
     bindM (map_errM MacMemoryWriterError (on_snd (MemoryWriter_alloc (f_header (mf_base F))))) (\<lambda>header_section.
     bindM (map_errM MacFileWriterError (DirSection_new W (f_directory (mf_base F)) n)) (\<lambda>dir_section.
     bindM (case system_time S of Some secs \<Rightarrow> ret secs | None \<Rightarrow> panic) (\<lambda>secs.
     bindM (map_errM MacMemoryWriterError (on_snd (MemoryWriter_set_value (f_header (mf_base F)) header_section
              (mac_header_of F n (DirSection_position dir_section) secs)))) (\<lambda>_.
       ret dir_section))))"

text \<open>The result, the writer and the output.\<close>

definition mac_dump ::
    "'w write_seek \<Rightarrow> mac_formats \<Rightarrow> mach_sys \<Rightarrow> MacWriter \<times> 'w \<Rightarrow> (bytes, MacWriterError) result \<times> MacWriter \<times> 'w" where
  "mac_dump W F S = (\<lambda>(self, w).
     let dumper = TaskDumper_new S (mac_task self);
         writers = mac_writers F S dumper self in
     case mac_write_header W F S (word_of_nat (length writers)) (w, Buffer_with_capacity 0) of
       (Err e, (w1, _)) \<Rightarrow> (Err e, self, w1)
     | (Panic, (w1, _)) \<Rightarrow> (Panic, self, w1)
     | (Ok dir_section, (w1, b)) \<Rightarrow>
         (case bindM (mac_flush W F None) (\<lambda>_. run_writers W F writers) ((dir_section, b), (self, ())) of
            (r, ((d, b'), (self', _))) \<Rightarrow> (bindR r (\<lambda>_. Ok (inner b')), self', destination d)))"

section \<open>The streams only append\<close>

lemma grows_append_bytes [grows_intros]: "grows snd (append_bytes bs)"
  by (auto simp: append_bytes_def grows_def comp_simps Buffer_write_all_def split: prod.splits)

lemma keeps_append_bytes [keeps_intros]: "keeps k snd (append_bytes bs) (\<lambda>_. True)"
  by (auto simp: append_bytes_def keeps_def comp_simps Buffer_write_all_def split: prod.splits)

lemma grows_write_all: "grows id (modifyM (Buffer_write_all bs))"
  by (auto simp: grows_def comp_simps Buffer_write_all_def)

lemma keeps_write_all: "keeps k id (modifyM (Buffer_write_all bs)) (\<lambda>_. True)"
  by (auto simp: keeps_def comp_simps Buffer_write_all_def)

lemma grows_push_block [grows_intros]: "grows snd (push_block m)"
  by (auto simp: push_block_def grows_def comp_simps split: prod.splits)

lemma keeps_push_block [keeps_intros]: "keeps k snd (push_block m) (\<lambda>_. True)"
  by (auto simp: push_block_def keeps_def comp_simps split: prod.splits)

lemma grows_or_panic [grows_intros]: "grows buf (or_panic r)"
  by (cases r) (simp_all add: or_panic_def grows_basic)

lemma keeps_or_panic [keeps_intros]: "keeps k buf (or_panic r) (\<lambda>_. True)"
  by (cases r) (simp_all add: or_panic_def keeps_basic)

lemma appends_stack: "appends snd (write_stack_from_start_address S dumper start thread)"
  unfolding write_stack_from_start_address_def by (rule appendsI keeps_intros grows_intros)+

lemma appends_ip_block: "appends snd (write_ip_block S dumper t)"
  unfolding write_ip_block_def by (rule appendsI keeps_intros grows_intros)+

text \<open>The array of a count and its elements lies behind everything that was there.\<close>

lemma grows_count_array: "pod_codec C \<Longrightarrow> grows snd (count_and_array C kind n)"
  unfolding count_and_array_def by (rule grows_intros pod_codec.grows_writers | assumption)+

lemma keeps_count_array:
  assumes "pod_codec C"
  shows "keeps k snd (count_and_array C kind n) (\<lambda>(d, a). array_behind k a)"
  unfolding count_and_array_def
  by (rule keeps_bindM keeps_map_errM keeps_on_snd keeps_Let keeps_add_data_size keeps_ret grows_intros u32c.keeps_writers(1)
      pod_codec.keeps_writers(5) [OF assms] pod_codec.grows_writers [OF assms] | simp)+

lemma returns_count_array: "returns (count_and_array C kind n) (\<lambda>(d, a). stream_type d = kind)"
  unfolding count_and_array_def by (rule returns_Let returns_dirent returns_then returns_ret | simp)+

lemma appends_thread_name: "appends id (mac_write_thread_name S t)"
  unfolding mac_write_thread_name_def by (rule appendsI keeps_intros grows_intros grows_write_string keeps_write_string)+

context mac_layouts
begin

lemmas mac_rules = appendsI keeps_intros grows_intros grows_write_string keeps_write_string grows_write_all keeps_write_all
  mac_codecs [THEN pod_codec.grows_writers(1)] mac_codecs [THEN pod_codec.grows_writers(2)] mac_codecs [THEN pod_codec.grows_writers(3)]
  mac_codecs [THEN pod_codec.grows_writers(4)] mac_codecs [THEN pod_codec.grows_setters(1)] mac_codecs [THEN pod_codec.grows_setters(2)]
  mac_codecs [THEN pod_codec.keeps_writers(1)] mac_codecs [THEN pod_codec.keeps_writers(2)] mac_codecs [THEN pod_codec.keeps_writers(3)]
  mac_codecs [THEN pod_codec.keeps_writers(4)] mac_codecs [THEN pod_codec.keeps_set_value] mac_codecs [THEN pod_codec.keeps_set_value_at]

lemma appends_mac_thread: "appends snd (mac_write_thread F S dumper t)"
  unfolding mac_write_thread_def
  by (rule mac_rules appends_grows [OF appends_stack] appends_keeps [OF appends_stack])+

lemma grows_mac_threads: "grows snd (mac_write_threads F S dumper a i ts)"
proof (induction ts arbitrary: i)
  case (Cons t ts)
  show ?case unfolding mac_write_threads.simps by (rule mac_rules appends_grows [OF appends_mac_thread] Cons.IH)+
qed (simp add: grows_basic)

lemma keeps_mac_threads: "array_behind k a \<Longrightarrow> keeps k snd (mac_write_threads F S dumper a i ts) (\<lambda>_. True)"
proof (induction ts arbitrary: i)
  case (Cons t ts)
  show ?case unfolding mac_write_threads.simps
    by (rule mac_rules appends_grows [OF appends_mac_thread] appends_keeps [OF appends_mac_thread] grows_mac_threads Cons.IH Cons.prems)+
qed (simp add: keeps_basic)

lemma grows_mac_names: "grows snd (mac_write_names F S a i ts)"
proof (induction ts arbitrary: i)
  case (Cons t ts)
  show ?case unfolding mac_write_names.simps by (rule mac_rules appends_grows [OF appends_thread_name] Cons.IH)+
qed (simp add: grows_basic)

lemma keeps_mac_names: "array_behind k a \<Longrightarrow> keeps k snd (mac_write_names F S a i ts) (\<lambda>_. True)"
proof (induction ts arbitrary: i)
  case (Cons t ts)
  show ?case unfolding mac_write_names.simps
    by (rule mac_rules appends_grows [OF appends_thread_name] appends_keeps [OF appends_thread_name] grows_mac_names Cons.IH Cons.prems)+
qed (simp add: keeps_basic)

lemma appends_counted:
  assumes "pod_codec C" and "\<And>d a. grows snd (f d a)" and "\<And>k d a. array_behind k a \<Longrightarrow> keeps k snd (f d a) (\<lambda>_. True)"
  shows "appends snd (bindM (count_and_array C kind n) (\<lambda>(d, a). f d a))"
proof (rule appendsI)
  have g: "grows snd (case x of (d, a) \<Rightarrow> f d a)" for x using assms(2) by (cases x) simp
  show "grows snd (bindM (count_and_array C kind n) (\<lambda>(d, a). f d a))" by (rule grows_bindM grows_count_array assms(1) g)+
  show "keeps k snd (bindM (count_and_array C kind n) (\<lambda>(d, a). f d a)) (\<lambda>_. True)" for k
    by (rule keeps_bindM [OF keeps_count_array [OF assms(1)] grows_count_array [OF assms(1)] g]) (auto intro: assms(3))
qed

lemma appends_bind_same:
  assumes "\<And>s. snd (snd (m s)) = snd s" and "\<And>x. appends snd (f x)"
  shows "appends snd (bindM m f)"
  by (rule appendsI grows_bindM keeps_bindM grows_same keeps_same assms(1) appends_grows [OF assms(2)] appends_keeps [OF assms(2)])+

lemma appends_mac_thread_list: "appends snd (mac_write_thread_list F S dumper)"
  unfolding mac_write_thread_list_def
  by (rule appends_counted appends_bind_same mac_codecs grows_intros keeps_intros grows_mac_threads keeps_mac_threads | assumption |
      simp add: comp_simps)+

lemma appends_mac_thread_names: "appends snd (mac_write_thread_names F S dumper)"
  unfolding mac_write_thread_names_def
  by (rule appends_counted appends_bind_same mac_codecs grows_intros keeps_intros grows_mac_names keeps_mac_names | assumption |
      simp add: comp_simps)+

lemma appends_mac_memory_list: "appends snd (mac_write_memory_list F S dumper)"
  unfolding mac_write_memory_list_def
  by (rule mac_rules appends_grows [OF appends_ip_block] appends_keeps [OF appends_ip_block])+

lemma appends_mac_system_info: "appends snd (write_system_info F S)"
  unfolding write_system_info_def by (rule mac_rules | assumption)+

lemma appends_misc_info: "appends snd (write_misc_info F S dumper)"
  unfolding write_misc_info_def by (rule mac_rules | assumption)+

lemma appends_mac_module: "appends id (mac_write_module F details)"
  unfolding mac_write_module_def by (rule mac_rules)+

lemma appends_mac_modules: "appends id (mac_write_modules F S dumper images modules)"
proof (induction images arbitrary: modules)
  case (Cons img images)
  show ?case unfolding mac_write_modules.simps tryM_def
    by (rule appendsI keeps_intros grows_intros appends_grows [OF appends_mac_module] appends_keeps [OF appends_mac_module]
        appends_grows [OF Cons.IH] appends_keeps [OF Cons.IH])+
qed (simp add: appends_def grows_basic keeps_basic)

lemma appends_loaded_modules: "appends id (write_loaded_modules F S dumper)"
  unfolding write_loaded_modules_def tryM_def
  by (rule appendsI keeps_intros grows_intros appends_grows [OF appends_mac_module] appends_keeps [OF appends_mac_module]
      appends_grows [OF appends_mac_modules] appends_keeps [OF appends_mac_modules])+

lemma appends_module_list: "appends snd (write_module_list F S dumper)"
  unfolding write_module_list_def
  by (rule mac_rules appends_grows [OF appends_loaded_modules] appends_keeps [OF appends_loaded_modules])+

lemma appends_breakpad_info: "appends snd (write_breakpad_info F)"
  unfolding write_breakpad_info_def by (rule mac_rules)+

lemma appends_mac_exception: "appends snd (mac_write_exception F S dumper)"
  unfolding mac_write_exception_def by (rule mac_rules)+

text \<open>Every writer of the list, and the type of its entry.\<close>

lemma mac_writers_append: "writer \<in> set (mac_writers F S dumper self) \<Longrightarrow> appends snd writer"
  using appends_mac_thread_list appends_mac_memory_list appends_mac_system_info appends_module_list appends_misc_info
    appends_breakpad_info appends_mac_thread_names appends_mac_exception
  by (auto simp: mac_writers_def split: option.splits)

end

definition mac_kinds :: "mac_formats \<Rightarrow> MacWriter \<Rightarrow> u32 list" where
  "mac_kinds F self =
     [stream_code (mf_base F) ThreadListStream, stream_code (mf_base F) MemoryListStream, stream_code (mf_base F) SystemInfoStream,
      stream_code (mf_base F) ModuleListStream, misc_info_stream F, breakpad_info_stream F, stream_code (mf_base F) ThreadNamesStream] @
     (case Option.bind (mac_crash self) cc_exception of Some _ \<Rightarrow> [stream_code (mf_base F) ExceptionStream] | None \<Rightarrow> [])"

lemma returns_counted:
  "(\<And>d a. stream_type d = kind \<Longrightarrow> returns (f d a) Q) \<Longrightarrow> returns (bindM (count_and_array C kind n) (\<lambda>(d, a). f d a)) Q"
  by (rule returns_bindM [OF returns_count_array]) auto

lemma mac_stream_kinds:
  "returns (mac_write_thread_list F S dumper) (\<lambda>d. stream_type d = stream_code (mf_base F) ThreadListStream)"
  "returns (mac_write_memory_list F S dumper) (\<lambda>d. stream_type d = stream_code (mf_base F) MemoryListStream)"
  "returns (write_system_info F S) (\<lambda>d. stream_type d = stream_code (mf_base F) SystemInfoStream)"
  "returns (write_module_list F S dumper) (\<lambda>d. stream_type d = stream_code (mf_base F) ModuleListStream)"
  "returns (write_misc_info F S dumper) (\<lambda>d. stream_type d = misc_info_stream F)"
  "returns (write_breakpad_info F) (\<lambda>d. stream_type d = breakpad_info_stream F)"
  "returns (mac_write_thread_names F S dumper) (\<lambda>d. stream_type d = stream_code (mf_base F) ThreadNamesStream)"
  "returns (mac_write_exception F S dumper) (\<lambda>d. stream_type d = stream_code (mf_base F) ExceptionStream)"
  unfolding mac_write_thread_list_def mac_write_memory_list_def write_system_info_def write_module_list_def write_misc_info_def
    write_breakpad_info_def mac_write_thread_names_def mac_write_exception_def
  by (rule kind_rules returns_counted returns_then returns_ret | simp)+

lemma mac_writers_kinds:
  "list_all2 (\<lambda>writer c. returns writer (\<lambda>d. stream_type d = c)) (mac_writers F S dumper self) (mac_kinds F self)"
  by (auto simp: mac_writers_def mac_kinds_def mac_stream_kinds split: option.splits)

section \<open>The finished dump\<close>

locale mac_output = mac_layouts F + write_seek_laws W content cursor
  for F :: mac_formats and W :: "'w write_seek" and content :: "'w \<Rightarrow> bytes" and cursor :: "'w \<Rightarrow> nat"
begin

lemma base_output: "dump_output (mf_base F) W content cursor"
  unfolding dump_output_def by (intro conjI base write_seek_laws_axioms)

lemmas mac_header_codec = md_formats.header [OF base]

lemma grows_mac_flush: "grows dump_buffer (mac_flush W F dirent)"
  unfolding mac_flush_def by (intro grows_map_errM grows_on_dir grows_write_to_file md_formats.directory [OF base])

lemma emits_mac_flush_none: "emits W (mf_base F) [] (mac_flush W F None) (\<lambda>_. True)"
  using emits_map_errM [OF emits_write_to_file [OF dump_output.out [OF base_output], of None UNIV]] by (simp add: mac_flush_def)

lemma emits_mac_flush_some: "stream_type e = c \<Longrightarrow> emits W (mf_base F) [{c}] (mac_flush W F (Some e)) (\<lambda>_. True)"
  using emits_map_errM [OF emits_write_to_file [OF dump_output.out [OF base_output], of "Some e" "{c}"]] by (simp add: mac_flush_def)

lemma run_writers_emits:
  assumes "\<And>writer. writer \<in> set writers \<Longrightarrow> appends snd writer"
    and "list_all2 (\<lambda>writer c. returns writer (\<lambda>d. stream_type d = c)) writers cs'"
  shows "emits W (mf_base F) (map (\<lambda>c. {c}) cs') (run_writers W F writers) (\<lambda>_. True) \<and>
    grows dump_buffer (run_writers W F writers)"
  using assms
proof (induction writers arbitrary: cs')
  case Nil
  have "emits W (mf_base F) [] (ret ()) (\<lambda>_. True)" by (rule emits_same [OF _ returns_any]) (simp add: comp_simps)
  with Nil show ?case by (simp add: grows_basic)
next
  case (Cons writer writers)
  then obtain c cs1 where cs': "cs' = c # cs1" and kind: "returns writer (\<lambda>d. stream_type d = c)"
    and rest: "list_all2 (\<lambda>writer c. returns writer (\<lambda>d. stream_type d = c)) writers cs1" by (auto simp: list_all2_Cons1)
  note IH = Cons.IH [OF Cons.prems(1) rest]
  have ap: "appends snd writer" using Cons.prems(1) by simp
  let ?f = "\<lambda>dirent. bindM (mac_flush W F (Some dirent)) (\<lambda>_. run_writers W F writers)"
  have g: "grows dump_buffer (?f x)" for x using IH by (intro grows_bindM grows_mac_flush) simp
  have "emits W (mf_base F) ([] @ [{c}] @ map (\<lambda>c. {c}) cs1) (bindM (on_writer writer) ?f) (\<lambda>_. True)"
    using IH by (intro emits_bindM [OF emits_on_writer [OF ap kind] g] emits_bindM [OF emits_mac_flush_some]) simp_all
  moreover have "grows dump_buffer (bindM (on_writer writer) ?f)"
    by (intro grows_bindM [OF grows_on_writer [OF appends_grows [OF ap]] g])
  ultimately show ?case by (simp add: cs')
qed

lemma mac_header_Ok:
  assumes run: "mac_write_header W F S n (w, \<lparr>inner = []\<rparr>) = (Ok d, (w', b))"
  shows "\<exists>secs w0 b0. system_time S = Some secs \<and>
    DirSection_new W (f_directory (mf_base F)) n (w, \<lparr>inner = replicate (size_with (f_header (mf_base F))) 0\<rparr>) = (Ok d, (w0, b0)) \<and>
    inner b = pod_bytes (f_header (mf_base F)) (mac_header_of F n (word_of_nat (size_with (f_header (mf_base F)))) secs) @
      replicate (unat n * size_with (f_directory (mf_base F))) 0"
proof -
  let ?h = "f_header (mf_base F)"
  obtain b0 secs where
      new: "DirSection_new W (f_directory (mf_base F)) n (w, \<lparr>inner = replicate (size_with ?h) 0\<rparr>) = (Ok d, (w', b0))"
    and secs: "system_time S = Some secs"
    and set: "MemoryWriter_set_value ?h \<lparr>mw_position = 0, mw_size = size_with ?h\<rparr>
        (mac_header_of F n (DirSection_position d) secs) b0 = (Ok (), b)"
    using run unfolding mac_write_header_def
    by (auto simp: pod_codec.alloc_eq [OF mac_header_codec] on_snd_def ret_def panic_def split: prod.splits option.splits
        elim!: bindM_OkE map_errM_OkE)
  note eqs = dump_output.new_eq [OF base_output new]
  have "inner b = put_slice (inner b0) 0 (pod_bytes ?h (mac_header_of F n (DirSection_position d) secs))"
    using set pod_codec.set_value_eq [OF mac_header_codec, of "\<lparr>mw_position = 0, mw_size = size_with ?h\<rparr>" b0] by auto
  with eqs new secs show ?thesis
    by (intro exI [of _ secs] exI [of _ w'] exI [of _ b0] conjI)
      (simp_all add: put_slice_def pod_codec.length_pod_bytes [OF mac_header_codec] DirSection_position_def)
qed

lemma writers_flushed:
  assumes "run_writers W F writers s = (Ok x, s')" and "writers \<noteq> []"
  shows "last_position_written_to_file (fst (fst s')) = Buffer_position (dump_buffer s')"
  using assms
proof (induction writers arbitrary: s)
  case (Cons writer writers)
  then obtain e s1 s2 where f: "mac_flush W F (Some e) s1 = (Ok (), s2)" and r: "run_writers W F writers s2 = (Ok x, s')"
    by (auto elim!: bindM_OkE)
  show ?case
  proof (cases "writers = []")
    case True
    with f r show ?thesis
      by (auto simp: mac_flush_def on_dir_def ret_def elim!: map_errM_OkE split: prod.splits dest!: write_to_file_last)
  qed (use Cons.IH [OF r] in simp)
qed simp

end

interpretation macf: mac_output le_mac_formats out_file_ops file_bytes file_pos
  unfolding mac_output_def by (intro conjI lem.mac_layouts_axioms outf.write_seek_laws_axioms)

end
