(* ===== verification/Mac_Success.thy ===== *)
theory Mac_Success
  imports Mac_Writer Live
begin

text \<open>
  That the macOS writer produces a dump: with the registers of the threads, the process id and the clock, and nothing else to be had
  from the kernel, every stream is written. \<open>mac_runs\<close> is total correctness of a stream writer: from a writer that satisfies
  \<open>p\<close> and a buffer with room for \<open>n\<close> bytes it succeeds, leaves a writer that satisfies \<open>q\<close> and adds at most \<open>n\<close> bytes.
\<close>

definition mac_runs :: "nat \<Rightarrow> (MacWriter \<Rightarrow> bool) \<Rightarrow> (MacWriter \<Rightarrow> bool) \<Rightarrow> 'a mac_comp \<Rightarrow> bool" where
  "mac_runs n p q m \<longleftrightarrow> (\<forall>self b. p self \<longrightarrow> length (inner b) + n < 2 ^ 32 \<longrightarrow>
     (\<exists>x self' b'. m (self, b) = (Ok x, (self', b')) \<and> q self' \<and> length (inner b) \<le> length (inner b') \<and>
       length (inner b') \<le> length (inner b) + n))"

lemma mac_runsI:
  assumes "\<And>self b. p self \<Longrightarrow> length (inner b) + n < 2 ^ 32 \<Longrightarrow>
    \<exists>x self' b'. m (self, b) = (Ok x, (self', b')) \<and> q self' \<and> length (inner b') = length (inner b) + n"
  shows "mac_runs n p q m"
  unfolding mac_runs_def using assms by (metis le_add1 order_refl)

lemma mac_runs_weaken: "mac_runs n p q m \<Longrightarrow> n \<le> n' \<Longrightarrow> mac_runs n' p q m"
  unfolding mac_runs_def by (meson add_le_mono le_refl le_trans order_le_less_trans)

text \<open>A writer, and the flush of its entry.\<close>

lemma writer_live:
  assumes w: "mac_runs n p q writer" and s: "ready_at N (\<lambda>(self, _). p self) i s" "length (inner (dump_buffer s)) + n < 2 ^ 32"
    and i: "i < N" "N < 1000"
  shows "\<exists>s'. bindM (on_writer writer) (\<lambda>e. mac_flush out_file_ops le_mac_formats (Some e)) s = (Ok (), s') \<and>
    ready_at N (\<lambda>(self, _). q self) (Suc i) s' \<and> length (inner (dump_buffer s')) \<le> length (inner (dump_buffer s)) + n"
proof -
  obtain d b self u where e: "s = ((d, b), (self, u))" by (metis prod.exhaust)
  obtain x self' b' where m: "writer (self, b) = (Ok x, (self', b'))" "q self'" "length (inner b) \<le> length (inner b')"
      "length (inner b') \<le> length (inner b) + n"
    using w s unfolding mac_runs_def e ready_at_def by fastforce
  have "ready_at N (\<lambda>(self, _). q self) i ((d, b'), (self', u))" using s(1) m by (auto simp: ready_at_def e)
  moreover have "live_at N (\<lambda>(self, _). q self) i (Suc i) 0 (mac_flush out_file_ops le_mac_formats (Some x))"
    unfolding mac_flush_def by (rule live_map_errM) (simp add: le_mac_formats_def le_formats_def write_live_some i)
  ultimately obtain s' where "mac_flush out_file_ops le_mac_formats (Some x) ((d, b'), (self', u)) = (Ok (), s')"
      "ready_at N (\<lambda>(self, _). q self) (Suc i) s'" "length (inner (dump_buffer s')) \<le> length (inner b')"
    using s(2) m(4) unfolding live_at_def by (fastforce simp: e)
  with m show ?thesis by (auto simp: bindM_def on_writer_def e)
qed

lemma run_writers_step:
  assumes "bindM (on_writer writer) (\<lambda>e. mac_flush W F (Some e)) s = (Ok (), s1)"
  shows "run_writers W F (writer # writers) s = run_writers W F writers s1"
  using assms by (auto simp: bindM_def split: prod.splits result.splits)

lemma run_writers_live:
  assumes "\<And>writer. writer \<in> set writers \<Longrightarrow> mac_runs n p p writer"
    and "ready_at N (\<lambda>(self, _). p self) i s" and "length (inner (dump_buffer s)) + n * length writers < 2 ^ 32"
    and "i + length writers \<le> N" and "N < 1000"
  shows "\<exists>s'. run_writers out_file_ops le_mac_formats writers s = (Ok (), s') \<and>
    length (inner (dump_buffer s')) \<le> length (inner (dump_buffer s)) + n * length writers"
  using assms
proof (induction writers arbitrary: i s)
  case (Cons writer writers)
  have room: "length (inner (dump_buffer s)) + n < 2 ^ 32" "i < N" using Cons.prems(3,4) by auto
  obtain s1 where 1: "bindM (on_writer writer) (\<lambda>e. mac_flush out_file_ops le_mac_formats (Some e)) s = (Ok (), s1)"
      "ready_at N (\<lambda>(self, _). p self) (Suc i) s1" "length (inner (dump_buffer s1)) \<le> length (inner (dump_buffer s)) + n"
    using writer_live [OF Cons.prems(1) [OF list.set_intros(1)] Cons.prems(2) room Cons.prems(5)] by blast
  have "length (inner (dump_buffer s1)) + n * length writers < 2 ^ 32" "Suc i + length writers \<le> N" using 1(3) Cons.prems(3,4) by auto
  from Cons.IH [OF Cons.prems(1) [OF list.set_intros(2)] 1(2) this Cons.prems(5)] obtain s' where
      "run_writers out_file_ops le_mac_formats writers s1 = (Ok (), s')"
      "length (inner (dump_buffer s')) \<le> length (inner (dump_buffer s1)) + n * length writers" by blast
  with run_writers_step [OF 1(1)] 1(3) show ?case by auto
qed (simp add: comp_simps)

section \<open>Streams of a task of which next to nothing is known\<close>

text \<open>The threads \<open>ts\<close> are listed and their registers can be read; there are no regions, no images, no names, no times.\<close>

locale sealed_task =
  fixes S :: mach_sys and t :: u32 and ts :: "u32 list"
  assumes threads: "task_threads S t = Ok ts"
    and registers: "u \<in> set ts \<Longrightarrow> \<exists>ws'. thread_get_state S u ws = Ok ws'"
    and registers_no_panic: "thread_get_state S u ws \<noteq> Panic"
    and no_region: "\<exists>e. mach_vm_region_recurse S t a = Err e"
    and no_images: "\<exists>e. task_dyld_info S t = Err e"
    and no_times: "\<exists>e. task_basic_times S t = Err e" "\<exists>e. task_thread_times S t = Err e"
    and no_name: "\<exists>e. thread_pth_name S u = Err e"
    and pid: "\<exists>pid. pid_of_task S t = Ok pid"
    and no_sysctl: "sysctl_size S nm = None"
    and clock: "\<exists>secs. system_time S = Some secs"

interpretation simt: sealed_task "sim_mach mem ths (\<lambda>_. Err 1)" t ths for mem ths t
  by unfold_locales (auto simp: sim_mach_def)

definition writer_with :: "mac_crash_context option \<Rightarrow> u32 \<Rightarrow> u32 \<Rightarrow> nat \<Rightarrow> MacWriter \<Rightarrow> bool" where
  "writer_with cc t h k self \<longleftrightarrow> mac_crash self = cc \<and> mac_task self = t \<and> mac_handler self = h \<and> length (mac_blocks self) = k"

lemma le_mac_eqs:
  "f_thread (mf_base le_mac_formats) = thread_pod" "f_memory (mf_base le_mac_formats) = memory_pod"
  "f_context (mf_base le_mac_formats) = context_pod" "f_thread_name (mf_base le_mac_formats) = thread_name_pod"
  "f_mac_exception le_mac_formats = mac_exception_pod" "f_mac_system_info le_mac_formats = mac_system_info_pod"
  "f_misc_info le_mac_formats = misc_info_pod" "f_breakpad_info le_mac_formats = breakpad_info_pod"
  "f_header (mf_base le_mac_formats) = header_pod" "f_directory (mf_base le_mac_formats) = directory_pod"
  by (simp_all add: le_mac_formats_def le_formats_def)

lemma mac_pod_sizes:
  "size_with thread_pod = 48" "size_with memory_pod = 16" "size_with context_pod = 1232" "size_with thread_name_pod = 12"
  "size_with mac_exception_pod = 168" "size_with mac_system_info_pod = 56" "size_with misc_info_pod = 44"
  "size_with breakpad_info_pod = 12" "size_with header_pod = 32" "size_with u32_pod = 4"
  by (simp_all add: pod_defs mac_exception_pod_def mac_system_info_pod_def misc_info_pod_def breakpad_info_pod_def u32_pod_def fixed_pod_def)

lemmas mac_pod_codecs = le_formats_codecs le_mac_codecs u32c.pod_codec_axioms

lemmas mac_alloc_eqs = mac_pod_codecs [THEN pod_codec.alloc_with_val_eq] mac_pod_codecs [THEN pod_codec.alloc_eq]
  mac_pod_codecs [THEN pod_codec.alloc_array_eq] mac_pod_codecs [THEN pod_codec.alloc_from_array_eq]
  mac_pod_codecs [THEN pod_codec.set_value_eq] mac_pod_codecs [THEN pod_codec.length_pod_bytes]
  mac_pod_codecs [THEN pod_codec.length_concat_bytes]

lemmas mac_step = comp_simps bindM_def map_errM_def append_bytes_def push_block_def Buffer_write_all_def add_data_size_def

context sealed_task
begin

lemma region_missing: "td_task dumper = t \<Longrightarrow> \<exists>e. get_vm_region S dumper a = Err e"
  using no_region [of a] by (auto simp: get_vm_region_def mach_call_def)

lemma thread_readable:
  assumes "u \<in> set ts"
  shows "\<exists>st. read_thread_state S dumper u = Ok st"
  using registers [OF assms] by (auto simp: read_thread_state_def mach_call_def) (metis bindR.simps(1) map_err.simps(1))

lemma thread_state_no_panic: "read_thread_state S dumper u \<noteq> Panic"
  using registers_no_panic by (cases "thread_get_state S u (ts_state ThreadState_default)") (auto simp: read_thread_state_def mach_call_def)

lemma stack_missing: "td_task dumper = t \<Longrightarrow> calculate_stack_size S dumper a = (Some (Ok 0) :: (u64, 'e) result option)"
  using region_missing [of dumper a] by (auto simp: calculate_stack_size_def)

lemma thread_written:
  assumes "td_task dumper = t" and "u \<in> set ts" and "writer_with cc t h k self"
  shows "\<exists>th self' b'. mac_write_thread le_mac_formats S dumper u (self, b) = (Ok th, (self', b')) \<and> writer_with cc t h (Suc k) self' \<and>
    length (inner b') = length (inner b) + 1248"
proof -
  obtain st where "read_thread_state S dumper u = Ok st" using thread_readable [OF assms(2)] by blast
  then show ?thesis
    using assms(3)
    by (simp add: mac_write_thread_def write_stack_from_start_address_def or_panic_def stack_missing [OF assms(1)] mac_step
        le_mac_eqs mac_alloc_eqs mac_pod_sizes Let_def writer_with_def)
qed

lemma threads_written:
  assumes "td_task dumper = t" and "set us \<subseteq> set ts" and "writer_with cc t h k self"
    and "unat (maw_position a) + 48 * (i + length us) \<le> length (inner b)"
  shows "\<exists>self' b'. mac_write_threads le_mac_formats S dumper a i us (self, b) = (Ok (), (self', b')) \<and>
    writer_with cc t h (k + length us) self' \<and> length (inner b') = length (inner b) + 1248 * length us"
  using assms(2-)
proof (induction us arbitrary: i k self b)
  case (Cons u us)
  obtain th self1 b1 where 1: "mac_write_thread le_mac_formats S dumper u (self, b) = (Ok th, (self1, b1))" "writer_with cc t h (Suc k) self1"
      "length (inner b1) = length (inner b) + 1248"
    using thread_written [OF assms(1) _ Cons.prems(2)] Cons.prems(1) by (metis list.set_intros(1) subset_iff)
  let ?b2 = "b1\<lparr>inner := put_slice (inner b1) (unat (maw_position a) + 48 * i) (pod_bytes thread_pod th)\<rparr>"
  have slot: "unat (maw_position a) + 48 * i + 48 \<le> length (inner b1)" using Cons.prems(3) 1(3) by simp
  then have set: "MemoryArrayWriter_set_value_at thread_pod a th i b1 = (Ok (), ?b2)"
    using pod_codec.set_value_at_eq [OF le_formats_codecs(3), of a i b1 th] by (simp add: mac_pod_sizes)
  have len: "length (inner ?b2) = length (inner b) + 1248"
    using slot 1(3) by (simp add: length_put_slice mac_alloc_eqs mac_pod_sizes)
  obtain self' b' where "mac_write_threads le_mac_formats S dumper a (Suc i) us (self1, ?b2) = (Ok (), (self', b'))"
      "writer_with cc t h (Suc k + length us) self'" "length (inner b') = length (inner ?b2) + 1248 * length us"
    using Cons.IH [OF _ 1(2), of "Suc i" ?b2] Cons.prems(1,3) len by auto
  with 1 set len show ?case by (auto simp: mac_step le_mac_eqs)
qed (simp add: comp_simps)

lemma threads_listed: "td_task dumper = t \<Longrightarrow> mac_handler self = h \<Longrightarrow>
   threads_of S dumper self = (Ok \<lparr>at_threads = ts, at_handler = h, at_i = 0\<rparr> :: (ActiveThreads, 'e) result)"
  by (simp add: threads_of_def read_threads_def mach_call_def threads)

lemma active_others:
  assumes "h \<noteq> 0" and "count_list ts h = 1"
  defines "it \<equiv> \<lparr>at_threads = ts, at_handler = h, at_i = 0\<rparr>"
  shows "ActiveThreads_len it = (Ok (length ts - 1) :: (nat, 'e) result)" and "length (active_list it) = length ts - 1"
    and "set (active_list it) \<subseteq> set ts"
  using active_count [of ts h] assms by (cases ts; auto simp: it_def ActiveThreads_len_def MACH_PORT_NULL_def active_list_eq Let_def)+

text \<open>The count and the array of a stream of \<open>n\<close> elements.\<close>

lemma count_array_eq:
  assumes "pod_codec C" and "length (inner b) + 4 + n * size_with C < 2 ^ 32"
  shows "\<exists>d. count_and_array C kind n (self, b) = (Ok (d, \<lparr>maw_position = word_of_nat (length (inner b) + 4), array_size = n\<rparr>),
    (self, b\<lparr>inner := inner b @ le_bytes 4 (word_of_nat n :: u32) @ replicate (n * size_with C) 0\<rparr>))"
proof -
  have "add_w (4 :: u32) (word_of_nat (n * size_with C)) = (Ok (4 + word_of_nat (n * size_with C)) :: (u32, MacWriterError) result)"
    using assms(2) by (simp add: add_w_def del: of_nat_mult)
  then show ?thesis
    by (simp add: count_and_array_def mac_step u32c.alloc_with_val_eq pod_codec.alloc_array_eq [OF assms(1)] MemoryWriter_location_def
        MemoryArrayWriter_location_def mac_pod_sizes pod_bytes_ints add.commute del: of_nat_mult)
qed

lemma runs_thread_list:
  assumes "td_task dumper = t" and "h \<noteq> 0" and "count_list ts h = 1" and "n = length ts - 1"
  shows "mac_runs (4 + 1296 * n) (writer_with cc t h 0) (writer_with cc t h n) (mac_write_thread_list le_mac_formats S dumper)"
proof (rule mac_runsI)
  fix self and b :: Buffer assume w: "writer_with cc t h 0 self" and room: "length (inner b) + (4 + 1296 * n) < 2 ^ 32"
  note act = active_others [OF assms(2,3), folded assms(4)]
  let ?it = "\<lparr>at_threads = ts, at_handler = h, at_i = 0\<rparr>"
  let ?a = "\<lparr>maw_position = word_of_nat (length (inner b) + 4), array_size = n\<rparr>"
  let ?b = "b\<lparr>inner := inner b @ le_bytes 4 (word_of_nat n :: u32) @ replicate (n * size_with thread_pod) 0\<rparr>"
  obtain d where ca: "count_and_array thread_pod (stream_code (mf_base le_mac_formats) ThreadListStream) n (self, b) = (Ok (d, ?a), (self, ?b))"
    using count_array_eq [OF le_formats_codecs(3), of b n] room by (auto simp: mac_pod_sizes)
  have "unat (maw_position ?a) = length (inner b) + 4" using room by (simp del: of_nat_add of_nat_numeral)
  then obtain self' b' where "mac_write_threads le_mac_formats S dumper ?a 0 (active_list ?it) (self, ?b) = (Ok (), (self', b'))"
      "writer_with cc t h n self'" "length (inner b') = length (inner b) + (4 + 1296 * n)"
    using threads_written [OF assms(1) act(3) w, of ?a 0 ?b] act(2) by (auto simp: mac_pod_sizes)
  with ca w show "\<exists>x self' b'. mac_write_thread_list le_mac_formats S dumper (self, b) = (Ok x, (self', b')) \<and>
      writer_with cc t h n self' \<and> length (inner b') = length (inner b) + (4 + 1296 * n)"
    by (simp add: mac_write_thread_list_def mac_step le_mac_eqs writer_with_def act(1) threads_listed [OF assms(1)])
qed

lemma ip_block_missing:
  assumes "td_task dumper = t"
  shows "get_ip_block S dumper u = (Ok None :: ((u64 \<times> u64) option, 'e) result)"
proof (cases "read_thread_state S dumper u")
  case (Ok st)
  obtain e where "get_vm_region S dumper (ThreadState_pc S st) = Err e" using region_missing [OF assms] by blast
  with Ok show ?thesis by (simp add: get_ip_block_def Let_def)
qed (use thread_state_no_panic in \<open>auto simp: get_ip_block_def\<close>)

lemma runs_memory_list:
  assumes "td_task dumper = t"
  shows "mac_runs (4 + 16 * n) (writer_with cc t h n) (writer_with cc t h n) (mac_write_memory_list le_mac_formats S dumper)"
proof (rule mac_runsI)
  fix self and b :: Buffer assume w: "writer_with cc t h n self" and room: "length (inner b) + (4 + 16 * n) < 2 ^ 32"
  then have "add_w (4 :: u32) (word_of_nat (n * 16)) = (Ok (4 + word_of_nat (n * 16)) :: (u32, MacWriterError) result)"
    by (simp add: add_w_def del: of_nat_mult)
  with w show "\<exists>x self' b'. mac_write_memory_list le_mac_formats S dumper (self, b) = (Ok x, (self', b')) \<and>
      writer_with cc t h n self' \<and> length (inner b') = length (inner b) + (4 + 16 * n)"
    by (auto simp: mac_write_memory_list_def mac_step le_mac_eqs mac_alloc_eqs mac_pod_sizes write_ip_block_def ip_block_missing [OF assms]
        MemoryWriter_location_def MemoryArrayWriter_location_def writer_with_def Let_def simp del: of_nat_mult split: option.splits)
qed

lemma empty_string: "length (inner b) + 4 < 2 ^ 32 \<Longrightarrow> write_string_to_location [] b =
    (Ok \<lparr>data_size = 4, rva = word_of_nat (length (inner b))\<rparr>, b\<lparr>inner := inner b @ string_bytes []\<rparr>)"
  using write_string_to_location_eq [of b "[]"] by (simp add: encode_utf16_def str_chars_def str_bytes_def)

lemma length_empty_string: "length (string_bytes []) = 4"
  by (simp add: length_string_bytes encode_utf16_def str_chars_def str_bytes_def)

lemma runs_system_info: "mac_runs 60 p p (write_system_info le_mac_formats S)"
proof (rule mac_runsI)
  fix self and b :: Buffer assume p: "p self" and room: "length (inner b) + 60 < 2 ^ 32"
  have v: "build_version S = []" by (simp add: build_version_def sysctl_string_def no_sysctl)
  show "\<exists>x self' b'. write_system_info le_mac_formats S (self, b) = (Ok x, (self', b')) \<and> p self' \<and> length (inner b') = length (inner b) + 60"
    using p room
    by (simp add: write_system_info_def mac_step le_mac_eqs mac_alloc_eqs mac_pod_sizes v empty_string Let_def length_put_slice
        length_empty_string split: prod.splits)
qed

lemma runs_module_list:
  assumes "td_task dumper = t"
  shows "mac_runs 4 p p (write_module_list le_mac_formats S dumper)"
proof (rule mac_runsI)
  fix self and b :: Buffer assume p: "p self" and room: "length (inner b) + 4 < 2 ^ 32"
  obtain e where "task_dyld_info S t = Err e" using no_images by blast
  then show "\<exists>x self' b'. write_module_list le_mac_formats S dumper (self, b) = (Ok x, (self', b')) \<and> p self' \<and> length (inner b') = length (inner b) + 4"
    using p by (simp add: write_module_list_def write_loaded_modules_def read_images_def task_info_def mach_call_def assms handleM_def
        mac_step mac_alloc_eqs mac_pod_sizes Let_def)
qed

lemma runs_misc_info:
  assumes "td_task dumper = t"
  shows "mac_runs 44 p p (write_misc_info le_mac_formats S dumper)"
proof (rule mac_runsI)
  fix self and b :: Buffer assume p: "p self" and room: "length (inner b) + 44 < 2 ^ 32"
  obtain e1 e2 pid where "task_basic_times S t = Err e1" "task_thread_times S t = Err e2" "pid_of_task S t = Ok pid"
    using no_times pid by blast
  then show "\<exists>x self' b'. write_misc_info le_mac_formats S dumper (self, b) = (Ok x, (self', b')) \<and> p self' \<and> length (inner b') = length (inner b) + 44"
    using p room by (simp add: write_misc_info_def task_info_def pid_for_task_def mach_call_def ok_result_def assms process_time_def
        duration_of_def Duration_add_def Duration_new_def Duration_default_def add_w_def mac_step le_mac_eqs mac_alloc_eqs mac_pod_sizes Let_def
        length_put_slice)
qed

lemma runs_breakpad_info: "mac_runs 12 p p (write_breakpad_info le_mac_formats)"
  by (rule mac_runsI) (simp add: write_breakpad_info_def mac_step le_mac_eqs mac_alloc_eqs mac_pod_sizes)

lemma names_written:
  assumes "unat (maw_position a) + 12 * (i + length us) \<le> length (inner b)" and "length (inner b) + 4 * length us < 2 ^ 32"
  shows "\<exists>b'. mac_write_names le_mac_formats S a i us (self, b) = (Ok (), (self, b')) \<and>
    length (inner b') = length (inner b) + 4 * length us"
  using assms
proof (induction us arbitrary: i b)
  case (Cons u us)
  obtain e where "thread_pth_name S u = Err e" using no_name by blast
  then have nm: "mac_write_thread_name S u b = (Err (MacTaskDumpError (Kernel ''mach::thread_info'' (KernelError_from e))), b)"
    by (simp add: mac_write_thread_name_def thread_info_def mach_call_def mac_step)
  define b1 where "b1 = b\<lparr>inner := inner b @ string_bytes []\<rparr>"
  have str: "\<exists>loc. write_string_to_location [] b = (Ok loc, b1)" using empty_string [of b] Cons.prems(2) by (simp add: b1_def)
  then obtain loc where loc: "write_string_to_location [] b = (Ok loc, b1)" ..
  define entry where "entry = \<lparr>tn_thread_id = u, thread_name_rva = ucast (rva loc)\<rparr>"
  define b2 where "b2 = b1\<lparr>inner := put_slice (inner b1) (unat (maw_position a) + 12 * i) (pod_bytes thread_name_pod entry)\<rparr>"
  have slot: "unat (maw_position a) + 12 * i + 12 \<le> length (inner b1)" using Cons.prems(1) by (simp add: b1_def)
  then have set: "MemoryArrayWriter_set_value_at thread_name_pod a entry i b1 = (Ok (), b2)"
    using pod_codec.set_value_at_eq [OF le_formats_codecs(10), of a i b1 entry] by (simp add: mac_pod_sizes b2_def)
  have len: "length (inner b2) = length (inner b) + 4"
    using slot by (simp add: b2_def length_put_slice mac_alloc_eqs mac_pod_sizes) (simp add: b1_def length_empty_string)
  from Cons.IH [of "Suc i" b2] obtain b' where "mac_write_names le_mac_formats S a (Suc i) us (self, b2) = (Ok (), (self, b'))"
      "length (inner b') = length (inner b2) + 4 * length us"
    using Cons.prems len by auto
  with nm loc set len show ?case by (auto simp: mac_step handleM_def le_mac_eqs entry_def)
qed (simp add: comp_simps)

lemma runs_thread_names:
  assumes "td_task dumper = t" and "h \<noteq> 0" and "count_list ts h = 1" and "n = length ts - 1"
  shows "mac_runs (4 + 16 * n) (writer_with cc t h k) (writer_with cc t h k) (mac_write_thread_names le_mac_formats S dumper)"
proof (rule mac_runsI)
  fix self and b :: Buffer assume w: "writer_with cc t h k self" and room: "length (inner b) + (4 + 16 * n) < 2 ^ 32"
  note act = active_others [OF assms(2,3), folded assms(4)]
  let ?it = "\<lparr>at_threads = ts, at_handler = h, at_i = 0\<rparr>"
  let ?a = "\<lparr>maw_position = word_of_nat (length (inner b) + 4), array_size = n\<rparr>"
  let ?b = "b\<lparr>inner := inner b @ le_bytes 4 (word_of_nat n :: u32) @ replicate (n * size_with thread_name_pod) 0\<rparr>"
  obtain d where ca: "count_and_array thread_name_pod (stream_code (mf_base le_mac_formats) ThreadNamesStream) n (self, b) = (Ok (d, ?a), (self, ?b))"
    using count_array_eq [OF le_formats_codecs(10), of b n] room by (auto simp: mac_pod_sizes)
  have "unat (maw_position ?a) = length (inner b) + 4" using room by (simp del: of_nat_add of_nat_numeral)
  then obtain b' where "mac_write_names le_mac_formats S ?a 0 (active_list ?it) (self, ?b) = (Ok (), (self, b'))"
      "length (inner b') = length (inner b) + (4 + 16 * n)"
    using names_written [of ?a 0 "active_list ?it" ?b self] act(2) room by (auto simp: mac_pod_sizes)
  with ca w show "\<exists>x self' b'. mac_write_thread_names le_mac_formats S dumper (self, b) = (Ok x, (self', b')) \<and>
      writer_with cc t h k self' \<and> length (inner b') = length (inner b) + (4 + 16 * n)"
    by (simp add: mac_write_thread_names_def mac_step le_mac_eqs writer_with_def act(1) threads_listed [OF assms(1)])
qed

lemma runs_exception: "mac_runs 1400 (writer_with (Some cc) t h k) (writer_with (Some cc) t h k) (mac_write_exception le_mac_formats S dumper)"
  unfolding mac_runs_def
proof (intro allI impI)
  fix self and b :: Buffer assume w: "writer_with (Some cc) t h k self"
  show "\<exists>x self' b'. mac_write_exception le_mac_formats S dumper (self, b) = (Ok x, self', b') \<and> writer_with (Some cc) t h k self' \<and>
      length (inner b) \<le> length (inner b') \<and> length (inner b') \<le> length (inner b) + 1400"
    using w thread_state_no_panic [of dumper "cc_thread cc"]
    by (cases "read_thread_state S dumper (cc_thread cc)")
      (simp_all add: mac_write_exception_def writer_with_def mac_step handleM_def le_mac_eqs mac_alloc_eqs mac_pod_sizes Let_def)
qed

end

lemma mac_header_ready:
  assumes "faults w = []" and "file_pos w < 2 ^ 32" and "system_time S = Some secs" and "N \<le> 8" and "P rest"
  shows "\<exists>d w' b. mac_write_header out_file_ops le_mac_formats S (word_of_nat N) (w, \<lparr>inner = []\<rparr>) = (Ok d, (w', b)) \<and>
    ready_at N P 0 ((d, b), rest) \<and> length (inner b) = 32 + 12 * N"
proof -
  let ?z = "replicate (32 + 12 * N) (0 :: u8)"
  have set: "MemoryWriter_set_value header_pod \<lparr>mw_position = 0, mw_size = 32\<rparr> v \<lparr>inner = ?z\<rparr> =
      (Ok (), \<lparr>inner = put_slice ?z 0 (pod_bytes header_pod v)\<rparr>)" for v
    using pod_codec.set_value_eq [OF le_formats_codecs(2), of "\<lparr>mw_position = 0, mw_size = 32\<rparr>" "\<lparr>inner = ?z\<rparr>" v] by simp
  have len: "length (put_slice ?z 0 (pod_bytes header_pod v)) = 32 + 12 * N" for v
    by (simp add: length_put_slice mac_alloc_eqs mac_pod_sizes)
  have pos: "unat (word_of_nat (file_pos w) :: u64) = file_pos w" using assms(2) by (intro unat_of_nat_less) simp
  have n: "unat (word_of_nat N :: u32) = N" using assms(4) by simp
  show ?thesis
    using assms pos len n
    by (simp add: mac_write_header_def DirSection_new_def comp_simps mac_alloc_eqs mac_pod_sizes le_mac_eqs out_file_ops_def next_fault_def
        set ready_at_def replicate_add [symmetric] mult.commute)
qed

lemma sealed_dump:
  assumes "sealed_task S (mac_task self) ts" and "mac_handler self \<noteq> 0" and "count_list ts (mac_handler self) = 1" and "length ts \<le> 1000000"
    and "mac_blocks self = []" and "faults w = []" and "file_pos w < 2 ^ 32"
  shows "\<exists>bs self' w'. mac_dump out_file_ops le_mac_formats S (self, w) = (Ok bs, self', w') \<and> length bs < 2 ^ 32"
proof -
  let ?F = le_mac_formats and ?t = "mac_task self" and ?h = "mac_handler self" and ?cc = "mac_crash self"
  define n where "n = length ts - 1"
  let ?dumper = "TaskDumper_new S ?t" and ?first = "mac_write_thread_list ?F S (TaskDumper_new S ?t)"
  let ?p = "writer_with ?cc ?t ?h n" and ?budget = "1400 + 16 * n"
  note st = sealed_task.runs_thread_list [OF assms(1)] sealed_task.runs_memory_list [OF assms(1)] sealed_task.runs_system_info [OF assms(1)]
    sealed_task.runs_module_list [OF assms(1)] sealed_task.runs_misc_info [OF assms(1)] sealed_task.runs_breakpad_info [OF assms(1)]
    sealed_task.runs_thread_names [OF assms(1)] sealed_task.runs_exception [OF assms(1)]
  have dumper: "td_task ?dumper = ?t" by (simp add: TaskDumper_new_def)
  define rest where "rest = tl (mac_writers ?F S ?dumper self)"
  have ws: "mac_writers ?F S ?dumper self = ?first # rest" by (simp add: rest_def mac_writers_def)
  define N where "N = Suc (length rest)"
  have N: "N \<le> 8" "length rest \<le> 7" by (auto simp: N_def rest_def mac_writers_def split: option.splits)
  have exc: "mac_runs 1400 ?p ?p (mac_write_exception ?F S ?dumper)" if "Some e = Option.bind ?cc cc_exception" for e
    using that st(8) [of _ ?h n ?dumper] by (cases ?cc) auto
  have rest: "mac_runs ?budget ?p ?p writer" if "writer \<in> set rest" for writer
    using that st(2) [OF dumper, of n ?cc ?h] st(3) [of ?p] st(4,5) [OF dumper, of ?p] st(6) [of ?p]
      st(7) [OF dumper assms(2,3) n_def, of ?cc n]
    by (auto simp: rest_def mac_writers_def split: option.splits dest: exc intro: mac_runs_weaken)
  obtain secs where "system_time S = Some secs" using sealed_task.clock [OF assms(1)] by blast
  from mac_header_ready [OF assms(6,7) this N(1), of "\<lambda>(self', _). writer_with ?cc ?t ?h 0 self'" "(self, ())"] obtain d w1 b where
      h: "mac_write_header out_file_ops ?F S (word_of_nat N) (w, \<lparr>inner = []\<rparr>) = (Ok d, (w1, b))"
    and r: "ready_at N (\<lambda>(self', _). writer_with ?cc ?t ?h 0 self') 0 ((d, b), (self, ()))" "length (inner b) = 32 + 12 * N"
    using assms(5) by (auto simp: writer_with_def)
  have "live_at N (\<lambda>(self', _). writer_with ?cc ?t ?h 0 self') 0 0 0 (mac_flush out_file_ops ?F None)"
    unfolding mac_flush_def by (rule live_map_errM) (simp add: le_mac_eqs write_live_none)
  then obtain s1 where 1: "mac_flush out_file_ops ?F None ((d, b), (self, ())) = (Ok (), s1)"
      "ready_at N (\<lambda>(self', _). writer_with ?cc ?t ?h 0 self') 0 s1" "length (inner (dump_buffer s1)) \<le> 32 + 12 * N"
    using r N(1) unfolding live_at_def by fastforce
  have n: "n < 1000000" using assms(3,4) by (cases ts) (auto simp: n_def)
  then have "length (inner (dump_buffer s1)) + (4 + 1296 * n) < 2 ^ 32" using 1(3) N(1) by simp
  from writer_live [OF st(1) [OF dumper assms(2,3) n_def] 1(2) this] N(1) obtain s2 where
      2: "bindM (on_writer ?first) (\<lambda>e. mac_flush out_file_ops ?F (Some e)) s1 = (Ok (), s2)"
      "ready_at N (\<lambda>(self', _). ?p self') 1 s2" "length (inner (dump_buffer s2)) \<le> length (inner (dump_buffer s1)) + (4 + 1296 * n)"
    by (auto simp: N_def)
  have small: "?budget * length rest \<le> (1400 + 16 * n) * 7" using N(2) by (intro mult_le_mono2)
  have room: "length (inner (dump_buffer s2)) + ?budget * length rest < 2 ^ 32" using small 1(3) 2(3) n N(1) by simp
  obtain s3 where 3: "run_writers out_file_ops ?F rest s2 = (Ok (), s3)"
      "length (inner (dump_buffer s3)) \<le> length (inner (dump_buffer s2)) + ?budget * length rest"
    using run_writers_live [OF rest 2(2) room] N(1) by (auto simp: N_def)
  have run: "bindM (mac_flush out_file_ops ?F None) (\<lambda>_. run_writers out_file_ops ?F (mac_writers ?F S ?dumper self)) ((d, b), (self, ())) = (Ok (), s3)"
    unfolding ws using 1(1) run_writers_step [OF 2(1), of rest] 3(1) by (simp add: bindM_def del: run_writers.simps)
  obtain d' b' self' u where s3: "s3 = ((d', b'), (self', u))" by (metis prod.exhaust)
  have "length (mac_writers ?F S ?dumper self) = N" by (simp add: ws N_def)
  with h run have "mac_dump out_file_ops ?F S (self, w) = (Ok (inner b'), self', destination d')"
    by (simp add: mac_dump_def Buffer_with_capacity_def Let_def s3)
  moreover have "length (inner b') < 2 ^ 32" using 3(2) room by (simp add: s3)
  ultimately show ?thesis by blast
qed

section \<open>The finished dump\<close>

text \<open>
  C5. A macOS dump that succeeds is complete and well formed. If \<open>dump\<close> returns the bytes of a dump below 4 GiB, the output holds
  from its starting position on exactly these bytes and nothing before it has changed; they start with the header, which
  names the number of streams and the directory right behind it; and the slots of the directory hold the entries of the
  streams in their fixed order, with the exception stream last and only if the crash context has an exception.
\<close>

theorem mac_dump_complete:
  assumes "mac_output F W content cursor" and "mac_dump W F S (self, w) = (Ok bs, self', w')"
    and "length bs < 2 ^ 32" and "cursor w \<le> length (content w)"
  shows "take (cursor w) (content w') = take (cursor w) (content w) \<and>
    take (length bs) (drop (cursor w) (content w')) = bs \<and>
    (\<exists>secs. system_time S = Some secs \<and> take (size_with (f_header (mf_base F))) bs = pod_bytes (f_header (mf_base F))
      (mac_header_of F (word_of_nat (length (mac_kinds F self))) (word_of_nat (size_with (f_header (mf_base F)))) secs)) \<and>
    (\<exists>es0. map stream_type es0 = mac_kinds F self \<and> (\<forall>i < length es0.
      take (size_with (f_directory (mf_base F)))
        (drop (size_with (f_header (mf_base F)) + size_with (f_directory (mf_base F)) * i) bs) =
        pod_bytes (f_directory (mf_base F)) (es0 ! i)))"
proof -
  note bo = mac_output.base_output [OF assms(1)]
  have lay: "mac_layouts F" using assms(1) by (simp add: mac_output_def)
  let ?ws = "mac_writers F S (TaskDumper_new S (mac_task self)) self"
  have n: "length ?ws = length (mac_kinds F self)" using list_all2_lengthD [OF mac_writers_kinds] .
  obtain rh w1 b1 where h: "mac_write_header W F S (word_of_nat (length ?ws)) (w, \<lparr>inner = []\<rparr>) = (rh, (w1, b1))" by (metis prod.exhaust)
  with assms(2) obtain d0 where rh: "rh = Ok d0" by (cases rh) (auto simp: mac_dump_def Buffer_with_capacity_def Let_def)
  let ?m = "bindM (mac_flush W F None) (\<lambda>_. run_writers W F ?ws)"
  obtain r d b self1 u where st0: "?m ((d0, b1), (self, ())) = (r, ((d, b), (self1, u)))" by (metis prod.exhaust)
  with assms(2) h rh have st: "?m ((d0, b1), (self, ())) = (Ok (), ((d, b), (self1, u)))" and w': "w' = destination d" and bs: "bs = inner b"
    by (auto simp: mac_dump_def Buffer_with_capacity_def Let_def bindR_Ok_iff)
  from mac_output.mac_header_Ok [OF assms(1) h [unfolded rh]] obtain secs w0 b0 where secs: "system_time S = Some secs"
    and new: "DirSection_new W (f_directory (mf_base F)) (word_of_nat (length ?ws))
      (w, \<lparr>inner = replicate (size_with (f_header (mf_base F))) 0\<rparr>) = (Ok d0, (w0, b0))"
    and b1: "inner b1 = pod_bytes (f_header (mf_base F)) (mac_header_of F (word_of_nat (length ?ws)) (word_of_nat (size_with (f_header (mf_base F)))) secs) @
      replicate (unat (word_of_nat (length ?ws) :: u32) * size_with (f_directory (mf_base F))) 0" by blast
  have rw: "emits W (mf_base F) (map (\<lambda>c. {c}) (mac_kinds F self)) (run_writers W F ?ws) (\<lambda>_. True)" "grows dump_buffer (run_writers W F ?ws)"
    using mac_output.run_writers_emits [OF assms(1) mac_layouts.mac_writers_append [OF lay] mac_writers_kinds] by auto
  have em: "emits W (mf_base F) (map (\<lambda>c. {c}) (mac_kinds F self)) ?m (\<lambda>_. True)"
    using emits_bindM [OF mac_output.emits_mac_flush_none [OF assms(1)] rw(2,1)] by simp
  have g: "grows dump_buffer ?m" by (intro grows_bindM mac_output.grows_mac_flush [OF assms(1)] rw(2))
  obtain s1 where "run_writers W F ?ws s1 = (Ok (), ((d, b), (self1, u)))" using st by (rule bindM_OkE)
  then have "last_position_written_to_file d = Buffer_position b"
    using mac_output.writers_flushed [OF assms(1), of ?ws s1] by (simp add: mac_writers_def)
  from dump_output.emits_dump [OF bo em g new b1 pod_codec.length_pod_bytes [OF mac_output.mac_header_codec [OF assms(1)]] st this] assms(3)
  obtain es0 where kinds: "list_all2 (\<lambda>k e. stream_type e \<in> k) (map (\<lambda>c. {c}) (mac_kinds F self)) es0"
    and run: "dir_run W (f_directory (mf_base F)) (d0, b0) es0 (d, b)" "unat (last_position_written_to_file d) = length (inner b)"
      "unat (maw_position (dir_array d0)) = size_with (f_header (mf_base F))"
    and hdr: "take (size_with (f_header (mf_base F))) (inner b) = pod_bytes (f_header (mf_base F))
      (mac_header_of F (word_of_nat (length ?ws)) (word_of_nat (size_with (f_header (mf_base F)))) secs)" by (auto simp: bs)
  have "map stream_type es0 = mac_kinds F self"
    using kinds by (simp add: list_all2_conv_all_nth list_eq_iff_nth_eq)
  moreover note dump_output.finished_dump [OF bo new run(3,1,2) assms(3) [unfolded bs] assms(4)]
  ultimately show ?thesis using secs hdr n w' bs by metis
qed

definition ex_mac_output :: out_file where
  "ex_mac_output = \<lparr>file_bytes = [1, 2, 3], file_pos = 3, faults = []\<rparr>"

definition ex_mac_writer :: MacWriter where
  "ex_mac_writer = MacWriter_new (sim_mach (\<lambda>_. None) [2, 5] (\<lambda>_. Err 1)) (Some 9) None"

lemma ex_mac_fresh: "mac_handler ex_mac_writer = 2" "mac_blocks ex_mac_writer = []"
  by (simp_all add: ex_mac_writer_def MacWriter_new_def sim_mach_def)

theorem mac_dump_complete_witness:
  "\<exists>bs self' w'. mac_dump out_file_ops le_mac_formats (sim_mach (\<lambda>_. None) [2, 5] (\<lambda>_. Err 1)) (ex_mac_writer, ex_mac_output) = (Ok bs, self', w') \<and>
    take 3 (file_bytes w') = [1, 2, 3] \<and> take (length bs) (drop 3 (file_bytes w')) = bs"
proof -
  let ?S = "sim_mach (\<lambda>_. None) [2, 5] (\<lambda>_. Err 1)"
  obtain bs self' w' where run: "mac_dump out_file_ops le_mac_formats ?S (ex_mac_writer, ex_mac_output) = (Ok bs, self', w')" "length bs < 2 ^ 32"
    using sealed_dump [OF simt.sealed_task_axioms [where mem = "\<lambda>_. None"], where self = ex_mac_writer and w = ex_mac_output and ts = "[2, 5]"] ex_mac_fresh by (auto simp: ex_mac_output_def)
  show ?thesis
    using mac_dump_complete [OF macf.mac_output_axioms run] run(1) by (auto simp: ex_mac_output_def)
qed

text \<open>
  C6. The macOS writer produces a dump of a task of which next to nothing is known. If the threads are listed with the handler thread
  once among them and their registers can be read, and there are no regions, no images, no names of threads, no times and no
  system information, then \<open>dump\<close> of a fresh writer, with any crash context, succeeds on an output that does not fail, for up to a
  million threads, and returns a dump below 4 GiB.
\<close>

theorem mac_best_effort:
  assumes "sealed_task S (mac_task self) ts" and "mac_handler self \<noteq> MACH_PORT_NULL" and "count_list ts (mac_handler self) = 1"
    and "length ts \<le> 1000000" and "mac_blocks self = []" and "faults w = []" and "file_pos w < 2 ^ 32"
  shows "\<exists>bs self' w'. mac_dump out_file_ops le_mac_formats S (self, w) = (Ok bs, self', w') \<and> length bs < 2 ^ 32"
  by (rule sealed_dump [OF assms(1) _ assms(3-)]) (use assms(2) in \<open>simp add: MACH_PORT_NULL_def\<close>)

theorem mac_best_effort_witness:
  "\<exists>bs self' w'. mac_dump out_file_ops le_mac_formats (sim_mach (\<lambda>_. None) [2, 5] (\<lambda>_. Err 1)) (ex_mac_writer, ex_mac_output) = (Ok bs, self', w') \<and>
    length bs < 2 ^ 32"
  using mac_best_effort [OF simt.sealed_task_axioms [where mem = "\<lambda>_. None"], where self = ex_mac_writer and w = ex_mac_output and ts = "[2, 5]"]
  by (simp add: ex_mac_fresh ex_mac_output_def MACH_PORT_NULL_def)

end
