(* ===== verification/Arm_Cpu.thy ===== *)
theory Arm_Cpu
  imports Streams
begin

text \<open>
  CPU information on ARM (\<open>linux/dumper_cpu_info/arm.rs\<close>), for 32 and 64 bits: the number of processors from two lists under
  \<open>/sys\<close>, the processor's id, level and features from \<open>/proc/cpuinfo\<close>. It is shown that the lists are read as the kernel prints
  them, and that the lines of \<open>/proc/cpuinfo\<close> are never recognized in the format that the code itself describes.
\<close>

datatype arm_arch = Arm | Aarch64

datatype ArmHwCap =
    HWCAP_SWP | HWCAP_HALF | HWCAP_THUMB | HWCAP_26BIT | HWCAP_FAST_MULT | HWCAP_FPA | HWCAP_VFP | HWCAP_EDSP | HWCAP_JAVA
  | HWCAP_IWMMXT | HWCAP_CRUNCH | HWCAP_THUMBEE | HWCAP_NEON | HWCAP_VFPv3 | HWCAP_VFPv3D16 | HWCAP_TLS | HWCAP_VFPv4
  | HWCAP_IDIVA | HWCAP_IDIVT | HWCAP_IDIV

text \<open>Constants of the crate minidump\_common, and the three files: opening may fail, and so may reading.\<close>

record arm_sys =
  hwcap_bits :: "ArmHwCap \<Rightarrow> u32"
  architecture_arm :: u16
  architecture_arm64_old :: u16
  present_file :: "(io_error + str) option"
  possible_file :: "(io_error + str) option"
  arm_cpuinfo :: "(io_error + str) list option"

section \<open>The lists of processors\<close>

definition debug_list :: "u32 list \<Rightarrow> string" where
  "debug_list xs = ''['' @ concat (case xs of [] \<Rightarrow> [] | y # ys \<Rightarrow> dec_string (unat y) # map (\<lambda>z. '', '' @ dec_string (unat z)) ys) @ '']''"

definition core_range :: "u32 \<Rightarrow> u32 \<Rightarrow> u32 set" where
  "core_range x y = set (map word_of_nat [unat x..<Suc (unat y)])"

fun parse_cpu_items :: "str list \<Rightarrow> u32 set \<Rightarrow> (u32 set, CpuInfoError) result" where
  "parse_cpu_items [] res = Ok res"
| "parse_cpu_items (items # rest) res =
     (if trim items = [] then parse_cpu_items rest res
      else bindR (map_result (\<lambda>x. ok_or CpuInfoError_UnparsableInteger (parse_u32 x)) (split_on CHR ''-'' (trim items))) (\<lambda>cores.
        case cores of
          [x] \<Rightarrow> parse_cpu_items rest (insert x res)
        | [x, y] \<Rightarrow> parse_cpu_items rest (res \<union> core_range x y)
        | _ \<Rightarrow> Err (UnparsableCores (debug_list cores))))"

definition parse_cpus_from_sysfile :: "io_error + str \<Rightarrow> (u32 set, CpuInfoError) result" where
  "parse_cpus_from_sysfile file = (case file of
     Inl e \<Rightarrow> Err (CpuInfoError_IOError e)
   | Inr content \<Rightarrow> parse_cpu_items (split_on CHR '','' content) {})"

definition cpus_or_default :: "io_error + str \<Rightarrow> (u32 set, CpuInfoError) result" where
  "cpus_or_default file = (case parse_cpus_from_sysfile file of Ok s \<Rightarrow> Ok s | Err _ \<Rightarrow> Ok {} | Panic \<Rightarrow> Panic)"

definition count_processors :: "arm_sys \<Rightarrow> (MDRawSystemInfo, unit, CpuInfoError) comp" where
  "count_processors A =
     (case present_file A of
        Some present \<Rightarrow> bindM (lift_result (cpus_or_default present)) (\<lambda>cpus_present.
          case possible_file A of
            Some possible \<Rightarrow> bindM (lift_result (cpus_or_default possible)) (\<lambda>cpus_possible.
              modifyM (\<lambda>i. i\<lparr>number_of_processors := word_of_nat (min 255 (card (cpus_present \<inter> cpus_possible)))\<rparr>))
          | None \<Rightarrow> ret ())
      | None \<Rightarrow> ret ())"

section \<open>The lines of \<open>/proc/cpuinfo\<close>\<close>

record ArmInfoEntry =
  entry_field :: str
  entry_format :: char
  bit_lshift :: nat
  bit_length :: nat

definition cpu_id_entries :: "ArmInfoEntry list" where
  "cpu_id_entries =
     [\<lparr>entry_field = ''CPU implementer'', entry_format = CHR ''x'', bit_lshift = 24, bit_length = 8\<rparr>,
      \<lparr>entry_field = ''CPU variant'', entry_format = CHR ''x'', bit_lshift = 20, bit_length = 4\<rparr>,
      \<lparr>entry_field = ''CPU part'', entry_format = CHR ''x'', bit_lshift = 4, bit_length = 12\<rparr>,
      \<lparr>entry_field = ''CPU revision'', entry_format = CHR ''d'', bit_lshift = 0, bit_length = 4\<rparr>]"

definition cpu_features_entries :: "(str \<times> ArmHwCap) list" where
  "cpu_features_entries =
     [(''swp'', HWCAP_SWP), (''half'', HWCAP_HALF), (''thumb'', HWCAP_THUMB), (''bit26'', HWCAP_26BIT),
      (''fastmult'', HWCAP_FAST_MULT), (''fpa'', HWCAP_FPA), (''vfp'', HWCAP_VFP), (''edsp'', HWCAP_EDSP),
      (''java'', HWCAP_JAVA), (''iwmmxt'', HWCAP_IWMMXT), (''crunch'', HWCAP_CRUNCH), (''thumbee'', HWCAP_THUMBEE),
      (''neon'', HWCAP_NEON), (''vfpv3'', HWCAP_VFPv3), (''vfpv3d16'', HWCAP_VFPv3D16), (''tls'', HWCAP_TLS),
      (''vfpv4'', HWCAP_VFPv4), (''idiva'', HWCAP_IDIVA), (''idivt'', HWCAP_IDIVT), (''idiv'', HWCAP_IDIV)]"

text \<open>\<open>split_whitespace\<close>: the words between white space, with the current word reversed.\<close>

fun words_of :: "nat list \<Rightarrow> nat list \<Rightarrow> nat list list" where
  "words_of cur [] = (if cur = [] then [] else [rev cur])"
| "words_of cur (c # xs) =
     (if is_whitespace c then (if cur = [] then words_of [] xs else rev cur # words_of [] xs) else words_of (c # cur) xs)"

definition split_whitespace :: "str \<Rightarrow> str list" where
  "split_whitespace s = map of_chars (words_of [] (str_chars s))"

definition parse_features :: "arm_sys \<Rightarrow> arm_arch \<Rightarrow> str \<Rightarrow> u32" where
  "parse_features A arch v = (case arch of
     Arm \<Rightarrow> fold (\<lambda>tag ehwc. case find (\<lambda>(t, _). t = tag) cpu_features_entries of
         Some (_, cap) \<Rightarrow> or ehwc (hwcap_bits A cap) | None \<Rightarrow> ehwc) (split_whitespace v) 0
   | Aarch64 \<Rightarrow> 0)"

text \<open>\<open>usize\<close> has 32 or 64 bits.\<close>

definition parse_usize :: "arm_arch \<Rightarrow> nat \<Rightarrow> str \<Rightarrow> nat option" where
  "parse_usize arch r s = (case arch of
     Arm \<Rightarrow> map_option unat (parse_unsigned r s :: u32 option)
   | Aarch64 \<Rightarrow> map_option unat (parse_unsigned r s :: u64 option))"

fun trim_start_0x :: "str \<Rightarrow> str" where
  "trim_start_0x (a # b # s) = (if a = CHR ''0'' \<and> b = CHR ''x'' then trim_start_0x s else a # b # s)"
| "trim_start_0x s = s"

definition cpu_id_step :: "arm_arch \<Rightarrow> str \<Rightarrow> str \<Rightarrow> ArmInfoEntry \<Rightarrow> u32 \<Rightarrow> u32" where
  "cpu_id_step arch field v entry cpuid =
     (if field \<noteq> entry_field entry then cpuid
      else case (if prefix ''0x'' v \<or> entry_format entry = CHR ''x'' then parse_usize arch 16 (trim_start_0x v) else parse_usize arch 10 v) of
        Some n \<Rightarrow> or cpuid (word_of_nat (n mod 2 ^ bit_length entry * 2 ^ bit_lshift entry))
      | None \<Rightarrow> cpuid)"

definition str_slice :: "str \<Rightarrow> nat \<Rightarrow> nat \<Rightarrow> (str, 'e) result" where
  "str_slice s i j = (if i \<le> j \<and> is_char_boundary s i \<and> is_char_boundary s j then Ok (drop i (take j s)) else Panic)"

text \<open>The level of the processor; the result says whether the rest of the line is skipped.\<close>

definition level_step :: "arm_arch \<Rightarrow> str \<Rightarrow> str option \<Rightarrow> (MDRawSystemInfo, bool, CpuInfoError) comp" where
  "level_step arch field v = (case arch of
     Arm \<Rightarrow>
       if field = ''Processor'' then
         (case Option.bind v (\<lambda>t. if split_whitespace t = [] then None else Some (last (split_whitespace t))) of
            Some t \<Rightarrow> if length t < 2 then panic
              else bindM (lift_result (str_slice t 2 (length t - 2))) (\<lambda>ds.
                bindM (modifyM (\<lambda>i. i\<lparr>processor_level := (case parse_unsigned 10 ds of Some n \<Rightarrow> n | None \<Rightarrow> 5)\<rparr>)) (\<lambda>_. ret False))
          | None \<Rightarrow> ret False)
       else ret False
   | Aarch64 \<Rightarrow>
       if field = ''CPU architecture'' then
         (case Option.bind v (parse_unsigned 10) of
            Some n \<Rightarrow> bindM (modifyM (\<lambda>i. i\<lparr>processor_level := n\<rparr>)) (\<lambda>_. ret False)
          | None \<Rightarrow> ret True)
       else ret False)"

definition arm_line :: "arm_sys \<Rightarrow> arm_arch \<Rightarrow> str \<Rightarrow> u32 \<times> u32 \<Rightarrow> (MDRawSystemInfo, u32 \<times> u32, CpuInfoError) comp" where
  "arm_line A arch l = (\<lambda>(cpuid, elf_hwcaps).
     if trim l = [] then ret (cpuid, elf_hwcaps)
     else case (case split_once '':'' l of Some (f, v) \<Rightarrow> (f, Some v) | None \<Rightarrow> (l, None)) of (field, v) \<Rightarrow>
       let cpuid' = (case v of Some t \<Rightarrow> fold (cpu_id_step arch field t) cpu_id_entries cpuid | None \<Rightarrow> cpuid) in
       bindM (level_step arch field v) (\<lambda>skip.
         ret (cpuid', if skip then elf_hwcaps
           else if field = ''Features'' then (case v of Some t \<Rightarrow> parse_features A arch t | None \<Rightarrow> elf_hwcaps)
           else elf_hwcaps)))"

fun arm_lines ::
    "arm_sys \<Rightarrow> arm_arch \<Rightarrow> (io_error + str) list \<Rightarrow> u32 \<times> u32 \<Rightarrow> (MDRawSystemInfo, u32 \<times> u32, CpuInfoError) comp" where
  "arm_lines A arch [] ids = ret ids"
| "arm_lines A arch (line # lines) ids =
     (case line of
        Inl e \<Rightarrow> throw (CpuInfoError_IOError e)
      | Inr l \<Rightarrow> bindM (arm_line A arch l ids) (arm_lines A arch lines))"

definition pwrite_u32 :: "nat \<Rightarrow> u32 \<Rightarrow> (MDRawSystemInfo, unit, CpuInfoError) comp" where
  "pwrite_u32 offset v i =
     (if offset + 4 \<le> length (cpu_data i) then (Ok (), i\<lparr>cpu_data := put_slice (cpu_data i) offset (le_bytes 4 v)\<rparr>) else (Panic, i))"

definition arm_write_cpu_information :: "arm_sys \<Rightarrow> arm_arch \<Rightarrow> (MDRawSystemInfo, unit, CpuInfoError) comp" where
  "arm_write_cpu_information A arch =
     bindM (modifyM (\<lambda>i. i\<lparr>processor_architecture := (case arch of Aarch64 \<Rightarrow> architecture_arm64_old A | Arm \<Rightarrow> architecture_arm A),
         number_of_processors := 0, processor_level := 1, processor_revision := 42\<rparr>)) (\<lambda>_.
     bindM (count_processors A) (\<lambda>_.
       case arm_cpuinfo A of
         Some lines \<Rightarrow> bindM (arm_lines A arch lines (0, 0)) (\<lambda>(cpuid, elf_hwcaps).
           bindM (pwrite_u32 0 cpuid) (\<lambda>_. pwrite_u32 4 elf_hwcaps))
       | None \<Rightarrow> ret ()))"

section \<open>The lists are read as the kernel prints them\<close>

lemma str_chars_ascii: "\<forall>c \<in> set s. (of_char c :: nat) < 128 \<Longrightarrow> str_chars s = map of_char s"
  by (induction s) (auto simp: str_chars_def str_bytes_def)

lemma of_chars_ascii: "\<forall>c \<in> set s. (of_char c :: nat) < 128 \<Longrightarrow> of_chars (map of_char s) = s"
  by (induction s) (auto simp: of_chars_def of_str_bytes_def encode_utf8_def)

definition plain :: "char \<Rightarrow> bool" where
  "plain c \<longleftrightarrow> (of_char c :: nat) < 128 \<and> \<not> is_whitespace (of_char c)"

definition ascii_space :: "char \<Rightarrow> bool" where
  "ascii_space c \<longleftrightarrow> (of_char c :: nat) < 128 \<and> is_whitespace (of_char c)"

lemma trim_plain:
  assumes "\<forall>c \<in> set s. plain c" and "\<forall>c \<in> set w. ascii_space c"
  shows "trim (s @ w) = s"
proof -
  have ascii: "\<forall>c \<in> set (s @ w). (of_char c :: nat) < 128" "\<forall>c \<in> set s. (of_char c :: nat) < 128"
    using assms by (auto simp: plain_def ascii_space_def)
  have ns: "dropWhile is_whitespace (rev (map of_char s)) = rev (map of_char s)" "dropWhile is_whitespace (map of_char s) = map of_char s"
    using assms(1) by (auto simp: dropWhile_eq_self_iff plain_def dest: hd_in_set last_in_set simp: hd_map hd_rev last_map)
  have "dropWhile is_whitespace (rev (map of_char w) @ rev (map of_char s)) = rev (map of_char s)"
    using assms(2) by (subst dropWhile_append2) (auto simp: ascii_space_def ns)
  then show ?thesis using ns(2) by (simp add: trim_def str_chars_ascii [OF ascii(1)] of_chars_ascii [OF ascii(2)])
qed

lemma dec_string_plain: "c \<in> set (dec_string n) \<Longrightarrow> plain c \<and> c \<noteq> CHR ''-'' \<and> c \<noteq> CHR '',''"
  using dec_string_digits [of n] by (auto simp: is_ascii_digit_def plain_def is_whitespace_def)

lemma core_range_interval: "core_range x y = {x..y}"
proof -
  have "z \<in> word_of_nat ` {unat x..unat y}" if "x \<le> z" "z \<le> y" for z
    using that by (intro image_eqI [of _ _ "unat z"]) (auto simp: word_le_nat_alt)
  moreover have "x \<le> word_of_nat n \<and> word_of_nat n \<le> y" if "unat x \<le> n" "n \<le> unat y" for n
  proof -
    have "n < 2 ^ 32" using that(2) unsigned_less [of y, where 'a = nat] by simp
    then show ?thesis using that by (simp add: word_le_nat_alt unat_of_nat_less)
  qed
  ultimately show ?thesis by (auto simp: core_range_def atLeastLessThanSuc_atLeastAtMost simp del: upt_Suc)
qed

definition cpu_item_text :: "u32 \<times> u32 \<Rightarrow> str" where
  "cpu_item_text = (\<lambda>(x, y). if x = y then dec_string (unat x) else dec_string (unat x) @ ''-'' @ dec_string (unat y))"

fun cpu_list_text :: "(u32 \<times> u32) list \<Rightarrow> str" where
  "cpu_list_text [] = []"
| "cpu_list_text [r] = cpu_item_text r"
| "cpu_list_text (r # rs) = cpu_item_text r @ '','' @ cpu_list_text rs"

lemma cpu_item_plain: "\<forall>c \<in> set (cpu_item_text r). plain c \<and> c \<noteq> CHR '',''"
  using dec_string_plain by (auto simp: cpu_item_text_def plain_def is_whitespace_def split: prod.splits)

lemma parse_dec_u32: "parse_u32 (dec_string (unat (x :: u32))) = Some x"
  using parse_u32_dec_string [of "unat x"] unsigned_less [of x, where 'a = nat] by simp

lemma parse_item:
  assumes "\<forall>c \<in> set w. ascii_space c"
  shows "parse_cpu_items ((cpu_item_text (x, y) @ w) # rest) res = parse_cpu_items rest (res \<union> {x..y})"
proof -
  have nd: "CHR ''-'' \<notin> set (dec_string n)" for n using dec_string_plain by blast
  have "trim (cpu_item_text (x, y) @ w) = cpu_item_text (x, y)" using trim_plain assms cpu_item_plain by blast
  then show ?thesis
    by (auto simp: cpu_item_text_def split_on_append [OF nd] split_on_word [OF nd] parse_dec_u32 core_range_interval)
qed

lemma parse_list:
  "parse_cpu_items (split_on CHR '','' (cpu_list_text rs @ [CHR 0x0A])) res = Ok (res \<union> (\<Union>(x, y) \<in> set rs. {x..y}))"
proof (induction rs arbitrary: res rule: cpu_list_text.induct)
  case 1
  have "trim [CHR 0x0A] = []" using trim_plain [of "[]" "[CHR 0x0A]"] by (simp add: ascii_space_def is_whitespace_def)
  then show ?case by simp
next
  case (2 r)
  have nc: "CHR '','' \<notin> set (cpu_item_text r @ [CHR 0x0A])" using cpu_item_plain [of r] by auto
  show ?case
    using parse_item [of "[CHR 0x0A]" "fst r" "snd r" "[]"] split_on_word [OF nc]
    by (cases r) (simp add: ascii_space_def is_whitespace_def)
next
  case (3 r r' rs)
  have nc: "CHR '','' \<notin> set (cpu_item_text r)" using cpu_item_plain [of r] by auto
  show ?case
    using parse_item [of "[]" "fst r" "snd r"] split_on_append [OF nc] 3
    by (cases r) (simp add: Un_assoc)
qed

text \<open>
  C32. The list of processors is read as the kernel prints it: from the ranges in decimal, a range of one processor as its number
  and others as two numbers with a dash, separated by commas and ended by a line feed, \<open>parse_cpus_from_sysfile\<close> returns
  exactly the processors in these ranges.
\<close>

theorem cpu_list_roundtrip:
  "parse_cpus_from_sysfile (Inr (cpu_list_text rs @ [CHR 0x0A])) = Ok (\<Union>(x, y) \<in> set rs. {x..y})"
  by (simp add: parse_cpus_from_sysfile_def parse_list)

section \<open>The format of \<open>/proc/cpuinfo\<close>\<close>

text \<open>The format that the code describes: the name of a field, white space, a colon and the value.\<close>

definition documented_line :: "str \<Rightarrow> bool" where
  "documented_line l \<longleftrightarrow> (case split_once '':'' l of Some (f, _) \<Rightarrow> f \<noteq> [] \<and> ascii_space (last f) | None \<Rightarrow> False)"

lemma name_no_space: "ascii_space (last f) \<Longrightarrow> f \<noteq> ''Processor'' \<and> f \<noteq> ''CPU architecture'' \<and> f \<noteq> ''Features'' \<and>
    (\<forall>e \<in> set cpu_id_entries. f \<noteq> entry_field e)"
  by (auto simp: ascii_space_def is_whitespace_def cpu_id_entries_def)

lemma fold_unchanged: "\<forall>e \<in> set entries. f e x = x \<Longrightarrow> fold f entries x = x"
  by (induction entries) auto

lemma documented_line_ignored:
  assumes "trim l = [] \<or> documented_line l"
  shows "arm_line A arch l ids i = (Ok ids, i)"
proof (cases "trim l = []")
  case False
  then obtain f v where l: "split_once '':'' l = Some (f, v)" and f: "ascii_space (last f)"
    using assms by (auto simp: documented_line_def split: option.splits)
  note n = name_no_space [OF f]
  have "fold (cpu_id_step arch f v) cpu_id_entries c = c" for c
    by (rule fold_unchanged) (use n in \<open>simp add: cpu_id_step_def\<close>)
  then show ?thesis
    using False n by (cases ids; cases arch) (simp_all add: arm_line_def l level_step_def comp_simps Let_def)
qed (cases ids, simp add: arm_line_def comp_simps)

lemma arm_lines_ignored:
  assumes "\<forall>l \<in> set ls. trim l = [] \<or> documented_line l"
  shows "arm_lines A arch (map Inr ls) ids i = (Ok ids, i)"
  using assms by (induction ls) (simp_all add: comp_simps documented_line_ignored)

lemma map_result_not_Panic: "(\<And>x. f x \<noteq> Panic) \<Longrightarrow> map_result f xs \<noteq> Panic"
  by (induction xs) (auto simp: bindR_Panic_iff)

lemma parse_cpu_items_not_Panic: "parse_cpu_items items res \<noteq> Panic"
proof (induction items res rule: parse_cpu_items.induct)
  case (2 items rest res)
  have "map_result (\<lambda>x. ok_or CpuInfoError_UnparsableInteger (parse_u32 x)) (split_on CHR ''-'' (trim items)) \<noteq> Panic"
    by (rule map_result_not_Panic) (metis ok_or.elims result.distinct(3,5))
  with 2 show ?case by (auto simp: bindR_Panic_iff split: list.splits)
qed simp

lemma cpus_or_default_Ok: "\<exists>s. cpus_or_default file = Ok s"
  using parse_cpu_items_not_Panic by (auto simp: cpus_or_default_def parse_cpus_from_sysfile_def split: result.splits sum.splits)

lemma zero_ids: "le_bytes 4 (0 :: u32) @ le_bytes 4 (0 :: u32) = replicate 8 0"
  by code_simp

lemma count_processors_keeps:
  "\<exists>j. count_processors A i = (Ok (), j) \<and> cpu_data j = cpu_data i \<and> processor_level j = processor_level i \<and>
    processor_revision j = processor_revision i"
  using cpus_or_default_Ok [of "the (present_file A)"] cpus_or_default_Ok [of "the (possible_file A)"]
  by (auto simp: count_processors_def comp_simps split: option.splits)

text \<open>
  C38. The processor is never identified. If every line of \<open>/proc/cpuinfo\<close> is blank or in the documented format, with white space between the
  name of the field and the colon, then no field is recognized: \<open>write_cpu_information\<close> succeeds with 0 as the processor's id and 0
  as its features, and the level stays at the value that stands for an unreadable file.
\<close>

theorem cpuinfo_never_recognized:
  assumes "arm_cpuinfo A = Some (map Inr ls)" and "\<forall>l \<in> set ls. trim l = [] \<or> documented_line l"
    and "length (cpu_data i) = 24" and "arm_write_cpu_information A arch i = (r, i')"
  shows "r = Ok () \<and> take 8 (cpu_data i') = replicate 8 0 \<and> processor_level i' = 1 \<and> processor_revision i' = 42"
proof -
  let ?i = "i\<lparr>processor_architecture := (case arch of Aarch64 \<Rightarrow> architecture_arm64_old A | Arm \<Rightarrow> architecture_arm A),
    number_of_processors := 0, processor_level := 1, processor_revision := 42\<rparr>"
  obtain j where "count_processors A ?i = (Ok (), j)"
      "cpu_data j = cpu_data i \<and> processor_level j = 1 \<and> processor_revision j = 42"
    using count_processors_keeps [of A ?i] by auto
  then show ?thesis
    using assms(3,4)
    by (auto simp: arm_write_cpu_information_def assms(1) comp_simps arm_lines_ignored [OF assms(2)] pwrite_u32_def put_slice_def zero_ids)
qed

text \<open>Two lines of a real file, of a Cortex-A53.\<close>

definition ex_arm_lines :: "str list" where
  "ex_arm_lines = [''CPU implementer'' @ [CHR 0x09] @ '': 0x41'', ''CPU part'' @ [CHR 0x09, CHR 0x09] @ '': 0xd03'']"

definition ex_arm :: arm_sys where
  "ex_arm = \<lparr>hwcap_bits = (\<lambda>_. 1), architecture_arm = 5, architecture_arm64_old = 0x8003,
     present_file = Some (Inr (''0-3'' @ [CHR 0x0A])), possible_file = None, arm_cpuinfo = Some (map Inr ex_arm_lines)\<rparr>"

theorem cpuinfo_never_recognized_witness:
  "take 8 (cpu_data (snd (arm_write_cpu_information ex_arm Aarch64 MDRawSystemInfo_zeroed))) = replicate 8 0"
proof -
  have "arm_cpuinfo ex_arm = Some (map Inr ex_arm_lines)" by (simp add: ex_arm_def)
  moreover have "\<forall>l \<in> set ex_arm_lines. trim l = [] \<or> documented_line l" by code_simp
  moreover have "length (cpu_data MDRawSystemInfo_zeroed) = 24" by (simp add: MDRawSystemInfo_zeroed_def)
  ultimately show ?thesis using cpuinfo_never_recognized [OF _ _ _ surjective_pairing] by blast
qed

text \<open>Without white space the fields are recognized; a value of the field Processor that is too short for its slice panics.\<close>

lemma recognized_without_space: "arm_line ex_arm Aarch64 ''CPU part:0xd03'' (0, 0) i = (Ok (0xD030, 0), i)"
proof -
  have "fold (cpu_id_step Aarch64 ''CPU part'' ''0xd03'') cpu_id_entries 0 = 0xD030"
    by (simp add: cpu_id_entries_def cpu_id_step_def parse_usize_def parse_unsigned_def digit_val_def)
  moreover have "trim ''CPU part:0xd03'' \<noteq> []" "split_once '':'' ''CPU part:0xd03'' = Some (''CPU part'', ''0xd03'')" by code_simp+
  ultimately show ?thesis by (simp add: arm_line_def level_step_def comp_simps Let_def)
qed

lemma short_processor_panics: "arm_line ex_arm Arm ''Processor:7'' (0, 0) i = (Panic, i)"
proof -
  have "trim ''Processor:7'' \<noteq> []" "split_once '':'' ''Processor:7'' = Some (''Processor'', ''7'')" "split_whitespace ''7'' = [''7'']"
    by code_simp+
  then show ?thesis by (simp add: arm_line_def level_step_def comp_simps Let_def)
qed

end
