(* ===== verification/Arm_Threads.thy ===== *)
theory Arm_Threads
  imports Thread_Info
begin

text \<open>
  Registers and contexts of threads on ARM (\<open>linux/thread_info/arm.rs\<close>, \<open>linux/thread_info/aarch64.rs\<close>, \<open>linux/crash_context/arm.rs\<close>,
  \<open>linux/crash_context/aarch64.rs\<close>). Arrays are lists; the lemmas name their declared lengths. The constant
  for a full context, of the crate minidump\_common, is the argument \<open>full\<close>. Reading the registers
  falls back where the code does, and the two sources of a context, ptrace and the crash context, agree on equal registers, except for
  the floating point registers of 32-bit ARM, which the crash context leaves out.
\<close>

section \<open>32 bits\<close>

record arm_fpregs_struct =
  arm_fpregs :: "u64 list"
  arm_fpscr :: u32

definition arm_fpregs_default :: arm_fpregs_struct where
  "arm_fpregs_default = \<lparr>arm_fpregs = replicate 32 0, arm_fpscr = 0\<rparr>"

record ThreadInfoArm =
  arm_stack_pointer :: u32
  arm_tgid :: Pid
  arm_ppid :: Pid
  arm_uregs :: "u32 list"
  arm_fp :: arm_fpregs_struct

text \<open>ptrace's answers; the status file is read as on x86-64.\<close>

record arm_thread_sys =
  arm_status :: thread_sys
  arm_getregs :: "Pid \<Rightarrow> (u32 list, nix_error) result"
  arm_getfpregs :: "Pid \<Rightarrow> (arm_fpregs_struct, nix_error) result"

definition ThreadInfoArm_create_impl :: "arm_thread_sys \<Rightarrow> Pid \<Rightarrow> Pid \<Rightarrow> (ThreadInfoArm, ThreadInfoError) result" where
  "ThreadInfoArm_create_impl T pid tid =
     bindR (get_ppid_and_tgid (arm_status T) tid) (\<lambda>(ppid, tgid).
     bindR (map_err PtraceError (arm_getregs T tid)) (\<lambda>rs.
     bindR (or_else_result (map_err PtraceError (arm_getfpregs T tid)) (Ok arm_fpregs_default)) (\<lambda>fps.
       Ok \<lparr>arm_stack_pointer = rs ! 13, arm_tgid = tgid, arm_ppid = ppid, arm_uregs = rs, arm_fp = fps\<rparr>)))"

definition ThreadInfoArm_get_instruction_pointer :: "ThreadInfoArm \<Rightarrow> u32" where
  "ThreadInfoArm_get_instruction_pointer self = arm_uregs self ! 15"

record CONTEXT_ARM =
  arm_context_flags :: u32
  arm_iregs :: "u32 list"
  arm_cpsr :: u32
  float_fpscr :: u64
  float_regs32 :: "u64 list"

definition ThreadInfoArm_fill_cpu_context :: "u32 \<Rightarrow> ThreadInfoArm \<Rightarrow> CONTEXT_ARM \<Rightarrow> CONTEXT_ARM" where
  "ThreadInfoArm_fill_cpu_context full self out =
     out\<lparr>arm_context_flags := full, arm_iregs := take 16 (arm_uregs self), arm_cpsr := arm_uregs self ! 16,
         float_fpscr := ucast (arm_fpscr (arm_fp self)), float_regs32 := arm_fpregs (arm_fp self)\<rparr>"

record arm_mcontext =
  arm_r0 :: u32
  arm_r1 :: u32
  arm_r2 :: u32
  arm_r3 :: u32
  arm_r4 :: u32
  arm_r5 :: u32
  arm_r6 :: u32
  arm_r7 :: u32
  arm_r8 :: u32
  arm_r9 :: u32
  arm_r10 :: u32
  mc_fp :: u32
  mc_ip :: u32
  mc_sp :: u32
  mc_lr :: u32
  mc_pc :: u32
  mc_cpsr :: u32

definition ArmCrash_get_instruction_pointer :: "arm_mcontext \<Rightarrow> u32" where
  "ArmCrash_get_instruction_pointer g = mc_pc g"

definition ArmCrash_get_stack_pointer :: "arm_mcontext \<Rightarrow> u32" where
  "ArmCrash_get_stack_pointer g = mc_sp g"

definition ArmCrash_fill_cpu_context :: "u32 \<Rightarrow> arm_mcontext \<Rightarrow> CONTEXT_ARM \<Rightarrow> CONTEXT_ARM" where
  "ArmCrash_fill_cpu_context full g out =
     out\<lparr>arm_context_flags := full,
         arm_iregs := (arm_iregs out)[0 := arm_r0 g, 1 := arm_r1 g, 2 := arm_r2 g, 3 := arm_r3 g, 4 := arm_r4 g,
           5 := arm_r5 g, 6 := arm_r6 g, 7 := arm_r7 g, 8 := arm_r8 g, 9 := arm_r9 g, 10 := arm_r10 g,
           11 := mc_fp g, 12 := mc_ip g, 13 := mc_sp g, 14 := mc_lr g, 15 := mc_pc g],
         arm_cpsr := mc_cpsr g\<rparr>"

section \<open>64 bits\<close>

definition GP_REG_COUNT :: nat where "GP_REG_COUNT = 31"
definition FP_REG_COUNT :: nat where "FP_REG_COUNT = 32"

record user_fpsimd_struct =
  a64_vregs :: "128 word list"
  a64_fpsr :: u32
  a64_fpcr :: u32

text \<open>\<open>user_regs_struct\<close> of libc; the machine context of a crash context has the same registers.\<close>

record a64_regs =
  a64_gregs :: "u64 list"
  a64_sp :: u64
  a64_pc :: u64
  a64_pstate :: u64

record ThreadInfoAarch64 =
  a64_stack_pointer :: usize
  a64_tgid :: Pid
  a64_ppid :: Pid
  a64_registers :: a64_regs
  a64_fp :: user_fpsimd_struct

record a64_thread_sys =
  a64_status :: thread_sys
  a64_getregset :: "Pid \<Rightarrow> (a64_regs, nix_error) result"
  a64_getregs :: "Pid \<Rightarrow> (a64_regs, nix_error) result"
  a64_getfpregset :: "Pid \<Rightarrow> (user_fpsimd_struct, nix_error) result"
  a64_getfpregs :: "Pid \<Rightarrow> (user_fpsimd_struct, nix_error) result"

definition ThreadInfoAarch64_create_impl :: "a64_thread_sys \<Rightarrow> Pid \<Rightarrow> Pid \<Rightarrow> (ThreadInfoAarch64, ThreadInfoError) result" where
  "ThreadInfoAarch64_create_impl T pid tid =
     bindR (get_ppid_and_tgid (a64_status T) tid) (\<lambda>(ppid, tgid).
     bindR (map_err PtraceError (or_else_result (a64_getregset T tid) (a64_getregs T tid))) (\<lambda>rs.
     bindR (map_err PtraceError (or_else_result (a64_getfpregset T tid) (a64_getfpregs T tid))) (\<lambda>fps.
       Ok \<lparr>a64_stack_pointer = a64_sp rs, a64_tgid = tgid, a64_ppid = ppid, a64_registers = rs, a64_fp = fps\<rparr>)))"

definition ThreadInfoAarch64_get_instruction_pointer :: "ThreadInfoAarch64 \<Rightarrow> usize" where
  "ThreadInfoAarch64_get_instruction_pointer self = a64_pc (a64_registers self)"

record CONTEXT_ARM64_OLD =
  a64_context_flags :: u64
  a64_iregs :: "u64 list"
  ctx_sp :: u64
  ctx_pc :: u64
  ctx_cpsr :: u32
  ctx_fpsr :: u32
  ctx_fpcr :: u32
  ctx_float_regs :: "128 word list"

definition ThreadInfoAarch64_fill_cpu_context :: "u32 \<Rightarrow> ThreadInfoAarch64 \<Rightarrow> CONTEXT_ARM64_OLD \<Rightarrow> CONTEXT_ARM64_OLD" where
  "ThreadInfoAarch64_fill_cpu_context full self out =
     out\<lparr>a64_context_flags := ucast full,
         ctx_cpsr := ucast (a64_pstate (a64_registers self)),
         a64_iregs := put_slice (a64_iregs out) 0 (take GP_REG_COUNT (a64_gregs (a64_registers self))),
         ctx_sp := a64_sp (a64_registers self), ctx_pc := a64_pc (a64_registers self),
         ctx_fpsr := a64_fpsr (a64_fp self), ctx_fpcr := a64_fpcr (a64_fp self),
         ctx_float_regs := put_slice (ctx_float_regs out) 0 (take FP_REG_COUNT (a64_vregs (a64_fp self)))\<rparr>"

definition A64Crash_get_instruction_pointer :: "a64_regs \<Rightarrow> usize" where
  "A64Crash_get_instruction_pointer g = a64_pc g"

definition A64Crash_get_stack_pointer :: "a64_regs \<Rightarrow> usize" where
  "A64Crash_get_stack_pointer g = a64_sp g"

definition A64Crash_fill_cpu_context :: "u32 \<Rightarrow> a64_regs \<Rightarrow> user_fpsimd_struct \<Rightarrow> CONTEXT_ARM64_OLD \<Rightarrow> CONTEXT_ARM64_OLD" where
  "A64Crash_fill_cpu_context full g f out =
     out\<lparr>a64_context_flags := ucast full,
         ctx_cpsr := ucast (a64_pstate g),
         a64_iregs := put_slice (a64_iregs out) 0 (take GP_REG_COUNT (a64_gregs g)),
         ctx_sp := a64_sp g, ctx_pc := a64_pc g,
         ctx_fpsr := a64_fpsr f, ctx_fpcr := a64_fpcr f,
         ctx_float_regs := put_slice (ctx_float_regs out) 0 (take FP_REG_COUNT (a64_vregs f))\<rparr>"

section \<open>The two sources agree\<close>

text \<open>A thread without readable floating point registers still has its other registers on 32-bit ARM; without
  those there is no thread. On 64-bit ARM either interface of ptrace suffices.\<close>

lemma arm_create_without_fp:
  assumes "get_ppid_and_tgid (arm_status T) tid = Ok (ppid, tgid)" and "arm_getregs T tid = Ok rs" and "arm_getfpregs T tid = Err e"
  shows "\<exists>t. ThreadInfoArm_create_impl T pid tid = Ok t \<and> arm_uregs t = rs \<and> arm_stack_pointer t = rs ! 13 \<and>
    arm_fpregs (arm_fp t) = replicate 32 0"
  using assms by (simp add: ThreadInfoArm_create_impl_def arm_fpregs_default_def)

lemma a64_create_either:
  assumes "get_ppid_and_tgid (a64_status T) tid = Ok ids" and "a64_getregset T tid = Ok rs \<or> (\<exists>e. a64_getregset T tid = Err e) \<and> a64_getregs T tid = Ok rs"
    and "a64_getfpregset T tid = Ok f \<or> (\<exists>e. a64_getfpregset T tid = Err e) \<and> a64_getfpregs T tid = Ok f"
  shows "\<exists>t. ThreadInfoAarch64_create_impl T pid tid = Ok t \<and> a64_registers t = rs \<and> a64_fp t = f \<and> a64_stack_pointer t = a64_sp rs"
  using assms by (cases ids) (auto simp: ThreadInfoAarch64_create_impl_def)

definition mcontext_regs :: "arm_mcontext \<Rightarrow> u32 list" where
  "mcontext_regs g = [arm_r0 g, arm_r1 g, arm_r2 g, arm_r3 g, arm_r4 g, arm_r5 g, arm_r6 g, arm_r7 g, arm_r8 g, arm_r9 g, arm_r10 g,
     mc_fp g, mc_ip g, mc_sp g, mc_lr g, mc_pc g, mc_cpsr g]"

lemma sixteen_updates:
  assumes "length xs = 16"
  shows "xs[0 := a0, Suc 0 := a1, 2 := a2, 3 := a3, 4 := a4, 5 := a5, 6 := a6, 7 := a7, 8 := a8, 9 := a9, 10 := a10, 11 := a11,
    12 := a12, 13 := a13, 14 := a14, 15 := a15] = [a0, a1, a2, a3, a4, a5, a6, a7, a8, a9, a10, a11, a12, a13, a14, a15]"
  using assms by (auto simp: list_eq_iff_nth_eq nth_Cons nth_list_update less_Suc_eq eval_nat_numeral)

lemma arm_contexts_agree:
  assumes "length (arm_iregs out) = 16" and "take 17 (arm_uregs t) = mcontext_regs g"
  shows "ThreadInfoArm_fill_cpu_context full t out =
    (ArmCrash_fill_cpu_context full g out)\<lparr>float_fpscr := ucast (arm_fpscr (arm_fp t)), float_regs32 := arm_fpregs (arm_fp t)\<rparr>"
    and "ThreadInfoArm_get_instruction_pointer t = ArmCrash_get_instruction_pointer g"
proof -
  have "take 16 (take 17 (arm_uregs t)) = take 16 (mcontext_regs g)" "take 17 (arm_uregs t) ! 16 = mcontext_regs g ! 16"
    "take 17 (arm_uregs t) ! 15 = mcontext_regs g ! 15" by (simp_all only: assms(2))
  then show "ThreadInfoArm_fill_cpu_context full t out =
    (ArmCrash_fill_cpu_context full g out)\<lparr>float_fpscr := ucast (arm_fpscr (arm_fp t)), float_regs32 := arm_fpregs (arm_fp t)\<rparr>"
    "ThreadInfoArm_get_instruction_pointer t = ArmCrash_get_instruction_pointer g"
    by (simp_all add: ThreadInfoArm_fill_cpu_context_def ArmCrash_fill_cpu_context_def sixteen_updates [OF assms(1)] mcontext_regs_def
        ThreadInfoArm_get_instruction_pointer_def ArmCrash_get_instruction_pointer_def)
qed

lemma a64_contexts_agree:
  "ThreadInfoAarch64_fill_cpu_context full t out = A64Crash_fill_cpu_context full (a64_registers t) (a64_fp t) out"
  "ThreadInfoAarch64_get_instruction_pointer t = A64Crash_get_instruction_pointer (a64_registers t)"
  by (simp_all add: ThreadInfoAarch64_fill_cpu_context_def A64Crash_fill_cpu_context_def ThreadInfoAarch64_get_instruction_pointer_def
      A64Crash_get_instruction_pointer_def)

text \<open>Every register of the thread is in the context.\<close>

lemma a64_context_registers:
  assumes "length (a64_gregs (a64_registers t)) = 31" and "length (a64_iregs out) = 31" and "length (a64_vregs (a64_fp t)) = 32"
    and "length (ctx_float_regs out) = 32"
  shows "a64_iregs (ThreadInfoAarch64_fill_cpu_context full t out) = a64_gregs (a64_registers t)"
    and "ctx_float_regs (ThreadInfoAarch64_fill_cpu_context full t out) = a64_vregs (a64_fp t)"
  using assms by (simp_all add: ThreadInfoAarch64_fill_cpu_context_def put_slice_def GP_REG_COUNT_def FP_REG_COUNT_def)

end
