(* ===== verification/Android.thy ===== *)
theory Android
  imports Dso_Debug
begin

text \<open>
  The mappings of shared libraries on Android (\<open>linux/android.rs\<close>), where a library with packed relocations is loaded below
  the address its first segment asks for. goblin's decoders are parameters; the decoded structures are those of
  \<open>Module_Reader\<close>. It is shown what the correction changes of a mapping and on which evidence, and that it panics if the
  program headers of a library cannot be read.
\<close>

section \<open>Types and constants\<close>

text \<open>The type of the file comes with the decoded header. \<open>from_bytes\<close> of the program headers panics, here \<open>None\<close>, if the bytes do not
  suffice for the number of headers.\<close>

record android_elf =
  parse_ehdr :: "bytes \<Rightarrow> (u16 \<times> ElfHeader, goblin_error) result"
  program_headers_of :: "bytes \<Rightarrow> nat \<Rightarrow> ProgramHeader list option"

definition SIZEOF_EHDR :: nat where "SIZEOF_EHDR = 64"
definition SIZEOF_DYN :: nat where "SIZEOF_DYN = 16"
definition ET_DYN :: u16 where "ET_DYN = 3"
definition DT_LOOS :: u64 where "DT_LOOS = 0x6000000D"

definition DT_ANDROID_REL :: u64 where
  "DT_ANDROID_REL = DT_LOOS + 2"

definition DT_ANDROID_RELA :: u64 where
  "DT_ANDROID_RELA = DT_LOOS + 4"

datatype AndroidError =
    AndroidError_CopyFromProcessError CopyFromProcessError
  | TryFromSliceError
  | NoRelFound

record DynVaddresses =
  min_vaddr :: usize
  dyn_vaddr :: usize
  dyn_count :: nat

section \<open>The effective load bias\<close>

text \<open>\<open>transmute\<close> of the 16 bytes of a dynamic entry.\<close>

definition android_dyn :: "bytes \<Rightarrow> Dyn" where
  "android_dyn bs = \<lparr>d_tag = word_of_nat (le_nat (take 8 bs)), d_val = word_of_nat (le_nat (drop 8 bs))\<rparr>"

fun scan_relocations :: "mem_sys \<Rightarrow> Pid \<Rightarrow> usize \<Rightarrow> nat list \<Rightarrow> (unit, AndroidError) result" where
  "scan_relocations S pid dyn_addr [] = Err NoRelFound"
| "scan_relocations S pid dyn_addr (idx # idxs) =
     (if 2 ^ 64 \<le> SIZEOF_DYN * idx then Panic
      else bindR (add_w dyn_addr (word_of_nat (SIZEOF_DYN * idx))) (\<lambda>addr.
        bindR (map_err AndroidError_CopyFromProcessError (copy_from_process S pid addr SIZEOF_DYN)) (\<lambda>dyn_data.
          if length dyn_data \<noteq> SIZEOF_DYN then Err TryFromSliceError
          else if d_tag (android_dyn dyn_data) \<in> {DT_ANDROID_REL, DT_ANDROID_RELA} then Ok ()
          else scan_relocations S pid dyn_addr idxs)))"

definition has_android_packed_relocations ::
    "mem_sys \<Rightarrow> Pid \<Rightarrow> usize \<Rightarrow> DynVaddresses \<Rightarrow> (unit, AndroidError) result" where
  "has_android_packed_relocations S pid load_bias vaddrs =
     bindR (add_w load_bias (dyn_vaddr vaddrs)) (\<lambda>dyn_addr. scan_relocations S pid dyn_addr [0..<dyn_count vaddrs])"

definition scan_phdr :: "ProgramHeader \<Rightarrow> DynVaddresses \<Rightarrow> DynVaddresses" where
  "scan_phdr phdr v =
     (let v = (if p_type phdr = PT_LOAD \<and> p_vaddr phdr < min_vaddr v then v\<lparr>min_vaddr := p_vaddr phdr\<rparr> else v) in
      if p_type phdr = PT_DYNAMIC then v\<lparr>dyn_vaddr := p_vaddr phdr, dyn_count := unat (p_memsz phdr) div SIZEOF_DYN\<rparr> else v)"

text \<open>The number of bytes is a multiple of the size of the file header, as in the code.\<close>

definition parse_loaded_elf_program_headers ::
    "android_elf \<Rightarrow> mem_sys \<Rightarrow> Pid \<Rightarrow> ElfHeader \<Rightarrow> usize \<Rightarrow> (DynVaddresses, AndroidError) result" where
  "parse_loaded_elf_program_headers A S pid ehdr address =
     bindR (add_w address (e_phoff ehdr)) (\<lambda>phdr_addr.
       let none = \<lparr>min_vaddr = - 1, dyn_vaddr = 0, dyn_count = 0\<rparr> in
       case copy_from_process S pid phdr_addr (SIZEOF_EHDR * unat (e_phnum ehdr)) of
         Ok ph_data \<Rightarrow> (case program_headers_of A ph_data (unat (e_phnum ehdr)) of
           Some phdrs \<Rightarrow> Ok (fold scan_phdr phdrs none)
         | None \<Rightarrow> Panic)
       | Err _ \<Rightarrow> Ok none
       | Panic \<Rightarrow> Panic)"

definition get_effective_load_bias ::
    "android_elf \<Rightarrow> mem_sys \<Rightarrow> Pid \<Rightarrow> ElfHeader \<Rightarrow> usize \<Rightarrow> (usize, AndroidError) result" where
  "get_effective_load_bias A S pid ehdr address =
     bindR (parse_loaded_elf_program_headers A S pid ehdr address) (\<lambda>ph.
       if min_vaddr ph \<noteq> 0 then
         bindR (sub_w address (min_vaddr ph)) (\<lambda>load_bias.
           case has_android_packed_relocations S pid load_bias ph of
             Ok _ \<Rightarrow> Ok load_bias
           | Err _ \<Rightarrow> Ok address
           | Panic \<Rightarrow> Panic)
       else Ok address)"

text \<open>The header of a mapping, if it can be read and decoded.\<close>

definition mapped_header :: "android_elf \<Rightarrow> mem_sys \<Rightarrow> Pid \<Rightarrow> usize \<Rightarrow> ((u16 \<times> ElfHeader) option, AndroidError) result" where
  "mapped_header A S pid address =
     (case copy_from_process S pid address SIZEOF_EHDR of
        Ok x \<Rightarrow> (case parse_ehdr A x of Ok h \<Rightarrow> Ok (Some h) | Err _ \<Rightarrow> Ok None | Panic \<Rightarrow> Panic)
      | Err _ \<Rightarrow> Ok None
      | Panic \<Rightarrow> Panic)"

definition late_process_mapping :: "android_elf \<Rightarrow> mem_sys \<Rightarrow> Pid \<Rightarrow> MappingInfo \<Rightarrow> (MappingInfo, AndroidError) result" where
  "late_process_mapping A S pid m =
     (if is_executable m \<and> name_is_path m then
        bindR (mapped_header A S pid (start_address m)) (\<lambda>ehdr_opt.
          case ehdr_opt of
            Some (e_type, ehdr) \<Rightarrow>
              if e_type = ET_DYN then
                bindR (get_effective_load_bias A S pid ehdr (start_address m)) (\<lambda>load_bias.
                bindR (sub_w (start_address m) load_bias) (\<lambda>d.
                bindR (add_w (map_size m) d) (\<lambda>sz.
                  Ok (m\<lparr>map_size := sz, start_address := load_bias\<rparr>))))
              else Ok m
          | None \<Rightarrow> Ok m)
      else Ok m)"

definition late_process_mappings ::
    "android_elf \<Rightarrow> mem_sys \<Rightarrow> Pid \<Rightarrow> MappingInfo list \<Rightarrow> (MappingInfo list, AndroidError) result" where
  "late_process_mappings A S pid ms = map_result (late_process_mapping A S pid) ms"

section \<open>What the correction changes\<close>

text \<open>The target's memory holds a dynamic entry for packed relocations at the address.\<close>

definition packed_at :: "(usize \<Rightarrow> u8 option) \<Rightarrow> usize \<Rightarrow> bool" where
  "packed_at mem a \<longleftrightarrow> (\<exists>bs. length bs = 16 \<and> reads mem a bs \<and> d_tag (android_dyn bs) \<in> {DT_ANDROID_REL, DT_ANDROID_RELA})"

definition rebased :: "(usize \<Rightarrow> u8 option) \<Rightarrow> MappingInfo \<Rightarrow> MappingInfo \<Rightarrow> bool" where
  "rebased mem m m' \<longleftrightarrow>
     m' = m\<lparr>start_address := start_address m', map_size := map_size m'\<rparr> \<and>
     start_address m' \<le> start_address m \<and>
     unat (start_address m') + unat (map_size m') = unat (start_address m) + unat (map_size m) \<and>
     (start_address m' \<noteq> start_address m \<longrightarrow> is_executable m \<and> name_is_path m \<and> (\<exists>a. packed_at mem a))"

lemma or_else_Ok_iff: "(case r of Ok x \<Rightarrow> f x | Err e \<Rightarrow> Ok a | Panic \<Rightarrow> Panic) = Ok b \<longleftrightarrow> (\<exists>x. r = Ok x \<and> f x = Ok b) \<or> (\<exists>e. r = Err e \<and> b = a)"
  by (cases r) auto

context kernel_memory
begin

lemma entry_packed:
  assumes "copy_from_process S pid a 16 = Ok bs" and "length bs = 16" and "d_tag (android_dyn bs) \<in> {DT_ANDROID_REL, DT_ANDROID_RELA}"
  shows "\<exists>b. packed_at mem b"
  using assms copy_from_process_reads [OF assms(1)] unfolding packed_at_def by blast

lemma relocations_packed: "scan_relocations S pid a idxs = Ok () \<Longrightarrow> \<exists>b. packed_at mem b"
  by (induction idxs) (auto simp: bindR_Ok_iff SIZEOF_DYN_def dest: entry_packed split: if_splits)

lemma android_packed: "has_android_packed_relocations S pid b v = Ok u \<Longrightarrow> \<exists>c. packed_at mem c"
  using relocations_packed by (auto simp: has_android_packed_relocations_def bindR_Ok_iff)

lemma load_bias_cases:
  assumes "get_effective_load_bias A S pid ehdr a = Ok b"
  shows "b \<le> a \<and> (b \<noteq> a \<longrightarrow> (\<exists>c. packed_at mem c))"
proof (cases "b = a")
  case False
  then obtain ph where sub: "sub_w a (min_vaddr ph) = (Ok b :: (usize, AndroidError) result)"
    and packed: "has_android_packed_relocations S pid b ph = Ok ()"
    using assms by (auto simp: get_effective_load_bias_def bindR_Ok_iff or_else_Ok_iff split: if_splits)
  then show ?thesis using android_packed [OF packed] by (auto simp: sub_w_Ok_iff word_le_nat_alt)
qed simp

lemma mapping_rebased:
  assumes "late_process_mapping A S pid m = Ok m'"
  shows "rebased mem m m'"
proof (cases "m' = m")
  case False
  with assms obtain h where ex: "is_executable m" "name_is_path m" and h: "mapped_header A S pid (start_address m) = Ok h"
    by (auto simp: late_process_mapping_def bindR_Ok_iff split: if_splits)
  with assms False obtain e_type ehdr where "h = Some (e_type, ehdr)" by (cases h) (auto simp: late_process_mapping_def)
  with assms False ex h obtain b d sz where *: "get_effective_load_bias A S pid ehdr (start_address m) = Ok b"
      "sub_w (start_address m) b = (Ok d :: (usize, AndroidError) result)" "add_w (map_size m) d = (Ok sz :: (usize, AndroidError) result)"
      "m' = m\<lparr>map_size := sz, start_address := b\<rparr>"
    by (auto simp: late_process_mapping_def bindR_Ok_iff split: if_splits)
  then show ?thesis using ex load_bias_cases [OF *(1)] by (auto simp: rebased_def sub_w_Ok_iff add_w_Ok_iff word_le_nat_alt)
qed (simp add: rebased_def)

end

lemma map_result_list_all2:
  assumes "\<And>x y. f x = Ok y \<Longrightarrow> P x y" and "map_result f xs = Ok ys"
  shows "list_all2 P xs ys"
  using assms(2) by (induction xs arbitrary: ys) (auto simp: bindR_Ok_iff assms(1))

text \<open>
  C31. Correcting the mappings on Android keeps what they map: every mapping keeps its name, permissions, offset and
  system information, its start can only move down, and its end stays where it was; a start moves only for an executable mapping
  of a file, and only if the target's memory holds a dynamic entry for packed relocations.
\<close>

theorem late_mappings_rebased:
  assumes "kernel_memory S pid mem" and "late_process_mappings A S pid ms = Ok ms'"
  shows "list_all2 (rebased mem) ms ms'"
  using assms(2) unfolding late_process_mappings_def
  by (rule map_result_list_all2 [rotated]) (rule kernel_memory.mapping_rebased [OF assms(1)])

text \<open>A library of two headers: its first segment asks for address 256, its dynamic section lies at 512 and has one entry, which is
  found in memory at 4352.\<close>

definition ex_android :: android_elf where
  "ex_android =
     \<lparr>parse_ehdr = (\<lambda>_. Ok (3, \<lparr>e_phoff = 64, e_phentsize = 56, e_phnum = 2, e_shoff = 0, e_shentsize = 0, e_shnum = 0, e_shstrndx = 0\<rparr>)),
      program_headers_of = (\<lambda>_ _. Some
        [\<lparr>p_type = 1, p_offset = 0, p_vaddr = 256, p_filesz = 0, p_memsz = 0, p_align = 8\<rparr>,
         \<lparr>p_type = 2, p_offset = 0, p_vaddr = 512, p_filesz = 16, p_memsz = 16, p_align = 8\<rparr>])\<rparr>"

definition ex_android_mem :: "usize \<Rightarrow> u8 option" where
  "ex_android_mem a = (if 4096 \<le> a \<and> a < 8192 then Some (if a = 4352 then 0x0F else if a = 4355 then 0x60 else 0) else None)"

theorem late_mappings_rebased_witness:
  "\<exists>m'. late_process_mappings ex_android (target_sys True True ex_android_mem) 42 [ex_mapping 0] = Ok [m'] \<and>
    start_address m' = 3840 \<and> rebased ex_android_mem (ex_mapping 0) m'"
proof -
  have run: "late_process_mappings ex_android (target_sys True True ex_android_mem) 42 [ex_mapping 0] =
      Ok [(ex_mapping 0)\<lparr>start_address := 3840, map_size := 8448\<rparr>]"
  proof -
    let ?S = "target_sys True True ex_android_mem"
    have h: "mapped_header ex_android ?S 42 4096 = Ok (Some (ET_DYN,
        \<lparr>e_phoff = 64, e_phentsize = 56, e_phnum = 2, e_shoff = 0, e_shentsize = 0, e_shnum = 0, e_shstrndx = 0\<rparr>))" by code_simp
    have ph: "copy_from_process ?S 42 4160 128 = Ok (replicate 128 0)" by code_simp
    have dyn: "copy_from_process ?S 42 4352 16 = Ok [0x0F, 0, 0, 0x60, 0, 0, 0, 0, 0, 0, 0, 0, 0, 0, 0, 0]" by code_simp
    have "get_effective_load_bias ex_android ?S 42
        \<lparr>e_phoff = 64, e_phentsize = 56, e_phnum = 2, e_shoff = 0, e_shentsize = 0, e_shnum = 0, e_shstrndx = 0\<rparr> 4096 = Ok 3840"
      by (simp add: get_effective_load_bias_def parse_loaded_elf_program_headers_def has_android_packed_relocations_def add_w_def sub_w_def
          SIZEOF_EHDR_def SIZEOF_DYN_def ph dyn ex_android_def scan_phdr_def PT_LOAD_def PT_DYNAMIC_def android_dyn_def
          DT_ANDROID_REL_def DT_LOOS_def)
    then show ?thesis
      by (simp add: late_process_mappings_def late_process_mapping_def ex_mapping_def is_executable_def name_is_path_def
          is_mapping_a_path_def h sub_w_def add_w_def)
  qed
  from late_mappings_rebased [OF tm.kernel_memory_axioms this] run show ?thesis by simp
qed

section \<open>Unreadable program headers\<close>

lemma mapping_not_Err: "late_process_mapping A S pid m \<noteq> Err e"
  by (auto simp: late_process_mapping_def get_effective_load_bias_def parse_loaded_elf_program_headers_def mapped_header_def
      bindR_Err_iff Let_def split: option.splits result.splits if_splits)

lemma map_result_Panic: "(\<And>x e. f x \<noteq> Err e) \<Longrightarrow> x \<in> set xs \<Longrightarrow> f x = Panic \<Longrightarrow> map_result f xs = Panic"
  by (induction xs) (auto simp: bindR_Panic_iff, metis result.exhaust)

text \<open>
  C39. A library whose program headers cannot be read makes the correction panic. The smallest address then is still the
  largest number there is, and its subtraction from the start of the mapping underflows; the same happens to a library without
  a loadable segment. No other mapping, before or behind it, changes that.
\<close>

theorem unreadable_headers_panic:
  assumes "m \<in> set ms" and "is_executable m" and "name_is_path m"
    and "mapped_header A S pid (start_address m) = Ok (Some (ET_DYN, ehdr))"
    and "copy_from_process S pid (start_address m + e_phoff ehdr) (SIZEOF_EHDR * unat (e_phnum ehdr)) = Err e"
    and "start_address m \<noteq> - 1"
  shows "late_process_mappings A S pid ms = Panic"
proof -
  have "\<not> (- 1 :: usize) \<le> start_address m" using assms(6) by (simp add: word_order.extremum_unique)
  then have "sub_w (start_address m) (- 1) = (Panic :: (usize, AndroidError) result)" by (simp add: sub_w_def)
  moreover have "(add_w (start_address m) (e_phoff ehdr) :: (usize, AndroidError) result) \<in> {Panic, Ok (start_address m + e_phoff ehdr)}"
    by (simp add: add_w_def)
  ultimately have "get_effective_load_bias A S pid ehdr (start_address m) = Panic"
    using assms(5) by (auto simp: get_effective_load_bias_def parse_loaded_elf_program_headers_def Let_def)
  then have "late_process_mapping A S pid m = Panic" using assms(2-4) by (simp add: late_process_mapping_def)
  then show ?thesis unfolding late_process_mappings_def by (rule map_result_Panic [OF mapping_not_Err assms(1)])
qed

text \<open>Only the header of the library can be read.\<close>

theorem unreadable_headers_panic_witness:
  "late_process_mappings ex_android (target_sys True True (\<lambda>a. if 4096 \<le> a \<and> a < 4160 then Some 0 else None)) 42 [ex_mapping 0] = Panic"
proof -
  let ?S = "target_sys True True (\<lambda>a. if 4096 \<le> a \<and> a < 4160 then Some 0 else None)"
    and ?h = "\<lparr>e_phoff = 64, e_phentsize = 56, e_phnum = 2, e_shoff = 0, e_shentsize = 0, e_shnum = 0, e_shstrndx = 0\<rparr>"
  have "mapped_header ex_android ?S 42 4096 = Ok (Some (ET_DYN, ?h))" by code_simp
  moreover have "copy_from_process ?S 42 (4096 + e_phoff ?h) (SIZEOF_EHDR * unat (e_phnum ?h)) =
      Err \<lparr>child = 42, cfp_src = 4160, cfp_offset = 0, cfp_length = 128, cfp_source = 5\<rparr>" by code_simp
  ultimately show ?thesis
    by (intro unreadable_headers_panic [of "ex_mapping 0"]) (auto simp: ex_mapping_def is_executable_def name_is_path_def is_mapping_a_path_def)
qed

end
