(* ===== verification/Windows.thy ===== *)
theory Windows
  imports Mem_Writer "HOL-Library.Multiset"
begin

text \<open>
  The writer for Windows (\<open>windows/minidump_writer.rs\<close>, \<open>windows/errors.rs\<close>, and what it uses of \<open>windows/ffi.rs\<close>). The dump itself is written by the
  system's \<open>MiniDumpWriteDump\<close>; the code opens the process, takes the context of a thread, assembles the arguments, and gives
  back what it took. The functions of the system are the fields of a record over the state \<open>'k\<close> of the system; \<open>'c\<close> is the
  type \<open>CONTEXT\<close> of the crate crash\_context. The locale \<open>win_laws\<close> states what is documented of them. It is shown that on every
  path all handles are closed and all threads resumed, unless the system refuses to resume one, and which arguments the system
  receives.
\<close>

section \<open>Types and constants of the bindings\<close>

type_synonym HANDLE = u64

datatype MinidumpFlag =
    Normal | WithDataSegs | WithFullMemory | WithHandleData | FilterMemory | ScanMemory | WithUnloadedModules
  | WithIndirectlyReferencedMemory | FilterModulePaths | WithProcessThreadData | WithPrivateReadWriteMemory
  | WithoutOptionalData | WithFullMemoryInfo | WithThreadInfo | WithCodeSegs | WithoutAuxiliaryState
  | WithFullAuxiliaryState | WithPrivateWriteCopyMemory | IgnoreInaccessibleMemory | WithTokenInformation
  | WithModuleHeaders | FilterTriage | WithAvxXStateContext | WithIptTrace | ScanInaccessiblePartialPages
  | FilterWriteCombinedMemory

type_synonym MinidumpType = u32

definition flag_bits :: "MinidumpFlag \<Rightarrow> MinidumpType" where
  "flag_bits f = (case f of
     Normal \<Rightarrow> 0 | WithDataSegs \<Rightarrow> push_bit 0 1 | WithFullMemory \<Rightarrow> push_bit 1 1 | WithHandleData \<Rightarrow> push_bit 2 1
   | FilterMemory \<Rightarrow> push_bit 3 1 | ScanMemory \<Rightarrow> push_bit 4 1 | WithUnloadedModules \<Rightarrow> push_bit 5 1
   | WithIndirectlyReferencedMemory \<Rightarrow> push_bit 6 1 | FilterModulePaths \<Rightarrow> push_bit 7 1
   | WithProcessThreadData \<Rightarrow> push_bit 8 1 | WithPrivateReadWriteMemory \<Rightarrow> push_bit 9 1
   | WithoutOptionalData \<Rightarrow> push_bit 10 1 | WithFullMemoryInfo \<Rightarrow> push_bit 11 1 | WithThreadInfo \<Rightarrow> push_bit 12 1
   | WithCodeSegs \<Rightarrow> push_bit 13 1 | WithoutAuxiliaryState \<Rightarrow> push_bit 14 1 | WithFullAuxiliaryState \<Rightarrow> push_bit 15 1
   | WithPrivateWriteCopyMemory \<Rightarrow> push_bit 16 1 | IgnoreInaccessibleMemory \<Rightarrow> push_bit 17 1
   | WithTokenInformation \<Rightarrow> push_bit 18 1 | WithModuleHeaders \<Rightarrow> push_bit 19 1 | FilterTriage \<Rightarrow> push_bit 20 1
   | WithAvxXStateContext \<Rightarrow> push_bit 21 1 | WithIptTrace \<Rightarrow> push_bit 22 1 | ScanInaccessiblePartialPages \<Rightarrow> push_bit 23 1
   | FilterWriteCombinedMemory \<Rightarrow> push_bit 24 1)"

definition STATUS_NONCONTINUABLE_EXCEPTION :: i32 where
  "STATUS_NONCONTINUABLE_EXCEPTION = -1073741787"

definition PROCESS_ALL_ACCESS :: u32 where
  "PROCESS_ALL_ACCESS = 2097151"

definition THREAD_SUSPEND_RESUME :: u32 where
  "THREAD_SUSPEND_RESUME = 2"

definition THREAD_GET_CONTEXT :: u32 where
  "THREAD_GET_CONTEXT = 8"

definition THREAD_QUERY_INFORMATION :: u32 where
  "THREAD_QUERY_INFORMATION = 64"

text \<open>\<open>EXCEPTION_RECORD\<close> and \<open>EXCEPTION_POINTERS\<close> of the system; the latter is reached through a pointer, which is null, points to
  the caller's own records, or is an address in another process.\<close>

record EXCEPTION_RECORD =
  ExceptionCode :: i32
  ExceptionFlags :: u32
  ExceptionRecordPtr :: u64
  ExceptionAddress :: u64
  NumberParameters :: u32
  ExceptionInformation :: "u64 list"

datatype 'c exception_ptr = NullPtr | LocalPtr EXCEPTION_RECORD 'c | ForeignPtr u64

record 'c MINIDUMP_EXCEPTION_INFORMATION =
  ThreadId :: u32
  ExceptionPointers :: "'c exception_ptr"
  ClientPointers :: i32

record MINIDUMP_USER_STREAM =
  user_type :: u32
  BufferSize :: u32
  UserBuffer :: bytes

record MINIDUMP_USER_STREAM_INFORMATION =
  UserStreamCount :: u32
  UserStreamArray :: "MINIDUMP_USER_STREAM list"

record 'c CrashContext =
  exception_pointers :: "'c exception_ptr"
  process_id :: u32
  thread_id :: u32
  exception_code :: i32

text \<open>The arguments of \<open>MiniDumpWriteDump\<close>, without the callback, which is always null.\<close>

record 'c dump_call =
  call_process :: HANDLE
  call_pid :: u32
  call_file :: HANDLE
  call_type :: MinidumpType
  call_exception :: "'c MINIDUMP_EXCEPTION_INFORMATION option"
  call_streams :: MINIDUMP_USER_STREAM_INFORMATION

datatype WinError =
    Win_Io io_error
  | Win_Scroll scroll_error
  | ThreadOpen io_error
  | ThreadSuspend io_error
  | ThreadContext io_error

text \<open>The system. A context is returned together with the result of \<open>GetThreadContext\<close>. The last two fields are
  constants of the crate minidump\_common.\<close>

record ('k, 'c) win_sys =
  CloseHandle :: "HANDLE \<Rightarrow> 'k \<Rightarrow> 'k"
  GetCurrentProcess :: HANDLE
  GetCurrentThreadId :: u32
  own_process_id :: u32
  capture_context :: "'k \<Rightarrow> 'c"
  OpenProcess :: "u32 \<Rightarrow> u32 \<Rightarrow> 'k \<Rightarrow> HANDLE \<times> 'k"
  OpenThread :: "u32 \<Rightarrow> u32 \<Rightarrow> 'k \<Rightarrow> HANDLE \<times> 'k"
  ResumeThread :: "HANDLE \<Rightarrow> 'k \<Rightarrow> u32 \<times> 'k"
  SuspendThread :: "HANDLE \<Rightarrow> 'k \<Rightarrow> u32 \<times> 'k"
  GetThreadContext :: "HANDLE \<Rightarrow> 'k \<Rightarrow> (i32 \<times> 'c) \<times> 'k"
  MiniDumpWriteDump :: "'c dump_call \<Rightarrow> 'k \<Rightarrow> i32 \<times> 'k"
  last_os_error :: "'k \<Rightarrow> io_error"
  breakpad_validity :: u32
  BreakpadInfoStreamType :: u32

section \<open>The writer\<close>

record 'c WinWriter =
  exc_info :: "'c MINIDUMP_EXCEPTION_INFORMATION option"
  crashing_process :: HANDLE
  win_pid :: u32
  win_tid :: u32
  win_exception_code :: i32
  is_external_process :: bool

text \<open>\<open>gwrite\<close> of a 32-bit value at the offset, which it advances; it fails if the value does not fit.\<close>

definition gwrite :: "u32 \<Rightarrow> bytes \<times> nat \<Rightarrow> (bytes \<times> nat) option" where
  "gwrite v = (\<lambda>(bs, offset). if offset + 4 \<le> length bs then Some (put_slice bs offset (le_bytes 4 v), offset + 4) else None)"

definition fill_breakpad_stream :: "('k, 'c) win_sys \<Rightarrow> 'c WinWriter \<Rightarrow> bytes option" where
  "fill_breakpad_stream S self =
     (if is_external_process self then None
      else Option.bind (gwrite (breakpad_validity S) (replicate 12 0, 0)) (\<lambda>b.
           Option.bind (gwrite (win_tid self) b) (\<lambda>b.
           Option.bind (gwrite (GetCurrentThreadId S) b) (\<lambda>b. Some (fst b)))))"

definition user_streams :: "('k, 'c) win_sys \<Rightarrow> 'c WinWriter \<Rightarrow> MINIDUMP_USER_STREAM list" where
  "user_streams S self = (case fill_breakpad_stream S self of
     Some bp_info \<Rightarrow> [\<lparr>user_type = BreakpadInfoStreamType S, BufferSize = word_of_nat (length bp_info), UserBuffer = bp_info\<rparr>]
   | None \<Rightarrow> [])"

text \<open>\<open>Drop\<close> of the writer, at the end of \<open>dump\<close>, which consumes it.\<close>

definition WinWriter_drop :: "('k, 'c) win_sys \<Rightarrow> 'c WinWriter \<Rightarrow> 'k \<Rightarrow> 'k" where
  "WinWriter_drop S self = CloseHandle S (crashing_process self)"

definition win_dump ::
    "('k, 'c) win_sys \<Rightarrow> 'c WinWriter \<Rightarrow> MinidumpType option \<Rightarrow> HANDLE \<Rightarrow> ('k, unit, WinError) comp" where
  "win_dump S self minidump_type destination k =
     (case MiniDumpWriteDump S
         \<lparr>call_process = crashing_process self, call_pid = win_pid self, call_file = destination,
          call_type = (case minidump_type of Some t \<Rightarrow> t | None \<Rightarrow> flag_bits Normal),
          call_exception = exc_info self,
          call_streams = \<lparr>UserStreamCount = word_of_nat (length (user_streams S self)), UserStreamArray = user_streams S self\<rparr>\<rparr> k of
        (r, k1) \<Rightarrow>
          (if r = 0 then Err (Win_Io (last_os_error S k1)) else Ok (), WinWriter_drop S self k1))"

definition open_crashing :: "('k, 'c) win_sys \<Rightarrow> u32 \<Rightarrow> ('k, HANDLE \<times> bool, WinError) comp" where
  "open_crashing S pid k =
     (if pid \<noteq> own_process_id S then
        (case OpenProcess S PROCESS_ALL_ACCESS pid k of (proc, k1) \<Rightarrow>
           if proc = 0 then (Err (Win_Io (last_os_error S k1)), k1) else (Ok (proc, True), k1))
      else (Ok (GetCurrentProcess S, False), k))"

definition dump_crash_context ::
    "('k, 'c) win_sys \<Rightarrow> 'c CrashContext \<Rightarrow> MinidumpType option \<Rightarrow> HANDLE \<Rightarrow> ('k, unit, WinError) comp" where
  "dump_crash_context S cc minidump_type destination =
     bindM (open_crashing S (process_id cc)) (\<lambda>(proc, external).
       win_dump S
         \<lparr>exc_info = (if exception_pointers cc \<noteq> NullPtr
            then Some \<lparr>ThreadId = thread_id cc, ExceptionPointers = exception_pointers cc, ClientPointers = of_bool external\<rparr> else None),
          crashing_process = proc, win_pid = process_id cc, win_tid = thread_id cc,
          win_exception_code = exception_code cc, is_external_process = external\<rparr>
         minidump_type destination)"

text \<open>The context of another thread, which is suspended while it is read. The handle is owned: it is closed on every way out.\<close>

definition suspended_context :: "('k, 'c) win_sys \<Rightarrow> HANDLE \<Rightarrow> ('k, 'c, WinError) comp" where
  "suspended_context S thread_handle k =
     (case SuspendThread S thread_handle k of (r, k1) \<Rightarrow>
        if r = - 1 then (Err (ThreadSuspend (last_os_error S k1)), k1)
        else case GetThreadContext S thread_handle k1 of ((ok, ec), k2) \<Rightarrow>
          case ResumeThread S thread_handle k2 of (_, k3) \<Rightarrow>
            (if ok = 0 then Err (ThreadContext (last_os_error S k3)) else Ok ec, k3))"

definition thread_context :: "('k, 'c) win_sys \<Rightarrow> u32 \<Rightarrow> ('k, 'c, WinError) comp" where
  "thread_context S tid k =
     (case OpenThread S (or (or THREAD_GET_CONTEXT THREAD_QUERY_INFORMATION) THREAD_SUSPEND_RESUME) tid k of (thread_handle, k1) \<Rightarrow>
        if thread_handle = 0 then (Err (ThreadOpen (last_os_error S k1)), k1)
        else case suspended_context S thread_handle k1 of (r, k2) \<Rightarrow> (r, CloseHandle S thread_handle k2))"

definition local_context :: "('k, 'c) win_sys \<Rightarrow> u32 option \<Rightarrow> ('k, 'c, WinError) comp" where
  "local_context S thread k =
     (case thread of
        Some tid \<Rightarrow> if tid = GetCurrentThreadId S then (Ok (capture_context S k), k) else thread_context S tid k
      | None \<Rightarrow> (Ok (capture_context S k), k))"

definition dump_local_context ::
    "('k, 'c) win_sys \<Rightarrow> i32 option \<Rightarrow> u32 option \<Rightarrow> MinidumpType option \<Rightarrow> HANDLE \<Rightarrow> ('k, unit, WinError) comp" where
  "dump_local_context S code thread minidump_type destination =
     (let code' = (case code of Some c \<Rightarrow> c | None \<Rightarrow> STATUS_NONCONTINUABLE_EXCEPTION) in
      bindM (local_context S thread) (\<lambda>ec.
        dump_crash_context S
          \<lparr>exception_pointers = LocalPtr \<lparr>ExceptionCode = code', ExceptionFlags = 0, ExceptionRecordPtr = 0, ExceptionAddress = 0,
             NumberParameters = 0, ExceptionInformation = replicate 15 0\<rparr> ec,
           process_id = own_process_id S,
           thread_id = (case thread of Some tid \<Rightarrow> tid | None \<Rightarrow> GetCurrentThreadId S),
           exception_code = code'\<rparr>
          minidump_type destination))"

section \<open>What is documented of the system\<close>

text \<open>
  The open handles, the thread and the access rights behind a handle, and the suspend count of each thread. A handle that
  is opened is open until it is closed; suspending counts up unless it fails; a handle with the right to resume counts down;
  \<open>MiniDumpWriteDump\<close> leaves no trace in the caller; the handle of the own process is a pseudo handle.
\<close>

text \<open>
  A handle that permits it was used to resume thread \<open>t\<close> when the suspend counts were \<open>n\<close>, and \<open>ResumeThread\<close> failed, which it
  reports as \<open>DWORD\<close> -1.
\<close>

definition resume_failed ::
    "('k, 'c) win_sys \<Rightarrow> ('k \<Rightarrow> HANDLE \<Rightarrow> (u32 \<times> u32) option) \<Rightarrow> ('k \<Rightarrow> u32 \<Rightarrow> nat) \<Rightarrow> u32 \<Rightarrow> (u32 \<Rightarrow> nat) \<Rightarrow> bool" where
  "resume_failed S thread_of suspensions t n \<longleftrightarrow>
     (\<exists>h a k1 k2. thread_of k1 h = Some (t, a) \<and> and a THREAD_SUSPEND_RESUME \<noteq> 0 \<and> suspensions k1 = n \<and>
        ResumeThread S h k1 = (- 1, k2))"

locale win_laws =
  fixes S :: "('k, 'c) win_sys" and handles :: "'k \<Rightarrow> HANDLE multiset" and thread_of :: "'k \<Rightarrow> HANDLE \<Rightarrow> (u32 \<times> u32) option"
    and suspensions :: "'k \<Rightarrow> u32 \<Rightarrow> nat"
  assumes thread_opened: "OpenThread S a t k = (h, k') \<Longrightarrow> h \<noteq> 0 \<Longrightarrow>
      handles k' = add_mset h (handles k) \<and> thread_of k' h = Some (t, a) \<and> suspensions k' = suspensions k"
    and thread_not_opened: "OpenThread S a t k = (0, k') \<Longrightarrow> handles k' = handles k \<and> suspensions k' = suspensions k"
    and suspended: "SuspendThread S h k = (r, k') \<Longrightarrow> thread_of k h = Some (t, a) \<Longrightarrow>
      handles k' = handles k \<and> thread_of k' h = Some (t, a) \<and>
      suspensions k' = (if r = - 1 then suspensions k else (suspensions k)(t := Suc (suspensions k t)))"
    and context_read: "GetThreadContext S h k = (x, k') \<Longrightarrow>
      handles k' = handles k \<and> thread_of k' h = thread_of k h \<and> suspensions k' = suspensions k"
    and resumed: "ResumeThread S h k = (r, k') \<Longrightarrow> thread_of k h = Some (t, a) \<Longrightarrow>
      handles k' = handles k \<and>
      suspensions k' = (if r = - 1 then suspensions k else (suspensions k)(t := suspensions k t - 1))"
    and closed: "handles (CloseHandle S h k) = handles k - {#h#} \<and> suspensions (CloseHandle S h k) = suspensions k"
    and process_opened: "OpenProcess S a p k = (h, k') \<Longrightarrow> h \<noteq> 0 \<Longrightarrow> handles k' = add_mset h (handles k) \<and> suspensions k' = suspensions k"
    and process_not_opened: "OpenProcess S a p k = (0, k') \<Longrightarrow> handles k' = handles k \<and> suspensions k' = suspensions k"
    and dumped: "MiniDumpWriteDump S c k = (r', k') \<Longrightarrow> handles k' = handles k \<and> suspensions k' = suspensions k"
    and pseudo_handle: "GetCurrentProcess S \<notin># handles k"
begin

text \<open>
  A computation that leaves no handle open, whatever its result, and no thread suspended, except one of \<open>T\<close> that the system
  refused to resume.
\<close>

definition one_more :: "u32 \<Rightarrow> (u32 \<Rightarrow> nat) \<Rightarrow> u32 \<Rightarrow> nat" where
  "one_more t n = n(t := Suc (n t))"

definition given_back :: "u32 set \<Rightarrow> 'k \<Rightarrow> 'k \<Rightarrow> bool" where
  "given_back T k k' \<longleftrightarrow> handles k' = handles k \<and>
     (suspensions k' = suspensions k \<or>
      (\<exists>t \<in> T. suspensions k' = one_more t (suspensions k) \<and> resume_failed S thread_of suspensions t (suspensions k')))"

definition releases :: "u32 set \<Rightarrow> ('k, 'a, WinError) comp \<Rightarrow> bool" where
  "releases T m \<longleftrightarrow> (\<forall>k r k'. m k = (r, k') \<longrightarrow> given_back T k k')"

lemma releasesD: "releases T m \<Longrightarrow> m k = (r, k') \<Longrightarrow> given_back T k k'"
  by (simp add: releases_def)

lemma given_back_all: "given_back {} k k' \<longleftrightarrow> handles k' = handles k \<and> suspensions k' = suspensions k"
  by (simp add: given_back_def)

lemma given_back_trans: "given_back T k k1 \<Longrightarrow> given_back {} k1 k' \<Longrightarrow> given_back T k k'"
  by (auto simp: given_back_def)

lemma releases_bindM:
  assumes "releases T m" and "\<And>x. releases {} (f x)"
  shows "releases T (bindM m f)"
  unfolding releases_def
proof (intro allI impI)
  fix k r k' assume run: "bindM m f k = (r, k')"
  obtain r1 k1 where m: "m k = (r1, k1)" by (metis prod.exhaust)
  with run show "given_back T k k'"
    using releasesD [OF assms(1) m] releasesD [OF assms(2), of _ k1 r k'] given_back_trans
    by (cases r1) (auto simp: bindM_def)
qed

lemma suspended_context_releases:
  assumes t: "thread_of k h = Some (t, a)" and a: "and a THREAD_SUSPEND_RESUME \<noteq> 0" and run: "suspended_context S h k = (r, k')"
  shows "given_back {t} k k'"
proof -
  obtain q k1 where q: "SuspendThread S h k = (q, k1)" by (metis prod.exhaust)
  obtain x k2 where x: "GetThreadContext S h k1 = (x, k2)" by (metis prod.exhaust)
  obtain v k3 where v: "ResumeThread S h k2 = (v, k3)" by (metis prod.exhaust)
  note laws = suspended [OF q t] context_read [OF x]
  show ?thesis
  proof (cases "q = - 1")
    case True
    then show ?thesis using run q laws by (auto simp: suspended_context_def given_back_def)
  next
    case False
    have k': "k' = k3" using run q x v False by (auto simp: suspended_context_def split: prod.splits)
    have th: "thread_of k2 h = Some (t, a)" and up: "suspensions k2 = one_more t (suspensions k)" "handles k2 = handles k"
      using laws False by (simp_all add: one_more_def)
    note res = resumed [OF v th]
    show ?thesis
    proof (cases "v = - 1")
      case True
      then have "resume_failed S thread_of suspensions t (suspensions k2)" using th a v by (auto simp: resume_failed_def)
      then show ?thesis using True res up by (simp add: given_back_def k')
    next
      case False
      then show ?thesis using res up by (auto simp: given_back_def k' one_more_def)
    qed
  qed
qed

lemma access_rights: "and (or (or THREAD_GET_CONTEXT THREAD_QUERY_INFORMATION) THREAD_SUSPEND_RESUME) THREAD_SUSPEND_RESUME \<noteq> 0"
  by (simp add: THREAD_GET_CONTEXT_def THREAD_QUERY_INFORMATION_def THREAD_SUSPEND_RESUME_def)

lemma thread_context_releases: "releases {tid} (thread_context S tid)"
  unfolding releases_def
proof (intro allI impI)
  fix k r k' assume run: "thread_context S tid k = (r, k')"
  obtain h k1 where o: "OpenThread S (or (or THREAD_GET_CONTEXT THREAD_QUERY_INFORMATION) THREAD_SUSPEND_RESUME) tid k = (h, k1)"
    by (metis prod.exhaust)
  obtain r2 k2 where c: "suspended_context S h k1 = (r2, k2)" by (metis prod.exhaust)
  show "given_back {tid} k k'"
  proof (cases "h = 0")
    case True
    then show ?thesis using run o thread_not_opened [of _ tid k k1] by (auto simp: thread_context_def given_back_def)
  next
    case False
    note t = thread_opened [OF o False]
    have "given_back {tid} k1 k2"
      using suspended_context_releases [OF _ access_rights c] t by blast
    then show ?thesis using run o c False t closed [of h k2] by (auto simp: thread_context_def given_back_def)
  qed
qed

lemma local_context_releases: "releases (set_option thread) (local_context S thread)"
proof (cases thread)
  case None
  then show ?thesis by (auto simp: releases_def local_context_def given_back_def)
next
  case (Some t)
  then show ?thesis using thread_context_releases [of t]
    by (auto simp: releases_def local_context_def given_back_def)
qed

text \<open>A dump closes the handle of the process, be it real or not.\<close>

lemma win_dump_closes:
  assumes "win_dump S self ty d k = (r, k')"
  shows "handles k' = handles k - {#crashing_process self#} \<and> suspensions k' = suspensions k"
  using assms dumped closed by (auto simp: win_dump_def WinWriter_drop_def split: prod.splits)

lemma open_crashing_cases:
  assumes "open_crashing S pid k = (r, k')"
  shows "suspensions k' = suspensions k" and "(\<forall>x. r \<noteq> Ok x) \<Longrightarrow> handles k' = handles k"
    and "r = Ok (h, external) \<Longrightarrow> handles k' - {#h#} = handles k"
  using assms process_opened [of _ pid k] process_not_opened [of _ pid k] pseudo_handle [of k]
  by (auto simp: open_crashing_def diff_single_trivial split: prod.splits if_splits)

lemma crash_context_releases: "releases {} (dump_crash_context S cc ty d)"
  unfolding releases_def
proof (intro allI impI)
  fix k r k' assume run: "dump_crash_context S cc ty d k = (r, k')"
  obtain r1 k1 where o: "open_crashing S (process_id cc) k = (r1, k1)" by (metis prod.exhaust)
  show "given_back {} k k'"
    unfolding given_back_all
    using run open_crashing_cases [OF o] by (cases r1) (auto simp: dump_crash_context_def bindM_def o split: prod.splits dest!: win_dump_closes)
qed

lemma local_dump_releases: "releases (set_option thread) (dump_local_context S code thread ty d)"
  by (simp add: dump_local_context_def Let_def releases_bindM local_context_releases crash_context_releases)

end

section \<open>A simulated system\<close>

text \<open>Threads, open handles with thread and rights, suspend counts, and the calls of \<open>MiniDumpWriteDump\<close>. A context is the
  number of the thread.\<close>

record win_state =
  ws_handles :: "(HANDLE \<times> u32 \<times> u32) list"
  ws_suspended :: "u32 \<Rightarrow> nat"
  ws_calls :: "u32 dump_call list"

fun close_first :: "HANDLE \<Rightarrow> (HANDLE \<times> 'a) list \<Rightarrow> (HANDLE \<times> 'a) list" where
  "close_first h [] = []"
| "close_first h ((h', x) # hs) = (if h = h' then hs else (h', x) # close_first h hs)"

lemma mset_close_first: "filter_mset P (image_mset fst (mset (close_first h hs))) = filter_mset P (image_mset fst (mset hs)) - {#h#}"
  by (induction h hs rule: close_first.induct) (auto simp: diff_single_trivial)

definition sim_count :: "HANDLE \<Rightarrow> (nat \<Rightarrow> nat) \<Rightarrow> win_state \<Rightarrow> u32 \<times> win_state" where
  "sim_count h f k = (case map_of (ws_handles k) h of
     Some (t, a) \<Rightarrow> if and a THREAD_SUSPEND_RESUME = 0 then (- 1, k)
       else (0, k\<lparr>ws_suspended := (ws_suspended k)(t := f (ws_suspended k t))\<rparr>)
   | None \<Rightarrow> (- 1, k))"

definition sim_win :: "u32 list \<Rightarrow> (win_state, u32) win_sys" where
  "sim_win threads =
     \<lparr>CloseHandle = (\<lambda>h k. k\<lparr>ws_handles := close_first h (ws_handles k)\<rparr>),
      GetCurrentProcess = - 1, GetCurrentThreadId = 3, own_process_id = 40, capture_context = (\<lambda>_. 3),
      OpenProcess = (\<lambda>a p k. if p = 50 then (8, k\<lparr>ws_handles := (8, 0, a) # ws_handles k\<rparr>) else (0, k)),
      OpenThread = (\<lambda>a t k. if t \<in> set threads then (4, k\<lparr>ws_handles := (4, t, a) # ws_handles k\<rparr>) else (0, k)),
      ResumeThread = (\<lambda>h. sim_count h (\<lambda>n. n - 1)), SuspendThread = (\<lambda>h. sim_count h Suc),
      GetThreadContext = (\<lambda>h k. (case map_of (ws_handles k) h of Some (t, _) \<Rightarrow> (1, t) | None \<Rightarrow> (0, 0), k)),
      MiniDumpWriteDump = (\<lambda>c k. (1, k\<lparr>ws_calls := ws_calls k @ [c]\<rparr>)), last_os_error = (\<lambda>_. OsError 5),
      breakpad_validity = 3, BreakpadInfoStreamType = 0x47670001\<rparr>"

definition sim_handles :: "win_state \<Rightarrow> HANDLE multiset" where
  "sim_handles k = mset (filter (\<lambda>h. h \<noteq> - 1) (map fst (ws_handles k)))"

interpretation simw: win_laws "sim_win threads" sim_handles "\<lambda>k. map_of (ws_handles k)" ws_suspended for threads
  by unfold_locales
    (auto simp: sim_win_def sim_handles_def sim_count_def mset_close_first split: if_splits option.splits)

section \<open>What the writer takes it gives back\<close>

text \<open>
  C25. The Windows writer gives back what it takes. On every way out of \<open>dump_local_context\<close> and \<open>dump_crash_context\<close>, a dump or any of the
  errors of opening, suspending or reading a thread and of writing the dump, the open handles are the same as before. Every
  thread has the suspend count it had, with one exception: the thread whose context was asked for stays suspended once
  more if \<open>ResumeThread\<close>, called on a handle with the right to resume it while its count was the higher one, failed. (The
  source does not check that call, knowingly.) \<open>dump_crash_context\<close>, also for another process, leaves all counts alone.
\<close>

theorem windows_releases:
  assumes "win_laws S handles thread_of suspensions"
    and "dump_local_context S code thread ty d k = (r, k') \<or> dump_crash_context S cc ty d k = (r, k')"
  shows "handles k' = handles k \<and>
    (suspensions k' = suspensions k \<or>
     (\<exists>t. thread = Some t \<and> suspensions k' = (suspensions k)(t := Suc (suspensions k t)) \<and>
       resume_failed S thread_of suspensions t (suspensions k'))) \<and>
    (dump_crash_context S cc ty d k = (r, k') \<longrightarrow> suspensions k' = suspensions k)"
proof -
  have crash: "handles k' = handles k \<and> suspensions k' = suspensions k" if "dump_crash_context S cc ty d k = (r, k')"
    using win_laws.releasesD [OF assms(1) win_laws.crash_context_releases [OF assms(1)] that]
    by (simp add: win_laws.given_back_all [OF assms(1)])
  show ?thesis
  proof (cases "dump_crash_context S cc ty d k = (r, k')")
    case False
    with assms(2) have "dump_local_context S code thread ty d k = (r, k')" by blast
    from win_laws.releasesD [OF assms(1) win_laws.local_dump_releases [OF assms(1)] this] False show ?thesis
      by (auto simp: win_laws.given_back_def [OF assms(1)] win_laws.one_more_def [OF assms(1)])
  qed (use crash in simp)
qed

definition ex_win_state :: win_state where
  "ex_win_state = \<lparr>ws_handles = [(12, 0, 0)], ws_suspended = (\<lambda>t. if t = 7 then 1 else 0), ws_calls = []\<rparr>"

definition ex_win_crash :: "u32 CrashContext" where
  "ex_win_crash = \<lparr>exception_pointers = ForeignPtr 4096, process_id = 50, thread_id = 9, exception_code = 5\<rparr>"

text \<open>Thread 7, which someone else has suspended once already, is dumped by thread 3.\<close>

theorem windows_releases_witness:
  "sim_handles (snd (dump_local_context (sim_win [3, 7]) None (Some 7) None 16 ex_win_state)) = {#12#} \<and>
   ws_suspended (snd (dump_local_context (sim_win [3, 7]) None (Some 7) None 16 ex_win_state)) 7 = 1"
proof -
  let ?m = "dump_local_context (sim_win [3, 7]) None (Some 7) None 16 ex_win_state"
  have run: "?m = (fst ?m, snd ?m) \<or> dump_crash_context (sim_win [3, 7]) ex_win_crash None 16 ex_win_state = (fst ?m, snd ?m)" by simp
  have "\<not> resume_failed (sim_win [3, 7]) (\<lambda>k. map_of (ws_handles k)) ws_suspended 7 n" for n
    by (auto simp: resume_failed_def sim_win_def sim_count_def)
  with windows_releases [OF simw.win_laws_axioms run] show ?thesis by (auto simp: sim_handles_def ex_win_state_def)
qed

text \<open>
  The Breakpad stream holds the validity flags, the dumped thread and the requesting thread; it is there exactly if the process
  dumps itself.
\<close>

lemma gwrite_words:
  "fill_breakpad_stream S self = (if is_external_process self then None
     else Some (le_bytes 4 (breakpad_validity S) @ le_bytes 4 (win_tid self) @ le_bytes 4 (GetCurrentThreadId S)))"
  by (simp add: fill_breakpad_stream_def gwrite_def put_slice_def)

text \<open>
  What the Windows writer asks the system for. If \<open>dump_crash_context\<close> succeeds, \<open>MiniDumpWriteDump\<close> was called, successfully, for
  the process of the crash context, the given file and, if there is none, the plain type; the exception is passed on
  exactly if the context has one, marked as pointing into the other process exactly if the process is another one; and
  the process dumping itself adds one stream of 12 bytes with the validity flags, the crashing and the requesting thread.
\<close>

theorem crash_context_call:
  assumes "dump_crash_context S cc ty d k = (Ok (), k')"
  shows "\<exists>c k1 k2 v. MiniDumpWriteDump S c k1 = (v, k2) \<and> v \<noteq> 0 \<and> k' = CloseHandle S (call_process c) k2 \<and>
    call_pid c = process_id cc \<and> call_file c = d \<and> call_type c = (case ty of Some t \<Rightarrow> t | None \<Rightarrow> 0) \<and>
    call_exception c = (if exception_pointers cc = NullPtr then None
      else Some \<lparr>ThreadId = thread_id cc, ExceptionPointers = exception_pointers cc,
                 ClientPointers = of_bool (process_id cc \<noteq> own_process_id S)\<rparr>) \<and>
    UserStreamArray (call_streams c) = (if process_id cc \<noteq> own_process_id S then []
      else [\<lparr>user_type = BreakpadInfoStreamType S, BufferSize = 12,
             UserBuffer = le_bytes 4 (breakpad_validity S) @ le_bytes 4 (thread_id cc) @ le_bytes 4 (GetCurrentThreadId S)\<rparr>]) \<and>
    unat (UserStreamCount (call_streams c)) = length (UserStreamArray (call_streams c))"
proof -
  obtain proc external k1 where o: "open_crashing S (process_id cc) k = (Ok (proc, external), k1)"
    using assms by (cases "open_crashing S (process_id cc) k"; cases "fst (open_crashing S (process_id cc) k)")
      (auto simp: dump_crash_context_def bindM_def)
  then have ext: "external \<longleftrightarrow> process_id cc \<noteq> own_process_id S"
    by (auto simp: open_crashing_def split: if_splits prod.splits)
  show ?thesis
    using assms o
    by (auto simp: dump_crash_context_def bindM_def win_dump_def WinWriter_drop_def user_streams_def gwrite_words flag_bits_def ext
        split: prod.splits if_splits option.splits intro!: exI)
qed

theorem crash_context_call_witness:
  "\<exists>k1 k2 c. MiniDumpWriteDump (sim_win []) c k1 = (1, k2) \<and> call_pid c = 50 \<and> UserStreamArray (call_streams c) = []"
proof -
  have run: "dump_crash_context (sim_win []) ex_win_crash None 16 ex_win_state = (Ok (), snd (dump_crash_context (sim_win []) ex_win_crash None 16 ex_win_state))"
    by (simp add: dump_crash_context_def open_crashing_def win_dump_def bindM_def sim_win_def ex_win_crash_def)
  from crash_context_call [OF run] show ?thesis by (auto simp: sim_win_def ex_win_crash_def)
qed

text \<open>Dumping the own thread opens, suspends and resumes no thread: the functions for that are irrelevant.\<close>

lemma own_thread_not_suspended:
  assumes "thread = None \<or> thread = Some (GetCurrentThreadId S)"
  shows "dump_local_context (S\<lparr>OpenThread := f, SuspendThread := g, ResumeThread := g'\<rparr>) code thread ty d = dump_local_context S code thread ty d"
  using assms
  by (auto simp: fun_eq_iff dump_local_context_def local_context_def bindM_def Let_def dump_crash_context_def open_crashing_def win_dump_def
      WinWriter_drop_def user_streams_def gwrite_words split: prod.split)

end
