(* ===== verification/Spec2Isabelle.thy ===== *)
theory Spec2Isabelle
  imports Release Thread_Slots Thread_Names Mac_Success Arm_Cpu Arm_Threads Android Windows
begin

text \<open>
  \<^bold>\<open>A verification of the minidump writer for Linux, macOS and Windows.\<close>

  The program, \<open>src/src/\<close>, writes a minidump of another process: it stops the target, reads its memory, threads and mappings
  through the kernel, builds the dump in a growing byte buffer and writes each finished stream to the output. The buffer
  (\<open>mem_writer.rs\<close>) and the directory (\<open>dir_section.rs\<close>) are shared by the writers for Linux and macOS; on Windows the system writes the
  dump. The development fixes x86-64 (little endian, 64-bit \<open>usize\<close>), except for the theories on ARM, and a build with overflow checks.

  \<^bold>\<open>Conventions.\<close> A fallible function returns \<open>('a, 'e) result\<close> with the values \<open>Ok\<close>, \<open>Err\<close> and \<open>Panic\<close>; a stateful one is a
  \<open>('s, 'a, 'e) comp\<close>, which returns the new state also with an error. Integers are words of their width where they may wrap, and
  an operation that would overflow is \<open>Panic\<close>. Loops that may not end (waiting for a thread, polling for the stop, walking the
  linked list of loaded objects) are partial functions with the value \<open>None\<close> for a run that does not end; no loop has fuel.
  Code that is not part of the repository is an argument: the kernel's memory interfaces (\<open>mem_sys\<close>), ptrace's register sets
  (\<open>thread_sys\<close>), files and the clock (\<open>env\<close>), process control (\<open>proc_sys\<close>), goblin's decoders (\<open>goblin\<close>, \<open>dso_sys\<close>), the
  Mach kernel (\<open>mach_sys\<close>), the Windows API (\<open>win_sys\<close>), the layouts of the minidump structures (\<open>formats\<close>, \<open>mac_formats\<close>) and the output (\<open>write_seek\<close>).

  \<^bold>\<open>Interfaces.\<close> What is relied on is stated as a locale and interpreted on a concrete instance: the layout of a structure
  (\<open>pod_codec\<close>, \<open>md_formats\<close>, \<open>mac_layouts\<close>), the output (\<open>write_seek_laws\<close>), the target's memory
  (\<open>kernel_memory\<close>, \<open>task_memory\<close>), the regions of a task (\<open>vm_regions\<close>), attaching, detaching and the clock (\<open>ptrace_laws\<close>, \<open>clock_laws\<close>), a task
  that reveals no more than its threads (\<open>sealed_task\<close>), handles and suspended threads (\<open>win_laws\<close>). \<open>dump_output\<close> is the contract between the writers and the
  output; \<open>mac_output\<close> instantiates it for macOS.

  \<^bold>\<open>Theories and sources, shared.\<close>
  \<^item> \<open>Prelude\<close>, \<open>Rust_Str\<close>, \<open>Rust_Path\<close>: results, computations, words, byte strings, UTF-8 and UTF-16, paths.
  \<^item> \<open>Mem_Writer\<close> (\<open>mem_writer.rs\<close>): the buffer and its typed slots. Reserving and filling equals writing at once, slots are
    isolated, strings can be read back, positions are exact below 4 GiB.
  \<^item> \<open>Dir_Section\<close> (\<open>dir_section.rs\<close>): the stream directory and the output. The step relation \<open>dir_run\<close> covers every
    interleaving of additions and flushes; the output mirrors the buffer, slots hold their entries, flushed streams are stable.
  \<^item> \<open>Formats\<close>, \<open>Contract\<close>: the structures of the format; what it means that a stream only appends.
  \<^item> \<open>Emits\<close>: which entries a computation adds to the directory, and that a finished run of them leaves a complete dump.
  \<^item> \<open>Live\<close>: computations that succeed from a state with enough room and free slots, and their sequences.

  \<^bold>\<open>Theories and sources, Linux.\<close>
  \<^item> \<open>Mem_Reader\<close> (\<open>linux/mem_reader.rs\<close>): the three ways to read the target; what is read is true, the way is chosen once.
  \<^item> \<open>Module_Reader\<close> (\<open>linux/module_reader.rs\<close>): build ids and SONAMEs, from files and from the memory of a process.
  \<^item> \<open>Maps_Reader\<close> (\<open>linux/maps_reader.rs\<close>): aggregation of mappings, versions, effective paths, the scan for pointers.
  \<^item> \<open>Auxv\<close> (\<open>linux/auxv\<close>): the auxiliary vector with partial reads.
  \<^item> \<open>Errors\<close>, \<open>Thread_Info\<close>, \<open>Writer_State\<close>: error types, register sets and CPU contexts
    (\<open>linux/thread_info\<close>, \<open>linux/crash_context\<close>), the configuration and the dumper's state (\<open>linux/minidump_writer/mod.rs\<close>).
  \<^item> \<open>Stack\<close> (\<open>linux/minidump_writer/mod.rs\<close>): the search for the stack, and its sanitization against the documented
    reference, from which it departs for small negative integers.
  \<^item> \<open>Streams\<close>, \<open>Thread_List\<close>, \<open>Modules\<close>, \<open>Dso_Debug\<close>: the stream writers (\<open>linux/minidump_writer/*.rs\<close>, \<open>linux/dso_debug.rs\<close>,
    \<open>linux/dumper_cpu_info\<close>). Each only appends to the buffer. The list of loaded objects is what the target's memory holds.
  \<^item> \<open>Thread_Slots\<close>, \<open>Thread_Names\<close>: what the slots of the thread list and of the thread names hold in the end.
  \<^item> \<open>Process\<close> (\<open>linux/minidump_writer/mod.rs\<close>): stopping, attaching, enumeration, initialization and \<open>Drop\<close>.
  \<^item> \<open>Release\<close>: every thread attached to is detached and the process continued, on every way out; the wait for the stop ends
    and panics only for a timeout beyond the range of instants.
  \<^item> \<open>Write_Dump\<close> (\<open>linux/minidump_writer/mod.rs\<close>): the dump as a whole and the entry point.
  \<^item> \<open>Dump_Success\<close>: a finished dump is complete; a dump is produced even of a target of which next to nothing can be read, but
    none without its maps file.
  \<^item> \<open>Arm_Cpu\<close> (\<open>linux/dumper_cpu_info/arm.rs\<close>): CPU information on ARM. The lists of processors are read as the kernel prints them; the
    lines of \<open>/proc/cpuinfo\<close> are not.
  \<^item> \<open>Arm_Threads\<close> (\<open>linux/thread_info/arm.rs\<close>, \<open>aarch64.rs\<close>, \<open>linux/crash_context/arm.rs\<close>, \<open>aarch64.rs\<close>): registers on ARM; the
    contexts made from ptrace and from the crash context agree.
  \<^item> \<open>Android\<close> (\<open>linux/android.rs\<close>): the correction of the mappings of libraries keeps their ends; it panics without headers.

  \<^bold>\<open>Theories and sources, macOS.\<close>
  \<^item> \<open>Mach\<close> (\<open>mac/mach.rs\<close>): kernel errors, Mach headers and load commands, thread states, \<open>sysctl\<close>.
  \<^item> \<open>Task_Dumper\<close> (\<open>mac/task_dumper.rs\<close>): memory, regions, threads and images of a task; what is read is the task's memory.
  \<^item> \<open>Mac_Formats\<close> (\<open>mac/minidump_writer.rs\<close>): the writer's state, the layouts, and the iterator over the active threads,
    whose announced length is right only if the handler thread is listed once.
  \<^item> \<open>Mac_Threads\<close> (\<open>mac/streams/thread_list.rs\<close>, \<open>memory_list.rs\<close>, \<open>exception.rs\<close>): threads with their
    stacks, the walk over the regions of a stack, the exception.
  \<^item> \<open>Mac_Info\<close> (\<open>mac/streams/module_list.rs\<close>, \<open>misc_info.rs\<close>, \<open>system_info.rs\<close>, \<open>breakpad_info.rs\<close>, \<open>thread_names.rs\<close>): the other streams.
  \<^item> \<open>Mac_Writer\<close> (\<open>mac/minidump_writer.rs\<close>): \<open>dump\<close>, which writes the streams in order and flushes each one.
  \<^item> \<open>Mac_Success\<close>: a finished dump is complete; a dump is produced of a task that reveals no more than its threads.

  \<^bold>\<open>Theories and sources, Windows.\<close>
  \<^item> \<open>Windows\<close> (\<open>windows/minidump_writer.rs\<close>, \<open>windows/ffi.rs\<close>): the context of a thread, the arguments of \<open>MiniDumpWriteDump\<close>, and that
    on every way out handles are closed and threads resumed, unless the system refuses to resume one.

  \<^bold>\<open>Not modelled.\<close> The registers of 32-bit x86 and MIPS (for which the crate does not compile), the callback structures of \<open>windows/ffi.rs\<close>,
  which no code uses, module declarations and serializers, the test program and the tests. The call of
  \<open>late_process_mappings\<close> is compiled for Android only and not part of the modelled initialization, and
  \<open>Arm_Cpu\<close> and \<open>Arm_Threads\<close> are the variants that the streams, modelled for x86-64, do not use. \<open>failspot!\<close> is a test
  hook and has no effect in the model; log messages are left out.
\<close>

section \<open>The streams\<close>

text \<open>
  C7. Every stream writer only appends: whatever its result, an error or a panic included, the bytes that were in the buffer before
  stay as they are, as long as the dump stays below 4 GiB. This is what allows to flush each stream to the
  output as soon as it is written.
\<close>

theorem streams_only_append:
  assumes "md_formats F"
  shows "appends snd (write_thread_list_stream F E) \<and> appends snd (write_app_memory E) \<and>
    appends id (write_mappings F E self) \<and> appends id (write_memory_list_stream F self) \<and>
    appends id (write_exception_stream F self) \<and> appends id (write_systeminfo F E) \<and>
    appends id (write_memory_info_list_stream F E self) \<and> appends id (write_thread_names_stream F self) \<and>
    appends id (write_handle_data_stream F E self) \<and> appends id (write_file E path) \<and> appends id (write_soft_errors E errs) \<and>
    (\<forall>m. write_dso_debug_stream F D E pid aux = Some m \<longrightarrow> appends id m)"
  using assms
  by (auto intro: md_formats.appends_thread_list appends_app_memory md_formats.appends_mappings md_formats.appends_memory_list
      md_formats.appends_exception md_formats.appends_systeminfo md_formats.appends_memory_info md_formats.appends_thread_names
      md_formats.appends_handle_data appends_write_file appends_write_soft_errors md_formats.appends_dso_debug)

text \<open>The memory list of a dumper without blocks, behind two bytes.\<close>

theorem streams_only_append_witness:
  "take 2 (inner (snd (write_memory_list_stream le_formats ex_dumper \<lparr>inner = [1, 2]\<rparr>))) = [1, 2]"
proof -
  obtain r b' where run: "write_memory_list_stream le_formats ex_dumper \<lparr>inner = [1, 2]\<rparr> = (r, b')" by (metis prod.exhaust)
  have small: "length (inner b') < 2 ^ 32"
    using adds_memory_list [OF blank_ex_dumper] run unfolding adds_def by (auto dest!: spec [of _ "\<lparr>inner = [1, 2]\<rparr>"])
  have "appends id (write_memory_list_stream le_formats ex_dumper)"
    using streams_only_append [OF lef.md_formats_axioms] by blast
  from appends_result [OF this run] small show ?thesis by (auto simp: run prefix_def)
qed

end
